(* ===== verification/Prelude.thy ===== *)
theory Prelude
  imports Main "HOL-Library.Word" "HOL-Library.AList"
begin

text \<open>
  Shared vocabulary of the development: the Go base types the emulator uses, the
  parts of Go's \<^verbatim>\<open>fmt\<close> and \<^verbatim>\<open>encoding/hex\<close> packages that build
  storage keys, the way fallible and state-changing Go functions are written in
  HOL, and the lemmas about them that the component theories rely on.

  \<^item> A fallible function returns \<^typ>\<open>'e + 'a\<close>; \<^const>\<open>Inl\<close> carries the error.
  \<^item> A method that mutates its receiver takes the receiver as its last argument
    and returns a pair of the result and the receiver as the method leaves it,
    also when the result is an error.
  \<^item> A Go map that the program iterates over or takes the length of is an
    association list with distinct keys: the order of the list is the order in
    which the runtime happens to enumerate the map, and every theorem quantifies
    over it. Other Go maps are HOL maps.
\<close>

section \<open>Base types\<close>

type_synonym byte = "8 word"
type_synonym bytes = "8 word list"
type_synonym u32 = "32 word"
type_synonym u64 = "64 word"
type_synonym flow_id = "256 word"
type_synonym address = "64 word"
type_synonym ('k, 'v) gomap = "('k \<times> 'v) list"

abbreviation ZeroID :: flow_id where "ZeroID \<equiv> 0"

named_theorems go_simps \<open>definitions and equations that evaluate the modelled operations\<close>
named_theorems frame \<open>which parts of a state an operation leaves alone\<close>

section \<open>Errors, state and loops\<close>

definition bindR :: "'e + 'a \<Rightarrow> ('a \<Rightarrow> 'e + 'b) \<Rightarrow> 'e + 'b" where
  "bindR r k = (case r of Inl e \<Rightarrow> Inl e | Inr x \<Rightarrow> k x)"

definition bindE :: "('e + 'a) \<times> 's \<Rightarrow> ('a \<Rightarrow> 's \<Rightarrow> ('e + 'b) \<times> 's) \<Rightarrow> ('e + 'b) \<times> 's" where
  "bindE m k = (case m of (Inl e, s) \<Rightarrow> (Inl e, s) | (Inr x, s) \<Rightarrow> k x s)"

primrec for_each :: "('x \<Rightarrow> 's \<Rightarrow> ('e + unit) \<times> 's) \<Rightarrow> 'x list \<Rightarrow> 's \<Rightarrow> ('e + unit) \<times> 's" where
  "for_each f [] s = (Inr (), s)"
| "for_each f (x # xs) s = bindE (f x s) (\<lambda>_. for_each f xs)"

primrec mapR :: "('x \<Rightarrow> 'e + 'y) \<Rightarrow> 'x list \<Rightarrow> 'e + 'y list" where
  "mapR f [] = Inr []"
| "mapR f (x # xs) = bindR (f x) (\<lambda>y. bindR (mapR f xs) (\<lambda>ys. Inr (y # ys)))"

definition the_or :: "'e \<Rightarrow> 'a option \<Rightarrow> 'e + 'a" where
  "the_or e x = (case x of None \<Rightarrow> Inl e | Some v \<Rightarrow> Inr v)"

definition is_ok :: "'e + 'a \<Rightarrow> bool" where
  "is_ok r = (case r of Inl _ \<Rightarrow> False | Inr _ \<Rightarrow> True)"

section \<open>Bytes, hexadecimal and decimal text\<close>

primrec be_bytes :: "nat \<Rightarrow> nat \<Rightarrow> bytes" where
  "be_bytes 0 x = []"
| "be_bytes (Suc n) x = be_bytes n (x div 256) @ [of_nat (x mod 256)]"

definition of_be :: "bytes \<Rightarrow> nat" where
  "of_be bs = foldl (\<lambda>a b. a * 256 + unat b) 0 bs"

definition id_bytes :: "flow_id \<Rightarrow> bytes" where
  "id_bytes i = be_bytes 32 (unat i)"

definition id_of_bytes :: "bytes \<Rightarrow> flow_id" where
  "id_of_bytes bs = of_nat (of_be bs)"

definition address_bytes :: "address \<Rightarrow> bytes" where
  "address_bytes a = be_bytes 8 (unat a)"

definition bytes_of_string :: "string \<Rightarrow> bytes" where
  "bytes_of_string s = map (\<lambda>c. of_nat (of_char c)) s"

definition string_of_bytes :: "bytes \<Rightarrow> string" where
  "string_of_bytes bs = map (\<lambda>b. char_of (unat b)) bs"

definition hex_digit :: "nat \<Rightarrow> char" where
  "hex_digit n = (if n < 10 then char_of (48 + n) else char_of (87 + n))"

definition hex_value :: "char \<Rightarrow> nat option" where
  "hex_value c =
     (let n = of_char c in
      if 48 \<le> n \<and> n \<le> 57 then Some (n - 48)
      else if 97 \<le> n \<and> n \<le> 102 then Some (n - 87)
      else if 65 \<le> n \<and> n \<le> 70 then Some (n - 55)
      else None)"

primrec hex_encode :: "bytes \<Rightarrow> string" where
  "hex_encode [] = []"
| "hex_encode (b # bs) = hex_digit (unat b div 16) # hex_digit (unat b mod 16) # hex_encode bs"

fun hex_decode :: "string \<Rightarrow> bytes option" where
  "hex_decode [] = Some []"
| "hex_decode [c] = None"
| "hex_decode (c # d # cs) =
     (case (hex_value c, hex_value d, hex_decode cs) of
        (Some h, Some l, Some bs) \<Rightarrow> Some (of_nat (16 * h + l) # bs)
      | _ \<Rightarrow> None)"

fun fmt_d :: "nat \<Rightarrow> string" where
  "fmt_d n = (if n < 10 then [char_of (48 + n)] else fmt_d (n div 10) @ [char_of (48 + n mod 10)])"

declare fmt_d.simps [simp del]

definition fmt_int :: "int \<Rightarrow> string" where
  "fmt_int i = (if i < 0 then CHR 0x2D # fmt_d (nat (- i)) else fmt_d (nat i))"

definition undec :: "string \<Rightarrow> nat" where
  "undec s = foldl (\<lambda>a c. a * 10 + (of_char c - 48)) 0 s"

definition pad0 :: "nat \<Rightarrow> string \<Rightarrow> string" where
  "pad0 w s = replicate (w - length s) (CHR 0x30) @ s"

definition ID_String :: "flow_id \<Rightarrow> string" where
  "ID_String i = hex_encode (id_bytes i)"

definition Address_String :: "address \<Rightarrow> string" where
  "Address_String a = hex_encode (address_bytes a)"

section \<open>Lemmas: errors, state and loops\<close>

lemma bindR_simps [simp]:
  "bindR (Inl e) k = Inl e"
  "bindR (Inr x) k = k x"
  by (simp_all add: bindR_def)

lemma bindR_eq_Inr: "bindR r k = Inr y \<longleftrightarrow> (\<exists>x. r = Inr x \<and> k x = Inr y)"
  by (cases r) auto

lemma bindE_simps [simp]:
  "bindE (Inl e, s) k = (Inl e, s)"
  "bindE (Inr x, s) k = k x s"
  by (simp_all add: bindE_def)

lemma bindE_eq_Inr:
  "bindE m k = (Inr y, s') \<longleftrightarrow> (\<exists>x s. m = (Inr x, s) \<and> k x s = (Inr y, s'))"
  by (cases m; cases "fst m") auto

lemma bindE_cases:
  assumes "bindE m k = (r, s')"
  obtains (Err) e where "m = (Inl e, s')" "r = Inl e"
  | (Ok) x s where "m = (Inr x, s)" "k x s = (r, s')"
  using assms by (cases m; cases "fst m") auto

lemma the_or_simps [simp]: "the_or e None = Inl e" "the_or e (Some v) = Inr v"
  by (simp_all add: the_or_def)

lemma the_or_eq_Inr [simp]: "the_or e x = Inr v \<longleftrightarrow> x = Some v"
  by (cases x) simp_all

lemma is_ok_simps [simp]: "is_ok (Inr x)" "\<not> is_ok (Inl e)"
  by (simp_all add: is_ok_def)

lemma bindE_unit [simp]: "bindE m (\<lambda>_. Pair (Inr ())) = m" for m :: "('e + unit) \<times> 's"
  by (auto simp: bindE_def split: prod.splits sum.splits)

lemma bindE_assoc: "bindE (bindE m f) g = bindE m (\<lambda>x s. bindE (f x s) g)"
  by (auto simp: bindE_def split: prod.splits sum.splits)

lemma for_each_fun:
  "for_each f [] = Pair (Inr ())"
  "for_each f (x # xs) = (\<lambda>s. bindE (f x s) (\<lambda>_. for_each f xs))"
  by (simp_all add: fun_eq_iff)

lemma for_each_append: "for_each f (xs @ ys) s = bindE (for_each f xs s) (\<lambda>_. for_each f ys)"
proof (induction xs arbitrary: s)
  case (Cons x xs)
  show ?case by (cases "f x s"; cases "fst (f x s)") (simp_all add: Cons.IH)
qed simp

text \<open>A loop whose body cannot fail on states satisfying an invariant is a fold.\<close>

lemma for_each_fold:
  assumes "P s" and "\<And>x s. x \<in> set xs \<Longrightarrow> P s \<Longrightarrow> f x s = (Inr (), g x s) \<and> P (g x s)"
  shows "for_each f xs s = (Inr (), fold g xs s) \<and> P (fold g xs s)"
  using assms by (induction xs arbitrary: s) auto

lemma for_each_map:
  assumes "\<And>x. x \<in> set xs \<Longrightarrow> f x = g (h x)"
  shows "for_each f xs = for_each g (map h xs)"
proof
  show "for_each f xs s = for_each g (map h xs) s" for s
    using assms
  proof (induction xs arbitrary: s)
    case (Cons x xs)
    then have "f x s = g (h x) s" "for_each f xs = for_each g (map h xs)"
      by (simp_all add: fun_eq_iff)
    then show ?case by simp
  qed simp
qed

text \<open>A loop keeps whatever each round keeps, whether or not it ends in an error.\<close>

lemma for_each_keeps:
  assumes "P s" and "\<And>x s. x \<in> set xs \<Longrightarrow> P s \<Longrightarrow> P (snd (f x s))"
  shows "P (snd (for_each f xs s))"
  using assms
proof (induction xs arbitrary: s)
  case (Cons x xs)
  then have "P (snd (f x s))" by simp
  with Cons show ?case by (cases "f x s"; cases "fst (f x s)") auto
qed simp

lemma mapR_Inr_length: "mapR f xs = Inr ys \<Longrightarrow> length ys = length xs"
  by (induction xs arbitrary: ys) (auto simp: bindR_eq_Inr)

lemma mapR_eq_map: "(\<And>x. x \<in> set xs \<Longrightarrow> f x = Inr (g x)) \<Longrightarrow> mapR f xs = Inr (map g xs)"
  by (induction xs) auto

section \<open>Lemmas: bytes and text\<close>

lemma unat_less_exp: "unat (w :: 'a::len word) < 2 ^ LENGTH('a)"
  by (rule unsigned_less)

lemma unat_of_nat_less: "n < 2 ^ LENGTH('a) \<Longrightarrow> unat (of_nat n :: 'a::len word) = n"
  by (simp add: unat_of_nat)

lemma length_be_bytes [simp]: "length (be_bytes n x) = n"
  by (induction n arbitrary: x) auto

lemma of_be_snoc: "of_be (bs @ [b]) = of_be bs * 256 + unat b"
  by (simp add: of_be_def)

lemma of_be_be_bytes: "of_be (be_bytes n x) = x mod 256 ^ n"
proof (induction n arbitrary: x)
  case 0 show ?case by (simp add: of_be_def)
next
  case (Suc n)
  have "unat (of_nat (x mod 256) :: byte) = x mod 256"
    by (simp add: unat_of_nat)
  then show ?case
    by (simp add: of_be_snoc Suc mod_mult2_eq)
qed

lemma be_bytes_inj: "x < 256 ^ n \<Longrightarrow> y < 256 ^ n \<Longrightarrow> be_bytes n x = be_bytes n y \<Longrightarrow> x = y"
  by (metis mod_less of_be_be_bytes)

lemma length_id_bytes [simp]: "length (id_bytes i) = 32"
  by (simp add: id_bytes_def)

lemma id_of_bytes_id_bytes [simp]: "id_of_bytes (id_bytes i) = i"
proof -
  have "unat i < 256 ^ 32" using unat_less_exp[of i] by simp
  then show ?thesis by (simp add: id_of_bytes_def id_bytes_def of_be_be_bytes)
qed

lemma inj_id_bytes: "inj id_bytes"
  by (metis injI id_of_bytes_id_bytes)

lemma inj_address_bytes: "inj address_bytes"
proof (rule injI)
  fix a b :: address
  assume "address_bytes a = address_bytes b"
  moreover have "unat a < 256 ^ 8" "unat b < 256 ^ 8"
    using unat_less_exp[of a] unat_less_exp[of b] by simp_all
  ultimately show "a = b"
    unfolding address_bytes_def using be_bytes_inj word_unat_eq_iff by blast
qed

lemma string_of_bytes_of_string [simp]: "string_of_bytes (bytes_of_string s) = s"
  by (induction s) (simp_all add: string_of_bytes_def bytes_of_string_def unat_of_nat)

lemma bytes_of_string_of_bytes [simp]: "bytes_of_string (string_of_bytes b) = b"
proof (induction b)
  case (Cons x xs)
  have "unat x < 256" using unat_less_exp[of x] by simp
  then show ?case using Cons by (simp add: string_of_bytes_def bytes_of_string_def)
qed (simp add: string_of_bytes_def bytes_of_string_def)

lemma bytes_of_string_inject [simp]: "bytes_of_string s = bytes_of_string t \<longleftrightarrow> s = t"
  by (metis string_of_bytes_of_string)

lemma bytes_of_string_append: "bytes_of_string (s @ t) = bytes_of_string s @ bytes_of_string t"
  by (simp add: bytes_of_string_def)

lemma hex_value_digit: "n < 16 \<Longrightarrow> hex_value (hex_digit n) = Some n"
  by (auto simp: hex_value_def hex_digit_def Let_def)

lemma hex_decode_encode [simp]: "hex_decode (hex_encode bs) = Some bs"
proof (induction bs)
  case (Cons b bs)
  have "unat b < 256" using unat_less_exp[of b] by simp
  then have "unat b div 16 < 16" "unat b mod 16 < 16" by simp_all
  then show ?case using Cons by (simp add: hex_value_digit)
qed simp

lemma hex_encode_inject [simp]: "hex_encode a = hex_encode b \<longleftrightarrow> a = b"
  by (metis hex_decode_encode option.inject)

lemma length_hex_encode [simp]: "length (hex_encode bs) = 2 * length bs"
  by (induction bs) simp_all

lemma hex_encode_lower: "c \<in> set (hex_encode bs) \<Longrightarrow> hex_value c \<noteq> None"
proof (induction bs)
  case (Cons b bs)
  have "unat b < 256" using unat_less_exp[of b] by simp
  then have "unat b div 16 < 16" "unat b mod 16 < 16" by simp_all
  then show ?case using Cons by (auto simp: hex_value_digit)
qed simp

lemma ID_String_inject [simp]: "ID_String a = ID_String b \<longleftrightarrow> a = b"
  unfolding ID_String_def using inj_id_bytes by (simp add: inj_eq)

lemma length_ID_String [simp]: "length (ID_String i) = 64"
  by (simp add: ID_String_def)

text \<open>Reading a decimal numeral back shows that printing is injective, with or without zero padding.\<close>

lemma undec_fmt_d [simp]: "undec (fmt_d n) = n"
proof (induction n rule: fmt_d.induct)
  case (1 n)
  show ?case
  proof (cases "n < 10")
    case True
    then show ?thesis by (simp add: undec_def fmt_d.simps[of n])
  next
    case False
    then have "undec (fmt_d n) = undec (fmt_d (n div 10)) * 10 + n mod 10"
      by (simp add: undec_def fmt_d.simps[of n])
    then show ?thesis using 1 False by simp
  qed
qed

lemma undec_pad0 [simp]: "undec (pad0 w s) = undec s"
proof -
  have "foldl (\<lambda>a c. a * 10 + (of_char c - 48)) (0::nat) (replicate k (CHR 0x30)) = 0" for k
    by (induction k) simp_all
  then show ?thesis by (simp add: undec_def pad0_def)
qed

lemma fmt_d_inject [simp]: "fmt_d m = fmt_d n \<longleftrightarrow> m = n"
  by (metis undec_fmt_d)

lemma pad0_fmt_d_inject [simp]: "pad0 w (fmt_d m) = pad0 w (fmt_d n) \<longleftrightarrow> m = n"
  by (metis undec_fmt_d undec_pad0)

section \<open>Lemmas: Go maps\<close>

lemma length_update_new: "k \<notin> fst ` set m \<Longrightarrow> length (AList.update k v m) = Suc (length m)"
  by (induction m) auto

lemma length_update_old: "k \<in> fst ` set m \<Longrightarrow> length (AList.update k v m) = length m"
  by (induction m) auto

lemma length_gomap: "distinct (map fst m) \<Longrightarrow> length m = card (dom (map_of m))"
  by (metis distinct_card dom_map_of_conv_image_fst length_map list.set_map)

lemma map_of_rev_distinct: "distinct (map fst m) \<Longrightarrow> map_of (rev m) = map_of m"
  by (rule map_of_eqI) (auto simp: rev_map[symmetric] map_of_eq_Some_iff)

lemma map_of_rev_None: "map_of (rev m) k = None \<longleftrightarrow> k \<notin> fst ` set m"
  by (simp add: map_of_eq_None_iff)

end
