(* ===== verification/Flow_Types.thy ===== *)
theory Flow_Types
  imports Prelude
begin

text \<open>
  The data the emulator passes around, and its errors.

  The records are the fields of the flow-go and Cadence structures that the code
  under \<^verbatim>\<open>src/\<close> reads or writes; \<^verbatim>\<open>types/errors.go\<close> and
  \<^verbatim>\<open>types/result.go\<close> are modelled in full. What flow-go computes from
  these structures (the identifiers of blocks, collections and transactions and
  the text of a register identifier) is the parameter record \<^verbatim>\<open>hashes\<close>.
\<close>

section \<open>Errors: types/errors.go\<close>

datatype coded_error = CodedError (err_code: nat) (err_text: string)

text \<open>
  One constructor per error type of \<^verbatim>\<open>types/errors.go\<close>, then
  \<^verbatim>\<open>storage.ErrNotFound\<close>, the errors of flow-go's transaction validator that
  \<^verbatim>\<open>ConvertAccessError\<close> recognises, errors made by \<^verbatim>\<open>fmt.Errorf\<close> with
  and without a wrapped cause, errors of code outside the repository, and a
  run-time panic. The errors of the validator carry their message, which is
  flow-go's.
\<close>

datatype go_error =
    InvalidArgumentError string
  | InternalError string
  | BlockNotFoundByHeightError u64
  | BlockNotFoundByIDError flow_id
  | CollectionNotFoundError flow_id
  | TransactionNotFoundError flow_id
  | AccountNotFoundError address
  | DuplicateTransactionError flow_id
  | IncompleteTransactionError "string list"
  | ExpiredTransactionError u64 u64
  | InvalidTransactionScriptError go_error
  | InvalidTransactionGasLimitError u64 u64
  | InvalidStateVersionError bytes
  | PendingBlockCommitBeforeExecutionError flow_id
  | PendingBlockMidExecutionError flow_id
  | PendingBlockTransactionsExhaustedError flow_id
  | StorageError go_error
  | ExecutionError int string
  | FVMError coded_error
  | ErrNotFound
  | Validator_IncompleteTransactionError "string list" string
  | Validator_ExpiredTransactionError u64 u64 string
  | Validator_InvalidGasLimitError u64 u64 string
  | Validator_InvalidScriptError go_error string
  | Errorf string
  | Errorf_wrap string go_error
  | FlowError coded_error
  | ExternalError string
  | Panic string

fun Unwrap :: "go_error \<Rightarrow> go_error option" where
  "Unwrap (InvalidTransactionScriptError e) = Some e"
| "Unwrap (StorageError e) = Some e"
| "Unwrap (FVMError c) = Some (FlowError c)"
| "Unwrap (Errorf_wrap s e) = Some e"
| "Unwrap _ = None"

text \<open>\<^verbatim>\<open>errors.Is(err, storage.ErrNotFound)\<close>: the sentinel, anywhere in the chain of causes.\<close>

fun is_ErrNotFound :: "go_error \<Rightarrow> bool" where
  "is_ErrNotFound ErrNotFound = True"
| "is_ErrNotFound (InvalidTransactionScriptError e) = is_ErrNotFound e"
| "is_ErrNotFound (StorageError e) = is_ErrNotFound e"
| "is_ErrNotFound (Errorf_wrap s e) = is_ErrNotFound e"
| "is_ErrNotFound _ = False"

fun isNotFoundError :: "go_error \<Rightarrow> bool" where
  "isNotFoundError (BlockNotFoundByHeightError h) = True"
| "isNotFoundError (BlockNotFoundByIDError i) = True"
| "isNotFoundError (CollectionNotFoundError i) = True"
| "isNotFoundError (TransactionNotFoundError i) = True"
| "isNotFoundError (AccountNotFoundError a) = True"
| "isNotFoundError _ = False"

fun isBlockNotFoundError :: "go_error \<Rightarrow> bool" where
  "isBlockNotFoundError (BlockNotFoundByHeightError h) = True"
| "isBlockNotFoundError (BlockNotFoundByIDError i) = True"
| "isBlockNotFoundError _ = False"

fun isTransactionValidationError :: "go_error \<Rightarrow> bool" where
  "isTransactionValidationError (DuplicateTransactionError i) = True"
| "isTransactionValidationError (IncompleteTransactionError fs) = True"
| "isTransactionValidationError (ExpiredTransactionError r f) = True"
| "isTransactionValidationError (InvalidTransactionScriptError e) = True"
| "isTransactionValidationError (InvalidTransactionGasLimitError m a) = True"
| "isTransactionValidationError _ = False"

definition fmt_u :: "u64 \<Rightarrow> string" where
  "fmt_u n = fmt_d (unat n)"

text \<open>\<^verbatim>\<open>%s\<close> of a \<^verbatim>\<open>[]string\<close>: the elements between brackets, separated by blanks.\<close>

fun join_blank :: "string list \<Rightarrow> string" where
  "join_blank [] = ''''"
| "join_blank [s] = s"
| "join_blank (s # ss) = s @ '' '' @ join_blank ss"

fun Error_text :: "go_error \<Rightarrow> string" where
  "Error_text (InvalidArgumentError m) = ''Invalid argument error: '' @ m"
| "Error_text (InternalError m) = ''Internal error: '' @ m"
| "Error_text (BlockNotFoundByHeightError h) = ''could not find block at height '' @ fmt_u h"
| "Error_text (BlockNotFoundByIDError i) = ''could not find block with ID '' @ ID_String i"
| "Error_text (CollectionNotFoundError i) = ''could not find collection with ID '' @ ID_String i"
| "Error_text (TransactionNotFoundError i) = ''could not find transaction with ID '' @ ID_String i"
| "Error_text (AccountNotFoundError a) = ''could not find account with address '' @ Address_String a"
| "Error_text (DuplicateTransactionError i) =
     ''transaction with ID '' @ ID_String i @ '' has already been submitted''"
| "Error_text (IncompleteTransactionError fs) =
     ''transaction is missing required fields: ['' @ join_blank fs @ '']''"
| "Error_text (ExpiredTransactionError r f) =
     ''transaction is expired: ref_height='' @ fmt_u r @ '' final_height='' @ fmt_u f"
| "Error_text (InvalidTransactionScriptError e) =
     ''failed to parse transaction Cadence script: '' @ Error_text e"
| "Error_text (InvalidTransactionGasLimitError m a) =
     ''transaction compute limit ('' @ fmt_u a @ '') exceeds the maximum compute limit ('' @ fmt_u m @ '')''"
| "Error_text (InvalidStateVersionError v) =
     ''execution state with version hash '' @ hex_encode v @ '' is invalid''"
| "Error_text (PendingBlockCommitBeforeExecutionError i) =
     ''pending block with ID '' @ ID_String i @ '' cannot be committed before execution''"
| "Error_text (PendingBlockMidExecutionError i) =
     ''pending block with ID '' @ ID_String i @ '' is currently being executed''"
| "Error_text (PendingBlockTransactionsExhaustedError i) =
     ''pending block with ID '' @ ID_String i @ '' contains no more transactions to execute''"
| "Error_text (StorageError e) = ''storage failure: '' @ Error_text e"
| "Error_text (ExecutionError c m) = ''execution error code '' @ fmt_int c @ '': '' @ m"
| "Error_text (FVMError c) = err_text c"
| "Error_text ErrNotFound = ''could not find entity''"
| "Error_text (Validator_IncompleteTransactionError fs t) = t"
| "Error_text (Validator_ExpiredTransactionError r f t) = t"
| "Error_text (Validator_InvalidGasLimitError m a t) = t"
| "Error_text (Validator_InvalidScriptError e t) = t"
| "Error_text (Errorf m) = m"
| "Error_text (Errorf_wrap m e) = m @ Error_text e"
| "Error_text (FlowError c) = err_text c"
| "Error_text (ExternalError m) = m"
| "Error_text (Panic m) = m"

fun ConvertAccessError :: "go_error \<Rightarrow> go_error" where
  "ConvertAccessError (Validator_IncompleteTransactionError fs t) = IncompleteTransactionError fs"
| "ConvertAccessError (Validator_ExpiredTransactionError r f t) = ExpiredTransactionError r f"
| "ConvertAccessError (Validator_InvalidGasLimitError m a t) = InvalidTransactionGasLimitError m a"
| "ConvertAccessError (Validator_InvalidScriptError e t) = InvalidTransactionScriptError e"
| "ConvertAccessError e = e"

type_synonym 'a result = "go_error + 'a"

section \<open>Chain data\<close>

record header_body =
  ChainID :: string
  ParentID :: flow_id
  Height :: u64
  View :: u64
  Timestamp :: u64

record seal =
  seal_BlockID :: flow_id
  seal_ResultID :: flow_id

text \<open>A block: the embedded header body and the payload (a guarantee is its collection ID).\<close>

record block = header_body +
  Guarantees :: "flow_id list"
  Seals :: "seal list"

record header = header_body +
  PayloadHash :: flow_id

record proposal_key =
  pk_Address :: address
  pk_KeyIndex :: u32
  pk_SequenceNumber :: u64

record transaction_signature =
  sig_Address :: address
  sig_SignerIndex :: int
  sig_KeyIndex :: u32
  sig_Signature :: bytes

record transaction_body =
  ReferenceBlockID :: flow_id
  Script :: bytes
  Arguments :: "bytes list"
  GasLimit :: u64
  ProposalKey :: proposal_key
  Payer :: address
  Authorizers :: "address list"
  PayloadSignatures :: "transaction_signature list"
  EnvelopeSignatures :: "transaction_signature list"

record event =
  ev_Type :: string
  ev_TransactionID :: flow_id
  ev_TransactionIndex :: u32
  ev_EventIndex :: u32
  ev_Payload :: bytes

text \<open>Cadence values, as far as the emulator looks into them.\<close>

datatype cadence_value =
    CadenceEvent string "(string \<times> cadence_value) list"
  | CadenceUInt64 u64
  | CadenceAddress address
  | CadenceValue string

record register_id =
  Owner :: string
  Key :: string

record execution_snapshot =
  WriteSet :: "(register_id, bytes) gomap"

type_synonym storage_snapshot = "register_id \<Rightarrow> bytes result"

record account_public_key =
  key_Index :: u32
  key_PublicKey :: bytes
  key_SignAlgo :: nat
  key_HashAlgo :: nat
  key_SeqNumber :: u64
  key_Weight :: int
  key_Revoked :: bool

record account =
  acc_Address :: address
  acc_Balance :: u64
  acc_Keys :: "account_public_key list"
  acc_Contracts :: "string \<rightharpoonup> bytes"

text \<open>
  The computation kinds that \<^verbatim>\<open>emulator/computation_report.go\<close> names, and any
  other kind, which carries the text of its \<^verbatim>\<open>String\<close> method.
\<close>

datatype computation_kind =
    KindStatement | KindLoop | KindFunctionInvocation | KindCreateCompositeValue
  | KindTransferCompositeValue | KindDestroyCompositeValue | KindCreateArrayValue
  | KindTransferArrayValue | KindDestroyArrayValue | KindCreateDictionaryValue
  | KindTransferDictionaryValue | KindDestroyDictionaryValue | KindEncodeValue | KindSTDLIBPanic
  | KindSTDLIBAssert | KindSTDLIBRevertibleRandom | KindSTDLIBRLPDecodeString
  | KindSTDLIBRLPDecodeList | KindHash | KindVerifySignature | KindAddAccountKey
  | KindAddEncodedAccountKey | KindAllocateSlabIndex | KindCreateAccount | KindEmitEvent
  | KindGenerateUUID | KindGetAccountAvailableBalance | KindGetAccountBalance
  | KindGetAccountContractCode | KindGetAccountContractNames | KindGetAccountKey
  | KindGetBlockAtHeight | KindGetCode | KindGetCurrentBlockHeight | KindGetStorageCapacity
  | KindGetStorageUsed | KindGetValue | KindRemoveAccountContractCode | KindResolveLocation
  | KindRevokeAccountKey | KindSetValue | KindUpdateAccountContractCode | KindValidatePublicKey
  | KindValueExists | KindAccountKeysCount | KindBLSVerifyPOP | KindBLSAggregateSignatures
  | KindBLSAggregatePublicKeys | KindGetOrLoadProgram | KindGenerateAccountLocalID
  | KindGetRandomSourceHistory | KindEVMGasUsage | KindRLPEncoding | KindRLPDecoding
  | KindEncodeEvent | KindEVMEncodeABI | KindEVMDecodeABI | KindOther string

text \<open>\<^verbatim>\<open>fvm.ProcedureOutput\<close>: what one run of the virtual machine reports.\<close>

record procedure_output =
  out_Logs :: "string list"
  out_Events :: "event list"
  out_ComputationUsed :: u64
  out_MemoryEstimate :: u64
  out_Intensities :: "(computation_kind, u64) gomap"
  out_Err :: "coded_error option"
  out_Value :: "cadence_value option"

section \<open>Results: types/result.go\<close>

record StorableTransactionResult =
  ErrorCode :: int
  ErrorMessage :: string
  Logs :: "string list"
  Events :: "event list"
  BlockID :: flow_id
  BlockHeight :: u64
  CollectionID :: flow_id

record SystemTransactions =
  st_BlockID :: flow_id
  st_Transactions :: "flow_id list"
  st_ScheduledTransactionIDs :: "(u64, flow_id) gomap"

section \<open>Parameters: what flow-go computes from chain data\<close>

record hashes =
  block_ID :: "block \<Rightarrow> flow_id"
  payload_hash :: "block \<Rightarrow> flow_id"
  col_ID :: "flow_id list \<Rightarrow> flow_id"
  tx_ID :: "transaction_body \<Rightarrow> flow_id"
  register_String :: "register_id \<Rightarrow> string"

definition ToHeader :: "'h hashes_scheme \<Rightarrow> block \<Rightarrow> header" where
  "ToHeader h b =
     \<lparr>ChainID = ChainID b, ParentID = ParentID b, Height = Height b, View = View b,
      Timestamp = Timestamp b, PayloadHash = payload_hash h b\<rparr>"

section \<open>Lemmas: errors\<close>

text \<open>The recursion of \<^const>\<open>is_ErrNotFound\<close> is Go's walk along \<^const>\<open>Unwrap\<close>.\<close>

lemma is_ErrNotFound_Unwrap:
  "is_ErrNotFound e \<longleftrightarrow>
     e = ErrNotFound \<or> (case Unwrap e of None \<Rightarrow> False | Some e' \<Rightarrow> is_ErrNotFound e')"
  by (cases e) simp_all

lemma isBlockNotFound_isNotFound: "isBlockNotFoundError e \<Longrightarrow> isNotFoundError e"
  by (cases e) simp_all

lemma ToHeader_Height [simp]: "Height (ToHeader h b) = Height b"
  by (simp add: ToHeader_def)

end
