(* ===== verification/Store_Spec.thy ===== *)
theory Store_Spec
  imports Flow_Types
begin

text \<open>
  The storage interface of the emulator (\<^verbatim>\<open>storage.Store\<close>) and what it
  promises.

  \<^item> \<^verbatim>\<open>commit_args\<close> is the argument list of \<^verbatim>\<open>CommitBlock\<close>, and
    \<^verbatim>\<open>store_ops\<close> the method table of the interface.
  \<^item> The abstract state of a store is the list of its commits, oldest first; the
    \<^verbatim>\<open>hist_\<close> functions say what every query answers in terms of it.
  \<^item> The locale \<^verbatim>\<open>chain_store\<close> is the contract: a representation relation
    between the concrete state and the history that \<^verbatim>\<open>CommitBlock\<close> extends
    and every query reads. It is interpreted in \<^verbatim>\<open>Mem_Store\<close> and, through the
    key-value contract, in \<^verbatim>\<open>Sqlite_Store\<close>.
\<close>

section \<open>The interface: storage/store.go\<close>

record commit_args =
  cb_block :: block
  cb_collections :: "flow_id list list"
  cb_transactions :: "(flow_id, transaction_body) gomap"
  cb_results :: "(flow_id, StorableTransactionResult) gomap"
  cb_systemTransactions :: "flow_id list"
  cb_systemBodies :: "(flow_id, transaction_body) gomap"
  cb_systemResults :: "(flow_id, StorableTransactionResult) gomap"
  cb_snapshot :: execution_snapshot
  cb_events :: "event list"
  cb_scheduled :: "(u64, flow_id) gomap"

record 's store_ops =
  st_LatestBlockHeight :: "'s \<Rightarrow> u64 result"
  st_LatestBlock :: "'s \<Rightarrow> block result"
  st_StoreBlock :: "block \<Rightarrow> 's \<Rightarrow> unit result \<times> 's"
  st_StoreSystemTransactions :: "SystemTransactions \<Rightarrow> 's \<Rightarrow> unit result \<times> 's"
  st_SystemTransactionsForBlockID :: "flow_id \<Rightarrow> 's \<Rightarrow> SystemTransactions result"
  st_IndexScheduledTransactionID :: "u64 \<Rightarrow> flow_id \<Rightarrow> 's \<Rightarrow> unit result \<times> 's"
  st_BlockIDByScheduledTransactionID :: "u64 \<Rightarrow> 's \<Rightarrow> flow_id result"
  st_IndexScheduledTransactionBlockID :: "flow_id \<Rightarrow> flow_id \<Rightarrow> 's \<Rightarrow> unit result \<times> 's"
  st_ScheduledTransactionBlockIDByTxID :: "flow_id \<Rightarrow> 's \<Rightarrow> flow_id result"
  st_BlockByID :: "flow_id \<Rightarrow> 's \<Rightarrow> block result"
  st_BlockByHeight :: "u64 \<Rightarrow> 's \<Rightarrow> block result"
  st_CommitBlock :: "commit_args \<Rightarrow> 's \<Rightarrow> unit result \<times> 's"
  st_CollectionByID :: "flow_id \<Rightarrow> 's \<Rightarrow> flow_id list result"
  st_FullCollectionByID :: "flow_id \<Rightarrow> 's \<Rightarrow> transaction_body list result"
  st_TransactionByID :: "flow_id \<Rightarrow> 's \<Rightarrow> transaction_body result"
  st_TransactionResultByID :: "flow_id \<Rightarrow> 's \<Rightarrow> StorableTransactionResult result"
  st_SystemTransactionResultByID :: "flow_id \<Rightarrow> flow_id \<Rightarrow> 's \<Rightarrow> StorableTransactionResult result"
  st_LedgerByHeight :: "u64 \<Rightarrow> 's \<Rightarrow> storage_snapshot result"
  st_EventsByHeight :: "u64 \<Rightarrow> string \<Rightarrow> 's \<Rightarrow> event list result"

text \<open>The error of both \<^verbatim>\<open>CommitBlock\<close> implementations when a map of results has the wrong size.\<close>

definition count_mismatch :: "string \<Rightarrow> nat \<Rightarrow> string \<Rightarrow> nat \<Rightarrow> go_error" where
  "count_mismatch a m b n = Errorf (a @ '' count ('' @ fmt_d m @ '') does not match '' @ b @ '' count ('' @ fmt_d n @ '')'')"

section \<open>The abstract state: the commits so far\<close>

type_synonym history = "commit_args list"

definition SystemTransactions_of :: "'h hashes_scheme \<Rightarrow> commit_args \<Rightarrow> SystemTransactions" where
  "SystemTransactions_of p a =
     \<lparr>st_BlockID = block_ID p (cb_block a), st_Transactions = cb_systemTransactions a,
      st_ScheduledTransactionIDs = cb_scheduled a\<rparr>"

definition has_system :: "commit_args \<Rightarrow> bool" where
  "has_system a \<longleftrightarrow> 0 < length (cb_systemTransactions a) \<or> 0 < length (cb_scheduled a)"

definition match_type :: "string \<Rightarrow> event \<Rightarrow> bool" where
  "match_type ty e \<longleftrightarrow> ty = '''' \<or> ev_Type e = ty"

definition hist_block :: "history \<Rightarrow> u64 \<Rightarrow> block option" where
  "hist_block h n = (if unat n < length h then Some (cb_block (h ! unat n)) else None)"

definition hist_height :: "'h hashes_scheme \<Rightarrow> history \<Rightarrow> flow_id \<Rightarrow> u64 option" where
  "hist_height p h = map_of (map (\<lambda>a. (block_ID p (cb_block a), Height (cb_block a))) (rev h))"

definition hist_collection :: "'h hashes_scheme \<Rightarrow> history \<Rightarrow> flow_id \<Rightarrow> flow_id list option" where
  "hist_collection p h = map_of (map (\<lambda>c. (col_ID p c, c)) (rev (concat (map cb_collections h))))"

definition bodies_of :: "commit_args \<Rightarrow> (flow_id \<times> transaction_body) list" where
  "bodies_of a = cb_transactions a @ cb_systemBodies a"

definition hist_transaction :: "history \<Rightarrow> flow_id \<Rightarrow> transaction_body option" where
  "hist_transaction h = map_of (rev (concat (map bodies_of h)))"

definition hist_result :: "history \<Rightarrow> flow_id \<Rightarrow> StorableTransactionResult option" where
  "hist_result h = map_of (rev (concat (map cb_results h)))"

definition system_results_of ::
  "'h hashes_scheme \<Rightarrow> commit_args \<Rightarrow> ((flow_id \<times> flow_id) \<times> StorableTransactionResult) list" where
  "system_results_of p a =
     map (\<lambda>(i, r). ((block_ID p (cb_block a), i), r)) (cb_systemResults a)"

definition hist_system_result ::
  "'h hashes_scheme \<Rightarrow> history \<Rightarrow> flow_id \<times> flow_id \<Rightarrow> StorableTransactionResult option" where
  "hist_system_result p h = map_of (rev (concat (map (system_results_of p) h)))"

definition hist_system :: "'h hashes_scheme \<Rightarrow> history \<Rightarrow> flow_id \<Rightarrow> SystemTransactions option" where
  "hist_system p h =
     map_of (map (\<lambda>a. (block_ID p (cb_block a), SystemTransactions_of p a))
               (rev (filter has_system h)))"

definition hist_events :: "history \<Rightarrow> u64 \<Rightarrow> event list" where
  "hist_events h n = (if unat n < length h then cb_events (h ! unat n) else [])"

text \<open>The value of a register as of a height: the last write in the commits up to it.\<close>

definition last_write :: "register_id \<Rightarrow> history \<Rightarrow> bytes option" where
  "last_write r h = map_of (rev (concat (map (\<lambda>a. WriteSet (cb_snapshot a)) h))) r"

definition hist_register :: "history \<Rightarrow> u64 \<Rightarrow> register_id \<Rightarrow> bytes option" where
  "hist_register h n r = last_write r (take (Suc (unat n)) h)"

definition value_of :: "bytes option \<Rightarrow> bytes" where
  "value_of v = (case v of None \<Rightarrow> [] | Some b \<Rightarrow> b)"

text \<open>When a commit may follow a history.\<close>

definition wf_commit :: "commit_args \<Rightarrow> bool" where
  "wf_commit a \<longleftrightarrow>
     length (cb_transactions a) = length (cb_results a) \<and>
     length (cb_systemTransactions a) = length (cb_systemResults a) \<and>
     distinct (map fst (cb_results a)) \<and> distinct (map fst (cb_systemResults a)) \<and>
     distinct (map fst (WriteSet (cb_snapshot a)))"

definition counts_match :: "commit_args \<Rightarrow> bool" where
  "counts_match a \<longleftrightarrow>
     length (cb_transactions a) = length (cb_results a) \<and>
     length (cb_systemTransactions a) = length (cb_systemResults a)"

definition same_bodies :: "commit_args \<Rightarrow> history \<Rightarrow> bool" where
  "same_bodies a h \<longleftrightarrow>
     (\<forall>(i, t) \<in> set (bodies_of a). \<forall>b \<in> set (h @ [a]). \<forall>(j, u) \<in> set (bodies_of b). i = j \<longrightarrow> t = u)"

definition same_collections :: "'h hashes_scheme \<Rightarrow> commit_args \<Rightarrow> history \<Rightarrow> bool" where
  "same_collections p a h \<longleftrightarrow>
     (\<forall>c \<in> set (cb_collections a). \<forall>b \<in> set (h @ [a]). \<forall>d \<in> set (cb_collections b).
        col_ID p c = col_ID p d \<longrightarrow> c = d)"

definition may_follow :: "'h hashes_scheme \<Rightarrow> history \<Rightarrow> commit_args \<Rightarrow> bool" where
  "may_follow p h a \<longleftrightarrow>
     Height (cb_block a) = of_nat (length h) \<and> Suc (length h) < 2 ^ 63 \<and> wf_commit a \<and>
     (\<forall>b \<in> set h. block_ID p (cb_block b) \<noteq> block_ID p (cb_block a)) \<and>
     same_bodies a h \<and> same_collections p a h \<and>
     (\<forall>i \<in> fst ` set (cb_results a). hist_result h i = None)"

text \<open>A list of commits each of which may follow the ones before it, and a store running them.\<close>

definition valid_chain :: "'h hashes_scheme \<Rightarrow> commit_args list \<Rightarrow> bool" where
  "valid_chain p as \<longleftrightarrow> (\<forall>i < length as. may_follow p (take i as) (as ! i))"

definition run_store :: "'s store_ops \<Rightarrow> commit_args list \<Rightarrow> 's \<Rightarrow> 's" where
  "run_store ops as s = fold (\<lambda>a s. snd (st_CommitBlock ops a s)) as s"

section \<open>The contract\<close>

text \<open>
  \<open>admits\<close> says which commits the store can represent at all (an encoder may
  refuse a value), \<open>rep\<close> relates a store to the history it holds.
\<close>

locale chain_store =
  fixes p :: "'h hashes_scheme"
    and ops :: "'s store_ops"
    and admits :: "commit_args \<Rightarrow> bool"
    and rep :: "'s \<Rightarrow> history \<Rightarrow> bool"
  assumes commit:
      "rep s h \<Longrightarrow> may_follow p h a \<Longrightarrow> admits a \<Longrightarrow>
       fst (st_CommitBlock ops a s) = Inr () \<and> rep (snd (st_CommitBlock ops a s)) (h @ [a])"
    and latest_none: "rep s [] \<Longrightarrow> st_LatestBlock ops s = Inl ErrNotFound"
    and latest: "rep s h \<Longrightarrow> h \<noteq> [] \<Longrightarrow> st_LatestBlock ops s = Inr (cb_block (last h))"
    and latest_height: "rep s h \<Longrightarrow> h \<noteq> [] \<Longrightarrow>
          st_LatestBlockHeight ops s = Inr (Height (cb_block (last h)))"
    and by_height: "rep s h \<Longrightarrow> st_BlockByHeight ops n s = the_or ErrNotFound (hist_block h n)"
    and by_id: "rep s h \<Longrightarrow> st_BlockByID ops i s =
          the_or ErrNotFound (Option.bind (hist_height p h i) (hist_block h))"
    and collection: "rep s h \<Longrightarrow> st_CollectionByID ops i s = the_or ErrNotFound (hist_collection p h i)"
    and full_collection: "rep s h \<Longrightarrow> st_FullCollectionByID ops i s =
          bindR (the_or ErrNotFound (hist_collection p h i))
                (mapR (\<lambda>t. the_or ErrNotFound (hist_transaction h t)))"
    and transaction: "rep s h \<Longrightarrow> st_TransactionByID ops i s = the_or ErrNotFound (hist_transaction h i)"
    and tx_result: "rep s h \<Longrightarrow> st_TransactionResultByID ops i s = the_or ErrNotFound (hist_result h i)"
    and system_result: "rep s h \<Longrightarrow> st_SystemTransactionResultByID ops b i s =
          the_or ErrNotFound (hist_system_result p h (b, i))"
    and system: "rep s h \<Longrightarrow> st_SystemTransactionsForBlockID ops i s =
          the_or ErrNotFound (hist_system p h i)"
    and events: "rep s h \<Longrightarrow> st_EventsByHeight ops n ty s =
          Inr (filter (match_type ty) (hist_events h n))"
    and ledger: "rep s h \<Longrightarrow> unat n < length h \<Longrightarrow>
          \<exists>f. st_LedgerByHeight ops n s = Inr f \<and>
              (\<forall>r. f r = Inr (value_of (hist_register h n r)))"
    and index_scheduled: "rep s h \<Longrightarrow> fst (st_IndexScheduledTransactionID ops n b s) = Inr () \<and>
          rep (snd (st_IndexScheduledTransactionID ops n b s)) h"
    and index_scheduled_tx: "rep s h \<Longrightarrow> fst (st_IndexScheduledTransactionBlockID ops i b s) = Inr () \<and>
          rep (snd (st_IndexScheduledTransactionBlockID ops i b s)) h"
    and commit_counts: "\<not> counts_match a \<Longrightarrow> \<exists>e. st_CommitBlock ops a s = (Inl e, s)"

section \<open>Lemmas about histories\<close>

lemma SystemTransactions_of_simps [simp]:
  "st_BlockID (SystemTransactions_of p a) = block_ID p (cb_block a)"
  "st_Transactions (SystemTransactions_of p a) = cb_systemTransactions a"
  "st_ScheduledTransactionIDs (SystemTransactions_of p a) = cb_scheduled a"
  by (simp_all add: SystemTransactions_of_def)

lemma may_followD:
  assumes "may_follow p h a"
  shows "Height (cb_block a) = of_nat (length h)" "Suc (length h) < 2 ^ 63" "wf_commit a"
    "\<And>b. b \<in> set h \<Longrightarrow> block_ID p (cb_block b) \<noteq> block_ID p (cb_block a)"
    "same_bodies a h" "same_collections p a h"
    "\<And>i. i \<in> fst ` set (cb_results a) \<Longrightarrow> hist_result h i = None"
  using assms by (auto simp: may_follow_def)

lemma unat_height [simp]:
  assumes "may_follow p h a" shows "unat (Height (cb_block a)) = length h"
proof -
  have "length h < 2 ^ 64" using may_followD(2)[OF assms] by simp
  then show ?thesis by (simp add: may_followD(1)[OF assms] unat_of_nat)
qed

lemma hist_block_snoc:
  assumes "may_follow p h a"
  shows "hist_block (h @ [a]) n = (if n = Height (cb_block a) then Some (cb_block a) else hist_block h n)"
  using unat_height[OF assms]
  by (auto simp: hist_block_def nth_append less_Suc_eq word_unat_eq_iff)

lemma hist_height_snoc [simp]:
  "hist_height p (h @ [a]) = (hist_height p h)(block_ID p (cb_block a) \<mapsto> Height (cb_block a))"
  by (simp add: hist_height_def)

lemma hist_collection_snoc [simp]:
  "hist_collection p (h @ [a]) = hist_collection p h ++ map_of (map (\<lambda>c. (col_ID p c, c)) (rev (cb_collections a)))"
  by (simp add: hist_collection_def)

lemma hist_transaction_snoc [simp]:
  "hist_transaction (h @ [a]) = hist_transaction h ++ map_of (rev (bodies_of a))"
  by (simp add: hist_transaction_def)

lemma hist_result_snoc [simp]:
  "hist_result (h @ [a]) = hist_result h ++ map_of (rev (cb_results a))"
  by (simp add: hist_result_def)

lemma hist_system_result_snoc [simp]:
  "hist_system_result p (h @ [a]) = hist_system_result p h ++ map_of (rev (system_results_of p a))"
  by (simp add: hist_system_result_def)

lemma hist_system_snoc [simp]:
  "hist_system p (h @ [a]) =
     (if has_system a then (hist_system p h)(block_ID p (cb_block a) \<mapsto> SystemTransactions_of p a)
      else hist_system p h)"
  by (simp add: hist_system_def)

lemma hist_events_snoc:
  assumes "may_follow p h a"
  shows "hist_events (h @ [a]) n = (if n = Height (cb_block a) then cb_events a else hist_events h n)"
  using unat_height[OF assms]
  by (auto simp: hist_events_def nth_append less_Suc_eq word_unat_eq_iff)

lemma last_write_snoc:
  "last_write r (h @ [a]) = (case map_of (rev (WriteSet (cb_snapshot a))) r of
      None \<Rightarrow> last_write r h | Some v \<Rightarrow> Some v)"
  by (simp add: last_write_def map_add_def split: option.split)

lemma hist_register_snoc:
  assumes "may_follow p h a"
  shows "hist_register (h @ [a]) n r =
    (if Height (cb_block a) \<le> n then last_write r (h @ [a]) else hist_register h n r)"
  using unat_height[OF assms]
  by (auto simp: hist_register_def word_le_nat_alt take_Suc_conv_app_nth not_le)

lemma unat_pred_height:
  assumes "may_follow p h a" "h \<noteq> []" shows "unat (Height (cb_block a) - 1) = length h - 1"
proof -
  have "unat (1 :: u64) \<le> unat (Height (cb_block a))"
    using unat_height[OF assms(1)] assms(2) by (simp add: Suc_le_eq)
  then show ?thesis using unat_height[OF assms(1)] by (simp add: unat_sub_if')
qed

lemma last_write_hist_register:
  "unat n = length h - 1 \<Longrightarrow> hist_register h n r = last_write r h"
  by (cases h) (simp_all add: hist_register_def)

lemma hist_empty [simp]:
  "hist_block [] n = None" "hist_height p [] = Map.empty" "hist_collection p [] = Map.empty"
  "hist_transaction [] = Map.empty" "hist_result [] = Map.empty" "hist_system_result p [] = Map.empty"
  "hist_system p [] = Map.empty" "hist_events [] n = []" "last_write r [] = None" "hist_register [] n r = None"
  by (simp_all add: hist_block_def hist_height_def hist_collection_def hist_transaction_def
      hist_result_def hist_system_result_def hist_system_def hist_events_def last_write_def hist_register_def)

lemma valid_chain_snoc: "valid_chain p (as @ [a]) \<longleftrightarrow> valid_chain p as \<and> may_follow p as a"
  by (auto simp: valid_chain_def nth_append less_Suc_eq)

context chain_store
begin

lemma run_rep:
  assumes "rep s []" "valid_chain p as" "\<And>a. a \<in> set as \<Longrightarrow> admits a"
  shows "rep (run_store ops as s) as"
  using assms
proof (induction as rule: rev_induct)
  case Nil then show ?case by (simp add: run_store_def)
next
  case (snoc a as)
  then have "rep (run_store ops as s) as" by (simp add: valid_chain_snoc)
  then show ?case using commit[of "run_store ops as s" as a] snoc.prems
    by (simp add: run_store_def valid_chain_snoc)
qed

lemmas queries = latest latest_height by_height by_id collection full_collection transaction tx_result
  system_result system events ledger

end

end
