(* ===== verification/Default_Store.thy ===== *)
theory Default_Store
  imports Store_Spec
begin

text \<open>
  The storage layer over a key-value database: \<^verbatim>\<open>storage/store.go\<close> with the
  encodings of \<^verbatim>\<open>storage/encoding.go\<close>.

  \<^item> CBOR is the parameter record \<^verbatim>\<open>codec\<close>, one encoder and one decoder per
    stored type.
  \<^item> \<^verbatim>\<open>DataGetter\<close> and \<^verbatim>\<open>DataSetter\<close> are the method table \<^verbatim>\<open>kv_ops\<close>;
    \<^verbatim>\<open>default_store\<close> pairs the database with the field \<^verbatim>\<open>CurrentHeight\<close>,
    which the sqlite setter reads.
  \<^item> The locales \<^verbatim>\<open>kv_get_set\<close> and \<^verbatim>\<open>kv_store\<close> are the contract of the
    database; \<^verbatim>\<open>Default_Refinement\<close> shows that under the second one
    \<^verbatim>\<open>DefaultStore\<close> implements \<^verbatim>\<open>chain_store\<close>.
\<close>

section \<open>Encodings: storage/encoding.go\<close>

record codec = hashes +
  encodeSystemTransaction :: "SystemTransactions \<Rightarrow> bytes result"
  decodeSystemTransaction :: "bytes \<Rightarrow> SystemTransactions result"
  encodeBlock :: "block \<Rightarrow> bytes result"
  decodeBlock :: "bytes \<Rightarrow> block result"
  encodeCollection :: "flow_id list \<Rightarrow> bytes result"
  decodeCollection :: "bytes \<Rightarrow> flow_id list result"
  encodeTransaction :: "transaction_body \<Rightarrow> bytes result"
  decodeTransaction :: "bytes \<Rightarrow> transaction_body result"
  encodeTransactionResult :: "StorableTransactionResult \<Rightarrow> bytes result"
  decodeTransactionResult :: "bytes \<Rightarrow> StorableTransactionResult result"
  encodeUint64 :: "u64 \<Rightarrow> bytes result"
  decodeUint64 :: "bytes \<Rightarrow> u64 result"
  encodeEvents :: "event list \<Rightarrow> bytes result"
  decodeEvents :: "bytes \<Rightarrow> event list result"

definition mustEncodeUint64 :: "'x codec_scheme \<Rightarrow> u64 \<Rightarrow> bytes result" where
  "mustEncodeUint64 p v = (case encodeUint64 p v of Inl e \<Rightarrow> Inl (Panic (Error_text e)) | Inr b \<Rightarrow> Inr b)"

section \<open>Store names and keys\<close>

abbreviation globalStoreName :: string where "globalStoreName \<equiv> ''global''"
abbreviation BlockIndexStoreName :: string where "BlockIndexStoreName \<equiv> ''blockIndex''"
abbreviation BlockStoreName :: string where "BlockStoreName \<equiv> ''blocks''"
abbreviation SystemTransactionName :: string where "SystemTransactionName \<equiv> ''systemTransactions''"
abbreviation CollectionStoreName :: string where "CollectionStoreName \<equiv> ''collections''"
abbreviation TransactionStoreName :: string where "TransactionStoreName \<equiv> ''transactions''"
abbreviation TransactionResultStoreName :: string where "TransactionResultStoreName \<equiv> ''transactionResults''"
abbreviation EventStoreName :: string where "EventStoreName \<equiv> ''events''"
abbreviation LedgerStoreName :: string where "LedgerStoreName \<equiv> ''ledger''"
abbreviation ScheduledIndexName :: string where "ScheduledIndexName \<equiv> ''scheduledTransactionIndex''"
abbreviation ScheduledBlockIndexName :: string where "ScheduledBlockIndexName \<equiv> ''scheduledTransactionBlockIndex''"

definition Key_LatestBlock :: bytes where
  "Key_LatestBlock = bytes_of_string ''latest_block_height''"

definition Key_ForkedBlock :: bytes where
  "Key_ForkedBlock = bytes_of_string ''forked_block_height''"

definition Key_BlockHeight :: "u64 \<Rightarrow> bytes" where
  "Key_BlockHeight blockHeight = bytes_of_string (pad0 32 (fmt_d (unat blockHeight)))"

definition Key_Identifier :: "flow_id \<Rightarrow> bytes" where
  "Key_Identifier i = bytes_of_string (ID_String i)"

definition Key_ScheduledTransactionID :: "u64 \<Rightarrow> bytes" where
  "Key_ScheduledTransactionID n = bytes_of_string (''scheduled_tx_'' @ fmt_d (unat n))"

definition Key_SystemTransactionResult :: "flow_id \<Rightarrow> flow_id \<Rightarrow> bytes" where
  "Key_SystemTransactionResult blockID txID =
     bytes_of_string (''system_tx_result_'' @ ID_String blockID @ ''_'' @ ID_String txID)"

section \<open>The database interface and the store\<close>

text \<open>The setters take the store's \<^verbatim>\<open>CurrentHeight\<close> as their first argument.\<close>

record 'd kv_ops =
  GetBytes :: "string \<Rightarrow> bytes \<Rightarrow> 'd \<Rightarrow> bytes result"
  GetBytesAtVersion :: "string \<Rightarrow> bytes \<Rightarrow> u64 \<Rightarrow> 'd \<Rightarrow> bytes result"
  SetBytes :: "u64 \<Rightarrow> string \<Rightarrow> bytes \<Rightarrow> bytes \<Rightarrow> 'd \<Rightarrow> unit result \<times> 'd"
  SetBytesWithVersion :: "u64 \<Rightarrow> string \<Rightarrow> bytes \<Rightarrow> bytes \<Rightarrow> u64 \<Rightarrow> 'd \<Rightarrow> unit result \<times> 'd"

record 'd default_store =
  CurrentHeight :: u64
  Data :: 'd

definition ds_Get :: "'d kv_ops \<Rightarrow> string \<Rightarrow> bytes \<Rightarrow> 'd default_store \<Rightarrow> bytes result" where
  "ds_Get k store key s = GetBytes k store key (Data s)"

definition ds_Set ::
  "'d kv_ops \<Rightarrow> string \<Rightarrow> bytes \<Rightarrow> bytes \<Rightarrow> 'd default_store \<Rightarrow> unit result \<times> 'd default_store" where
  "ds_Set k store key v s =
     (case SetBytes k (CurrentHeight s) store key v (Data s) of (r, d) \<Rightarrow> (r, s\<lparr>Data := d\<rparr>))"

definition ds_SetVersion ::
  "'d kv_ops \<Rightarrow> string \<Rightarrow> bytes \<Rightarrow> bytes \<Rightarrow> u64 \<Rightarrow> 'd default_store \<Rightarrow> unit result \<times> 'd default_store" where
  "ds_SetVersion k store key v version s =
     (case SetBytesWithVersion k (CurrentHeight s) store key v version (Data s) of (r, d) \<Rightarrow> (r, s\<lparr>Data := d\<rparr>))"

section \<open>Blocks and heights\<close>

definition SetBlockHeight :: "'x codec_scheme \<Rightarrow> 'd kv_ops \<Rightarrow> u64 \<Rightarrow> 'd default_store \<Rightarrow> unit result \<times> 'd default_store" where
  "SetBlockHeight p k height s =
     (let s = s\<lparr>CurrentHeight := height\<rparr> in
      case mustEncodeUint64 p height of
        Inl e \<Rightarrow> (Inl e, s)
      | Inr b \<Rightarrow> ds_Set k globalStoreName Key_LatestBlock b s)"

definition LatestBlockHeight :: "'x codec_scheme \<Rightarrow> 'd kv_ops \<Rightarrow> 'd default_store \<Rightarrow> u64 result" where
  "LatestBlockHeight p k s =
     bindR (ds_Get k globalStoreName Key_LatestBlock s) (decodeUint64 p)"

definition LatestBlock :: "'x codec_scheme \<Rightarrow> 'd kv_ops \<Rightarrow> 'd default_store \<Rightarrow> block result" where
  "LatestBlock p k s =
     bindR (LatestBlockHeight p k s) (\<lambda>latestBlockHeight.
     bindR (ds_Get k BlockStoreName (Key_BlockHeight latestBlockHeight) s) (decodeBlock p))"

definition StoreBlock :: "'x codec_scheme \<Rightarrow> 'd kv_ops \<Rightarrow> block \<Rightarrow> 'd default_store \<Rightarrow> unit result \<times> 'd default_store" where
  "StoreBlock p k block s =
     (let s = s\<lparr>CurrentHeight := Height block\<rparr> in
      case encodeBlock p block of
        Inl e \<Rightarrow> (Inl e, s)
      | Inr encBlock \<Rightarrow>
         (let store = (\<lambda>latestBlockHeight.
                bindE (ds_Set k BlockStoreName (Key_BlockHeight (Height block)) encBlock s) (\<lambda>_ s.
                case mustEncodeUint64 p (Height block) of
                  Inl e \<Rightarrow> (Inl e, s)
                | Inr encHeight \<Rightarrow>
                    bindE (ds_Set k BlockIndexStoreName (Key_Identifier (block_ID p block)) encHeight s) (\<lambda>_ s.
                    if Height block \<ge> latestBlockHeight
                    then ds_Set k globalStoreName Key_LatestBlock encHeight s
                    else (Inr (), s))))
          in case LatestBlockHeight p k s of
               Inl e \<Rightarrow> if \<not> is_ErrNotFound e then (Inl e, s) else store 0
             | Inr latestBlockHeight \<Rightarrow> store latestBlockHeight))"

definition ForkedBlockHeight :: "'x codec_scheme \<Rightarrow> 'd kv_ops \<Rightarrow> 'd default_store \<Rightarrow> u64 result" where
  "ForkedBlockHeight p k s = bindR (ds_Get k globalStoreName Key_ForkedBlock s) (decodeUint64 p)"

definition StoreForkedBlockHeight ::
  "'x codec_scheme \<Rightarrow> 'd kv_ops \<Rightarrow> u64 \<Rightarrow> 'd default_store \<Rightarrow> unit result \<times> 'd default_store" where
  "StoreForkedBlockHeight p k height s =
     (case mustEncodeUint64 p height of
        Inl e \<Rightarrow> (Inl e, s)
      | Inr b \<Rightarrow> ds_Set k globalStoreName Key_ForkedBlock b s)"

definition BlockByHeight :: "'x codec_scheme \<Rightarrow> 'd kv_ops \<Rightarrow> u64 \<Rightarrow> 'd default_store \<Rightarrow> block result" where
  "BlockByHeight p k blockHeight s =
     bindR (ds_Get k BlockStoreName (Key_BlockHeight blockHeight) s) (decodeBlock p)"

definition BlockByID :: "'x codec_scheme \<Rightarrow> 'd kv_ops \<Rightarrow> flow_id \<Rightarrow> 'd default_store \<Rightarrow> block result" where
  "BlockByID p k blockID s =
     bindR (ds_Get k BlockIndexStoreName (Key_Identifier blockID) s) (\<lambda>blockHeightEnc.
     bindR (decodeUint64 p blockHeightEnc) (\<lambda>blockHeight. BlockByHeight p k blockHeight s))"

section \<open>System and scheduled transactions\<close>

definition StoreSystemTransactions ::
  "'x codec_scheme \<Rightarrow> 'd kv_ops \<Rightarrow> SystemTransactions \<Rightarrow> 'd default_store \<Rightarrow> unit result \<times> 'd default_store" where
  "StoreSystemTransactions p k st s =
     (case encodeSystemTransaction p st of
        Inl e \<Rightarrow> (Inl e, s)
      | Inr b \<Rightarrow> ds_Set k SystemTransactionName (Key_Identifier (st_BlockID st)) b s)"

definition SystemTransactionsForBlockID ::
  "'x codec_scheme \<Rightarrow> 'd kv_ops \<Rightarrow> flow_id \<Rightarrow> 'd default_store \<Rightarrow> SystemTransactions result" where
  "SystemTransactionsForBlockID p k blockID s =
     bindR (ds_Get k SystemTransactionName (Key_Identifier blockID) s) (decodeSystemTransaction p)"

definition IndexScheduledTransactionID ::
  "'d kv_ops \<Rightarrow> u64 \<Rightarrow> flow_id \<Rightarrow> 'd default_store \<Rightarrow> unit result \<times> 'd default_store" where
  "IndexScheduledTransactionID k scheduledTxID blockID s =
     ds_Set k ScheduledIndexName (Key_ScheduledTransactionID scheduledTxID) (id_bytes blockID) s"

definition decode_block_id :: "bytes \<Rightarrow> flow_id result" where
  "decode_block_id b =
     (if length b \<noteq> 32
      then Inl (Errorf (''invalid block ID length: expected 32, got '' @ fmt_d (length b)))
      else Inr (id_of_bytes b))"

definition BlockIDByScheduledTransactionID :: "'d kv_ops \<Rightarrow> u64 \<Rightarrow> 'd default_store \<Rightarrow> flow_id result" where
  "BlockIDByScheduledTransactionID k scheduledTxID s =
     bindR (ds_Get k ScheduledIndexName (Key_ScheduledTransactionID scheduledTxID) s) decode_block_id"

definition IndexScheduledTransactionBlockID ::
  "'d kv_ops \<Rightarrow> flow_id \<Rightarrow> flow_id \<Rightarrow> 'd default_store \<Rightarrow> unit result \<times> 'd default_store" where
  "IndexScheduledTransactionBlockID k txID blockID s =
     ds_Set k ScheduledBlockIndexName (Key_Identifier txID) (id_bytes blockID) s"

definition ScheduledTransactionBlockIDByTxID :: "'d kv_ops \<Rightarrow> flow_id \<Rightarrow> 'd default_store \<Rightarrow> flow_id result" where
  "ScheduledTransactionBlockIDByTxID k txID s =
     bindR (ds_Get k ScheduledBlockIndexName (Key_Identifier txID) s) decode_block_id"

section \<open>Collections, transactions and results\<close>

definition CollectionByID :: "'x codec_scheme \<Rightarrow> 'd kv_ops \<Rightarrow> flow_id \<Rightarrow> 'd default_store \<Rightarrow> flow_id list result" where
  "CollectionByID p k colID s =
     bindR (ds_Get k CollectionStoreName (Key_Identifier colID) s) (decodeCollection p)"

definition TransactionByID :: "'x codec_scheme \<Rightarrow> 'd kv_ops \<Rightarrow> flow_id \<Rightarrow> 'd default_store \<Rightarrow> transaction_body result" where
  "TransactionByID p k txID s =
     bindR (ds_Get k TransactionStoreName (Key_Identifier txID) s) (decodeTransaction p)"

definition FullCollectionByID ::
  "'x codec_scheme \<Rightarrow> 'd kv_ops \<Rightarrow> flow_id \<Rightarrow> 'd default_store \<Rightarrow> transaction_body list result" where
  "FullCollectionByID p k colID s =
     bindR (ds_Get k CollectionStoreName (Key_Identifier colID) s) (\<lambda>encCol.
     bindR (decodeCollection p encCol) (\<lambda>light. mapR (\<lambda>txID. TransactionByID p k txID s) light))"

definition InsertCollection ::
  "'x codec_scheme \<Rightarrow> 'd kv_ops \<Rightarrow> flow_id list \<Rightarrow> 'd default_store \<Rightarrow> unit result \<times> 'd default_store" where
  "InsertCollection p k col s =
     (case encodeCollection p col of
        Inl e \<Rightarrow> (Inl e, s)
      | Inr b \<Rightarrow> ds_Set k CollectionStoreName (Key_Identifier (col_ID p col)) b s)"

definition InsertTransaction ::
  "'x codec_scheme \<Rightarrow> 'd kv_ops \<Rightarrow> transaction_body \<Rightarrow> flow_id \<Rightarrow> 'd default_store \<Rightarrow> unit result \<times> 'd default_store" where
  "InsertTransaction p k tx i s =
     (case encodeTransaction p tx of
        Inl e \<Rightarrow> (Inl e, s)
      | Inr b \<Rightarrow> ds_Set k TransactionStoreName (Key_Identifier i) b s)"

definition TransactionResultByID ::
  "'x codec_scheme \<Rightarrow> 'd kv_ops \<Rightarrow> flow_id \<Rightarrow> 'd default_store \<Rightarrow> StorableTransactionResult result" where
  "TransactionResultByID p k txID s =
     bindR (ds_Get k TransactionResultStoreName (Key_Identifier txID) s) (decodeTransactionResult p)"

definition SystemTransactionResultByID ::
  "'x codec_scheme \<Rightarrow> 'd kv_ops \<Rightarrow> flow_id \<Rightarrow> flow_id \<Rightarrow> 'd default_store \<Rightarrow> StorableTransactionResult result" where
  "SystemTransactionResultByID p k blockID txID s =
     bindR (ds_Get k TransactionResultStoreName (Key_SystemTransactionResult blockID txID) s)
       (decodeTransactionResult p)"

definition InsertTransactionResult ::
  "'x codec_scheme \<Rightarrow> 'd kv_ops \<Rightarrow> flow_id \<Rightarrow> StorableTransactionResult \<Rightarrow> 'd default_store \<Rightarrow>
   unit result \<times> 'd default_store" where
  "InsertTransactionResult p k txID result s =
     (case encodeTransactionResult p result of
        Inl e \<Rightarrow> (Inl e, s)
      | Inr b \<Rightarrow> ds_Set k TransactionResultStoreName (Key_Identifier txID) b s)"

definition InsertSystemTransactionResult ::
  "'x codec_scheme \<Rightarrow> 'd kv_ops \<Rightarrow> flow_id \<Rightarrow> flow_id \<Rightarrow> StorableTransactionResult \<Rightarrow> 'd default_store \<Rightarrow>
   unit result \<times> 'd default_store" where
  "InsertSystemTransactionResult p k blockID txID result s =
     (case encodeTransactionResult p result of
        Inl e \<Rightarrow> (Inl e, s)
      | Inr b \<Rightarrow> ds_Set k TransactionResultStoreName (Key_SystemTransactionResult blockID txID) b s)"

section \<open>Events, registers and commits\<close>

definition EventsByHeight ::
  "'x codec_scheme \<Rightarrow> 'd kv_ops \<Rightarrow> u64 \<Rightarrow> string \<Rightarrow> 'd default_store \<Rightarrow> event list result" where
  "EventsByHeight p k blockHeight eventType s =
     (case ds_Get k EventStoreName (Key_BlockHeight blockHeight) s of
        Inl e \<Rightarrow> if is_ErrNotFound e then Inr [] else Inl e
      | Inr eventsEnc \<Rightarrow>
          bindR (decodeEvents p eventsEnc) (\<lambda>blockEvents.
          Inr (filter (\<lambda>event. \<not> (eventType \<noteq> '''' \<and> ev_Type event \<noteq> eventType)) blockEvents)))"

definition InsertEvents ::
  "'x codec_scheme \<Rightarrow> 'd kv_ops \<Rightarrow> u64 \<Rightarrow> event list \<Rightarrow> 'd default_store \<Rightarrow> unit result \<times> 'd default_store" where
  "InsertEvents p k blockHeight events s =
     (case encodeEvents p events of
        Inl e \<Rightarrow> (Inl e, s)
      | Inr b \<Rightarrow> ds_Set k EventStoreName (Key_BlockHeight blockHeight) b s)"

definition register_key :: "'h hashes_scheme \<Rightarrow> register_id \<Rightarrow> bytes" where
  "register_key p r = bytes_of_string (register_String p r)"

definition InsertExecutionSnapshot ::
  "'x codec_scheme \<Rightarrow> 'd kv_ops \<Rightarrow> u64 \<Rightarrow> execution_snapshot \<Rightarrow> 'd default_store \<Rightarrow> unit result \<times> 'd default_store" where
  "InsertExecutionSnapshot p k blockHeight executionSnapshot s =
     for_each (\<lambda>(registerID, value).
         ds_SetVersion k LedgerStoreName (register_key p registerID) value blockHeight)
       (WriteSet executionSnapshot) s"

definition CommitBlock ::
  "'x codec_scheme \<Rightarrow> 'd kv_ops \<Rightarrow> commit_args \<Rightarrow> 'd default_store \<Rightarrow> unit result \<times> 'd default_store" where
  "CommitBlock p k a s =
     (if length (cb_transactions a) \<noteq> length (cb_results a)
      then (Inl (count_mismatch ''transactions'' (length (cb_transactions a)) ''result'' (length (cb_results a))), s)
      else if length (cb_systemTransactions a) \<noteq> length (cb_systemResults a)
      then (Inl (count_mismatch ''system transactions'' (length (cb_systemTransactions a))
                   ''system result'' (length (cb_systemResults a))), s)
      else
        bindE (StoreBlock p k (cb_block a) s) (\<lambda>_ s.
        bindE (if 0 < length (cb_systemTransactions a) \<or> 0 < length (cb_scheduled a)
               then StoreSystemTransactions p k
                      \<lparr>st_BlockID = block_ID p (cb_block a), st_Transactions = cb_systemTransactions a,
                       st_ScheduledTransactionIDs = cb_scheduled a\<rparr> s
               else (Inr (), s)) (\<lambda>_ s.
        bindE (for_each (InsertCollection p k) (cb_collections a) s) (\<lambda>_ s.
        bindE (for_each (\<lambda>(i, tx). InsertTransaction p k tx i) (cb_transactions a) s) (\<lambda>_ s.
        bindE (for_each (\<lambda>(i, r). InsertTransactionResult p k i r) (cb_results a) s) (\<lambda>_ s.
        bindE (for_each (\<lambda>(i, tx). InsertTransaction p k tx i) (cb_systemBodies a) s) (\<lambda>_ s.
        bindE (for_each (\<lambda>(i, r). InsertSystemTransactionResult p k (block_ID p (cb_block a)) i r)
                 (cb_systemResults a) s) (\<lambda>_ s.
        bindE (InsertExecutionSnapshot p k (Height (cb_block a)) (cb_snapshot a) s) (\<lambda>_ s.
        InsertEvents p k (Height (cb_block a)) (cb_events a) s)))))))))"

text \<open>\<^verbatim>\<open>defaultStoreSnapshot.Get\<close> and \<^verbatim>\<open>LedgerByHeight\<close>.\<close>

definition snapshot_Get :: "'x codec_scheme \<Rightarrow> 'd kv_ops \<Rightarrow> u64 \<Rightarrow> 'd default_store \<Rightarrow> storage_snapshot" where
  "snapshot_Get p k blockHeight s r =
     (case GetBytesAtVersion k LedgerStoreName (register_key p r) blockHeight (Data s) of
        Inl e \<Rightarrow> if is_ErrNotFound e then Inr [] else Inl e
      | Inr v \<Rightarrow> Inr v)"

definition LedgerByHeight :: "'x codec_scheme \<Rightarrow> 'd kv_ops \<Rightarrow> u64 \<Rightarrow> 'd default_store \<Rightarrow> storage_snapshot result" where
  "LedgerByHeight p k blockHeight s = Inr (snapshot_Get p k blockHeight s)"

definition default_ops :: "'x codec_scheme \<Rightarrow> 'd kv_ops \<Rightarrow> 'd default_store store_ops" where
  "default_ops p k =
     \<lparr>st_LatestBlockHeight = LatestBlockHeight p k, st_LatestBlock = LatestBlock p k,
      st_StoreBlock = StoreBlock p k, st_StoreSystemTransactions = StoreSystemTransactions p k,
      st_SystemTransactionsForBlockID = SystemTransactionsForBlockID p k,
      st_IndexScheduledTransactionID = IndexScheduledTransactionID k,
      st_BlockIDByScheduledTransactionID = BlockIDByScheduledTransactionID k,
      st_IndexScheduledTransactionBlockID = IndexScheduledTransactionBlockID k,
      st_ScheduledTransactionBlockIDByTxID = ScheduledTransactionBlockIDByTxID k,
      st_BlockByID = BlockByID p k, st_BlockByHeight = BlockByHeight p k,
      st_CommitBlock = CommitBlock p k, st_CollectionByID = CollectionByID p k,
      st_FullCollectionByID = FullCollectionByID p k, st_TransactionByID = TransactionByID p k,
      st_TransactionResultByID = TransactionResultByID p k,
      st_SystemTransactionResultByID = SystemTransactionResultByID p k,
      st_LedgerByHeight = LedgerByHeight p k, st_EventsByHeight = EventsByHeight p k\<rparr>"

section \<open>The contract of the database\<close>

definition default_tables :: "string set" where
  "default_tables = {globalStoreName, BlockIndexStoreName, BlockStoreName, SystemTransactionName,
     CollectionStoreName, TransactionStoreName, TransactionResultStoreName, EventStoreName, LedgerStoreName}"

text \<open>
  \<open>slot d st key (Some v)\<close> says that key \<open>key\<close> of table \<open>st\<close> has been given the
  value \<open>v\<close> and no other, \<open>slot d st key None\<close> that it was never written. A
  database may keep several rows for one key, so a key that was written with two
  different values is in neither state; rewriting the value it has, writing a
  fresh key and writing the \<^verbatim>\<open>global\<close> table are always safe.
\<close>

locale kv_get_set =
  fixes k :: "'d kv_ops"
    and usable :: "'d \<Rightarrow> bool"
    and tables :: "string set"
    and slot :: "'d \<Rightarrow> string \<Rightarrow> bytes \<Rightarrow> bytes option \<Rightarrow> bool"
  assumes get_slot: "usable d \<Longrightarrow> st \<in> tables \<Longrightarrow> slot d st key x \<Longrightarrow> GetBytes k st key d = the_or ErrNotFound x"
    and set_slot:
      "usable d \<Longrightarrow> st \<in> tables \<Longrightarrow> unat ht < 2 ^ 63 \<Longrightarrow>
       st = globalStoreName \<or> slot d st key None \<or> slot d st key (Some v) \<Longrightarrow>
       fst (SetBytes k ht st key v d) = Inr () \<and> slot (snd (SetBytes k ht st key v d)) st key (Some v)"
    and set_usable: "usable d \<Longrightarrow> usable (snd (SetBytes k ht st key v d))"
    and set_frame:
      "(st', key') \<noteq> (st, key) \<Longrightarrow> slot (snd (SetBytes k ht st key v d)) st' key' x = slot d st' key' x"

text \<open>
  Versioned keys. \<open>ver_below d st key n\<close> says that every version written under the
  key is less than \<open>n\<close>; writing a version above all earlier ones makes it the
  answer to every read at or after that version and keeps the older answers.
\<close>

locale kv_store = kv_get_set +
  fixes ver_below :: "'a \<Rightarrow> string \<Rightarrow> bytes \<Rightarrow> nat \<Rightarrow> bool"
  assumes setv:
      "usable d \<Longrightarrow> st \<in> tables \<Longrightarrow> unat ht < 2 ^ 63 \<Longrightarrow> unat ver < 2 ^ 63 \<Longrightarrow> ver_below d st key (unat ver) \<Longrightarrow>
       fst (SetBytesWithVersion k ht st key v ver d) = Inr () \<and>
       ver_below (snd (SetBytesWithVersion k ht st key v ver d)) st key (Suc (unat ver))"
    and getv:
      "usable d \<Longrightarrow> st \<in> tables \<Longrightarrow> unat ht < 2 ^ 63 \<Longrightarrow> unat ver < 2 ^ 63 \<Longrightarrow> unat n < 2 ^ 63 \<Longrightarrow>
       ver_below d st key (unat ver) \<Longrightarrow>
       GetBytesAtVersion k st key n (snd (SetBytesWithVersion k ht st key v ver d)) =
         (if ver \<le> n then Inr v else GetBytesAtVersion k st key n d)"
    and setv_usable: "usable d \<Longrightarrow> usable (snd (SetBytesWithVersion k ht st key v ver d))"
    and setv_frame:
      "(st', key') \<noteq> (st, key) \<Longrightarrow> slot (snd (SetBytesWithVersion k ht st key v ver d)) st' key' x = slot d st' key' x"
    and setv_frame_v:
      "(st', key') \<noteq> (st, key) \<Longrightarrow>
       GetBytesAtVersion k st' key' n (snd (SetBytesWithVersion k ht st key v ver d)) = GetBytesAtVersion k st' key' n d \<and>
       ver_below (snd (SetBytesWithVersion k ht st key v ver d)) st' key' m = ver_below d st' key' m"
    and set_frame_v:
      "(st', key') \<noteq> (st, key) \<Longrightarrow>
       GetBytesAtVersion k st' key' n (snd (SetBytes k ht st key v d)) = GetBytesAtVersion k st' key' n d \<and>
       ver_below (snd (SetBytes k ht st key v d)) st' key' m = ver_below d st' key' m"
    and tables_default: "default_tables \<subseteq> tables"
    and ver_below_mono: "ver_below d st key m \<Longrightarrow> m \<le> m' \<Longrightarrow> ver_below d st key m'"
    and set_ok: "usable d \<Longrightarrow> st \<in> tables \<Longrightarrow> unat ht < 2 ^ 63 \<Longrightarrow> fst (SetBytes k ht st key v d) = Inr ()"
    and tables_scheduled: "{ScheduledIndexName, ScheduledBlockIndexName} \<subseteq> tables"

section \<open>Keys do not collide\<close>

lemma Key_BlockHeight_inject [simp]: "Key_BlockHeight m = Key_BlockHeight n \<longleftrightarrow> m = n"
  by (simp add: Key_BlockHeight_def word_unat_eq_iff)

lemma Key_Identifier_inject [simp]: "Key_Identifier i = Key_Identifier j \<longleftrightarrow> i = j"
  by (simp add: Key_Identifier_def)

lemma Key_ScheduledTransactionID_inject [simp]:
  "Key_ScheduledTransactionID m = Key_ScheduledTransactionID n \<longleftrightarrow> m = n"
  by (simp add: Key_ScheduledTransactionID_def word_unat_eq_iff)

lemma Key_SystemTransactionResult_inject [simp]:
  "Key_SystemTransactionResult b i = Key_SystemTransactionResult c j \<longleftrightarrow> b = c \<and> i = j"
  by (simp add: Key_SystemTransactionResult_def)

lemma Key_system_not_id [simp]:
  "Key_SystemTransactionResult b i \<noteq> Key_Identifier j" "Key_Identifier j \<noteq> Key_SystemTransactionResult b i"
proof -
  have "length (Key_SystemTransactionResult b i) \<noteq> length (Key_Identifier j)"
    by (simp add: Key_SystemTransactionResult_def Key_Identifier_def bytes_of_string_def)
  then show "Key_SystemTransactionResult b i \<noteq> Key_Identifier j" "Key_Identifier j \<noteq> Key_SystemTransactionResult b i"
    by auto
qed

lemma register_key_inject: "inj (register_String p) \<Longrightarrow> register_key p r = register_key p q \<longleftrightarrow> r = q"
  by (simp add: register_key_def inj_eq)

end
