(* ===== verification/Default_Refinement.thy ===== *)
theory Default_Refinement
  imports Default_Store
begin

text \<open>
  \<^verbatim>\<open>DefaultStore\<close> over any database that meets \<^verbatim>\<open>kv_store\<close> is a
  \<^verbatim>\<open>chain_store\<close>.

  A commit is first shown to be a list of plain writes, then the versioned
  register writes, then the write of the events; the effect of each phase on what
  the database holds gives the representation relation of the longer history. The
  theory ends with the sublocale declaration.
\<close>

section \<open>A commit is a list of writes\<close>

text \<open>Plain writes as data: table, key and value.\<close>

type_synonym kv_write = "(string \<times> bytes) \<times> bytes"

definition put :: "'d kv_ops \<Rightarrow> kv_write \<Rightarrow> 'd default_store \<Rightarrow> unit result \<times> 'd default_store" where
  "put k w = ds_Set k (fst (fst w)) (snd (fst w)) (snd w)"

definition enc_val :: "('x \<Rightarrow> bytes result) \<Rightarrow> 'x \<Rightarrow> bytes" where
  "enc_val enc x = (case enc x of Inl _ \<Rightarrow> [] | Inr v \<Rightarrow> v)"

text \<open>The value \<open>x\<close> survives being encoded and decoded.\<close>

definition rt :: "('x \<Rightarrow> bytes result) \<Rightarrow> (bytes \<Rightarrow> 'x result) \<Rightarrow> 'x \<Rightarrow> bool" where
  "rt enc dec x \<longleftrightarrow> (\<exists>v. enc x = Inr v \<and> dec v = Inr x)"

definition default_admits :: "'x codec_scheme \<Rightarrow> commit_args \<Rightarrow> bool" where
  "default_admits p a \<longleftrightarrow>
     rt (encodeBlock p) (decodeBlock p) (cb_block a) \<and>
     rt (encodeSystemTransaction p) (decodeSystemTransaction p) (SystemTransactions_of p a) \<and>
     (\<forall>c \<in> set (cb_collections a). rt (encodeCollection p) (decodeCollection p) c) \<and>
     (\<forall>(i, t) \<in> set (bodies_of a). rt (encodeTransaction p) (decodeTransaction p) t) \<and>
     (\<forall>(i, r) \<in> set (cb_results a @ cb_systemResults a).
        rt (encodeTransactionResult p) (decodeTransactionResult p) r) \<and>
     rt (encodeEvents p) (decodeEvents p) (cb_events a)"

definition block_writes :: "'x codec_scheme \<Rightarrow> block \<Rightarrow> kv_write list" where
  "block_writes p b =
     [((BlockStoreName, Key_BlockHeight (Height b)), enc_val (encodeBlock p) b),
      ((BlockIndexStoreName, Key_Identifier (block_ID p b)), enc_val (encodeUint64 p) (Height b)),
      ((globalStoreName, Key_LatestBlock), enc_val (encodeUint64 p) (Height b))]"

definition system_writes :: "'x codec_scheme \<Rightarrow> commit_args \<Rightarrow> kv_write list" where
  "system_writes p a =
     (if has_system a
      then [((SystemTransactionName, Key_Identifier (block_ID p (cb_block a))),
              enc_val (encodeSystemTransaction p) (SystemTransactions_of p a))] else [])"

definition collection_writes :: "'x codec_scheme \<Rightarrow> flow_id list list \<Rightarrow> kv_write list" where
  "collection_writes p = map (\<lambda>c. ((CollectionStoreName, Key_Identifier (col_ID p c)), enc_val (encodeCollection p) c))"

definition tx_writes :: "'x codec_scheme \<Rightarrow> (flow_id \<times> transaction_body) list \<Rightarrow> kv_write list" where
  "tx_writes p = map (\<lambda>(i, t). ((TransactionStoreName, Key_Identifier i), enc_val (encodeTransaction p) t))"

definition result_writes :: "'x codec_scheme \<Rightarrow> (flow_id \<times> StorableTransactionResult) list \<Rightarrow> kv_write list" where
  "result_writes p = map (\<lambda>(i, r). ((TransactionResultStoreName, Key_Identifier i), enc_val (encodeTransactionResult p) r))"

definition system_result_writes ::
  "'x codec_scheme \<Rightarrow> flow_id \<Rightarrow> (flow_id \<times> StorableTransactionResult) list \<Rightarrow> kv_write list" where
  "system_result_writes p b =
     map (\<lambda>(i, r). ((TransactionResultStoreName, Key_SystemTransactionResult b i), enc_val (encodeTransactionResult p) r))"

definition event_writes :: "'x codec_scheme \<Rightarrow> commit_args \<Rightarrow> kv_write list" where
  "event_writes p a =
     [((EventStoreName, Key_BlockHeight (Height (cb_block a))), enc_val (encodeEvents p) (cb_events a))]"

definition commit_writes :: "'x codec_scheme \<Rightarrow> commit_args \<Rightarrow> kv_write list" where
  "commit_writes p a =
     block_writes p (cb_block a) @ system_writes p a @ collection_writes p (cb_collections a) @
     tx_writes p (cb_transactions a) @ result_writes p (cb_results a) @ tx_writes p (cb_systemBodies a) @
     system_result_writes p (block_ID p (cb_block a)) (cb_systemResults a)"

lemma rt_enc: "rt enc dec x \<Longrightarrow> enc x = Inr (enc_val enc x)"
  by (auto simp: rt_def enc_val_def)

lemma rt_dec: "rt enc dec x \<Longrightarrow> dec (enc_val enc x) = Inr x"
  by (auto simp: rt_def enc_val_def)

lemma put_simp: "put k ((st, key), v) = ds_Set k st key v"
  by (simp add: put_def)

lemma InsertCollection_puts:
  assumes "\<And>c. c \<in> set cs \<Longrightarrow> rt (encodeCollection p) dec c"
  shows "for_each (InsertCollection p k) cs = for_each (put k) (collection_writes p cs)"
  unfolding collection_writes_def
  by (rule for_each_map) (use rt_enc[OF assms] in \<open>simp add: fun_eq_iff InsertCollection_def put_simp\<close>)

lemma InsertTransaction_puts:
  assumes "\<And>i t. (i, t) \<in> set xs \<Longrightarrow> rt (encodeTransaction p) dec t"
  shows "for_each (\<lambda>(i, t). InsertTransaction p k t i) xs = for_each (put k) (tx_writes p xs)"
  unfolding tx_writes_def
  by (rule for_each_map) (use rt_enc[OF assms] in \<open>auto simp: fun_eq_iff InsertTransaction_def put_simp\<close>)

lemma InsertTransactionResult_puts:
  assumes "\<And>i r. (i, r) \<in> set xs \<Longrightarrow> rt (encodeTransactionResult p) dec r"
  shows "for_each (\<lambda>(i, r). InsertTransactionResult p k i r) xs = for_each (put k) (result_writes p xs)"
  unfolding result_writes_def
  by (rule for_each_map) (use rt_enc[OF assms] in \<open>auto simp: fun_eq_iff InsertTransactionResult_def put_simp\<close>)

lemma InsertSystemTransactionResult_puts:
  assumes "\<And>i r. (i, r) \<in> set xs \<Longrightarrow> rt (encodeTransactionResult p) dec r"
  shows "for_each (\<lambda>(i, r). InsertSystemTransactionResult p k b i r) xs =
    for_each (put k) (system_result_writes p b xs)"
  unfolding system_result_writes_def
  by (rule for_each_map) (use rt_enc[OF assms] in \<open>auto simp: fun_eq_iff InsertSystemTransactionResult_def put_simp\<close>)

text \<open>Reading the latest height never fails with anything but \<^const>\<open>ErrNotFound\<close> and never exceeds the new block.\<close>

definition height_known :: "'x codec_scheme \<Rightarrow> 'd kv_ops \<Rightarrow> 'd default_store \<Rightarrow> u64 \<Rightarrow> bool" where
  "height_known p k s n \<longleftrightarrow>
     (case LatestBlockHeight p k s of Inl e \<Rightarrow> is_ErrNotFound e | Inr m \<Rightarrow> m \<le> n)"

lemma StoreBlock_puts:
  assumes "rt (encodeBlock p) dec b" "rt (encodeUint64 p) dec' (Height b)" "height_known p k s (Height b)"
  shows "StoreBlock p k b s = for_each (put k) (block_writes p b) (s\<lparr>CurrentHeight := Height b\<rparr>)"
proof -
  have "LatestBlockHeight p k (s\<lparr>CurrentHeight := Height b\<rparr>) = LatestBlockHeight p k s"
    by (simp add: LatestBlockHeight_def ds_Get_def)
  then show ?thesis
    using assms(3) rt_enc[OF assms(1)] rt_enc[OF assms(2)]
    by (auto simp: StoreBlock_def block_writes_def mustEncodeUint64_def put_simp height_known_def Let_def
        for_each_fun split: sum.splits)
qed

lemma StoreSystemTransactions_puts:
  assumes "rt (encodeSystemTransaction p) dec (SystemTransactions_of p a)"
  shows "(if has_system a then StoreSystemTransactions p k (SystemTransactions_of p a) s else (Inr (), s)) =
    for_each (put k) (system_writes p a) s"
  using rt_enc[OF assms]
  by (auto simp: system_writes_def StoreSystemTransactions_def put_simp bindE_def split: prod.splits sum.splits)

lemma CommitBlock_puts:
  assumes "wf_commit a" "default_admits p a" "height_known p k s (Height (cb_block a))"
    and u64: "\<And>n. rt (encodeUint64 p) (decodeUint64 p) n"
  shows "CommitBlock p k a s =
    bindE (for_each (put k) (commit_writes p a) (s\<lparr>CurrentHeight := Height (cb_block a)\<rparr>)) (\<lambda>_ s.
    bindE (InsertExecutionSnapshot p k (Height (cb_block a)) (cb_snapshot a) s) (\<lambda>_.
    for_each (put k) (event_writes p a)))"
proof -
  have "InsertEvents p k (Height (cb_block a)) (cb_events a) = for_each (put k) (event_writes p a)"
    using assms(2) rt_enc[of "encodeEvents p" "decodeEvents p" "cb_events a"]
    by (simp add: fun_eq_iff default_admits_def InsertEvents_def event_writes_def put_simp for_each_fun)
  moreover have "(if 0 < length (cb_systemTransactions a) \<or> 0 < length (cb_scheduled a)
      then StoreSystemTransactions p k
        \<lparr>st_BlockID = block_ID p (cb_block a), st_Transactions = cb_systemTransactions a,
         st_ScheduledTransactionIDs = cb_scheduled a\<rparr> s else (Inr (), s)) = for_each (put k) (system_writes p a) s" for s
    using assms(2)
    by (intro StoreSystemTransactions_puts[unfolded has_system_def SystemTransactions_of_def,
          of p "decodeSystemTransaction p" a k]) (simp add: default_admits_def SystemTransactions_of_def)
  moreover have "StoreBlock p k (cb_block a) s =
      for_each (put k) (block_writes p (cb_block a)) (s\<lparr>CurrentHeight := Height (cb_block a)\<rparr>)"
    using assms(2,3) u64 StoreBlock_puts by (metis default_admits_def)
  moreover have
    "for_each (InsertCollection p k) (cb_collections a) = for_each (put k) (collection_writes p (cb_collections a))"
    "for_each (\<lambda>(i, t). InsertTransaction p k t i) (cb_transactions a) = for_each (put k) (tx_writes p (cb_transactions a))"
    "for_each (\<lambda>(i, t). InsertTransaction p k t i) (cb_systemBodies a) = for_each (put k) (tx_writes p (cb_systemBodies a))"
    "for_each (\<lambda>(i, r). InsertTransactionResult p k i r) (cb_results a) = for_each (put k) (result_writes p (cb_results a))"
    "for_each (\<lambda>(i, r). InsertSystemTransactionResult p k (block_ID p (cb_block a)) i r) (cb_systemResults a) =
       for_each (put k) (system_result_writes p (block_ID p (cb_block a)) (cb_systemResults a))"
    using assms(2)
    by (auto simp: default_admits_def bodies_of_def intro!: InsertCollection_puts InsertTransaction_puts
        InsertTransactionResult_puts InsertSystemTransactionResult_puts)
  ultimately show ?thesis
    using assms(1)
    unfolding CommitBlock_def commit_writes_def for_each_append bindE_assoc
    by (simp only: wf_commit_def simp_thms if_False)
qed

section \<open>The store over a database refines the contract\<close>

text \<open>One stored value: nothing under the key, or the encoding of exactly \<open>x\<close>.\<close>

definition agrees ::
  "('d \<Rightarrow> string \<Rightarrow> bytes \<Rightarrow> bytes option \<Rightarrow> bool) \<Rightarrow> 'd \<Rightarrow> string \<Rightarrow> bytes \<Rightarrow>
   ('x \<Rightarrow> bytes result) \<Rightarrow> (bytes \<Rightarrow> 'x result) \<Rightarrow> 'x option \<Rightarrow> bool" where
  "agrees slot d st key enc dec x \<longleftrightarrow>
     slot d st key (map_option (enc_val enc) x) \<and> (\<forall>y. x = Some y \<longrightarrow> rt enc dec y)"

definition default_rep ::
  "'x codec_scheme \<Rightarrow> 'd kv_ops \<Rightarrow> ('d \<Rightarrow> bool) \<Rightarrow> ('d \<Rightarrow> string \<Rightarrow> bytes \<Rightarrow> bytes option \<Rightarrow> bool) \<Rightarrow>
   ('d \<Rightarrow> string \<Rightarrow> bytes \<Rightarrow> nat \<Rightarrow> bool) \<Rightarrow> 'd default_store \<Rightarrow> history \<Rightarrow> bool" where
  "default_rep p k usable slot ver_below s h \<longleftrightarrow>
     (\<forall>n. rt (encodeUint64 p) (decodeUint64 p) n) \<and> inj (register_String p) \<and>
     usable (Data s) \<and> length h < 2 ^ 63 \<and>
     (\<forall>i < length h. Height (cb_block (h ! i)) = of_nat i) \<and>
     agrees slot (Data s) globalStoreName Key_LatestBlock (encodeUint64 p) (decodeUint64 p)
       (if h = [] then None else Some (of_nat (length h - 1))) \<and>
     (\<forall>n. agrees slot (Data s) BlockStoreName (Key_BlockHeight n) (encodeBlock p) (decodeBlock p) (hist_block h n)) \<and>
     (\<forall>i. agrees slot (Data s) BlockIndexStoreName (Key_Identifier i) (encodeUint64 p) (decodeUint64 p)
            (hist_height p h i)) \<and>
     (\<forall>i. agrees slot (Data s) SystemTransactionName (Key_Identifier i) (encodeSystemTransaction p)
            (decodeSystemTransaction p) (hist_system p h i)) \<and>
     (\<forall>i. agrees slot (Data s) CollectionStoreName (Key_Identifier i) (encodeCollection p) (decodeCollection p)
            (hist_collection p h i)) \<and>
     (\<forall>i. agrees slot (Data s) TransactionStoreName (Key_Identifier i) (encodeTransaction p) (decodeTransaction p)
            (hist_transaction h i)) \<and>
     (\<forall>i. agrees slot (Data s) TransactionResultStoreName (Key_Identifier i) (encodeTransactionResult p)
            (decodeTransactionResult p) (hist_result h i)) \<and>
     (\<forall>b i. agrees slot (Data s) TransactionResultStoreName (Key_SystemTransactionResult b i)
            (encodeTransactionResult p) (decodeTransactionResult p) (hist_system_result p h (b, i))) \<and>
     (\<forall>n. agrees slot (Data s) EventStoreName (Key_BlockHeight n) (encodeEvents p) (decodeEvents p)
            (if unat n < length h then Some (hist_events h n) else None)) \<and>
     (\<forall>r. ver_below (Data s) LedgerStoreName (register_key p r) (length h)) \<and>
     (\<forall>r n. unat n < 2 ^ 63 \<longrightarrow> GetBytesAtVersion k LedgerStoreName (register_key p r) n (Data s) =
              the_or ErrNotFound (hist_register h n r)) \<and>
     unat (CurrentHeight s) < 2 ^ 63"

lemma default_repD:
  assumes "default_rep p k usable slot ver_below s h"
  shows "\<And>n. rt (encodeUint64 p) (decodeUint64 p) n" "inj (register_String p)"
    "usable (Data s)" "length h < 2 ^ 63" "\<forall>i < length h. Height (cb_block (h ! i)) = of_nat i"
    "agrees slot (Data s) globalStoreName Key_LatestBlock (encodeUint64 p) (decodeUint64 p)
       (if h = [] then None else Some (of_nat (length h - 1)))"
    "\<And>n. agrees slot (Data s) BlockStoreName (Key_BlockHeight n) (encodeBlock p) (decodeBlock p) (hist_block h n)"
    "\<And>i. agrees slot (Data s) BlockIndexStoreName (Key_Identifier i) (encodeUint64 p) (decodeUint64 p)
            (hist_height p h i)"
    "\<And>i. agrees slot (Data s) SystemTransactionName (Key_Identifier i) (encodeSystemTransaction p)
            (decodeSystemTransaction p) (hist_system p h i)"
    "\<And>i. agrees slot (Data s) CollectionStoreName (Key_Identifier i) (encodeCollection p) (decodeCollection p)
            (hist_collection p h i)"
    "\<And>i. agrees slot (Data s) TransactionStoreName (Key_Identifier i) (encodeTransaction p) (decodeTransaction p)
            (hist_transaction h i)"
    "\<And>i. agrees slot (Data s) TransactionResultStoreName (Key_Identifier i) (encodeTransactionResult p)
            (decodeTransactionResult p) (hist_result h i)"
    "\<And>b i. agrees slot (Data s) TransactionResultStoreName (Key_SystemTransactionResult b i)
            (encodeTransactionResult p) (decodeTransactionResult p) (hist_system_result p h (b, i))"
    "\<And>n. agrees slot (Data s) EventStoreName (Key_BlockHeight n) (encodeEvents p) (decodeEvents p)
            (if unat n < length h then Some (hist_events h n) else None)"
    "\<And>r. ver_below (Data s) LedgerStoreName (register_key p r) (length h)"
    "\<And>r n. unat n < 2 ^ 63 \<Longrightarrow> GetBytesAtVersion k LedgerStoreName (register_key p r) n (Data s) =
              the_or ErrNotFound (hist_register h n r)"
    "unat (CurrentHeight s) < 2 ^ 63"
  using assms[unfolded default_rep_def] by blast+

text \<open>What a history that does not contain a block says about its identifier.\<close>

lemma hist_fresh:
  assumes "may_follow p h a"
  shows "hist_height p h (block_ID p (cb_block a)) = None"
    "hist_system p h (block_ID p (cb_block a)) = None"
    "hist_system_result p h (block_ID p (cb_block a), i) = None"
    "hist_block h (Height (cb_block a)) = None"
  using may_followD(4)[OF assms] unat_height[OF assms]
  by (auto simp: hist_height_def hist_system_def hist_system_result_def system_results_of_def hist_block_def
      map_of_eq_None_iff; blast)+

lemma hist_transaction_mem: "hist_transaction h i = Some t \<Longrightarrow> \<exists>b \<in> set h. (i, t) \<in> set (bodies_of b)"
  by (auto simp: hist_transaction_def dest!: map_of_SomeD)

lemma hist_collection_mem:
  "hist_collection p h i = Some c \<Longrightarrow> col_ID p c = i \<and> (\<exists>b \<in> set h. c \<in> set (cb_collections b))"
  by (auto simp: hist_collection_def dest!: map_of_SomeD)

lemma same_bodiesD:
  "same_bodies a h \<Longrightarrow> (i, t) \<in> set (bodies_of a) \<Longrightarrow> b \<in> set h \<or> b = a \<Longrightarrow> (i, u) \<in> set (bodies_of b) \<Longrightarrow> t = u"
  by (fastforce simp: same_bodies_def)

lemma same_collectionsD:
  "same_collections p a h \<Longrightarrow> c \<in> set (cb_collections a) \<Longrightarrow> b \<in> set h \<or> b = a \<Longrightarrow>
   d \<in> set (cb_collections b) \<Longrightarrow> col_ID p c = col_ID p d \<Longrightarrow> c = d"
  by (fastforce simp: same_collections_def)

lemma tx_writes_append: "tx_writes p (xs @ ys) = tx_writes p xs @ tx_writes p ys"
  by (simp add: tx_writes_def)

lemmas write_defs =
  block_writes_def system_writes_def collection_writes_def tx_writes_def result_writes_def
  system_result_writes_def event_writes_def

text \<open>The table and key of each write, as a case distinction shared by the proofs below.\<close>

lemma commit_writes_cases:
  assumes "w \<in> set (commit_writes p a)"
  obtains (Block) "w = ((BlockStoreName, Key_BlockHeight (Height (cb_block a))), enc_val (encodeBlock p) (cb_block a))"
  | (Index) "w = ((BlockIndexStoreName, Key_Identifier (block_ID p (cb_block a))), enc_val (encodeUint64 p) (Height (cb_block a)))"
  | (Global) "w = ((globalStoreName, Key_LatestBlock), enc_val (encodeUint64 p) (Height (cb_block a)))"
  | (System) "w = ((SystemTransactionName, Key_Identifier (block_ID p (cb_block a))),
       enc_val (encodeSystemTransaction p) (SystemTransactions_of p a))"
  | (Collection) c where "c \<in> set (cb_collections a)"
      "w = ((CollectionStoreName, Key_Identifier (col_ID p c)), enc_val (encodeCollection p) c)"
  | (Transaction) i t where "(i, t) \<in> set (bodies_of a)"
      "w = ((TransactionStoreName, Key_Identifier i), enc_val (encodeTransaction p) t)"
  | (Result) i r where "(i, r) \<in> set (cb_results a)"
      "w = ((TransactionResultStoreName, Key_Identifier i), enc_val (encodeTransactionResult p) r)"
  | (SystemResult) i r where "(i, r) \<in> set (cb_systemResults a)"
      "w = ((TransactionResultStoreName, Key_SystemTransactionResult (block_ID p (cb_block a)) i),
            enc_val (encodeTransactionResult p) r)"
proof -
  consider "w \<in> set (block_writes p (cb_block a))" | "w \<in> set (system_writes p a)"
    | "w \<in> set (collection_writes p (cb_collections a))" | "w \<in> set (tx_writes p (bodies_of a))"
    | "w \<in> set (result_writes p (cb_results a))"
    | "w \<in> set (system_result_writes p (block_ID p (cb_block a)) (cb_systemResults a))"
    using assms by (auto simp: commit_writes_def bodies_of_def tx_writes_append)
  then show thesis
    by cases (auto simp: write_defs split: if_splits intro: that)
qed

lemma commit_writes_consistent:
  assumes "may_follow p h a" "u \<in> set (commit_writes p a)" "w \<in> set (commit_writes p a)" "fst u = fst w"
  shows "snd u = snd w"
proof -
  have d: "distinct (map fst (cb_results a))" "distinct (map fst (cb_systemResults a))"
    using may_followD(3)[OF assms(1)] by (simp_all add: wf_commit_def)
  note same = same_bodiesD[OF may_followD(5)[OF assms(1)], of _ _ a] eq_key_imp_eq_value[OF d(1)]
    eq_key_imp_eq_value[OF d(2)] same_collectionsD[OF may_followD(6)[OF assms(1)], of _ a]
  from assms(2) show ?thesis
  proof (cases rule: commit_writes_cases)
    case (Collection c)
    from assms(3) show ?thesis
      by (cases rule: commit_writes_cases) (use Collection assms(4) same(4) in auto)
  next
    case (Transaction i t)
    from assms(3) show ?thesis
      by (cases rule: commit_writes_cases) (use Transaction assms(4) same(1) in auto)
  next
    case (Result i r)
    from assms(3) show ?thesis
      by (cases rule: commit_writes_cases) (use Result assms(4) same(2) in auto)
  next
    case (SystemResult i r)
    from assms(3) show ?thesis
      by (cases rule: commit_writes_cases) (use SystemResult assms(4) same(3) in auto)
  qed (use assms(3,4) in \<open>auto elim!: commit_writes_cases\<close>)
qed

text \<open>What the writes of a commit leave under each kind of key.\<close>

lemma map_of_other_table: "(\<And>w. w \<in> set ws \<Longrightarrow> fst (fst w) \<noteq> st) \<Longrightarrow> map_of (rev ws) (st, key) = None"
  by (force simp: map_of_eq_None_iff)

lemma map_of_rev_keyed:
  assumes "\<And>x y. kf x = kf y \<longleftrightarrow> x = y"
  shows "map_of (rev (map (\<lambda>(i, t). (kf i, g t)) xs)) (kf i) = map_option g (map_of (rev xs) i)"
  using assms by (induction xs rule: rev_induct) auto

lemma map_of_rev_collections:
  "map_of (rev (collection_writes p cs)) (CollectionStoreName, Key_Identifier i) =
     map_option (enc_val (encodeCollection p)) (map_of (map (\<lambda>c. (col_ID p c, c)) (rev cs)) i)"
  by (induction cs rule: rev_induct) (auto simp: collection_writes_def)

lemma writes_other_table:
  "st \<noteq> CollectionStoreName \<Longrightarrow> map_of (rev (collection_writes p cs)) (st, key) = None"
  "st \<noteq> TransactionStoreName \<Longrightarrow> map_of (rev (tx_writes p xs)) (st, key) = None"
  "st \<noteq> TransactionResultStoreName \<Longrightarrow> map_of (rev (result_writes p rs)) (st, key) = None"
  "st \<noteq> TransactionResultStoreName \<Longrightarrow> map_of (rev (system_result_writes p b rs)) (st, key) = None"
  "st \<noteq> SystemTransactionName \<Longrightarrow> map_of (rev (system_writes p a)) (st, key) = None"
  by (rule map_of_other_table; auto simp: write_defs split: if_splits)+

lemma writes_same_table:
  "map_of (rev (tx_writes p xs)) (TransactionStoreName, Key_Identifier i) =
     map_option (enc_val (encodeTransaction p)) (map_of (rev xs) i)"
  "map_of (rev (result_writes p rs)) (TransactionResultStoreName, Key_Identifier i) =
     map_option (enc_val (encodeTransactionResult p)) (map_of (rev rs) i)"
  "map_of (rev (result_writes p rs)) (TransactionResultStoreName, Key_SystemTransactionResult b i) = None"
  "map_of (rev (system_result_writes p b rs)) (TransactionResultStoreName, Key_Identifier i) = None"
  by (induction xs rule: rev_induct; auto simp: tx_writes_def)
     (induction rs rule: rev_induct; auto simp: write_defs)+

lemma writes_same_system:
  "map_of (rev (system_result_writes p (block_ID p (cb_block a)) (cb_systemResults a)))
     (TransactionResultStoreName, Key_SystemTransactionResult b i) =
   map_option (enc_val (encodeTransactionResult p)) (map_of (rev (system_results_of p a)) (b, i))"
proof -
  have "map_of (rev (system_result_writes p c rs)) (TransactionResultStoreName, Key_SystemTransactionResult b i) =
      map_option (enc_val (encodeTransactionResult p)) (map_of (rev (map (\<lambda>(i, r). ((c, i), r)) rs)) (b, i))" for c rs
    by (induction rs rule: rev_induct) (auto simp: system_result_writes_def)
  then show ?thesis by (simp add: system_results_of_def)
qed

lemma map_add_if: "(m ++ n) x = (if n x = None then m x else n x)"
  by (simp add: map_add_def split: option.split)

lemma commit_lookup:
  "map_of (rev (commit_writes p a)) (globalStoreName, Key_LatestBlock) =
     Some (enc_val (encodeUint64 p) (Height (cb_block a)))"
  "map_of (rev (commit_writes p a)) (BlockStoreName, Key_BlockHeight n) =
     (if n = Height (cb_block a) then Some (enc_val (encodeBlock p) (cb_block a)) else None)"
  "map_of (rev (commit_writes p a)) (BlockIndexStoreName, Key_Identifier i) =
     (if i = block_ID p (cb_block a) then Some (enc_val (encodeUint64 p) (Height (cb_block a))) else None)"
  "map_of (rev (commit_writes p a)) (SystemTransactionName, Key_Identifier i) =
     (if has_system a \<and> i = block_ID p (cb_block a)
      then Some (enc_val (encodeSystemTransaction p) (SystemTransactions_of p a)) else None)"
  "map_of (rev (commit_writes p a)) (CollectionStoreName, Key_Identifier i) =
     map_option (enc_val (encodeCollection p)) (map_of (map (\<lambda>c. (col_ID p c, c)) (rev (cb_collections a))) i)"
  "map_of (rev (commit_writes p a)) (TransactionStoreName, Key_Identifier i) =
     map_option (enc_val (encodeTransaction p)) (map_of (rev (bodies_of a)) i)"
  "map_of (rev (commit_writes p a)) (TransactionResultStoreName, Key_Identifier i) =
     map_option (enc_val (encodeTransactionResult p)) (map_of (rev (cb_results a)) i)"
  "map_of (rev (commit_writes p a)) (TransactionResultStoreName, Key_SystemTransactionResult b i) =
     map_option (enc_val (encodeTransactionResult p)) (map_of (rev (system_results_of p a)) (b, i))"
  "map_of (rev (commit_writes p a)) (EventStoreName, key) = None"
  "map_of (rev (commit_writes p a)) (LedgerStoreName, key) = None"
  by (simp_all add: commit_writes_def map_add_if writes_other_table writes_same_table writes_same_system
      map_of_rev_collections block_writes_def)
     (simp_all add: system_writes_def bodies_of_def map_add_if)

context kv_store
begin

lemmas put_frames = set_frame set_frame_v

text \<open>The effect of a list of plain writes on what the database holds.\<close>

definition effect :: "'a \<Rightarrow> 'a \<Rightarrow> (string \<times> bytes \<rightharpoonup> bytes) \<Rightarrow> bool" where
  "effect d d' W \<longleftrightarrow> usable d' \<and>
     (\<forall>st key v. W (st, key) = Some v \<longrightarrow> slot d' st key (Some v)) \<and>
     (\<forall>st key. W (st, key) = None \<longrightarrow>
        (\<forall>x. slot d' st key x = slot d st key x) \<and>
        (\<forall>n. GetBytesAtVersion k st key n d' = GetBytesAtVersion k st key n d) \<and>
        (\<forall>n. ver_below d' st key n = ver_below d st key n))"

definition fits :: "'a \<Rightarrow> kv_write \<Rightarrow> bool" where
  "fits d w \<longleftrightarrow> fst (fst w) \<in> tables \<and>
     (fst (fst w) = globalStoreName \<or> slot d (fst (fst w)) (snd (fst w)) None \<or>
      slot d (fst (fst w)) (snd (fst w)) (Some (snd w)))"

lemma put_effect:
  assumes "usable (Data s)" "unat (CurrentHeight s) < 2 ^ 63" "fits (Data s) w"
  shows "\<exists>d'. put k w s = (Inr (), s\<lparr>Data := d'\<rparr>) \<and> effect (Data s) d' [fst w \<mapsto> snd w]"
proof -
  obtain st key v where w: "w = ((st, key), v)" by (cases w) auto
  let ?r = "SetBytes k (CurrentHeight s) st key v (Data s)"
  have "put k w s = (fst ?r, s\<lparr>Data := snd ?r\<rparr>)"
    by (simp add: w put_simp ds_Set_def split: prod.split)
  moreover have "fst ?r = Inr () \<and> slot (snd ?r) st key (Some v)"
    using set_slot assms w by (auto simp: fits_def)
  moreover have "effect (Data s) (snd ?r) [(st, key) \<mapsto> v]"
    using set_usable assms(1) calculation(2) put_frames by (auto simp: effect_def)
  ultimately show ?thesis using w by auto
qed

lemma effect_trans: "effect d d' W \<Longrightarrow> effect d' d'' W' \<Longrightarrow> effect d d'' (W ++ W')"
  by (fastforce simp: effect_def map_add_def split: option.splits)

lemma effect_refl: "usable d \<Longrightarrow> effect d d Map.empty"
  by (simp add: effect_def)

lemma puts_effect:
  assumes "usable (Data s)" "unat (CurrentHeight s) < 2 ^ 63" "\<And>w. w \<in> set ws \<Longrightarrow> fits (Data s) w"
    and "\<And>u w. u \<in> set ws \<Longrightarrow> w \<in> set ws \<Longrightarrow> fst u = fst w \<Longrightarrow> snd u = snd w"
  shows "\<exists>d'. for_each (put k) ws s = (Inr (), s\<lparr>Data := d'\<rparr>) \<and> effect (Data s) d' (map_of (rev ws))"
  using assms
proof (induction ws arbitrary: s)
  case Nil
  then show ?case by (intro exI[of _ "Data s"]) (simp add: effect_refl)
next
  case (Cons w ws)
  obtain d' where d': "put k w s = (Inr (), s\<lparr>Data := d'\<rparr>)" "effect (Data s) d' [fst w \<mapsto> snd w]"
    using put_effect[of s w] Cons.prems by auto
  have "fits d' u" if u: "u \<in> set ws" for u
  proof (cases "fst u = fst w")
    case True
    then have "snd u = snd w" using Cons.prems(4)[of u w] u by simp
    then show ?thesis using True d'(2) Cons.prems(3)[of u] u
      by (cases u; cases "fst u") (auto simp: fits_def effect_def)
  next
    case False
    then show ?thesis using d'(2) Cons.prems(3)[of u] u
      by (cases u; cases "fst u"; cases w; cases "fst w") (auto simp: fits_def effect_def)
  qed
  then obtain d'' where "for_each (put k) ws (s\<lparr>Data := d'\<rparr>) = (Inr (), s\<lparr>Data := d''\<rparr>)"
    "effect d' d'' (map_of (rev ws))"
    using Cons.IH[of "s\<lparr>Data := d'\<rparr>"] Cons.prems d'(2) by (auto simp: effect_def)
  then show ?case using d' effect_trans
    by (intro exI[of _ d'']) (fastforce simp: map_of_append)
qed

text \<open>The effect of writing the registers \<open>ws\<close> at version \<open>ver\<close>.\<close>

definition reg_effect ::
  "'h hashes_scheme \<Rightarrow> u64 \<Rightarrow> (register_id \<times> bytes) list \<Rightarrow> 'a \<Rightarrow> 'a \<Rightarrow> bool" where
  "reg_effect p ver ws d d' \<longleftrightarrow> usable d' \<and>
     (\<forall>st key x. st \<noteq> LedgerStoreName \<longrightarrow> slot d' st key x = slot d st key x) \<and>
     (\<forall>r m. r \<notin> fst ` set ws \<longrightarrow>
        ver_below d' LedgerStoreName (register_key p r) m = ver_below d LedgerStoreName (register_key p r) m) \<and>
     (\<forall>r \<in> fst ` set ws. ver_below d' LedgerStoreName (register_key p r) (Suc (unat ver))) \<and>
     (\<forall>r n. unat n < 2 ^ 63 \<longrightarrow> GetBytesAtVersion k LedgerStoreName (register_key p r) n d' =
        (if ver \<le> n \<and> map_of ws r \<noteq> None then Inr (the (map_of ws r))
         else GetBytesAtVersion k LedgerStoreName (register_key p r) n d))"

lemma register_step:
  assumes "usable (Data s)" "unat (CurrentHeight s) < 2 ^ 63" "unat ver < 2 ^ 63" "inj (register_String p)"
    and "ver_below (Data s) LedgerStoreName (register_key p r) (unat ver)"
  shows "\<exists>d'. ds_SetVersion k LedgerStoreName (register_key p r) v ver s = (Inr (), s\<lparr>Data := d'\<rparr>) \<and>
    reg_effect p ver [(r, v)] (Data s) d'"
proof -
  have led: "LedgerStoreName \<in> tables" using tables_default by (auto simp: default_tables_def)
  let ?x = "SetBytesWithVersion k (CurrentHeight s) LedgerStoreName (register_key p r) v ver (Data s)"
  have "fst ?x = Inr ()" using setv[OF assms(1) led assms(2,3,5)] by simp
  then have "ds_SetVersion k LedgerStoreName (register_key p r) v ver s = (Inr (), s\<lparr>Data := snd ?x\<rparr>)"
    by (cases ?x) (simp add: ds_SetVersion_def)
  moreover have "reg_effect p ver [(r, v)] (Data s) (snd ?x)"
    unfolding reg_effect_def
    using setv[OF assms(1) led assms(2,3,5)] getv[OF assms(1) led assms(2,3) _ assms(5)]
      setv_usable[OF assms(1)] setv_frame setv_frame_v
    by (simp add: register_key_inject[OF assms(4)])
  ultimately show ?thesis by blast
qed

lemma reg_effect_Cons:
  assumes "reg_effect p ver [(r, v)] d d'" "reg_effect p ver ws d' d''" "r \<notin> fst ` set ws"
  shows "reg_effect p ver ((r, v) # ws) d d''"
proof -
  have "map_of ws r = None" using assms(3) by (simp add: map_of_eq_None_iff)
  then show ?thesis using assms unfolding reg_effect_def by auto
qed

lemma snapshot_effect:
  assumes "usable (Data s)" "unat (CurrentHeight s) < 2 ^ 63" "unat ver < 2 ^ 63" "inj (register_String p)"
    and "distinct (map fst ws)"
    and "\<And>r. r \<in> fst ` set ws \<Longrightarrow> ver_below (Data s) LedgerStoreName (register_key p r) (unat ver)"
  shows "\<exists>d'. for_each (\<lambda>(r, v). ds_SetVersion k LedgerStoreName (register_key p r) v ver) ws s =
        (Inr (), s\<lparr>Data := d'\<rparr>) \<and> reg_effect p ver ws (Data s) d'"
  using assms
proof (induction ws arbitrary: s)
  case Nil
  then show ?case by (intro exI[of _ "Data s"]) (simp add: reg_effect_def)
next
  case (Cons w ws)
  obtain r v where w: "w = (r, v)" by force
  have r: "r \<notin> fst ` set ws" using Cons.prems(5) w by auto
  obtain d' where d': "ds_SetVersion k LedgerStoreName (register_key p r) v ver s = (Inr (), s\<lparr>Data := d'\<rparr>)"
      "reg_effect p ver [(r, v)] (Data s) d'"
    using register_step[OF Cons.prems(1-4), of r v] Cons.prems(6)[of r] w by auto
  have "ver_below d' LedgerStoreName (register_key p q) (unat ver)" if "q \<in> fst ` set ws" for q
  proof -
    have "q \<noteq> r" using r that by blast
    then show ?thesis using d'(2) Cons.prems(6)[of q] that by (auto simp: reg_effect_def)
  qed
  then obtain d'' where "for_each (\<lambda>(r, v). ds_SetVersion k LedgerStoreName (register_key p r) v ver) ws
      (s\<lparr>Data := d'\<rparr>) = (Inr (), s\<lparr>Data := d''\<rparr>)" "reg_effect p ver ws d' d''"
    using Cons.IH[of "s\<lparr>Data := d'\<rparr>"] Cons.prems(2-5) d'(2) by (auto simp: reg_effect_def)
  then show ?case using d' reg_effect_Cons[OF d'(2) _ r] w by (intro exI[of _ d'']) simp
qed

lemma agrees_None: "agrees slot d st key enc dec None \<longleftrightarrow> slot d st key None"
  by (simp add: agrees_def)

lemma agrees_Some: "agrees slot d st key enc dec (Some x) \<longleftrightarrow> slot d st key (Some (enc_val enc x)) \<and> rt enc dec x"
  by (simp add: agrees_def)

lemma agrees_get:
  assumes "usable d" "st \<in> default_tables" "agrees slot d st key enc dec x"
  shows "bindR (GetBytes k st key d) dec = the_or ErrNotFound x"
proof -
  have "GetBytes k st key d = the_or ErrNotFound (map_option (enc_val enc) x)"
    using get_slot[OF assms(1)] assms(2,3) tables_default by (auto simp: agrees_def)
  then show ?thesis using assms(3) by (cases x) (auto simp: agrees_def rt_dec)
qed

lemma agrees_effect:
  assumes "agrees slot d st key enc dec x" "effect d d' W" "W (st, key) = map_option (enc_val enc) y"
    and "\<And>z. y = Some z \<Longrightarrow> rt enc dec z"
  shows "agrees slot d' st key enc dec (if y = None then x else y)"
  using assms by (cases y) (auto simp: agrees_def effect_def)

lemma fits_commit:
  assumes rep: "default_rep p k usable slot ver_below s h" and a: "may_follow p h a"
    and w: "w \<in> set (commit_writes p a)"
  shows "fits (Data s) w"
proof -
  note fresh = hist_fresh[OF a] and D = default_repD[OF rep]
  have tabs: "{BlockIndexStoreName, BlockStoreName, SystemTransactionName, CollectionStoreName,
      TransactionStoreName, TransactionResultStoreName, globalStoreName} \<subseteq> tables"
    using tables_default by (auto simp: default_tables_def)
  from w show ?thesis
  proof (cases rule: commit_writes_cases)
    case Block
    then show ?thesis using D(7)[of "Height (cb_block a)"] fresh(4) tabs by (simp add: fits_def agrees_None)
  next
    case Index
    then show ?thesis using D(8)[of "block_ID p (cb_block a)"] fresh(1) tabs by (simp add: fits_def agrees_None)
  next
    case Global then show ?thesis using tabs by (simp add: fits_def)
  next
    case System
    then show ?thesis using D(9)[of "block_ID p (cb_block a)"] fresh(2) tabs by (simp add: fits_def agrees_None)
  next
    case (Collection c)
    have "hist_collection p h (col_ID p c) = None \<or> hist_collection p h (col_ID p c) = Some c"
      using hist_collection_mem[of p h "col_ID p c"]
        same_collectionsD[OF may_followD(6)[OF a] Collection(1)] by (metis option.exhaust)
    then show ?thesis
      using D(10)[of "col_ID p c"] tabs Collection by (auto simp: fits_def agrees_None agrees_Some)
  next
    case (Transaction i t)
    have "hist_transaction h i = None \<or> hist_transaction h i = Some t"
      using hist_transaction_mem[of h i] same_bodiesD[OF may_followD(5)[OF a] Transaction(1)]
      by (metis option.exhaust)
    then show ?thesis
      using D(11)[of i] tabs Transaction by (auto simp: fits_def agrees_None agrees_Some)
  next
    case (Result i r)
    have "hist_result h i = None" using may_followD(7)[OF a, of i] Result(1) by force
    then show ?thesis using D(12)[of i] Result tabs by (simp add: fits_def agrees_None)
  next
    case (SystemResult i r)
    then show ?thesis using D(13)[of "block_ID p (cb_block a)" i] fresh(3) tabs by (simp add: fits_def agrees_None)
  qed
qed

lemma default_latest_height:
  assumes "default_rep p k usable slot ver_below s h"
  shows "LatestBlockHeight p k s = the_or ErrNotFound (if h = [] then None else Some (of_nat (length h - 1)))"
  using agrees_get[OF default_repD(3)[OF assms] _ default_repD(6)[OF assms]]
  by (simp add: LatestBlockHeight_def ds_Get_def default_tables_def)

lemma height_known_rep:
  assumes rep: "default_rep p k usable slot ver_below s h" and a: "may_follow p h a"
  shows "height_known p k s (Height (cb_block a))"
proof -
  have "unat (of_nat (length h - 1) :: u64) = length h - 1"
    using default_repD(4)[OF rep] by (intro unat_of_nat_less) simp
  then show ?thesis
    using default_latest_height[OF rep] unat_height[OF a] by (simp add: height_known_def word_le_nat_alt)
qed

lemma commit_phases:
  assumes rep: "default_rep p k usable slot ver_below s h" and a: "may_follow p h a" and ad: "default_admits p a"
  shows "\<exists>d1 d2 d3. CommitBlock p k a s = (Inr (), s\<lparr>CurrentHeight := Height (cb_block a), Data := d3\<rparr>) \<and>
    effect (Data s) d1 (map_of (rev (commit_writes p a))) \<and>
    reg_effect p (Height (cb_block a)) (WriteSet (cb_snapshot a)) d1 d2 \<and>
    effect d2 d3 (map_of (rev (event_writes p a)))"
proof -
  note D = default_repD[OF rep] and H = unat_height[OF a]
  let ?H = "Height (cb_block a)" and ?s = "s\<lparr>CurrentHeight := Height (cb_block a)\<rparr>"
  have ht: "unat ?H < 2 ^ 63" using H D(4) by simp
  have "\<exists>d'. for_each (put k) (commit_writes p a) ?s = (Inr (), ?s\<lparr>Data := d'\<rparr>) \<and>
      effect (Data ?s) d' (map_of (rev (commit_writes p a)))"
  proof (rule puts_effect)
    show "snd u = snd w" if "u \<in> set (commit_writes p a)" "w \<in> set (commit_writes p a)" "fst u = fst w" for u w
      by (rule commit_writes_consistent[OF a that])
  qed (use D(3) ht fits_commit[OF rep a] in simp_all)
  then obtain d1 where d1: "for_each (put k) (commit_writes p a) ?s = (Inr (), ?s\<lparr>Data := d1\<rparr>)"
      "effect (Data s) d1 (map_of (rev (commit_writes p a)))" by auto
  have led: "ver_below d1 LedgerStoreName (register_key p r) (unat ?H)" for r
    using d1(2) D(15)[of r] H by (simp add: effect_def commit_lookup(10))
  have "usable d1" "distinct (map fst (WriteSet (cb_snapshot a)))"
    using d1(2) may_followD(3)[OF a] by (simp_all add: effect_def wf_commit_def)
  then obtain d2 where d2: "InsertExecutionSnapshot p k ?H (cb_snapshot a) (?s\<lparr>Data := d1\<rparr>) = (Inr (), ?s\<lparr>Data := d2\<rparr>)"
      "reg_effect p ?H (WriteSet (cb_snapshot a)) d1 d2"
    using snapshot_effect[of "?s\<lparr>Data := d1\<rparr>" ?H p "WriteSet (cb_snapshot a)"] ht D(2) led
    by (auto simp: InsertExecutionSnapshot_def)
  have "slot d2 EventStoreName (Key_BlockHeight ?H) None"
    using D(14)[of ?H] H d1(2) d2(2) by (simp add: agrees_None reg_effect_def effect_def commit_lookup(9))
  then have "fits d2 w" if "w \<in> set (event_writes p a)" for w
    using that tables_default by (auto simp: event_writes_def fits_def default_tables_def)
  moreover have "usable d2" using d2(2) by (simp add: reg_effect_def)
  moreover have "u = w" if "u \<in> set (event_writes p a)" "w \<in> set (event_writes p a)" for u w
    using that by (simp add: event_writes_def)
  ultimately obtain d3 where "for_each (put k) (event_writes p a) (?s\<lparr>Data := d2\<rparr>) = (Inr (), ?s\<lparr>Data := d3\<rparr>)"
      "effect d2 d3 (map_of (rev (event_writes p a)))"
    using puts_effect[of "?s\<lparr>Data := d2\<rparr>" "event_writes p a"] ht by auto
  moreover have "CommitBlock p k a s = bindE (for_each (put k) (commit_writes p a) ?s) (\<lambda>_ s.
      bindE (InsertExecutionSnapshot p k ?H (cb_snapshot a) s) (\<lambda>_. for_each (put k) (event_writes p a)))"
    by (rule CommitBlock_puts[OF may_followD(3)[OF a] ad height_known_rep[OF rep a] D(1)])
  ultimately show ?thesis using d1 d2 by (intro exI[of _ d1] exI[of _ d2] exI[of _ d3]) simp
qed

text \<open>A key outside the ledger keeps through the last two phases what the first gave it.\<close>

lemma agrees_later_phases:
  assumes "agrees slot d1 st key enc dec x" "reg_effect p ver ws d1 d2" "effect d2 d3 (map_of (rev (event_writes p a)))"
    and "st \<noteq> LedgerStoreName" "st \<noteq> EventStoreName"
  shows "agrees slot d3 st key enc dec x"
  using assms by (auto simp: agrees_def reg_effect_def effect_def event_writes_def)

lemma admits_bodies: "default_admits p a \<Longrightarrow> map_of (rev (bodies_of a)) i = Some t \<Longrightarrow>
    rt (encodeTransaction p) (decodeTransaction p) t"
  by (auto simp: default_admits_def dest!: map_of_SomeD)

lemma admits_results: "default_admits p a \<Longrightarrow> map_of (rev (cb_results a)) i = Some r \<Longrightarrow>
    rt (encodeTransactionResult p) (decodeTransactionResult p) r"
  by (auto simp: default_admits_def dest!: map_of_SomeD)

lemma admits_system_results: "default_admits p a \<Longrightarrow> map_of (rev (system_results_of p a)) (b, i) = Some r \<Longrightarrow>
    rt (encodeTransactionResult p) (decodeTransactionResult p) r"
  by (auto simp: default_admits_def system_results_of_def dest!: map_of_SomeD)

lemma admits_collections: "default_admits p a \<Longrightarrow>
    map_of (map (\<lambda>c. (col_ID p c, c)) (rev (cb_collections a))) i = Some c \<Longrightarrow>
    rt (encodeCollection p) (decodeCollection p) c"
  by (auto simp: default_admits_def dest!: map_of_SomeD)

lemmas admitsD = admits_bodies admits_results admits_system_results admits_collections

lemma tables_after_commit:
  assumes rep: "default_rep p k usable slot ver_below s h" and a: "may_follow p h a" and ad: "default_admits p a"
    and e: "effect (Data s) d1 (map_of (rev (commit_writes p a)))"
  shows "agrees slot d1 globalStoreName Key_LatestBlock (encodeUint64 p) (decodeUint64 p) (Some (of_nat (length h)))"
    "agrees slot d1 BlockStoreName (Key_BlockHeight n) (encodeBlock p) (decodeBlock p) (hist_block (h @ [a]) n)"
    "agrees slot d1 BlockIndexStoreName (Key_Identifier i) (encodeUint64 p) (decodeUint64 p) (hist_height p (h @ [a]) i)"
    "agrees slot d1 SystemTransactionName (Key_Identifier i) (encodeSystemTransaction p) (decodeSystemTransaction p)
       (hist_system p (h @ [a]) i)"
    "agrees slot d1 CollectionStoreName (Key_Identifier i) (encodeCollection p) (decodeCollection p)
       (hist_collection p (h @ [a]) i)"
    "agrees slot d1 TransactionStoreName (Key_Identifier i) (encodeTransaction p) (decodeTransaction p)
       (hist_transaction (h @ [a]) i)"
    "agrees slot d1 TransactionResultStoreName (Key_Identifier i) (encodeTransactionResult p)
       (decodeTransactionResult p) (hist_result (h @ [a]) i)"
    "agrees slot d1 TransactionResultStoreName (Key_SystemTransactionResult b i) (encodeTransactionResult p)
       (decodeTransactionResult p) (hist_system_result p (h @ [a]) (b, i))"
proof -
  note D = default_repD[OF rep]
  have H: "Height (cb_block a) = of_nat (length h)" by (rule may_followD(1)[OF a])
  have ad': "rt (encodeBlock p) (decodeBlock p) (cb_block a)"
    "rt (encodeSystemTransaction p) (decodeSystemTransaction p) (SystemTransactions_of p a)"
    using ad by (simp_all add: default_admits_def)
  show "agrees slot d1 globalStoreName Key_LatestBlock (encodeUint64 p) (decodeUint64 p) (Some (of_nat (length h)))"
    using agrees_effect[OF D(6) e, of "Some (of_nat (length h))"] D(1) H by (simp add: commit_lookup)
  show "agrees slot d1 BlockStoreName (Key_BlockHeight n) (encodeBlock p) (decodeBlock p) (hist_block (h @ [a]) n)"
    using agrees_effect[OF D(7)[of n] e, of "if n = Height (cb_block a) then Some (cb_block a) else None"] ad'
    by (cases "n = Height (cb_block a)") (simp_all add: commit_lookup hist_block_snoc[OF a])
  show "agrees slot d1 BlockIndexStoreName (Key_Identifier i) (encodeUint64 p) (decodeUint64 p) (hist_height p (h @ [a]) i)"
    using agrees_effect[OF D(8)[of i] e, of "if i = block_ID p (cb_block a) then Some (Height (cb_block a)) else None"] D(1)
    by (cases "i = block_ID p (cb_block a)") (simp_all add: commit_lookup)
  show "agrees slot d1 SystemTransactionName (Key_Identifier i) (encodeSystemTransaction p) (decodeSystemTransaction p)
       (hist_system p (h @ [a]) i)"
    using agrees_effect[OF D(9)[of i] e, of "if has_system a \<and> i = block_ID p (cb_block a)
        then Some (SystemTransactions_of p a) else None"] ad'
    by (cases "has_system a \<and> i = block_ID p (cb_block a)") (auto simp: commit_lookup)
  show "agrees slot d1 CollectionStoreName (Key_Identifier i) (encodeCollection p) (decodeCollection p)
       (hist_collection p (h @ [a]) i)"
    using agrees_effect[OF D(10)[of i] e commit_lookup(5)] admitsD(4)[OF ad] by (simp add: map_add_if)
  show "agrees slot d1 TransactionStoreName (Key_Identifier i) (encodeTransaction p) (decodeTransaction p)
       (hist_transaction (h @ [a]) i)"
    using agrees_effect[OF D(11)[of i] e commit_lookup(6)] admitsD(1)[OF ad] by (simp add: map_add_if)
  show "agrees slot d1 TransactionResultStoreName (Key_Identifier i) (encodeTransactionResult p)
       (decodeTransactionResult p) (hist_result (h @ [a]) i)"
    using agrees_effect[OF D(12)[of i] e commit_lookup(7)] admitsD(2)[OF ad] by (simp add: map_add_if)
  show "agrees slot d1 TransactionResultStoreName (Key_SystemTransactionResult b i) (encodeTransactionResult p)
       (decodeTransactionResult p) (hist_system_result p (h @ [a]) (b, i))"
    using agrees_effect[OF D(13)[of b i] e commit_lookup(8)] admitsD(3)[OF ad] by (simp add: map_add_if)
qed

lemma events_after_commit:
  assumes rep: "default_rep p k usable slot ver_below s h" and a: "may_follow p h a" and ad: "default_admits p a"
    and e1: "effect (Data s) d1 (map_of (rev (commit_writes p a)))" and e2: "reg_effect p ver ws d1 d2"
    and e3: "effect d2 d3 (map_of (rev (event_writes p a)))"
  shows "agrees slot d3 EventStoreName (Key_BlockHeight n) (encodeEvents p) (decodeEvents p)
    (if unat n < length (h @ [a]) then Some (hist_events (h @ [a]) n) else None)"
proof -
  note H = unat_height[OF a] and D = default_repD[OF rep]
  have "agrees slot d2 EventStoreName (Key_BlockHeight n) (encodeEvents p) (decodeEvents p)
      (if unat n < length h then Some (hist_events h n) else None)"
    using D(14)[of n] e1 e2 by (simp add: agrees_def effect_def reg_effect_def commit_lookup(9))
  from agrees_effect[OF this e3, of "if n = Height (cb_block a) then Some (cb_events a) else None"]
  moreover have "unat n < length (h @ [a]) \<longleftrightarrow> n = Height (cb_block a) \<or> unat n < length h"
    using H by (auto simp: less_Suc_eq word_unat_eq_iff)
  moreover have "rt (encodeEvents p) (decodeEvents p) (cb_events a)" using ad by (simp add: default_admits_def)
  ultimately show ?thesis
    by (cases "n = Height (cb_block a)") (simp_all add: event_writes_def hist_events_snoc[OF a] split: if_splits)
qed

lemma ledger_after_commit:
  assumes rep: "default_rep p k usable slot ver_below s h" and a: "may_follow p h a"
    and e1: "effect (Data s) d1 (map_of (rev (commit_writes p a)))"
    and e2: "reg_effect p (Height (cb_block a)) (WriteSet (cb_snapshot a)) d1 d2"
    and e3: "effect d2 d3 (map_of (rev (event_writes p a)))"
  shows "ver_below d3 LedgerStoreName (register_key p r) (length (h @ [a]))"
    "unat n < 2 ^ 63 \<Longrightarrow> GetBytesAtVersion k LedgerStoreName (register_key p r) n d3 =
       the_or ErrNotFound (hist_register (h @ [a]) n r)"
proof -
  note H = unat_height[OF a] and D = default_repD[OF rep]
  let ?ws = "WriteSet (cb_snapshot a)"
  have d: "map_of (rev ?ws) = map_of ?ws"
    using may_followD(3)[OF a] by (simp add: wf_commit_def map_of_rev_distinct)
  have old: "ver_below d1 LedgerStoreName (register_key p r) m = ver_below (Data s) LedgerStoreName (register_key p r) m"
    "GetBytesAtVersion k LedgerStoreName (register_key p r) n d1 =
     GetBytesAtVersion k LedgerStoreName (register_key p r) n (Data s)" for m n
    using e1 by (simp_all add: effect_def commit_lookup(10))
  have new: "ver_below d3 LedgerStoreName (register_key p r) m = ver_below d2 LedgerStoreName (register_key p r) m"
    "GetBytesAtVersion k LedgerStoreName (register_key p r) n d3 =
     GetBytesAtVersion k LedgerStoreName (register_key p r) n d2" for m n
    using e3 by (simp_all add: effect_def event_writes_def)
  have "ver_below d2 LedgerStoreName (register_key p r) (Suc (unat (Height (cb_block a))))"
    using e2 old(1) ver_below_mono[OF D(15)[of r], of "Suc (length h)"] H
    by (cases "r \<in> fst ` set ?ws") (auto simp: reg_effect_def)
  then show "ver_below d3 LedgerStoreName (register_key p r) (length (h @ [a]))" by (simp add: new H)
  assume n: "unat n < 2 ^ 63"
  have above: "hist_register h n r = last_write r h" if "Height (cb_block a) \<le> n"
    using that H by (simp add: hist_register_def word_le_nat_alt)
  have "GetBytesAtVersion k LedgerStoreName (register_key p r) n d3 =
      (if Height (cb_block a) \<le> n \<and> map_of ?ws r \<noteq> None then Inr (the (map_of ?ws r))
       else the_or ErrNotFound (hist_register h n r))"
    using e2 n old(2) new(2) D(16)[OF n, of r]
    by (cases "map_of ?ws r") (simp_all add: reg_effect_def)
  then show "GetBytesAtVersion k LedgerStoreName (register_key p r) n d3 =
      the_or ErrNotFound (hist_register (h @ [a]) n r)"
    using above d by (cases "map_of ?ws r") (simp_all add: hist_register_snoc[OF a] last_write_snoc)
qed

lemma default_rep_commit:
  assumes rep: "default_rep p k usable slot ver_below s h" and a: "may_follow p h a" and ad: "default_admits p a"
  shows "fst (CommitBlock p k a s) = Inr () \<and>
    default_rep p k usable slot ver_below (snd (CommitBlock p k a s)) (h @ [a])"
proof -
  obtain d1 d2 d3 where c: "CommitBlock p k a s = (Inr (), s\<lparr>CurrentHeight := Height (cb_block a), Data := d3\<rparr>)"
    and e: "effect (Data s) d1 (map_of (rev (commit_writes p a)))"
      "reg_effect p (Height (cb_block a)) (WriteSet (cb_snapshot a)) d1 d2"
      "effect d2 d3 (map_of (rev (event_writes p a)))"
    using commit_phases[OF assms] by blast
  note D = default_repD[OF rep] and later = agrees_later_phases[OF _ e(2,3)]
  note T = tables_after_commit[OF assms e(1)]
  have u: "\<forall>n. rt (encodeUint64 p) (decodeUint64 p) n" using D(1) by blast
  have hts: "\<forall>i < length (h @ [a]). Height (cb_block ((h @ [a]) ! i)) = of_nat i"
    using D(5) may_followD(1)[OF a] by (simp add: nth_append less_Suc_eq)
  have cur: "unat (Height (cb_block a)) < 2 ^ 63"
    using may_followD(2)[OF a] unat_height[OF a] by simp
  have top: "agrees slot d3 globalStoreName Key_LatestBlock (encodeUint64 p) (decodeUint64 p)
      (if h @ [a] = [] then None else Some (of_nat (length (h @ [a]) - 1)))"
    using later[OF T(1)] by simp
  have "default_rep p k usable slot ver_below (s\<lparr>CurrentHeight := Height (cb_block a), Data := d3\<rparr>) (h @ [a])"
    unfolding default_rep_def
    using u D(2) hts cur top later[OF T(2)] later[OF T(3)] later[OF T(4)] later[OF T(5)] later[OF T(6)] later[OF T(7)]
      later[OF T(8)] events_after_commit[OF assms e] ledger_after_commit[OF rep a e] e(3) may_followD(2)[OF a]
    by (simp add: effect_def del: hist_height_snoc hist_system_snoc hist_collection_snoc hist_transaction_snoc
        hist_result_snoc hist_system_result_snoc)
  then show ?thesis using c by simp
qed

lemma default_get:
  assumes "default_rep p k usable slot ver_below s h" "st \<in> default_tables" "agrees slot (Data s) st key enc dec x"
  shows "bindR (ds_Get k st key s) dec = the_or ErrNotFound x"
  using agrees_get[OF default_repD(3)[OF assms(1)] assms(2,3)] by (simp add: ds_Get_def)

lemma default_BlockByHeight:
  "default_rep p k usable slot ver_below s h \<Longrightarrow> BlockByHeight p k n s = the_or ErrNotFound (hist_block h n)"
  using default_get[OF _ _ default_repD(7)] by (simp add: BlockByHeight_def default_tables_def)

lemma default_LatestBlock:
  assumes "default_rep p k usable slot ver_below s h"
  shows "LatestBlock p k s = (if h = [] then Inl ErrNotFound else Inr (cb_block (last h)))"
proof -
  have "unat (of_nat (length h - 1) :: u64) = length h - 1"
    using default_repD(4)[OF assms] by (intro unat_of_nat_less) simp
  then show ?thesis
    using default_latest_height[OF assms] default_BlockByHeight[OF assms, of "of_nat (length h - 1)"]
    by (cases "h = []") (simp_all add: LatestBlock_def BlockByHeight_def hist_block_def last_conv_nth)
qed

lemma default_TransactionByID:
  "default_rep p k usable slot ver_below s h \<Longrightarrow> TransactionByID p k i s = the_or ErrNotFound (hist_transaction h i)"
  using default_get[OF _ _ default_repD(11)] by (simp add: TransactionByID_def default_tables_def)

lemma default_CollectionByID:
  "default_rep p k usable slot ver_below s h \<Longrightarrow> CollectionByID p k i s = the_or ErrNotFound (hist_collection p h i)"
  using default_get[OF _ _ default_repD(10)] by (simp add: CollectionByID_def default_tables_def)

lemma default_EventsByHeight:
  assumes "default_rep p k usable slot ver_below s h"
  shows "EventsByHeight p k n ty s = Inr (filter (match_type ty) (hist_events h n))"
proof -
  have "GetBytes k EventStoreName (Key_BlockHeight n) (Data s) =
      the_or ErrNotFound (map_option (enc_val (encodeEvents p)) (if unat n < length h then Some (hist_events h n) else None))"
    using get_slot[OF default_repD(3)[OF assms]] default_repD(14)[OF assms, of n] tables_default
    by (auto simp: agrees_def default_tables_def)
  moreover have "decodeEvents p (enc_val (encodeEvents p) (hist_events h n)) = Inr (hist_events h n)" if "unat n < length h"
    using default_repD(14)[OF assms, of n] that by (simp add: agrees_def rt_dec)
  moreover have "(\<lambda>event. \<not> (ty \<noteq> '''' \<and> ev_Type event \<noteq> ty)) = match_type ty"
    by (auto simp: match_type_def fun_eq_iff)
  ultimately show ?thesis
    by (cases "unat n < length h") (simp_all add: EventsByHeight_def ds_Get_def hist_events_def)
qed

text \<open>Writes to the two scheduled-transaction tables touch nothing the relation speaks of.\<close>

lemma agrees_other_table:
  "st' \<noteq> st \<Longrightarrow> agrees slot (snd (SetBytes k ht st key v d)) st' key' enc dec x = agrees slot d st' key' enc dec x"
  using set_frame by (auto simp: agrees_def)

lemma default_rep_other_table:
  assumes "default_rep p k usable slot ver_below s h" "st \<notin> default_tables"
  shows "default_rep p k usable slot ver_below (snd (ds_Set k st key v s)) h"
proof -
  let ?x = "SetBytes k (CurrentHeight s) st key v (Data s)"
  have "snd (ds_Set k st key v s) = s\<lparr>Data := snd ?x\<rparr>" by (simp add: ds_Set_def split: prod.split)
  moreover have "GetBytesAtVersion k LedgerStoreName key' n (snd ?x) = GetBytesAtVersion k LedgerStoreName key' n (Data s)"
    "ver_below (snd ?x) LedgerStoreName key' m = ver_below (Data s) LedgerStoreName key' m" for key' n m
    using assms(2) set_frame_v by (auto simp: default_tables_def)
  moreover have "st' \<noteq> st" if "st' \<in> default_tables" for st'
    using that assms(2) by auto
  ultimately show ?thesis
    using assms(1) set_usable by (simp add: default_rep_def default_tables_def agrees_other_table)
qed

lemma default_set_scheduled:
  assumes "default_rep p k usable slot ver_below s h"
  shows "st = ScheduledIndexName \<or> st = ScheduledBlockIndexName \<Longrightarrow> fst (ds_Set k st key v s) = Inr ()"
  using set_ok[OF default_repD(3)[OF assms] _ default_repD(17)[OF assms]] tables_scheduled
  by (auto simp: ds_Set_def split: prod.split) (metis fst_conv)+

end

lemma default_ops_simps [simp]:
  "st_LatestBlockHeight (default_ops p k) = LatestBlockHeight p k"
  "st_LatestBlock (default_ops p k) = LatestBlock p k"
  "st_SystemTransactionsForBlockID (default_ops p k) = SystemTransactionsForBlockID p k"
  "st_IndexScheduledTransactionID (default_ops p k) = IndexScheduledTransactionID k"
  "st_IndexScheduledTransactionBlockID (default_ops p k) = IndexScheduledTransactionBlockID k"
  "st_BlockIDByScheduledTransactionID (default_ops p k) = BlockIDByScheduledTransactionID k"
  "st_ScheduledTransactionBlockIDByTxID (default_ops p k) = ScheduledTransactionBlockIDByTxID k"
  "st_BlockByID (default_ops p k) = BlockByID p k"
  "st_BlockByHeight (default_ops p k) = BlockByHeight p k"
  "st_CommitBlock (default_ops p k) = CommitBlock p k"
  "st_CollectionByID (default_ops p k) = CollectionByID p k"
  "st_FullCollectionByID (default_ops p k) = FullCollectionByID p k"
  "st_TransactionByID (default_ops p k) = TransactionByID p k"
  "st_TransactionResultByID (default_ops p k) = TransactionResultByID p k"
  "st_SystemTransactionResultByID (default_ops p k) = SystemTransactionResultByID p k"
  "st_LedgerByHeight (default_ops p k) = LedgerByHeight p k"
  "st_EventsByHeight (default_ops p k) = EventsByHeight p k"
  by (simp_all add: default_ops_def)

sublocale kv_store \<subseteq> ds: chain_store p "default_ops p k" "default_admits p"
  "default_rep p k usable slot ver_below" for p :: "'x codec_scheme"
proof (unfold_locales, goal_cases)
  case (1 s h a) then show ?case using default_rep_commit by simp
next
  case (2 s) then show ?case by (simp add: default_LatestBlock)
next
  case (3 s h) then show ?case by (simp add: default_LatestBlock)
next
  case (4 s h)
  then have "Height (cb_block (last h)) = of_nat (length h - 1)"
    using default_repD(5)[OF 4(1)] by (simp add: last_conv_nth)
  then show ?case using 4 by (simp add: default_latest_height)
next
  case (5 s h n) then show ?case by (simp add: default_BlockByHeight)
next
  case (6 s h i)
  have "bindR (ds_Get k BlockIndexStoreName (Key_Identifier i) s) (decodeUint64 p) = the_or ErrNotFound (hist_height p h i)"
    using default_get[OF 6 _ default_repD(8)[OF 6]] by (simp add: default_tables_def)
  moreover have "BlockByID p k i s = bindR (bindR (ds_Get k BlockIndexStoreName (Key_Identifier i) s) (decodeUint64 p))
      (\<lambda>n. the_or ErrNotFound (hist_block h n))"
    by (cases "ds_Get k BlockIndexStoreName (Key_Identifier i) s")
      (simp_all add: BlockByID_def default_BlockByHeight[OF 6])
  ultimately show ?case by (cases "hist_height p h i") simp_all
next
  case (7 s h i) then show ?case by (simp add: default_CollectionByID)
next
  case (8 s h i)
  have "FullCollectionByID p k i s = bindR (CollectionByID p k i s) (mapR (\<lambda>t. TransactionByID p k t s))"
    by (cases "ds_Get k CollectionStoreName (Key_Identifier i) s")
      (simp_all add: FullCollectionByID_def CollectionByID_def)
  then show ?case by (simp add: default_CollectionByID[OF 8] default_TransactionByID[OF 8])
next
  case (9 s h i) then show ?case by (simp add: default_TransactionByID)
next
  case (10 s h i)
  then show ?case using default_get[OF 10 _ default_repD(12)[OF 10]]
    by (simp add: TransactionResultByID_def default_tables_def)
next
  case (11 s h b i)
  then show ?case using default_get[OF 11 _ default_repD(13)[OF 11]]
    by (simp add: SystemTransactionResultByID_def default_tables_def)
next
  case (12 s h i)
  then show ?case using default_get[OF 12 _ default_repD(9)[OF 12]]
    by (simp add: SystemTransactionsForBlockID_def default_tables_def)
next
  case (13 s h n ty) then show ?case by (simp add: default_EventsByHeight)
next
  case (14 s h n)
  then have "unat n < 2 ^ 63" using default_repD(4)[OF 14(1)] by simp
  then have "snapshot_Get p k n s r = Inr (value_of (hist_register h n r))" for r
    using default_repD(16)[OF 14(1), of n r]
    by (cases "hist_register h n r") (simp_all add: snapshot_Get_def value_of_def)
  then show ?case by (simp add: LedgerByHeight_def)
next
  case (15 s h n b)
  then show ?case using default_rep_other_table[OF 15] default_set_scheduled[OF 15]
    by (simp add: IndexScheduledTransactionID_def default_tables_def)
next
  case (16 s h i b)
  then show ?case using default_rep_other_table[OF 16] default_set_scheduled[OF 16]
    by (simp add: IndexScheduledTransactionBlockID_def default_tables_def)
next
  case (17 a s) then show ?case by (auto simp: counts_match_def CommitBlock_def)
qed

end
