(* ===== verification/Sqlite_Store.thy ===== *)
theory Sqlite_Store
  imports Default_Refinement
begin

text \<open>
  The sqlite store, \<^verbatim>\<open>storage/sqlite/store.go\<close> with \<^verbatim>\<open>createTables.sql\<close>.

  \<^item> A table is the list of its rows in insertion order; the statements of the
    code (the upsert, the select, the rollback's delete, \<^verbatim>\<open>VACUUM INTO\<close>) are
    functions on it. What SQL leaves open is the parameter \<^verbatim>\<open>sql_env\<close>: which
    of several rows with the greatest version \<^verbatim>\<open>LIMIT 1\<close> returns, and which
    unsigned integers the driver can bind.
  \<^item> The store holds a connection, the name of the database it has open among
    the databases that exist; snapshots are further databases.
  \<^item> A database in \<^verbatim>\<open>db_fault\<close> state answers every statement with that error.
\<close>

section \<open>Databases and statements\<close>

record row =
  row_key :: string
  row_version :: u64
  row_value :: string
  row_height :: u64

record sqldb =
  db_tables :: "string \<rightharpoonup> row list"
  db_fault :: "go_error option"

record sql_env =
  sql_pick :: "row list \<Rightarrow> row"
  sql_accepts :: "u64 \<Rightarrow> bool"

definition sql_law :: "sql_env \<Rightarrow> bool" where
  "sql_law E \<longleftrightarrow> (\<forall>rs. rs \<noteq> [] \<longrightarrow> sql_pick E rs \<in> set rs) \<and> (\<forall>n. unat n < 2 ^ 63 \<longrightarrow> sql_accepts E n)"

definition table_names :: "string list" where
  "table_names =
     [''global'', ''ledger'', ''blocks'', ''blockIndex'', ''events'', ''transactions'', ''collections'',
      ''transactionResults'', ''systemTransactions'', ''scheduledTransactionIndex'',
      ''scheduledTransactionBlockIndex'']"

definition createTables :: "sqldb \<Rightarrow> sqldb" where
  "createTables db =
     db\<lparr>db_tables := (\<lambda>t. case db_tables db t of
        Some rs \<Rightarrow> Some rs
      | None \<Rightarrow> if t \<in> set table_names then Some [] else None)\<rparr>"

text \<open>\<^verbatim>\<open>INSERT ... ON CONFLICT(key, version, height) DO UPDATE SET value=excluded.value\<close>\<close>

fun upsert :: "row \<Rightarrow> row list \<Rightarrow> row list" where
  "upsert n [] = [n]"
| "upsert n (r # rs) =
     (if row_key r = row_key n \<and> row_version r = row_version n \<and> row_height r = row_height n
      then r\<lparr>row_value := row_value n\<rparr> # rs
      else r # upsert n rs)"

definition sql_insert :: "sql_env \<Rightarrow> string \<Rightarrow> row \<Rightarrow> sqldb \<Rightarrow> unit result \<times> sqldb" where
  "sql_insert E table n db =
     (case db_fault db of
        Some e \<Rightarrow> (Inl e, db)
      | None \<Rightarrow>
         (case db_tables db table of
            None \<Rightarrow> (Inl (ExternalError (''no such table: '' @ table)), db)
          | Some rs \<Rightarrow>
              if \<not> (sql_accepts E (row_version n) \<and> sql_accepts E (row_height n))
              then (Inl (ExternalError ''uint64 values with high bit set are not supported''), db)
              else (Inr (), db\<lparr>db_tables := (db_tables db)(table \<mapsto> upsert n rs)\<rparr>)))"

text \<open>\<^verbatim>\<open>SELECT value from t WHERE key = ? and version <= ? order by version desc LIMIT 1\<close>\<close>

definition candidates :: "string \<Rightarrow> u64 \<Rightarrow> row list \<Rightarrow> row list" where
  "candidates key version rs = filter (\<lambda>r. row_key r = key \<and> row_version r \<le> version) rs"

definition top_version :: "row list \<Rightarrow> row list" where
  "top_version rs = filter (\<lambda>r. \<forall>q \<in> set rs. row_version q \<le> row_version r) rs"

definition sql_select :: "sql_env \<Rightarrow> string \<Rightarrow> string \<Rightarrow> u64 \<Rightarrow> sqldb \<Rightarrow> string option result" where
  "sql_select E table key version db =
     (case db_fault db of
        Some e \<Rightarrow> Inl e
      | None \<Rightarrow>
         (case db_tables db table of
            None \<Rightarrow> Inl (ExternalError (''no such table: '' @ table))
          | Some rs \<Rightarrow>
              if \<not> sql_accepts E version
              then Inl (ExternalError ''uint64 values with high bit set are not supported'')
              else let cs = candidates key version rs in
                   if cs = [] then Inr None
                   else Inr (Some (row_value (sql_pick E (top_version cs))))))"

section \<open>The store\<close>

text \<open>
  \<open>sq_db\<close> names the open database, \<open>sq_disk\<close> holds all databases (files, and the
  shared in-memory databases of the process), \<open>sq_stat\<close> is what \<^verbatim>\<open>os.Stat\<close> says
  of the URL: nothing, a file, or a directory.
\<close>

record sqlite =
  sq_url :: string
  sq_id :: int
  sq_snapshotNames :: "string list"
  sq_db :: string
  sq_disk :: "string \<rightharpoonup> sqldb"
  sq_stat :: "bool option"

abbreviation InMemory :: string where "InMemory \<equiv> '':memory:''"

type_synonym sqlite_store = "sqlite default_store"

definition empty_db :: sqldb where
  "empty_db = \<lparr>db_tables = Map.empty, db_fault = None\<rparr>"

definition open_db :: "sqlite \<Rightarrow> sqldb" where
  "open_db d = (case sq_disk d (sq_db d) of None \<Rightarrow> empty_db | Some db \<Rightarrow> db)"

definition filepath_Join :: "string \<Rightarrow> string \<Rightarrow> string" where
  "filepath_Join dir name = dir @ ''/'' @ name"

definition sqlite_New ::
  "string \<Rightarrow> int \<Rightarrow> bool option \<Rightarrow> (string \<rightharpoonup> sqldb) \<Rightarrow> sqlite_store result" where
  "sqlite_New url now stat disk =
     (let go = (\<lambda>dbUrl.
        let db = (if url = InMemory then empty_db
                  else case disk dbUrl of None \<Rightarrow> empty_db | Some db \<Rightarrow> db) in
        case db_fault db of
          Some e \<Rightarrow> Inl e
        | None \<Rightarrow> Inr \<lparr>CurrentHeight = 0,
             Data = \<lparr>sq_url = url, sq_id = now, sq_snapshotNames = [], sq_db = dbUrl,
                     sq_disk = disk(dbUrl \<mapsto> createTables db), sq_stat = stat\<rparr>\<rparr>)
      in if url = InMemory then go url
         else case stat of
           None \<Rightarrow> Inl (Errorf_wrap ''unable to find database file: '' (ExternalError ''no such file or directory''))
         | Some isDir \<Rightarrow> go (if isDir then filepath_Join url ''emulator.sqlite'' else url))"

definition sq_SetBytesWithVersion ::
  "sql_env \<Rightarrow> u64 \<Rightarrow> string \<Rightarrow> bytes \<Rightarrow> bytes \<Rightarrow> u64 \<Rightarrow> sqlite \<Rightarrow> unit result \<times> sqlite" where
  "sq_SetBytesWithVersion E currentHeight store key value version d =
     (let height = (if store = ''global'' then 0 else currentHeight) in
      case sql_insert E store
             \<lparr>row_key = hex_encode key, row_version = version, row_value = hex_encode value, row_height = height\<rparr>
             (open_db d) of
        (r, db) \<Rightarrow> (r, d\<lparr>sq_disk := (sq_disk d)(sq_db d \<mapsto> db)\<rparr>))"

definition sq_SetBytes :: "sql_env \<Rightarrow> u64 \<Rightarrow> string \<Rightarrow> bytes \<Rightarrow> bytes \<Rightarrow> sqlite \<Rightarrow> unit result \<times> sqlite" where
  "sq_SetBytes E currentHeight store key value d = sq_SetBytesWithVersion E currentHeight store key value 0 d"

definition sq_GetBytesAtVersion :: "sql_env \<Rightarrow> string \<Rightarrow> bytes \<Rightarrow> u64 \<Rightarrow> sqlite \<Rightarrow> bytes result" where
  "sq_GetBytesAtVersion E store key version d =
     (case sql_select E store (hex_encode key) version (open_db d) of
        Inl e \<Rightarrow> Inl e
      | Inr None \<Rightarrow> Inl ErrNotFound
      | Inr (Some value) \<Rightarrow>
          (case hex_decode value of
             None \<Rightarrow> Inl (ExternalError ''encoding/hex'')
           | Some rawBytes \<Rightarrow> Inr rawBytes))"

definition sq_GetBytes :: "sql_env \<Rightarrow> string \<Rightarrow> bytes \<Rightarrow> sqlite \<Rightarrow> bytes result" where
  "sq_GetBytes E store key d = sq_GetBytesAtVersion E store key 0 d"

definition sq_SetBytesWithVersionAndHeight ::
  "sql_env \<Rightarrow> string \<Rightarrow> bytes \<Rightarrow> bytes \<Rightarrow> u64 \<Rightarrow> u64 \<Rightarrow> sqlite \<Rightarrow> unit result \<times> sqlite" where
  "sq_SetBytesWithVersionAndHeight E store key value version height d =
     (case sql_insert E store
             \<lparr>row_key = hex_encode key, row_version = version, row_value = hex_encode value, row_height = height\<rparr>
             (open_db d) of
        (r, db) \<Rightarrow> (r, d\<lparr>sq_disk := (sq_disk d)(sq_db d \<mapsto> db)\<rparr>))"

definition sqlite_kv :: "sql_env \<Rightarrow> sqlite kv_ops" where
  "sqlite_kv E =
     \<lparr>GetBytes = sq_GetBytes E, GetBytesAtVersion = sq_GetBytesAtVersion E,
      SetBytes = sq_SetBytes E, SetBytesWithVersion = sq_SetBytesWithVersion E\<rparr>"

section \<open>Rollback\<close>

definition rollback_tables :: "string list" where
  "rollback_tables =
     [LedgerStoreName, BlockStoreName, BlockIndexStoreName, EventStoreName, TransactionStoreName,
      CollectionStoreName, TransactionResultStoreName]"

text \<open>\<^verbatim>\<open>DELETE from t where height>h\<close>, for each table of the list, in one transaction.\<close>

definition delete_above :: "u64 \<Rightarrow> row list \<Rightarrow> row list" where
  "delete_above height rs = filter (\<lambda>r. \<not> row_height r > height) rs"

definition delete_tables :: "u64 \<Rightarrow> string list \<Rightarrow> sqldb \<Rightarrow> sqldb result" where
  "delete_tables height ts db =
     (case db_fault db of
        Some e \<Rightarrow> Inl e
      | None \<Rightarrow>
          if \<exists>t \<in> set ts. db_tables db t = None then Inl (ExternalError ''no such table'')
          else Inr (db\<lparr>db_tables := (\<lambda>t. if t \<in> set ts then map_option (delete_above height) (db_tables db t)
                                      else db_tables db t)\<rparr>))"

definition RollbackToBlockHeight ::
  "'x codec_scheme \<Rightarrow> sql_env \<Rightarrow> u64 \<Rightarrow> sqlite_store \<Rightarrow> unit result \<times> sqlite_store" where
  "RollbackToBlockHeight p E height s =
     (if CurrentHeight s \<le> height
      then (Inl (Errorf ''rollback height should be less then current height''), s)
      else case delete_tables height rollback_tables (open_db (Data s)) of
             Inl e \<Rightarrow> (Inl e, s)
           | Inr db \<Rightarrow>
               SetBlockHeight p (sqlite_kv E) height
                 (s\<lparr>Data := (Data s)\<lparr>sq_disk := (sq_disk (Data s))(sq_db (Data s) \<mapsto> db)\<rparr>\<rparr>))"

section \<open>Snapshots\<close>

definition SupportSnapshotsWithCurrentConfig :: "sqlite \<Rightarrow> bool" where
  "SupportSnapshotsWithCurrentConfig d =
     (if sq_url d = InMemory then True
      else case sq_stat d of None \<Rightarrow> False | Some isDir \<Rightarrow> isDir)"

definition not_supported :: go_error where
  "not_supported = Errorf ''snapshot is not supported with current configuration''"

definition snapshot_file :: "string \<Rightarrow> sqlite \<Rightarrow> string" where
  "snapshot_file name d =
     (if sq_url d = InMemory then ''file:'' @ name @ fmt_int (sq_id d) @ ''?mode=memory&cache=shared''
      else filepath_Join (sq_url d) (''snapshot_'' @ name))"

definition has_tables :: "sqldb option \<Rightarrow> bool" where
  "has_tables db = (case db of None \<Rightarrow> False | Some db \<Rightarrow> \<exists>t \<in> set table_names. db_tables db t \<noteq> None)"

definition LoadSnapshot :: "string \<Rightarrow> sqlite_store \<Rightarrow> unit result \<times> sqlite_store" where
  "LoadSnapshot name s =
     (let d = Data s; dbFile = snapshot_file name d; missing = Errorf (''snapshot '' @ name @ '' does not exist'') in
      if \<not> SupportSnapshotsWithCurrentConfig d then (Inl not_supported, s)
      else if sq_url d = InMemory \<and> \<not> has_tables (sq_disk d dbFile) then (Inl missing, s)
      else if sq_url d \<noteq> InMemory \<and> sq_disk d dbFile = None then (Inl missing, s)
      else (Inr (), s\<lparr>Data := d\<lparr>sq_db := dbFile\<rparr>\<rparr>))"

definition CreateSnapshot :: "string \<Rightarrow> sqlite_store \<Rightarrow> unit result \<times> sqlite_store" where
  "CreateSnapshot name s =
     (let d = Data s; dbFile = snapshot_file name d in
      if \<not> SupportSnapshotsWithCurrentConfig d then (Inl not_supported, s)
      else case db_fault (open_db d) of
             Some e \<Rightarrow> (Inl e, s)
           | None \<Rightarrow>
               if has_tables (sq_disk d dbFile) then (Inl (ExternalError ''output file already exists''), s)
               else (Inr (), s\<lparr>Data := d\<lparr>sq_disk := (sq_disk d)(dbFile \<mapsto> open_db d),
                                        sq_snapshotNames := sq_snapshotNames d @ [name]\<rparr>\<rparr>))"

definition cut_prefix :: "string \<Rightarrow> string \<Rightarrow> string option" where
  "cut_prefix pre s = (if take (length pre) s = pre then Some (drop (length pre) s) else None)"

text \<open>The directory listing (name, is a directory) is the result of \<^verbatim>\<open>os.ReadDir\<close>.\<close>

definition Snapshots :: "(string \<times> bool) list result \<Rightarrow> sqlite \<Rightarrow> string list result" where
  "Snapshots readDir d =
     (if \<not> SupportSnapshotsWithCurrentConfig d then Inl not_supported
      else if sq_url d = InMemory then Inr (sq_snapshotNames d)
      else bindR readDir (\<lambda>files.
        Inr (List.map_filter (\<lambda>(name, isDir). if isDir then None else cut_prefix ''snapshot_'' name) files)))"

section \<open>Lemmas: rows\<close>

definition row_id :: "row \<Rightarrow> string \<times> u64 \<times> u64" where
  "row_id r = (row_key r, row_version r, row_height r)"

lemma upsert_Cons:
  "upsert n (r # rs) = (if row_id r = row_id n then n # rs else r # upsert n rs)"
  by (cases r; cases n) (simp add: row_id_def)

lemma set_upsert:
  "distinct (map row_id rs) \<Longrightarrow> set (upsert n rs) = insert n {r \<in> set rs. row_id r \<noteq> row_id n}"
proof (induction rs)
  case (Cons r rs)
  have "row_id q \<noteq> row_id r" if "q \<in> set rs" for q
    using Cons.prems imageI[OF that, of row_id] by auto
  then show ?case using Cons by (auto simp: upsert_Cons simp del: upsert.simps)
qed simp

lemma row_ids_upsert: "set (map row_id (upsert n rs)) = insert (row_id n) (set (map row_id rs))"
  by (induction rs) (auto simp: upsert_Cons simp del: upsert.simps(2))

lemma distinct_upsert: "distinct (map row_id rs) \<Longrightarrow> distinct (map row_id (upsert n rs))"
proof (induction rs)
  case (Cons r rs)
  have "row_id r \<noteq> row_id n \<Longrightarrow> row_id r \<notin> set (map row_id (upsert n rs))"
    using Cons.prems unfolding row_ids_upsert by simp
  then show ?case using Cons by (auto simp: upsert_Cons simp del: upsert.simps)
qed simp

text \<open>An upsert is invisible to every selection that excludes its key, version or height.\<close>

lemma filter_upsert:
  assumes "\<And>r. row_id r = row_id n \<Longrightarrow> \<not> P r"
  shows "filter P (upsert n rs) = filter P rs"
  using assms by (induction rs) (auto simp: upsert_Cons simp del: upsert.simps(2))

lemma upsert_fresh: "row_id n \<notin> set (map row_id rs) \<Longrightarrow> upsert n rs = rs @ [n]"
  by (induction rs) (auto simp: upsert_Cons simp del: upsert.simps(2))

lemma candidates_upsert_other:
  "row_key n \<noteq> key \<or> \<not> row_version n \<le> version \<Longrightarrow> candidates key version (upsert n rs) = candidates key version rs"
  unfolding candidates_def by (rule filter_upsert) (auto simp: row_id_def)

lemma top_version_subset: "set (top_version rs) \<subseteq> set rs"
  by (auto simp: top_version_def)

lemma top_version_nonempty:
  assumes "rs \<noteq> []" shows "top_version rs \<noteq> []"
proof -
  have "Max (row_version ` set rs) \<in> row_version ` set rs" using assms by (intro Max_in) simp_all
  then obtain r where "r \<in> set rs" "row_version r = Max (row_version ` set rs)" by auto
  then have "r \<in> set (top_version rs)" by (simp add: top_version_def)
  then show ?thesis by auto
qed

lemma sql_pick_top: "sql_law E \<Longrightarrow> rs \<noteq> [] \<Longrightarrow> sql_pick E (top_version rs) \<in> set (top_version rs)"
  using top_version_nonempty by (simp add: sql_law_def)

section \<open>The key-value contract\<close>

definition rows_of :: "sqlite \<Rightarrow> string \<Rightarrow> row list" where
  "rows_of d st = (case db_tables (open_db d) st of None \<Rightarrow> [] | Some rs \<Rightarrow> rs)"

definition sq_usable :: "sql_env \<Rightarrow> sqlite \<Rightarrow> bool" where
  "sq_usable E d \<longleftrightarrow> sql_law E \<and> sq_disk d (sq_db d) \<noteq> None \<and> db_fault (open_db d) = None \<and>
     (\<forall>st \<in> set table_names. db_tables (open_db d) st \<noteq> None) \<and>
     (\<forall>st. distinct (map row_id (rows_of d st))) \<and>
     (\<forall>r \<in> set (rows_of d ''global''). row_height r = 0)"

definition sq_slot :: "sqlite \<Rightarrow> string \<Rightarrow> bytes \<Rightarrow> bytes option \<Rightarrow> bool" where
  "sq_slot d st key x \<longleftrightarrow>
     (let rs = candidates (hex_encode key) 0 (rows_of d st) in
      case x of None \<Rightarrow> rs = []
      | Some v \<Rightarrow> rs \<noteq> [] \<and> (\<forall>r \<in> set rs. row_value r = hex_encode v))"

definition sq_ver_below :: "sqlite \<Rightarrow> string \<Rightarrow> bytes \<Rightarrow> nat \<Rightarrow> bool" where
  "sq_ver_below d st key n \<longleftrightarrow>
     (\<forall>r \<in> set (rows_of d st). row_key r = hex_encode key \<longrightarrow> unat (row_version r) < n)"

definition new_row :: "u64 \<Rightarrow> string \<Rightarrow> bytes \<Rightarrow> bytes \<Rightarrow> u64 \<Rightarrow> row" where
  "new_row ht st key v ver =
     \<lparr>row_key = hex_encode key, row_version = ver, row_value = hex_encode v,
      row_height = (if st = ''global'' then 0 else ht)\<rparr>"

lemma new_row_simps [simp]:
  "row_key (new_row ht st key v ver) = hex_encode key" "row_version (new_row ht st key v ver) = ver"
  "row_value (new_row ht st key v ver) = hex_encode v"
  "row_height (new_row ht st key v ver) = (if st = ''global'' then 0 else ht)"
  by (simp_all add: new_row_def)

lemma sq_SetV_eq:
  "sq_SetBytesWithVersion E ht st key v ver d =
     (case sql_insert E st (new_row ht st key v ver) (open_db d) of
        (r, db) \<Rightarrow> (r, d\<lparr>sq_disk := (sq_disk d)(sq_db d \<mapsto> db)\<rparr>))"
  by (simp add: sq_SetBytesWithVersion_def new_row_def Let_def)

lemma sq_SetV_open: "open_db (snd (sq_SetBytesWithVersion E ht st key v ver d)) =
    snd (sql_insert E st (new_row ht st key v ver) (open_db d))"
  by (simp add: sq_SetV_eq open_db_def split: prod.split)

text \<open>A write either fails and changes nothing, or upserts one row of one table.\<close>

lemma sql_insert_cases:
  "snd (sql_insert E st n db) = db \<or>
   (\<exists>rs. db_tables db st = Some rs \<and> snd (sql_insert E st n db) = db\<lparr>db_tables := (db_tables db)(st \<mapsto> upsert n rs)\<rparr>)"
  by (simp add: sql_insert_def split: option.split)

lemma sq_SetV_cases:
  obtains (Same) "open_db (snd (sq_SetBytesWithVersion E ht st key v ver d)) = open_db d"
  | (Upsert) rs where "db_tables (open_db d) st = Some rs" "rows_of d st = rs"
      "open_db (snd (sq_SetBytesWithVersion E ht st key v ver d)) =
         (open_db d)\<lparr>db_tables := (db_tables (open_db d))(st \<mapsto> upsert (new_row ht st key v ver) rs)\<rparr>"
  using sql_insert_cases[of E st "new_row ht st key v ver" "open_db d"]
  unfolding sq_SetV_open rows_of_def by fastforce

lemma rows_of_Upsert:
  "open_db d' = (open_db d)\<lparr>db_tables := (db_tables (open_db d))(st \<mapsto> rs)\<rparr> \<Longrightarrow>
   rows_of d' t = (if t = st then rs else rows_of d t)"
  by (simp add: rows_of_def)

lemma rows_of_Same: "open_db d' = open_db d \<Longrightarrow> rows_of d' t = rows_of d t"
  by (simp add: rows_of_def)

lemma sq_SetV_ok:
  assumes "sq_usable E d" "st \<in> set table_names" "unat ht < 2 ^ 63" "unat ver < 2 ^ 63"
  shows "fst (sq_SetBytesWithVersion E ht st key v ver d) = Inr ()"
    "rows_of (snd (sq_SetBytesWithVersion E ht st key v ver d)) t =
       (if t = st then upsert (new_row ht st key v ver) (rows_of d st) else rows_of d t)"
proof -
  obtain rs where rs: "db_tables (open_db d) st = Some rs" "db_fault (open_db d) = None"
    using assms(1,2) by (auto simp: sq_usable_def)
  moreover have "sql_accepts E ver" "sql_accepts E (row_height (new_row ht st key v ver))"
    using assms by (auto simp: sq_usable_def sql_law_def)
  ultimately have i: "sql_insert E st (new_row ht st key v ver) (open_db d) =
      (Inr (), (open_db d)\<lparr>db_tables := (db_tables (open_db d))(st \<mapsto> upsert (new_row ht st key v ver) rs)\<rparr>)"
    by (simp add: sql_insert_def)
  show "fst (sq_SetBytesWithVersion E ht st key v ver d) = Inr ()"
    by (simp add: sq_SetV_eq i)
  have "rows_of d st = rs" using rs by (simp add: rows_of_def)
  then show "rows_of (snd (sq_SetBytesWithVersion E ht st key v ver d)) t =
      (if t = st then upsert (new_row ht st key v ver) (rows_of d st) else rows_of d t)"
    using rows_of_Upsert sq_SetV_open[of E ht st key v ver d] i by simp
qed

lemma sq_SetV_disk [simp]:
  "sq_db (snd (sq_SetBytesWithVersion E ht st key v ver d)) = sq_db d"
  "sq_disk d (sq_db d) \<noteq> None \<Longrightarrow>
     sq_disk (snd (sq_SetBytesWithVersion E ht st key v ver d)) (sq_db d) \<noteq> None"
  by (auto simp: sq_SetV_eq split: prod.split)

lemma sq_SetV_usable:
  assumes "sq_usable E d"
  shows "sq_usable E (snd (sq_SetBytesWithVersion E ht st key v ver d))"
proof (cases rule: sq_SetV_cases[of E ht st key v ver d])
  case Same
  then show ?thesis using assms by (auto simp: sq_usable_def rows_of_Same[OF Same])
next
  case (Upsert rs)
  have "row_height r = 0" if "st = ''global''" "r \<in> set (upsert (new_row ht st key v ver) rs)" for r
    using that assms set_upsert[of rs] Upsert(2) by (auto simp: sq_usable_def)
  then show ?thesis
    using assms Upsert by (auto simp: sq_usable_def rows_of_Upsert[OF Upsert(3)] distinct_upsert)
qed

lemma sq_read_frame:
  assumes "(st', key') \<noteq> (st, key)"
  shows "candidates (hex_encode key') n (rows_of (snd (sq_SetBytesWithVersion E ht st key v ver d)) st') =
    candidates (hex_encode key') n (rows_of d st')"
proof (cases rule: sq_SetV_cases[of E ht st key v ver d])
  case Same then show ?thesis by (simp add: rows_of_Same[OF Same])
next
  case (Upsert rs)
  then show ?thesis using assms by (auto simp: rows_of_Upsert[OF Upsert(3)] candidates_upsert_other)
qed

lemma sq_Get_eq:
  assumes "sq_usable E d" "st \<in> set table_names" "sql_accepts E n"
  shows "sq_GetBytesAtVersion E st key n d =
    (let cs = candidates (hex_encode key) n (rows_of d st) in
     if cs = [] then Inl ErrNotFound
     else case hex_decode (row_value (sql_pick E (top_version cs))) of
            None \<Rightarrow> Inl (ExternalError ''encoding/hex'') | Some b \<Rightarrow> Inr b)"
proof -
  obtain rs where "db_tables (open_db d) st = Some rs" "db_fault (open_db d) = None"
    using assms(1,2) by (auto simp: sq_usable_def)
  then show ?thesis using assms(3)
    by (simp add: sq_GetBytesAtVersion_def sql_select_def rows_of_def Let_def)
qed

lemma sq_get_frame:
  assumes "(st', key') \<noteq> (st, key)"
  shows "sq_GetBytesAtVersion E' st' key' n (snd (sq_SetBytesWithVersion E ht st key v ver d)) =
    sq_GetBytesAtVersion E' st' key' n d"
proof (cases rule: sq_SetV_cases[of E ht st key v ver d])
  case Same then show ?thesis by (simp add: sq_GetBytesAtVersion_def)
next
  case (Upsert rs)
  then have "sql_select E' st' (hex_encode key') n (open_db (snd (sq_SetBytesWithVersion E ht st key v ver d))) =
      sql_select E' st' (hex_encode key') n (open_db d)"
    using assms by (cases "db_fault (open_db d)"; cases "st' = st")
      (simp_all add: sql_select_def candidates_upsert_other)
  then show ?thesis by (simp add: sq_GetBytesAtVersion_def)
qed

lemma sq_ver_frame:
  assumes "(st', key') \<noteq> (st, key)"
  shows "sq_ver_below (snd (sq_SetBytesWithVersion E ht st key v ver d)) st' key' m = sq_ver_below d st' key' m"
proof -
  have "sq_ver_below d st' key' m \<longleftrightarrow>
      (\<forall>r \<in> set (candidates (hex_encode key') (- 1) (rows_of d st')). unat (row_version r) < m)" for d
    by (auto simp: sq_ver_below_def candidates_def)
  then show ?thesis using sq_read_frame[OF assms] by simp
qed

lemma sq_get_slot:
  assumes "sq_usable E d" "st \<in> set table_names" "sq_slot d st key x"
  shows "sq_GetBytes E st key d = the_or ErrNotFound x"
proof -
  let ?cs = "candidates (hex_encode key) 0 (rows_of d st)"
  have "sql_accepts E 0" using assms(1) by (simp add: sq_usable_def sql_law_def)
  note eq = sq_Get_eq[OF assms(1,2) this, of key]
  have "sql_pick E (top_version ?cs) \<in> set ?cs" if "?cs \<noteq> []"
    using assms(1) sql_pick_top[OF _ that] top_version_subset by (auto simp: sq_usable_def)
  then show ?thesis using assms(3) eq
    by (cases x) (auto simp: sq_GetBytes_def sq_slot_def Let_def)
qed

lemma sq_set_slot:
  assumes "sq_usable E d" "st \<in> set table_names" "unat ht < 2 ^ 63"
    and "st = globalStoreName \<or> sq_slot d st key None \<or> sq_slot d st key (Some v)"
  shows "sq_slot (snd (sq_SetBytes E ht st key v d)) st key (Some v)"
proof -
  let ?n = "new_row ht st key v 0"
  have d: "distinct (map row_id (rows_of d st))" using assms(1) by (simp add: sq_usable_def)
  have rows: "rows_of (snd (sq_SetBytes E ht st key v d)) st = upsert ?n (rows_of d st)"
    using sq_SetV_ok(2)[OF assms(1-3), of 0] by (simp add: sq_SetBytes_def)
  have "?n \<in> set (candidates (hex_encode key) 0 (upsert ?n (rows_of d st)))"
    by (simp add: candidates_def set_upsert[OF d])
  then have ne: "candidates (hex_encode key) 0 (upsert ?n (rows_of d st)) \<noteq> []" by force
  have "row_value r = hex_encode v" if r: "r \<in> set (candidates (hex_encode key) 0 (upsert ?n (rows_of d st)))" for r
  proof -
    have k: "row_key r = hex_encode key" "row_version r = 0" using r by (simp_all add: candidates_def)
    consider "r = ?n" | "r \<in> set (rows_of d st)" "row_id r \<noteq> row_id ?n"
      using r by (auto simp: candidates_def set_upsert[OF d])
    then show ?thesis
    proof cases
      case 2
      then have mem: "r \<in> set (candidates (hex_encode key) 0 (rows_of d st))" using k by (simp add: candidates_def)
      have "st \<noteq> globalStoreName"
        using 2 k assms(1) by (auto simp: sq_usable_def row_id_def)
      then have "sq_slot d st key None \<or> sq_slot d st key (Some v)" using assms(4) by simp
      then show ?thesis using mem by (auto simp: sq_slot_def Let_def)
    qed simp
  qed
  then show ?thesis using ne by (simp add: sq_slot_def rows Let_def)
qed

lemma sq_setv:
  assumes "sq_usable E d" "st \<in> set table_names" "unat ht < 2 ^ 63" "unat ver < 2 ^ 63" "sq_ver_below d st key (unat ver)"
  shows "sq_ver_below (snd (sq_SetBytesWithVersion E ht st key v ver d)) st key (Suc (unat ver))"
    "unat n < 2 ^ 63 \<Longrightarrow> sq_GetBytesAtVersion E st key n (snd (sq_SetBytesWithVersion E ht st key v ver d)) =
       (if ver \<le> n then Inr v else sq_GetBytesAtVersion E st key n d)"
proof -
  let ?n = "new_row ht st key v ver" and ?d = "snd (sq_SetBytesWithVersion E ht st key v ver d)"
  have fresh: "row_id ?n \<notin> set (map row_id (rows_of d st))"
    using assms(5) by (auto simp: sq_ver_below_def row_id_def)
  have rows: "rows_of ?d st = rows_of d st @ [?n]"
    using sq_SetV_ok(2)[OF assms(1-4)] upsert_fresh[OF fresh] by simp
  show "sq_ver_below ?d st key (Suc (unat ver))"
    using assms(5) by (auto simp: sq_ver_below_def rows less_Suc_eq)
  assume "unat n < 2 ^ 63"
  then have acc: "sql_accepts E n" using assms(1) by (simp add: sq_usable_def sql_law_def)
  note eqs = sq_Get_eq[OF assms(1,2) acc, of key] sq_Get_eq[OF sq_SetV_usable[OF assms(1)] assms(2) acc, of key]
  show "sq_GetBytesAtVersion E st key n ?d = (if ver \<le> n then Inr v else sq_GetBytesAtVersion E st key n d)"
  proof (cases "ver \<le> n")
    case True
    let ?cs = "candidates (hex_encode key) n (rows_of d st)"
    have low: "row_version r < ver" if "r \<in> set ?cs" for r
      using that assms(5) by (auto simp: candidates_def sq_ver_below_def word_less_nat_alt)
    then have "top_version (?cs @ [?n]) = [?n]"
      by (fastforce simp: top_version_def filter_empty_conv)
    then have "sql_pick E (top_version (?cs @ [?n])) = ?n"
      using sql_pick_top[of E "?cs @ [?n]"] assms(1) by (simp add: sq_usable_def)
    moreover have "candidates (hex_encode key) n (rows_of ?d st) = ?cs @ [?n]"
      using True by (simp add: rows candidates_def)
    ultimately show ?thesis using True by (simp add: eqs(2) Let_def)
  next
    case False
    then have "candidates (hex_encode key) n (rows_of ?d st) = candidates (hex_encode key) n (rows_of d st)"
      by (simp add: rows candidates_def)
    then show ?thesis using False by (simp add: eqs)
  qed
qed

lemma sqlite_kv_simps [simp]:
  "GetBytes (sqlite_kv E) = sq_GetBytes E" "GetBytesAtVersion (sqlite_kv E) = sq_GetBytesAtVersion E"
  "SetBytes (sqlite_kv E) = sq_SetBytes E" "SetBytesWithVersion (sqlite_kv E) = sq_SetBytesWithVersion E"
  by (simp_all add: sqlite_kv_def)

lemma sq_slot_frame:
  "(st', key') \<noteq> (st, key) \<Longrightarrow>
   sq_slot (snd (sq_SetBytesWithVersion E ht st key v ver d)) st' key' x = sq_slot d st' key' x"
  by (simp add: sq_slot_def sq_read_frame)

interpretation sq: kv_store "sqlite_kv E" "sq_usable E" "set table_names" sq_slot sq_ver_below for E
proof (unfold_locales, goal_cases)
  case (1 d st key x) then show ?case by (simp add: sq_get_slot)
next
  case (2 d st ht key v)
  have "unat (0 :: u64) < 2 ^ 63" by simp
  then show ?case using 2 sq_SetV_ok(1)[OF 2(1-3)] sq_set_slot[OF 2] by (simp add: sq_SetBytes_def)
next
  case (3 d ht st key v) then show ?case by (simp add: sq_SetBytes_def sq_SetV_usable)
next
  case (4 st' key' st key ht v d x) then show ?case by (simp add: sq_SetBytes_def sq_slot_frame)
next
  case (5 d st ht ver key v) then show ?case by (simp add: sq_SetV_ok(1) sq_setv(1))
next
  case (6 d st ht ver n key v) then show ?case by (simp add: sq_setv(2))
next
  case (7 d ht st key v ver) then show ?case by (simp add: sq_SetV_usable)
next
  case (8 st' key' st key ht v ver d x) then show ?case by (simp add: sq_slot_frame)
next
  case (9 st' key' st key n ht v ver d m) then show ?case by (simp add: sq_get_frame sq_ver_frame)
next
  case (10 st' key' st key n ht v d m) then show ?case by (simp add: sq_SetBytes_def sq_get_frame sq_ver_frame)
next
  case 11 show ?case by (simp add: default_tables_def table_names_def)
next
  case (12 d st key m m') then show ?case by (auto simp: sq_ver_below_def)
next
  case (13 d st ht key v)
  have "unat (0 :: u64) < 2 ^ 63" by simp
  then show ?case using sq_SetV_ok(1)[OF 13] by (simp add: sq_SetBytes_def)
next
  case 14 show ?case by (simp add: table_names_def)
qed

end
