(* ===== verification/Mem_Store.thy ===== *)
theory Mem_Store
  imports Store_Spec
begin

text \<open>
  The in-memory store, \<^verbatim>\<open>storage/memstore/memstore.go\<close>.

  The store's maps are HOL maps (none of them is iterated over); the ledger map
  holds flow-go snapshot trees, whose operations are the parameter record
  \<^verbatim>\<open>snapshot_tree\<close> with the law \<^verbatim>\<open>tree_law\<close>. The theory ends with
  the interpretation of \<^verbatim>\<open>chain_store\<close>: the in-memory store implements the
  contract of the storage interface.
\<close>

section \<open>State\<close>

record 't snapshot_tree =
  tree_zero :: 't
  tree_Append :: "'t \<Rightarrow> execution_snapshot \<Rightarrow> 't"
  tree_Get :: "'t \<Rightarrow> storage_snapshot"

record 't memstore =
  ms_blockIDToHeight :: "flow_id \<rightharpoonup> u64"
  ms_blocks :: "u64 \<rightharpoonup> block"
  ms_collections :: "flow_id \<rightharpoonup> flow_id list"
  ms_transactions :: "flow_id \<rightharpoonup> transaction_body"
  ms_systemTransactions :: "flow_id \<rightharpoonup> SystemTransactions"
  ms_scheduledTransactionIndex :: "u64 \<rightharpoonup> flow_id"
  ms_scheduledTransactionBlockIndex :: "flow_id \<rightharpoonup> flow_id"
  ms_transactionResults :: "flow_id \<rightharpoonup> StorableTransactionResult"
  ms_systemTransactionResults :: "string \<rightharpoonup> StorableTransactionResult"
  ms_ledger :: "u64 \<rightharpoonup> 't"
  ms_eventsByBlockHeight :: "u64 \<rightharpoonup> event list"
  ms_blockHeight :: u64

definition ms_New :: "'t memstore" where
  "ms_New =
     \<lparr>ms_blockIDToHeight = Map.empty, ms_blocks = Map.empty, ms_collections = Map.empty,
      ms_transactions = Map.empty, ms_systemTransactions = Map.empty,
      ms_scheduledTransactionIndex = Map.empty, ms_scheduledTransactionBlockIndex = Map.empty,
      ms_transactionResults = Map.empty, ms_systemTransactionResults = Map.empty,
      ms_ledger = Map.empty, ms_eventsByBlockHeight = Map.empty, ms_blockHeight = 0\<rparr>"

section \<open>Queries\<close>

definition ms_LatestBlock :: "'t memstore \<Rightarrow> block result" where
  "ms_LatestBlock s =
     (case ms_blocks s (ms_blockHeight s) of None \<Rightarrow> Inl ErrNotFound | Some b \<Rightarrow> Inr b)"

definition ms_LatestBlockHeight :: "'t memstore \<Rightarrow> u64 result" where
  "ms_LatestBlockHeight s =
     (case ms_LatestBlock s of Inl e \<Rightarrow> Inl e | Inr b \<Rightarrow> Inr (Height b))"

definition ms_BlockByID :: "flow_id \<Rightarrow> 't memstore \<Rightarrow> block result" where
  "ms_BlockByID blockID s =
     (case ms_blockIDToHeight s blockID of
        None \<Rightarrow> Inl ErrNotFound
      | Some blockHeight \<Rightarrow>
         (case ms_blocks s blockHeight of None \<Rightarrow> Inl ErrNotFound | Some block \<Rightarrow> Inr block))"

definition ms_BlockByHeight :: "u64 \<Rightarrow> 't memstore \<Rightarrow> block result" where
  "ms_BlockByHeight height s =
     (case ms_blocks s height of None \<Rightarrow> Inl ErrNotFound | Some block \<Rightarrow> Inr block)"

definition ms_SystemTransactionsForBlockID :: "flow_id \<Rightarrow> 't memstore \<Rightarrow> SystemTransactions result" where
  "ms_SystemTransactionsForBlockID blockID s =
     (case ms_systemTransactions s blockID of None \<Rightarrow> Inl ErrNotFound | Some st \<Rightarrow> Inr st)"

definition ms_BlockIDByScheduledTransactionID :: "u64 \<Rightarrow> 't memstore \<Rightarrow> flow_id result" where
  "ms_BlockIDByScheduledTransactionID scheduledTxID s =
     (case ms_scheduledTransactionIndex s scheduledTxID of None \<Rightarrow> Inl ErrNotFound | Some b \<Rightarrow> Inr b)"

definition ms_ScheduledTransactionBlockIDByTxID :: "flow_id \<Rightarrow> 't memstore \<Rightarrow> flow_id result" where
  "ms_ScheduledTransactionBlockIDByTxID txID s =
     (case ms_scheduledTransactionBlockIndex s txID of None \<Rightarrow> Inl ErrNotFound | Some b \<Rightarrow> Inr b)"

definition ms_CollectionByID :: "flow_id \<Rightarrow> 't memstore \<Rightarrow> flow_id list result" where
  "ms_CollectionByID collectionID s =
     (case ms_collections s collectionID of None \<Rightarrow> Inl ErrNotFound | Some c \<Rightarrow> Inr c)"

definition ms_TransactionByID :: "flow_id \<Rightarrow> 't memstore \<Rightarrow> transaction_body result" where
  "ms_TransactionByID transactionID s =
     (case ms_transactions s transactionID of None \<Rightarrow> Inl ErrNotFound | Some tx \<Rightarrow> Inr tx)"

definition ms_FullCollectionByID :: "flow_id \<Rightarrow> 't memstore \<Rightarrow> transaction_body list result" where
  "ms_FullCollectionByID collectionID s =
     (case ms_collections s collectionID of
        None \<Rightarrow> Inl ErrNotFound
      | Some light \<Rightarrow>
          mapR (\<lambda>txID. case ms_transactions s txID of None \<Rightarrow> Inl ErrNotFound | Some tx \<Rightarrow> Inr tx) light)"

definition ms_TransactionResultByID :: "flow_id \<Rightarrow> 't memstore \<Rightarrow> StorableTransactionResult result" where
  "ms_TransactionResultByID transactionID s =
     (case ms_transactionResults s transactionID of None \<Rightarrow> Inl ErrNotFound | Some r \<Rightarrow> Inr r)"

definition ms_system_key :: "flow_id \<Rightarrow> flow_id \<Rightarrow> string" where
  "ms_system_key blockID txID = ''system_tx_result_'' @ ID_String blockID @ ''_'' @ ID_String txID"

definition ms_SystemTransactionResultByID ::
  "flow_id \<Rightarrow> flow_id \<Rightarrow> 't memstore \<Rightarrow> StorableTransactionResult result" where
  "ms_SystemTransactionResultByID blockID transactionID s =
     (case ms_systemTransactionResults s (ms_system_key blockID transactionID) of
        None \<Rightarrow> Inl ErrNotFound | Some r \<Rightarrow> Inr r)"

definition ms_tree :: "'t snapshot_tree \<Rightarrow> u64 \<Rightarrow> 't memstore \<Rightarrow> 't" where
  "ms_tree T height s = (case ms_ledger s height of None \<Rightarrow> tree_zero T | Some t \<Rightarrow> t)"

definition ms_LedgerByHeight :: "'t snapshot_tree \<Rightarrow> u64 \<Rightarrow> 't memstore \<Rightarrow> storage_snapshot result" where
  "ms_LedgerByHeight T blockHeight s = Inr (tree_Get T (ms_tree T blockHeight s))"

definition ms_EventsByHeight :: "u64 \<Rightarrow> string \<Rightarrow> 't memstore \<Rightarrow> event list result" where
  "ms_EventsByHeight blockHeight eventType s =
     Inr (filter (\<lambda>event. if eventType = '''' then True else ev_Type event = eventType)
           (case ms_eventsByBlockHeight s blockHeight of None \<Rightarrow> [] | Some es \<Rightarrow> es))"

section \<open>Updates\<close>

definition ms_storeBlock :: "'h hashes_scheme \<Rightarrow> block \<Rightarrow> 't memstore \<Rightarrow> unit result \<times> 't memstore" where
  "ms_storeBlock p block s =
     (let s = s\<lparr>ms_blocks := (ms_blocks s)(Height block \<mapsto> block),
                ms_blockIDToHeight := (ms_blockIDToHeight s)(block_ID p block \<mapsto> Height block)\<rparr> in
      if Height block > ms_blockHeight s
      then (Inr (), s\<lparr>ms_blockHeight := Height block\<rparr>)
      else (Inr (), s))"

definition ms_StoreSystemTransactions :: "SystemTransactions \<Rightarrow> 't memstore \<Rightarrow> unit result \<times> 't memstore" where
  "ms_StoreSystemTransactions st s =
     (Inr (), s\<lparr>ms_systemTransactions := (ms_systemTransactions s)(st_BlockID st \<mapsto> st)\<rparr>)"

definition ms_IndexScheduledTransactionID :: "u64 \<Rightarrow> flow_id \<Rightarrow> 't memstore \<Rightarrow> unit result \<times> 't memstore" where
  "ms_IndexScheduledTransactionID scheduledTxID blockID s =
     (Inr (), s\<lparr>ms_scheduledTransactionIndex := (ms_scheduledTransactionIndex s)(scheduledTxID \<mapsto> blockID)\<rparr>)"

definition ms_IndexScheduledTransactionBlockID ::
  "flow_id \<Rightarrow> flow_id \<Rightarrow> 't memstore \<Rightarrow> unit result \<times> 't memstore" where
  "ms_IndexScheduledTransactionBlockID txID blockID s =
     (Inr (), s\<lparr>ms_scheduledTransactionBlockIndex := (ms_scheduledTransactionBlockIndex s)(txID \<mapsto> blockID)\<rparr>)"

definition ms_insertCollection :: "'h hashes_scheme \<Rightarrow> flow_id list \<Rightarrow> 't memstore \<Rightarrow> unit result \<times> 't memstore" where
  "ms_insertCollection p col s = (Inr (), s\<lparr>ms_collections := (ms_collections s)(col_ID p col \<mapsto> col)\<rparr>)"

definition ms_insertSystemTransactions ::
  "flow_id \<Rightarrow> SystemTransactions \<Rightarrow> 't memstore \<Rightarrow> unit result \<times> 't memstore" where
  "ms_insertSystemTransactions blockID stx s =
     (Inr (), s\<lparr>ms_systemTransactions := (ms_systemTransactions s)(blockID \<mapsto> stx)\<rparr>)"

definition ms_insertTransaction :: "flow_id \<Rightarrow> transaction_body \<Rightarrow> 't memstore \<Rightarrow> unit result \<times> 't memstore" where
  "ms_insertTransaction txID tx s = (Inr (), s\<lparr>ms_transactions := (ms_transactions s)(txID \<mapsto> tx)\<rparr>)"

definition ms_insertTransactionResult ::
  "flow_id \<Rightarrow> StorableTransactionResult \<Rightarrow> 't memstore \<Rightarrow> unit result \<times> 't memstore" where
  "ms_insertTransactionResult txID r s =
     (Inr (), s\<lparr>ms_transactionResults := (ms_transactionResults s)(txID \<mapsto> r)\<rparr>)"

definition ms_insertSystemTransactionResult ::
  "flow_id \<Rightarrow> flow_id \<Rightarrow> StorableTransactionResult \<Rightarrow> 't memstore \<Rightarrow> unit result \<times> 't memstore" where
  "ms_insertSystemTransactionResult blockID txID r s =
     (Inr (), s\<lparr>ms_systemTransactionResults :=
        (ms_systemTransactionResults s)(ms_system_key blockID txID \<mapsto> r)\<rparr>)"

definition ms_insertExecutionSnapshot ::
  "'t snapshot_tree \<Rightarrow> u64 \<Rightarrow> execution_snapshot \<Rightarrow> 't memstore \<Rightarrow> unit result \<times> 't memstore" where
  "ms_insertExecutionSnapshot T blockHeight executionSnapshot s =
     (let oldLedger = ms_tree T (blockHeight - 1) s in
      (Inr (), s\<lparr>ms_ledger := (ms_ledger s)(blockHeight \<mapsto> tree_Append T oldLedger executionSnapshot)\<rparr>))"

definition ms_insertEvents :: "u64 \<Rightarrow> event list \<Rightarrow> 't memstore \<Rightarrow> unit result \<times> 't memstore" where
  "ms_insertEvents blockHeight events s =
     (case ms_eventsByBlockHeight s blockHeight of
        None \<Rightarrow> (Inr (), s\<lparr>ms_eventsByBlockHeight := (ms_eventsByBlockHeight s)(blockHeight \<mapsto> events)\<rparr>)
      | Some old \<Rightarrow> (Inr (), s\<lparr>ms_eventsByBlockHeight :=
                        (ms_eventsByBlockHeight s)(blockHeight \<mapsto> old @ events)\<rparr>))"

definition ms_CommitBlock ::
  "'h hashes_scheme \<Rightarrow> 't snapshot_tree \<Rightarrow> commit_args \<Rightarrow> 't memstore \<Rightarrow> unit result \<times> 't memstore" where
  "ms_CommitBlock p T a s =
     (if length (cb_transactions a) \<noteq> length (cb_results a)
      then (Inl (count_mismatch ''transactions'' (length (cb_transactions a)) ''result'' (length (cb_results a))), s)
      else if length (cb_systemTransactions a) \<noteq> length (cb_systemResults a)
      then (Inl (count_mismatch ''system transactions'' (length (cb_systemTransactions a))
                   ''system result'' (length (cb_systemResults a))), s)
      else
        bindE (ms_storeBlock p (cb_block a) s) (\<lambda>_ s.
        bindE (for_each (ms_insertCollection p) (cb_collections a) s) (\<lambda>_ s.
        bindE (if 0 < length (cb_systemTransactions a) \<or> 0 < length (cb_scheduled a)
               then ms_insertSystemTransactions (block_ID p (cb_block a))
                      \<lparr>st_BlockID = block_ID p (cb_block a), st_Transactions = cb_systemTransactions a,
                       st_ScheduledTransactionIDs = cb_scheduled a\<rparr> s
               else (Inr (), s)) (\<lambda>_ s.
        bindE (for_each (\<lambda>(i, tx). ms_insertTransaction i tx) (cb_transactions a) s) (\<lambda>_ s.
        bindE (for_each (\<lambda>(i, r). ms_insertTransactionResult i r) (cb_results a) s) (\<lambda>_ s.
        bindE (for_each (\<lambda>(i, tx). ms_insertTransaction i tx) (cb_systemBodies a) s) (\<lambda>_ s.
        bindE (for_each (\<lambda>(i, r). ms_insertSystemTransactionResult (block_ID p (cb_block a)) i r)
                 (cb_systemResults a) s) (\<lambda>_ s.
        bindE (ms_insertExecutionSnapshot T (Height (cb_block a)) (cb_snapshot a) s) (\<lambda>_ s.
        ms_insertEvents (Height (cb_block a)) (cb_events a) s)))))))))"

text \<open>The method table. \<^verbatim>\<open>StoreBlock\<close> takes the lock and calls \<^const>\<open>ms_storeBlock\<close>.\<close>

definition memstore_ops :: "'h hashes_scheme \<Rightarrow> 't snapshot_tree \<Rightarrow> 't memstore store_ops" where
  "memstore_ops p T =
     \<lparr>st_LatestBlockHeight = ms_LatestBlockHeight, st_LatestBlock = ms_LatestBlock,
      st_StoreBlock = ms_storeBlock p, st_StoreSystemTransactions = ms_StoreSystemTransactions,
      st_SystemTransactionsForBlockID = ms_SystemTransactionsForBlockID,
      st_IndexScheduledTransactionID = ms_IndexScheduledTransactionID,
      st_BlockIDByScheduledTransactionID = ms_BlockIDByScheduledTransactionID,
      st_IndexScheduledTransactionBlockID = ms_IndexScheduledTransactionBlockID,
      st_ScheduledTransactionBlockIDByTxID = ms_ScheduledTransactionBlockIDByTxID,
      st_BlockByID = ms_BlockByID, st_BlockByHeight = ms_BlockByHeight,
      st_CommitBlock = ms_CommitBlock p T, st_CollectionByID = ms_CollectionByID,
      st_FullCollectionByID = ms_FullCollectionByID, st_TransactionByID = ms_TransactionByID,
      st_TransactionResultByID = ms_TransactionResultByID,
      st_SystemTransactionResultByID = ms_SystemTransactionResultByID,
      st_LedgerByHeight = ms_LedgerByHeight T, st_EventsByHeight = ms_EventsByHeight\<rparr>"

section \<open>Refinement of the contract\<close>

text \<open>
  Documented behaviour of flow-go's snapshot tree: the zero tree reads as empty,
  and an appended execution snapshot shadows the tree below it.
\<close>

definition tree_law :: "'t snapshot_tree \<Rightarrow> bool" where
  "tree_law T \<longleftrightarrow>
     (\<forall>r. tree_Get T (tree_zero T) r = Inr []) \<and>
     (\<forall>t x r. tree_Get T (tree_Append T t x) r =
        (case map_of (WriteSet x) r of None \<Rightarrow> tree_Get T t r | Some v \<Rightarrow> Inr v))"

definition mem_ledger_rep :: "'t snapshot_tree \<Rightarrow> 't memstore \<Rightarrow> history \<Rightarrow> bool" where
  "mem_ledger_rep T s h \<longleftrightarrow>
     (\<forall>n. unat n < length h \<longrightarrow> ms_ledger s n \<noteq> None) \<and>
     (\<forall>n. length h \<le> unat n \<longrightarrow> ms_ledger s n = None) \<and>
     (\<forall>n r. unat n < length h \<longrightarrow> tree_Get T (ms_tree T n s) r = Inr (value_of (hist_register h n r)))"

definition mem_rep :: "'h hashes_scheme \<Rightarrow> 't snapshot_tree \<Rightarrow> 't memstore \<Rightarrow> history \<Rightarrow> bool" where
  "mem_rep p T s h \<longleftrightarrow>
     tree_law T \<and> length h < 2 ^ 63 \<and>
     (\<forall>i < length h. Height (cb_block (h ! i)) = of_nat i) \<and>
     ms_blockHeight s = of_nat (length h - 1) \<and>
     ms_blocks s = hist_block h \<and> ms_blockIDToHeight s = hist_height p h \<and>
     ms_collections s = hist_collection p h \<and> ms_transactions s = hist_transaction h \<and>
     ms_transactionResults s = hist_result h \<and>
     (\<forall>b i. ms_systemTransactionResults s (ms_system_key b i) = hist_system_result p h (b, i)) \<and>
     ms_systemTransactions s = hist_system p h \<and>
     (\<forall>n. ms_eventsByBlockHeight s n = (if unat n < length h then Some (hist_events h n) else None)) \<and>
     mem_ledger_rep T s h"

lemma ms_system_key_inject [simp]:
  "ms_system_key b i = ms_system_key b' i' \<longleftrightarrow> b = b' \<and> i = i'"
  by (simp add: ms_system_key_def)

text \<open>The insertion loops never fail, and add the whole list to one map.\<close>

lemma insertCollection_loop:
  "for_each (ms_insertCollection p) cs s =
     (Inr (), s\<lparr>ms_collections := ms_collections s ++ map_of (map (\<lambda>c. (col_ID p c, c)) (rev cs))\<rparr>)"
  by (induction cs arbitrary: s) (simp_all add: ms_insertCollection_def)

lemma insertTransaction_loop:
  "for_each (\<lambda>(i, tx). ms_insertTransaction i tx) xs s =
     (Inr (), s\<lparr>ms_transactions := ms_transactions s ++ map_of (rev xs)\<rparr>)"
  by (induction xs arbitrary: s) (auto simp: ms_insertTransaction_def)

lemma insertTransactionResult_loop:
  "for_each (\<lambda>(i, r). ms_insertTransactionResult i r) xs s =
     (Inr (), s\<lparr>ms_transactionResults := ms_transactionResults s ++ map_of (rev xs)\<rparr>)"
  by (induction xs arbitrary: s) (auto simp: ms_insertTransactionResult_def)

lemma insertSystemTransactionResult_loop:
  "for_each (\<lambda>(i, r). ms_insertSystemTransactionResult b i r) xs s =
     (Inr (), s\<lparr>ms_systemTransactionResults :=
        ms_systemTransactionResults s ++ map_of (map (\<lambda>(i, r). (ms_system_key b i, r)) (rev xs))\<rparr>)"
  by (induction xs arbitrary: s) (auto simp: ms_insertSystemTransactionResult_def)

lemmas ms_loops =
  insertCollection_loop insertTransaction_loop insertTransactionResult_loop
  insertSystemTransactionResult_loop

text \<open>What a commit that passes the two count checks does to each map.\<close>

lemma ms_CommitBlock_eq:
  assumes "wf_commit a" and "ms_eventsByBlockHeight s (Height (cb_block a)) = None"
  shows "ms_CommitBlock p T a s =
    (Inr (), s\<lparr>
      ms_blocks := (ms_blocks s)(Height (cb_block a) \<mapsto> cb_block a),
      ms_blockIDToHeight := (ms_blockIDToHeight s)(block_ID p (cb_block a) \<mapsto> Height (cb_block a)),
      ms_blockHeight := max (Height (cb_block a)) (ms_blockHeight s),
      ms_collections := ms_collections s ++ map_of (map (\<lambda>c. (col_ID p c, c)) (rev (cb_collections a))),
      ms_systemTransactions := (if has_system a
         then (ms_systemTransactions s)(block_ID p (cb_block a) \<mapsto> SystemTransactions_of p a)
         else ms_systemTransactions s),
      ms_transactions := ms_transactions s ++ map_of (rev (bodies_of a)),
      ms_transactionResults := ms_transactionResults s ++ map_of (rev (cb_results a)),
      ms_systemTransactionResults := ms_systemTransactionResults s ++
        map_of (map (\<lambda>(i, r). (ms_system_key (block_ID p (cb_block a)) i, r)) (rev (cb_systemResults a))),
      ms_ledger := (ms_ledger s)(Height (cb_block a) \<mapsto>
        tree_Append T (ms_tree T (Height (cb_block a) - 1) s) (cb_snapshot a)),
      ms_eventsByBlockHeight := (ms_eventsByBlockHeight s)(Height (cb_block a) \<mapsto> cb_events a)\<rparr>)"
  using assms
  by (cases s) (auto simp: ms_CommitBlock_def wf_commit_def ms_storeBlock_def ms_loops has_system_def
      ms_insertSystemTransactions_def ms_insertExecutionSnapshot_def ms_insertEvents_def Let_def
      bodies_of_def SystemTransactions_of_def max_def ms_tree_def)

lemma map_of_system_key:
  "map_of (map (\<lambda>(i, r). (ms_system_key b i, r)) xs) (ms_system_key c j) =
     map_of (map (\<lambda>(i, r). ((b, i), r)) xs) (c, j)"
  by (induction xs) auto

lemma system_results_commit:
  assumes "\<And>b i. f (ms_system_key b i) = hist_system_result p h (b, i)"
  shows "(f ++ map_of (map (\<lambda>(i, r). (ms_system_key (block_ID p (cb_block a)) i, r))
            (rev (cb_systemResults a)))) (ms_system_key b i) = hist_system_result p (h @ [a]) (b, i)"
  using assms
  by (simp add: map_add_def map_of_system_key system_results_of_def rev_map split: option.split)

lemma mem_ledger_commit:
  assumes rep: "mem_ledger_rep T s h" and law: "tree_law T" and a: "may_follow p h a"
    and s': "ms_ledger s' = (ms_ledger s)(Height (cb_block a) \<mapsto>
               tree_Append T (ms_tree T (Height (cb_block a) - 1) s) (cb_snapshot a))"
  shows "mem_ledger_rep T s' (h @ [a])"
proof -
  let ?H = "Height (cb_block a)"
  have H: "unat ?H = length h" by (rule unat_height[OF a])
  have d: "map_of (rev (WriteSet (cb_snapshot a))) = map_of (WriteSet (cb_snapshot a))"
    using may_followD(3)[OF a] by (simp add: wf_commit_def map_of_rev_distinct)
  have base: "tree_Get T (ms_tree T (?H - 1) s) r = Inr (value_of (last_write r h))" for r
  proof (cases "h = []")
    case True
    then show ?thesis using rep law
      by (simp add: mem_ledger_rep_def ms_tree_def tree_law_def value_of_def)
  next
    case False
    then have u: "unat (?H - 1) = length h - 1" using unat_pred_height[OF a] by simp
    then have "unat (?H - 1) < length h" using False by simp
    then show ?thesis using rep last_write_hist_register[OF u]
      by (simp add: mem_ledger_rep_def)
  qed
  have top: "tree_Get T (ms_tree T ?H s') r = Inr (value_of (last_write r (h @ [a])))" for r
    using law base d
    by (simp add: s' ms_tree_def[of T ?H] tree_law_def last_write_snoc value_of_def split: option.split)
  have old: "ms_tree T n s' = ms_tree T n s" if "n \<noteq> ?H" for n
    using that by (simp add: s' ms_tree_def)
  show ?thesis
    unfolding mem_ledger_rep_def
  proof (intro conjI allI impI)
    fix n r assume n: "unat (n :: u64) < length (h @ [a])"
    show "tree_Get T (ms_tree T n s') r = Inr (value_of (hist_register (h @ [a]) n r))"
    proof (cases "n = ?H")
      case True then show ?thesis by (simp add: top hist_register_snoc[OF a])
    next
      case False
      then have lt: "unat n < length h" using n H by (metis length_append_singleton less_Suc_eq word_unat_eq_iff)
      then show ?thesis using rep False H
        by (simp add: old hist_register_snoc[OF a] word_le_nat_alt mem_ledger_rep_def)
    qed
  qed (use rep H in \<open>auto simp: s' mem_ledger_rep_def less_Suc_eq Suc_le_eq word_unat_eq_iff\<close>)
qed

lemma mem_rep_New: "tree_law T \<Longrightarrow> mem_rep p T ms_New []"
  by (simp add: mem_rep_def ms_New_def mem_ledger_rep_def fun_eq_iff)

lemma mem_rep_commit:
  assumes rep: "mem_rep p T s h" and a: "may_follow p h a"
  shows "fst (ms_CommitBlock p T a s) = Inr () \<and> mem_rep p T (snd (ms_CommitBlock p T a s)) (h @ [a])"
proof -
  let ?H = "Height (cb_block a)"
  have H: "unat ?H = length h" by (rule unat_height[OF a])
  have len: "length h < 2 ^ 64" "Suc (length h) < 2 ^ 63" using may_followD(2)[OF a] by simp_all
  have ev: "ms_eventsByBlockHeight s ?H = None" using rep H by (simp add: mem_rep_def)
  note eq = ms_CommitBlock_eq[OF may_followD(3)[OF a] ev, of p T]
  let ?s = "snd (ms_CommitBlock p T a s)"
  have "ms_blockHeight s \<le> ?H"
  proof -
    have "unat (of_nat (length h - 1) :: u64) = length h - 1"
      by (rule unat_of_nat_less) (use len(1) in simp)
    then show ?thesis using rep H by (simp add: mem_rep_def word_le_nat_alt)
  qed
  then have top: "ms_blockHeight ?s = of_nat (length (h @ [a]) - 1)"
    using may_followD(1)[OF a] by (simp add: eq max_absorb1)
  have led: "mem_ledger_rep T ?s (h @ [a])"
    by (rule mem_ledger_commit[of T s h p]) (use rep a in \<open>simp_all add: mem_rep_def eq\<close>)
  have hts: "\<forall>i < length (h @ [a]). Height (cb_block ((h @ [a]) ! i)) = of_nat i"
    using rep may_followD(1)[OF a] by (simp add: mem_rep_def nth_append less_Suc_eq)
  have sys: "\<forall>b i. ms_systemTransactionResults ?s (ms_system_key b i) = hist_system_result p (h @ [a]) (b, i)"
    using rep by (simp add: eq mem_rep_def system_results_commit del: hist_system_result_snoc)
  have blk: "ms_blocks ?s = hist_block (h @ [a])"
    using rep by (simp add: eq mem_rep_def fun_eq_iff hist_block_snoc[OF a])
  have evs: "\<forall>n. ms_eventsByBlockHeight ?s n =
      (if unat n < length (h @ [a]) then Some (hist_events (h @ [a]) n) else None)"
    using rep H by (simp add: eq mem_rep_def hist_events_snoc[OF a] less_Suc_eq word_unat_eq_iff)
  show ?thesis
    unfolding mem_rep_def
    using rep top led hts sys blk evs len(2) by (simp add: eq mem_rep_def)
qed

lemma memstore_ops_simps [simp]:
  "st_LatestBlockHeight (memstore_ops p T) = ms_LatestBlockHeight"
  "st_LatestBlock (memstore_ops p T) = ms_LatestBlock"
  "st_SystemTransactionsForBlockID (memstore_ops p T) = ms_SystemTransactionsForBlockID"
  "st_IndexScheduledTransactionID (memstore_ops p T) = ms_IndexScheduledTransactionID"
  "st_IndexScheduledTransactionBlockID (memstore_ops p T) = ms_IndexScheduledTransactionBlockID"
  "st_BlockIDByScheduledTransactionID (memstore_ops p T) = ms_BlockIDByScheduledTransactionID"
  "st_ScheduledTransactionBlockIDByTxID (memstore_ops p T) = ms_ScheduledTransactionBlockIDByTxID"
  "st_BlockByID (memstore_ops p T) = ms_BlockByID"
  "st_BlockByHeight (memstore_ops p T) = ms_BlockByHeight"
  "st_CommitBlock (memstore_ops p T) = ms_CommitBlock p T"
  "st_CollectionByID (memstore_ops p T) = ms_CollectionByID"
  "st_FullCollectionByID (memstore_ops p T) = ms_FullCollectionByID"
  "st_TransactionByID (memstore_ops p T) = ms_TransactionByID"
  "st_TransactionResultByID (memstore_ops p T) = ms_TransactionResultByID"
  "st_SystemTransactionResultByID (memstore_ops p T) = ms_SystemTransactionResultByID"
  "st_LedgerByHeight (memstore_ops p T) = ms_LedgerByHeight T"
  "st_EventsByHeight (memstore_ops p T) = ms_EventsByHeight"
  by (simp_all add: memstore_ops_def)

lemma the_or_case: "the_or e x = (case x of None \<Rightarrow> Inl e | Some v \<Rightarrow> Inr v)"
  by (simp add: the_or_def)

lemma mem_latest:
  assumes "mem_rep p T s h" "h \<noteq> []"
  shows "ms_LatestBlock s = Inr (cb_block (last h))"
proof -
  have "length h < 2 ^ 63" using assms(1) by (simp add: mem_rep_def)
  then have "unat (of_nat (length h - 1) :: u64) = length h - 1" by (intro unat_of_nat_less) simp
  then show ?thesis using assms
    by (simp add: ms_LatestBlock_def mem_rep_def hist_block_def last_conv_nth)
qed

interpretation mem: chain_store p "memstore_ops p T" "\<lambda>_. True" "mem_rep p T" for p T
proof (unfold_locales, goal_cases)
  case (1 s h a) then show ?case using mem_rep_commit by simp
next
  case (2 s) then show ?case by (simp add: mem_rep_def ms_LatestBlock_def)
next
  case (3 s h) then show ?case by (simp add: mem_latest)
next
  case (4 s h) then show ?case by (simp add: ms_LatestBlockHeight_def mem_latest)
next
  case (5 s h n) then show ?case by (simp add: mem_rep_def ms_BlockByHeight_def the_or_case)
next
  case (6 s h i) then show ?case
    by (simp add: mem_rep_def ms_BlockByID_def the_or_case split: option.split)
next
  case (7 s h i) then show ?case by (simp add: mem_rep_def ms_CollectionByID_def the_or_case)
next
  case (8 s h i) then show ?case
    by (simp add: mem_rep_def ms_FullCollectionByID_def the_or_case split: option.split)
next
  case (9 s h i) then show ?case by (simp add: mem_rep_def ms_TransactionByID_def the_or_case)
next
  case (10 s h i) then show ?case by (simp add: mem_rep_def ms_TransactionResultByID_def the_or_case)
next
  case (11 s h b i) then show ?case by (simp add: mem_rep_def ms_SystemTransactionResultByID_def the_or_case)
next
  case (12 s h i) then show ?case by (simp add: mem_rep_def ms_SystemTransactionsForBlockID_def the_or_case)
next
  case (13 s h n ty) then show ?case
    by (auto simp: mem_rep_def ms_EventsByHeight_def match_type_def hist_events_def intro!: filter_cong)
next
  case (14 s h n) then show ?case by (simp add: mem_rep_def ms_LedgerByHeight_def mem_ledger_rep_def)
next
  case (15 s h n b) then show ?case
    by (simp add: mem_rep_def ms_IndexScheduledTransactionID_def mem_ledger_rep_def ms_tree_def)
next
  case (16 s h i b) then show ?case
    by (simp add: mem_rep_def ms_IndexScheduledTransactionBlockID_def mem_ledger_rep_def ms_tree_def)
next
  case (17 a s) then show ?case by (auto simp: counts_match_def ms_CommitBlock_def)
qed

end
