(* ===== verification/Sample.thy ===== *)
theory Sample
  imports Sqlite_Store Mem_Store
begin

text \<open>
  Concrete parameters and commits. The development quantifies over what flow-go,
  the CBOR library and the SQL engine compute; here each parameter is a small
  executable function that satisfies the laws, so that the properties can be
  applied to concrete chains.
\<close>

section \<open>Chain data\<close>

definition sample_block :: "u64 \<Rightarrow> block" where
  "sample_block n =
     \<lparr>ChainID = ''flow-emulator'', ParentID = ucast n, Height = n, View = n, Timestamp = 0,
      Guarantees = [], Seals = []\<rparr>"

definition sample_tx :: "u64 \<Rightarrow> transaction_body" where
  "sample_tx n =
     \<lparr>ReferenceBlockID = 0, Script = [], Arguments = [], GasLimit = n,
      ProposalKey = \<lparr>pk_Address = 1, pk_KeyIndex = 0, pk_SequenceNumber = 0\<rparr>, Payer = 1,
      Authorizers = [], PayloadSignatures = [], EnvelopeSignatures = []\<rparr>"

definition sample_result :: "u64 \<Rightarrow> StorableTransactionResult" where
  "sample_result n =
     \<lparr>ErrorCode = 0, ErrorMessage = '''', Logs = [], Events = [], BlockID = ucast n + 1, BlockHeight = n, CollectionID = 0\<rparr>"

definition sample_event :: event where
  "sample_event = \<lparr>ev_Type = ''A.1.T'', ev_TransactionID = 1, ev_TransactionIndex = 0, ev_EventIndex = 0, ev_Payload = []\<rparr>"

definition sample_register :: register_id where
  "sample_register = \<lparr>Owner = ''a'', Key = ''k''\<rparr>"

section \<open>Identifiers and encodings\<close>

definition sample_block_ID :: "block \<Rightarrow> flow_id" where
  "sample_block_ID b = ucast (Height b) + 1"

definition sample_tx_ID :: "transaction_body \<Rightarrow> flow_id" where
  "sample_tx_ID t = ucast (GasLimit t)"

definition sample_col_ID :: "flow_id list \<Rightarrow> flow_id" where
  "sample_col_ID ts = foldl (\<lambda>a i. a * 31 + i) 7 ts"

definition sample_register_String :: "register_id \<Rightarrow> string" where
  "sample_register_String r = hex_encode (bytes_of_string (Owner r)) @ ''/'' @ Key r"

definition word_bytes :: "u64 \<Rightarrow> bytes" where
  "word_bytes n = be_bytes 8 (unat n)"

definition bytes_word :: "bytes \<Rightarrow> u64" where
  "bytes_word b = of_nat (of_be b)"

fun sample_ids :: "nat \<Rightarrow> bytes \<Rightarrow> flow_id list" where
  "sample_ids 0 b = []"
| "sample_ids (Suc n) b = id_of_bytes (take 32 b) # sample_ids n (drop 32 b)"

definition sample_codec :: codec where
  "sample_codec =
     \<lparr>block_ID = sample_block_ID, payload_hash = (\<lambda>_. 0), col_ID = sample_col_ID, tx_ID = sample_tx_ID,
      register_String = sample_register_String,
      encodeSystemTransaction = (\<lambda>t. Inr (id_bytes (st_BlockID t))),
      decodeSystemTransaction = (\<lambda>b. Inr \<lparr>st_BlockID = id_of_bytes b, st_Transactions = [7], st_ScheduledTransactionIDs = []\<rparr>),
      encodeBlock = (\<lambda>b. Inr (word_bytes (Height b))), decodeBlock = (\<lambda>b. Inr (sample_block (bytes_word b))),
      encodeCollection = (\<lambda>c. Inr (concat (map id_bytes c))),
      decodeCollection = (\<lambda>b. Inr (sample_ids (length b div 32) b)),
      encodeTransaction = (\<lambda>t. Inr (word_bytes (GasLimit t))), decodeTransaction = (\<lambda>b. Inr (sample_tx (bytes_word b))),
      encodeTransactionResult = (\<lambda>r. Inr (word_bytes (BlockHeight r))),
      decodeTransactionResult = (\<lambda>b. Inr (sample_result (bytes_word b))),
      encodeUint64 = (\<lambda>n. Inr (word_bytes n)), decodeUint64 = (\<lambda>b. Inr (bytes_word b)),
      encodeEvents = (\<lambda>es. Inr (be_bytes 8 (length es))),
      decodeEvents = (\<lambda>b. Inr (replicate (of_be b) sample_event))\<rparr>"

text \<open>A block with one system transaction, one register write and one event.\<close>

definition sample_commit :: "u64 \<Rightarrow> commit_args" where
  "sample_commit n =
     \<lparr>cb_block = sample_block n, cb_collections = [], cb_transactions = [], cb_results = [],
      cb_systemTransactions = [7], cb_systemBodies = [(7, sample_tx 7)], cb_systemResults = [(7, sample_result n)],
      cb_snapshot = \<lparr>WriteSet = [(sample_register, word_bytes n)]\<rparr>, cb_events = [sample_event], cb_scheduled = []\<rparr>"

definition sample_env :: sql_env where
  "sample_env = \<lparr>sql_pick = hd, sql_accepts = (\<lambda>n. unat n < 2 ^ 63)\<rparr>"

definition sample_sqlite :: sqlite_store where
  "sample_sqlite =
     \<lparr>CurrentHeight = 0,
      Data = \<lparr>sq_url = InMemory, sq_id = 1, sq_snapshotNames = [], sq_db = InMemory,
              sq_disk = [InMemory \<mapsto> createTables empty_db], sq_stat = None\<rparr>\<rparr>"

text \<open>A snapshot tree as the list of its write sets, newest first.\<close>

fun sample_tree_get :: "(register_id \<times> bytes) list list \<Rightarrow> register_id \<Rightarrow> bytes" where
  "sample_tree_get [] r = []"
| "sample_tree_get (w # ws) r = (case map_of w r of None \<Rightarrow> sample_tree_get ws r | Some v \<Rightarrow> v)"

definition sample_tree :: "(register_id \<times> bytes) list list snapshot_tree" where
  "sample_tree = \<lparr>tree_zero = [], tree_Append = (\<lambda>t x. WriteSet x # t), tree_Get = (\<lambda>t r. Inr (sample_tree_get t r))\<rparr>"

section \<open>The parameters satisfy the laws\<close>

lemma bytes_word_bytes [simp]: "bytes_word (word_bytes n) = n"
proof -
  have "unat n < 256 ^ 8" using unat_less_exp[of n] by simp
  then show ?thesis by (simp add: bytes_word_def word_bytes_def of_be_be_bytes)
qed

lemma sample_codec_simps [simp]:
  "block_ID sample_codec = sample_block_ID" "tx_ID sample_codec = sample_tx_ID" "col_ID sample_codec = sample_col_ID"
  "register_String sample_codec = sample_register_String"
  "rt (encodeUint64 sample_codec) (decodeUint64 sample_codec) n"
  "rt (encodeBlock sample_codec) (decodeBlock sample_codec) (sample_block n)"
  "rt (encodeTransaction sample_codec) (decodeTransaction sample_codec) (sample_tx n)"
  "rt (encodeTransactionResult sample_codec) (decodeTransactionResult sample_codec) (sample_result n)"
  "rt (encodeEvents sample_codec) (decodeEvents sample_codec) [sample_event]"
  by (simp_all add: sample_codec_def rt_def sample_block_def sample_tx_def sample_result_def of_be_be_bytes)

lemma hex_encode_no_slash: "CHR ''/'' \<notin> set (hex_encode b)"
  using hex_encode_lower[of "CHR ''/''" b] by (auto simp: hex_value_def Let_def)

lemma inj_sample_register_String: "inj sample_register_String"
proof (rule injI)
  fix q r assume e: "sample_register_String q = sample_register_String r"
  have split: "takeWhile (\<lambda>c. c \<noteq> CHR ''/'') (hex_encode b @ CHR ''/'' # k) = hex_encode b"
    "dropWhile (\<lambda>c. c \<noteq> CHR ''/'') (hex_encode b @ CHR ''/'' # k) = CHR ''/'' # k" for b k
    using hex_encode_no_slash[of b] by (auto simp: takeWhile_append dropWhile_append)
  have "hex_encode (bytes_of_string (Owner q)) = hex_encode (bytes_of_string (Owner r))" "Key q = Key r"
    using arg_cong[OF e, of "takeWhile (\<lambda>c. c \<noteq> CHR ''/'')"] arg_cong[OF e, of "dropWhile (\<lambda>c. c \<noteq> CHR ''/'')"]
    by (simp_all only: sample_register_String_def split append_Cons append_Nil list.inject simp_thms)
  then show "q = r" by (simp add: register_id.equality)
qed

lemma sql_law_sample: "sql_law sample_env"
  by (simp add: sql_law_def sample_env_def)

lemma tree_law_sample: "tree_law sample_tree"
  by (simp add: tree_law_def sample_tree_def split: option.split)

lemma sample_admits: "default_admits sample_codec (sample_commit n)"
  by (simp add: default_admits_def sample_commit_def bodies_of_def SystemTransactions_of_def)
     (simp add: sample_codec_def rt_def)

lemma sample_usable: "sq_usable sample_env (Data sample_sqlite)"
  by (auto simp: sq_usable_def sql_law_sample sample_sqlite_def open_db_def createTables_def empty_db_def rows_of_def
      split: option.split)

text \<open>A fresh database represents the empty history.\<close>

lemma sample_rep_empty:
  "default_rep sample_codec (sqlite_kv sample_env) (sq_usable sample_env) sq_slot sq_ver_below sample_sqlite []"
proof -
  have rows: "rows_of (Data sample_sqlite) st = []" for st
    by (simp add: rows_of_def sample_sqlite_def open_db_def createTables_def empty_db_def)
  have "sql_accepts sample_env n" if "unat n < 2 ^ 63" for n
    using that by (simp add: sample_env_def)
  then have "sq_GetBytesAtVersion sample_env LedgerStoreName key n (Data sample_sqlite) = Inl ErrNotFound"
    if "unat n < 2 ^ 63" for n key
    using sq_Get_eq[OF sample_usable, of LedgerStoreName n key] that rows
    by (simp add: table_names_def candidates_def)
  moreover have "CurrentHeight sample_sqlite = 0" by (simp add: sample_sqlite_def)
  ultimately show ?thesis
    using sample_usable inj_sample_register_String
    by (simp add: default_rep_def agrees_def sq_slot_def rows candidates_def sq_ver_below_def)
qed

lemma sample_follow:
  "may_follow sample_codec [] (sample_commit 0)"
  "may_follow sample_codec [sample_commit 0] (sample_commit 1)"
  "may_follow sample_codec [sample_commit 0, sample_commit 1] (sample_commit 2)"
  by (simp_all add: may_follow_def wf_commit_def sample_commit_def sample_block_def sample_block_ID_def
      same_bodies_def same_collections_def bodies_of_def)

end
