(* ===== verification/Sqlite_Rollback.thy ===== *)
theory Sqlite_Rollback
  imports Sample
begin

text \<open>
  Rollback and snapshots of the sqlite store: what
  \<^verbatim>\<open>RollbackToBlockHeight\<close>, \<^verbatim>\<open>CreateSnapshot\<close> and
  \<^verbatim>\<open>LoadSnapshot\<close> restore, and what they do not.
\<close>

section \<open>What every write of a commit keeps\<close>

lemma keeps_bindE:
  "P (snd m) \<Longrightarrow> (\<And>x s. P s \<Longrightarrow> P (snd (f x s))) \<Longrightarrow> P (snd (bindE m f))"
  by (cases m; cases "fst m") auto

text \<open>
  A predicate that each write keeps, and that holds once \<^verbatim>\<open>CurrentHeight\<close> is the
  height of the block, holds after the commit, however far the commit gets.
\<close>

lemma CommitBlock_keeps:
  assumes set: "\<And>st key v s. Q s \<Longrightarrow> Q (snd (ds_Set k st key v s))"
    and setv: "\<And>st key v ver s. Q s \<Longrightarrow> Q (snd (ds_SetVersion k st key v ver s))"
    and start: "Q (s\<lparr>CurrentHeight := Height (cb_block a)\<rparr>)"
  shows "Q (snd (CommitBlock p k a s)) \<or> snd (CommitBlock p k a s) = s"
proof (cases "length (cb_transactions a) = length (cb_results a) \<and>
    length (cb_systemTransactions a) = length (cb_systemResults a)")
  case True
  note seq = keeps_bindE[where P = Q] and loop = for_each_keeps[where P = Q]
  have block: "Q (snd (StoreBlock p k (cb_block a) s))"
    using start by (auto simp: StoreBlock_def Let_def split: sum.split intro!: seq set)
  have ins: "Q s \<Longrightarrow> Q (snd (InsertCollection p k c s))" "Q s \<Longrightarrow> Q (snd (InsertTransaction p k t i s))"
    "Q s \<Longrightarrow> Q (snd (InsertTransactionResult p k i r s))" "Q s \<Longrightarrow> Q (snd (InsertSystemTransactionResult p k b i r s))"
    "Q s \<Longrightarrow> Q (snd (StoreSystemTransactions p k st s))" "Q s \<Longrightarrow> Q (snd (InsertEvents p k m es s))"
    for c t i r b st m es s
    by (simp_all add: InsertCollection_def InsertTransaction_def InsertTransactionResult_def
        InsertSystemTransactionResult_def StoreSystemTransactions_def InsertEvents_def set split: sum.split)
  have loops: "Q s \<Longrightarrow> Q (snd (for_each (InsertCollection p k) cs s))"
    "Q s \<Longrightarrow> Q (snd (for_each (\<lambda>(i, t). InsertTransaction p k t i) ts s))"
    "Q s \<Longrightarrow> Q (snd (for_each (\<lambda>(i, r). InsertTransactionResult p k i r) rs s))"
    "Q s \<Longrightarrow> Q (snd (for_each (\<lambda>(i, r). InsertSystemTransactionResult p k b i r) rs s))"
    "Q s \<Longrightarrow> Q (snd (if c then StoreSystemTransactions p k st s else (Inr (), s)))"
    "Q s \<Longrightarrow> Q (snd (InsertExecutionSnapshot p k h x s))" for cs ts rs b c st s h x
    by (auto intro!: loop ins setv simp: case_prod_beta InsertExecutionSnapshot_def)
  have "Q (snd (CommitBlock p k a s))"
    unfolding CommitBlock_def using True
    by (simp only: simp_thms if_False) (rule seq block loops ins | assumption)+
  then show ?thesis ..
qed (auto simp: CommitBlock_def)

lemma snd_ds_SetVersion:
  "snd (ds_SetVersion k st key v ver s) = s\<lparr>Data := snd (SetBytesWithVersion k (CurrentHeight s) st key v ver (Data s))\<rparr>"
  by (simp add: ds_SetVersion_def split: prod.split)

lemma snd_ds_Set_sqlite: "ds_Set (sqlite_kv E) st key v s = ds_SetVersion (sqlite_kv E) st key v 0 s"
  by (simp add: ds_Set_def ds_SetVersion_def sq_SetBytes_def)

section \<open>What survives a rollback\<close>

text \<open>
  Every write of a commit is stamped with the height of its block, so commits
  above height \<open>n\<close> do not change the rows at or below it, and commits up to \<open>n\<close>
  write no row above it.
\<close>

definition kept :: "sql_env \<Rightarrow> u64 \<Rightarrow> (string \<Rightarrow> row list) \<Rightarrow> sqlite_store \<Rightarrow> bool" where
  "kept E n low s \<longleftrightarrow> sq_usable E (Data s) \<and>
     (\<forall>t. t \<noteq> globalStoreName \<longrightarrow> delete_above n (rows_of (Data s) t) = low t)"

definition below :: "sql_env \<Rightarrow> u64 \<Rightarrow> sqlite_store \<Rightarrow> bool" where
  "below E n s \<longleftrightarrow> sq_usable E (Data s) \<and>
     (\<forall>t. t \<noteq> globalStoreName \<longrightarrow> (\<forall>r \<in> set (rows_of (Data s) t). row_height r \<le> n))"

lemma kept_SetVersion:
  assumes "kept E n low s" "n < CurrentHeight s"
  shows "kept E n low (snd (ds_SetVersion (sqlite_kv E) st key v ver s))"
proof -
  let ?d = "snd (sq_SetBytesWithVersion E (CurrentHeight s) st key v ver (Data s))"
  have "delete_above n (rows_of ?d t) = delete_above n (rows_of (Data s) t)" if "t \<noteq> globalStoreName" for t
  proof (cases rule: sq_SetV_cases[of E "CurrentHeight s" st key v ver "Data s"])
    case Same then show ?thesis by (simp add: rows_of_Same[OF Same])
  next
    case (Upsert rs)
    have "delete_above n (upsert (new_row (CurrentHeight s) st key v ver) rs) = delete_above n rs"
      if "st \<noteq> globalStoreName"
      unfolding delete_above_def
      by (rule filter_upsert) (use assms that in \<open>auto simp: row_id_def\<close>)
    then show ?thesis using that Upsert by (auto simp: rows_of_Upsert[OF Upsert(3)])
  qed
  moreover have "sq_usable E ?d" using assms by (intro sq_SetV_usable) (simp add: kept_def)
  ultimately show ?thesis using assms by (simp add: kept_def snd_ds_SetVersion)
qed

lemma below_SetVersion:
  assumes "below E n s" "CurrentHeight s \<le> n"
  shows "below E n (snd (ds_SetVersion (sqlite_kv E) st key v ver s))"
proof -
  let ?d = "snd (sq_SetBytesWithVersion E (CurrentHeight s) st key v ver (Data s))"
  have us: "sq_usable E (Data s)" using assms by (simp add: below_def)
  have "row_height r \<le> n" if "t \<noteq> globalStoreName" "r \<in> set (rows_of ?d t)" for t r
  proof (cases rule: sq_SetV_cases[of E "CurrentHeight s" st key v ver "Data s"])
    case Same then show ?thesis using that assms by (simp add: rows_of_Same[OF Same] below_def)
  next
    case (Upsert rs)
    have "distinct (map row_id rs)" using us Upsert(2) by (auto simp: sq_usable_def)
    then show ?thesis using that assms Upsert(2)
      by (auto simp: rows_of_Upsert[OF Upsert(3)] below_def set_upsert split: if_splits)
  qed
  then show ?thesis using sq_SetV_usable[OF us] by (simp add: below_def snd_ds_SetVersion)
qed

lemma kept_CommitBlock:
  assumes "kept E n low s" "n < Height (cb_block a)"
  shows "kept E n low (snd (CommitBlock p (sqlite_kv E) a s))"
proof -
  let ?Q = "\<lambda>s. n < CurrentHeight s \<and> kept E n low s"
  have "?Q (snd (ds_SetVersion (sqlite_kv E) st key v ver s))" if "?Q s" for st key v ver s
    using that kept_SetVersion by (simp add: snd_ds_SetVersion)
  moreover have "?Q (s\<lparr>CurrentHeight := Height (cb_block a)\<rparr>)" using assms by (simp add: kept_def)
  ultimately show ?thesis
    using CommitBlock_keeps[where Q = ?Q and k = "sqlite_kv E" and s = s and a = a and p = p] assms(1) by (auto simp: snd_ds_Set_sqlite)
qed

lemma below_CommitBlock:
  assumes "below E n s" "Height (cb_block a) \<le> n"
  shows "below E n (snd (CommitBlock p (sqlite_kv E) a s))"
proof -
  let ?Q = "\<lambda>s. CurrentHeight s \<le> n \<and> below E n s"
  have "?Q (snd (ds_SetVersion (sqlite_kv E) st key v ver s))" if "?Q s" for st key v ver s
    using that below_SetVersion by (simp add: snd_ds_SetVersion)
  moreover have "?Q (s\<lparr>CurrentHeight := Height (cb_block a)\<rparr>)" using assms by (simp add: below_def)
  ultimately show ?thesis
    using CommitBlock_keeps[where Q = ?Q and k = "sqlite_kv E" and s = s and a = a and p = p] assms(1) by (auto simp: snd_ds_Set_sqlite)
qed

lemma kept_run_store:
  "kept E n low s \<Longrightarrow> (\<forall>a \<in> set as. n < Height (cb_block a)) \<Longrightarrow>
   kept E n low (run_store (default_ops p (sqlite_kv E)) as s)"
  by (induction as arbitrary: s) (simp_all add: run_store_def kept_CommitBlock)

lemma below_run_store:
  "below E n s \<Longrightarrow> (\<forall>a \<in> set as. Height (cb_block a) \<le> n) \<Longrightarrow>
   below E n (run_store (default_ops p (sqlite_kv E)) as s)"
  by (induction as arbitrary: s) (simp_all add: run_store_def below_CommitBlock)

lemma kept_below: "below E n s \<Longrightarrow> kept E n (rows_of (Data s)) s"
  by (auto simp: kept_def below_def delete_above_def not_less filter_id_conv)

lemma rows_of_deleted:
  assumes "delete_tables n rollback_tables (open_db d) = Inr db"
  defines "d' \<equiv> d\<lparr>sq_disk := (sq_disk d)(sq_db d \<mapsto> db)\<rparr>"
  shows "rows_of d' t = (if t \<in> set rollback_tables then delete_above n (rows_of d t) else rows_of d t)"
    "sq_usable E d \<Longrightarrow> sq_usable E d'"
proof -
  have db: "db = (open_db d)\<lparr>db_tables := (\<lambda>t. if t \<in> set rollback_tables
      then map_option (delete_above n) (db_tables (open_db d) t) else db_tables (open_db d) t)\<rparr>"
    and f: "db_fault (open_db d) = None"
    using assms(1) by (auto simp: delete_tables_def split: option.splits if_splits)
  have o: "open_db d' = db" by (simp add: d'_def open_db_def)
  show rows: "rows_of d' t = (if t \<in> set rollback_tables then delete_above n (rows_of d t) else rows_of d t)" for t
    by (simp add: rows_of_def o db delete_above_def split: option.split)
  have parts: "db_fault (open_db d') = db_fault (open_db d)" "sq_disk d' (sq_db d') \<noteq> None"
    "db_tables (open_db d') st = None \<longleftrightarrow> db_tables (open_db d) st = None" for st
    by (simp_all add: o db) (simp add: d'_def)
  have "distinct (map row_id (delete_above n rs))" if "distinct (map row_id rs)" for rs
    using that by (simp add: delete_above_def distinct_map_filter)
  moreover have "globalStoreName \<notin> set rollback_tables" by (simp add: rollback_tables_def)
  ultimately show "sq_usable E d'" if "sq_usable E d"
    using that f parts by (auto simp: sq_usable_def rows)
qed

lemma rollback_kept:
  assumes "kept E n low s" "n < CurrentHeight s" "unat n < 2 ^ 63" "rt (encodeUint64 p) (decodeUint64 p) n"
  defines "s' \<equiv> snd (RollbackToBlockHeight p E n s)"
  shows "fst (RollbackToBlockHeight p E n s) = Inr ()" "CurrentHeight s' = n" "sq_usable E (Data s')"
    "t \<in> set rollback_tables \<Longrightarrow> rows_of (Data s') t = low t"
    "t \<notin> set rollback_tables \<Longrightarrow> t \<noteq> globalStoreName \<Longrightarrow> rows_of (Data s') t = rows_of (Data s) t"
    "LatestBlockHeight p (sqlite_kv E) s' = Inr n"
proof -
  have us: "sq_usable E (Data s)" using assms(1) by (simp add: kept_def)
  have tabs: "set rollback_tables \<subseteq> set table_names" "globalStoreName \<notin> set rollback_tables"
    "globalStoreName \<in> set table_names"
    by (simp_all add: rollback_tables_def table_names_def)
  have "\<not> (\<exists>t \<in> set rollback_tables. db_tables (open_db (Data s)) t = None)" "db_fault (open_db (Data s)) = None"
    using us tabs(1) by (auto simp: sq_usable_def)
  then obtain db where db: "delete_tables n rollback_tables (open_db (Data s)) = Inr db"
    by (simp add: delete_tables_def)
  define d where "d = (Data s)\<lparr>sq_disk := (sq_disk (Data s))(sq_db (Data s) \<mapsto> db)\<rparr>"
  note del = rows_of_deleted[OF db, folded d_def]
  have ud: "sq_usable E d" by (rule del(2)[OF us])
  let ?b = "enc_val (encodeUint64 p) n" and ?s = "s\<lparr>Data := d, CurrentHeight := n\<rparr>"
  have roll: "RollbackToBlockHeight p E n s = ds_Set (sqlite_kv E) globalStoreName Key_LatestBlock ?b ?s"
    using leD[of "CurrentHeight s" n] assms(2) db rt_enc[OF assms(4)]
    by (auto simp: RollbackToBlockHeight_def SetBlockHeight_def mustEncodeUint64_def d_def)
  let ?x = "sq_SetBytes E n globalStoreName Key_LatestBlock ?b d"
  have z: "unat (0 :: u64) < 2 ^ 63" by simp
  note ok = sq_SetV_ok[OF ud tabs(3) assms(3) z, of Key_LatestBlock ?b, folded sq_SetBytes_def]
  have eq: "ds_Set (sqlite_kv E) globalStoreName Key_LatestBlock ?b ?s = (fst ?x, ?s\<lparr>Data := snd ?x\<rparr>)"
    by (simp add: ds_Set_def split: prod.split)
  show "fst (RollbackToBlockHeight p E n s) = Inr ()" "CurrentHeight s' = n"
    using roll eq ok(1) by (simp_all add: s'_def)
  have D: "Data s' = snd ?x" using roll eq by (simp add: s'_def)
  show "sq_usable E (Data s')" unfolding D sq_SetBytes_def by (rule sq_SetV_usable[OF ud])
  show "rows_of (Data s') t = low t" if "t \<in> set rollback_tables"
    using that tabs(2) assms(1) by (auto simp: D ok(2) del kept_def)
  show "rows_of (Data s') t = rows_of (Data s) t" if "t \<notin> set rollback_tables" "t \<noteq> globalStoreName"
    using that by (simp add: D ok(2) del)
  have "sq_slot (snd ?x) globalStoreName Key_LatestBlock (Some ?b)"
    using sq_set_slot[OF ud tabs(3) assms(3)] by simp
  then have "sq_GetBytes E globalStoreName Key_LatestBlock (snd ?x) = Inr ?b"
    using sq_get_slot[OF _ tabs(3)] sq_SetV_usable[OF ud] by (fastforce simp: sq_SetBytes_def)
  then show "LatestBlockHeight p (sqlite_kv E) s' = Inr n"
    using rt_dec[OF assms(4)] by (simp add: LatestBlockHeight_def ds_Get_def D)
qed

text \<open>The queries see a database only through the rows of its tables.\<close>

lemma same_rows_get:
  assumes "sq_usable E d" "sq_usable E d'" "st \<in> set table_names" "rows_of d st = rows_of d' st"
  shows "sq_GetBytesAtVersion E st key n d = sq_GetBytesAtVersion E st key n d'"
proof -
  obtain rs rs' where "db_tables (open_db d) st = Some rs" "db_tables (open_db d') st = Some rs'"
    "db_fault (open_db d) = None" "db_fault (open_db d') = None"
    using assms(1-3) unfolding sq_usable_def by (meson not_None_eq)
  then show ?thesis using assms(4) by (simp add: sq_GetBytesAtVersion_def sql_select_def rows_of_def)
qed

lemma same_rows_queries:
  assumes "sq_usable E (Data s)" "sq_usable E (Data s')"
    "\<And>t. t \<in> set rollback_tables \<Longrightarrow> rows_of (Data s) t = rows_of (Data s') t"
  shows "BlockByHeight p (sqlite_kv E) n s = BlockByHeight p (sqlite_kv E) n s'"
    "BlockByID p (sqlite_kv E) i s = BlockByID p (sqlite_kv E) i s'"
    "CollectionByID p (sqlite_kv E) i s = CollectionByID p (sqlite_kv E) i s'"
    "TransactionByID p (sqlite_kv E) i s = TransactionByID p (sqlite_kv E) i s'"
    "TransactionResultByID p (sqlite_kv E) i s = TransactionResultByID p (sqlite_kv E) i s'"
    "EventsByHeight p (sqlite_kv E) n ty s = EventsByHeight p (sqlite_kv E) n ty s'"
    "snapshot_Get p (sqlite_kv E) n s = snapshot_Get p (sqlite_kv E) n s'"
proof -
  have "set rollback_tables \<subseteq> set table_names" by (simp add: rollback_tables_def table_names_def)
  then have get: "sq_GetBytesAtVersion E t key v (Data s) = sq_GetBytesAtVersion E t key v (Data s')"
    if "t \<in> set rollback_tables" for t key v
    using same_rows_get[OF assms(1,2) _ assms(3)] that by blast
  show
    "BlockByHeight p (sqlite_kv E) n s = BlockByHeight p (sqlite_kv E) n s'"
    "BlockByID p (sqlite_kv E) i s = BlockByID p (sqlite_kv E) i s'"
    "CollectionByID p (sqlite_kv E) i s = CollectionByID p (sqlite_kv E) i s'"
    "TransactionByID p (sqlite_kv E) i s = TransactionByID p (sqlite_kv E) i s'"
    "TransactionResultByID p (sqlite_kv E) i s = TransactionResultByID p (sqlite_kv E) i s'"
    "EventsByHeight p (sqlite_kv E) n ty s = EventsByHeight p (sqlite_kv E) n ty s'"
    "snapshot_Get p (sqlite_kv E) n s = snapshot_Get p (sqlite_kv E) n s'"
    using get by (simp_all add: rollback_tables_def BlockByHeight_def BlockByID_def CollectionByID_def
        TransactionByID_def TransactionResultByID_def EventsByHeight_def snapshot_Get_def ds_Get_def sq_GetBytes_def
        fun_eq_iff)
qed

lemma rollback_undoes:
  assumes "below E n s" and "\<forall>a \<in> set as. n < Height (cb_block a)"
    and "n < CurrentHeight (run_store (default_ops p (sqlite_kv E)) as s)"
    and "unat n < 2 ^ 63" and "rt (encodeUint64 p) (decodeUint64 p) n"
  shows "\<exists>s'. RollbackToBlockHeight p E n (run_store (default_ops p (sqlite_kv E)) as s) = (Inr (), s') \<and>
    CurrentHeight s' = n \<and> LatestBlockHeight p (sqlite_kv E) s' = Inr n \<and>
    (\<forall>m. BlockByHeight p (sqlite_kv E) m s' = BlockByHeight p (sqlite_kv E) m s) \<and>
    (\<forall>i. BlockByID p (sqlite_kv E) i s' = BlockByID p (sqlite_kv E) i s) \<and>
    (\<forall>i. CollectionByID p (sqlite_kv E) i s' = CollectionByID p (sqlite_kv E) i s) \<and>
    (\<forall>i. TransactionByID p (sqlite_kv E) i s' = TransactionByID p (sqlite_kv E) i s) \<and>
    (\<forall>i. TransactionResultByID p (sqlite_kv E) i s' = TransactionResultByID p (sqlite_kv E) i s) \<and>
    (\<forall>m ty. EventsByHeight p (sqlite_kv E) m ty s' = EventsByHeight p (sqlite_kv E) m ty s) \<and>
    (\<forall>m r. snapshot_Get p (sqlite_kv E) m s' r = snapshot_Get p (sqlite_kv E) m s r)"
proof -
  let ?s1 = "run_store (default_ops p (sqlite_kv E)) as s"
  have "kept E n (rows_of (Data s)) ?s1"
    using kept_run_store[OF kept_below[OF assms(1)] assms(2)] .
  note roll = rollback_kept[OF this assms(3-5)]
  have "sq_usable E (Data s)" using assms(1) by (simp add: below_def)
  note same = same_rows_queries[OF roll(3) this roll(4)]
  show ?thesis
  proof (intro exI[of _ "snd (RollbackToBlockHeight p E n ?s1)"] conjI allI)
    show "RollbackToBlockHeight p E n ?s1 = (Inr (), snd (RollbackToBlockHeight p E n ?s1))"
      using roll(1) by (simp add: prod_eq_iff)
  qed (simp_all only: same roll(2,6))
qed

section \<open>Properties\<close>

text \<open>C13: Rolling the sqlite store back to height \<open>n\<close> undoes every commit above \<open>n\<close>:
  if a store holds nothing stamped above \<open>n\<close> and blocks above \<open>n\<close> are then
  committed (successfully or not), \<^verbatim>\<open>RollbackToBlockHeight\<close> succeeds, reports
  \<open>n\<close> as the latest height, and every query for blocks, collections,
  transactions, results, events and registers answers as before those commits.\<close>

theorem rollback_restores:
  assumes "below E n s" and "\<forall>a \<in> set as. n < Height (cb_block a)"
    and "n < CurrentHeight (run_store (default_ops p (sqlite_kv E)) as s)"
    and "unat n < 2 ^ 63" and "rt (encodeUint64 p) (decodeUint64 p) n"
  shows "\<exists>s'. RollbackToBlockHeight p E n (run_store (default_ops p (sqlite_kv E)) as s) = (Inr (), s') \<and>
    CurrentHeight s' = n \<and> LatestBlockHeight p (sqlite_kv E) s' = Inr n \<and>
    (\<forall>m. BlockByHeight p (sqlite_kv E) m s' = BlockByHeight p (sqlite_kv E) m s) \<and>
    (\<forall>i. BlockByID p (sqlite_kv E) i s' = BlockByID p (sqlite_kv E) i s) \<and>
    (\<forall>i. CollectionByID p (sqlite_kv E) i s' = CollectionByID p (sqlite_kv E) i s) \<and>
    (\<forall>i. TransactionByID p (sqlite_kv E) i s' = TransactionByID p (sqlite_kv E) i s) \<and>
    (\<forall>i. TransactionResultByID p (sqlite_kv E) i s' = TransactionResultByID p (sqlite_kv E) i s) \<and>
    (\<forall>m ty. EventsByHeight p (sqlite_kv E) m ty s' = EventsByHeight p (sqlite_kv E) m ty s) \<and>
    (\<forall>m r. snapshot_Get p (sqlite_kv E) m s' r = snapshot_Get p (sqlite_kv E) m s r)"
  by (rule rollback_undoes[OF assms])

lemma below_sample: "below sample_env n sample_sqlite"
  using sample_usable
  by (simp add: below_def rows_of_def sample_sqlite_def open_db_def createTables_def empty_db_def)

abbreviation sample_rep :: "sqlite_store \<Rightarrow> history \<Rightarrow> bool" where
  "sample_rep \<equiv> default_rep sample_codec (sqlite_kv sample_env) (sq_usable sample_env) sq_slot sq_ver_below"

abbreviation sample_run :: "commit_args list \<Rightarrow> sqlite_store" where
  "sample_run as \<equiv> run_store (default_ops sample_codec (sqlite_kv sample_env)) as sample_sqlite"

lemma sample_rep_run:
  "sample_rep (sample_run [sample_commit 0]) [sample_commit 0]"
  "sample_rep (sample_run [sample_commit 0, sample_commit 1]) [sample_commit 0, sample_commit 1]"
  using sample_follow sample_admits
  by (intro sq.ds.run_rep[OF sample_rep_empty]; auto simp: valid_chain_def less_Suc_eq numeral_2_eq_2)+

lemma sample_height: "CurrentHeight (sample_run [sample_commit 0, sample_commit 1]) = 1"
  using sq.commit_phases[OF sample_rep_run(1) sample_follow(2) sample_admits]
  by (auto simp: run_store_def sample_commit_def sample_block_def)

theorem rollback_restores_witness:
  "\<exists>s'. RollbackToBlockHeight sample_codec sample_env 0 (sample_run [sample_commit 0, sample_commit 1]) = (Inr (), s') \<and>
    LatestBlockHeight sample_codec (sqlite_kv sample_env) s' = Inr 0 \<and>
    (\<forall>m. BlockByHeight sample_codec (sqlite_kv sample_env) m s' =
       BlockByHeight sample_codec (sqlite_kv sample_env) m (sample_run [sample_commit 0]))"
proof -
  let ?s = "sample_run [sample_commit 0]"
  have split: "sample_run [sample_commit 0, sample_commit 1] =
      run_store (default_ops sample_codec (sqlite_kv sample_env)) [sample_commit 1] ?s" by (simp add: run_store_def)
  have "below sample_env 0 ?s"
    by (rule below_run_store[OF below_sample]) (simp add: sample_commit_def sample_block_def)
  moreover have "\<forall>a \<in> set [sample_commit 1]. 0 < Height (cb_block a)"
    by (simp add: sample_commit_def sample_block_def)
  ultimately show ?thesis
    using rollback_restores[of sample_env 0 ?s "[sample_commit 1]" sample_codec] sample_height
    unfolding split by auto
qed

text \<open>C26: A rollback leaves the system transactions of the blocks it removes behind: after
  a block with system transactions is committed and rolled back, the block itself
  is gone, but \<^verbatim>\<open>SystemTransactionsForBlockID\<close> still answers for it, because the
  table is not among those the rollback deletes from.\<close>

theorem rollback_keeps_system_transactions:
  assumes rep: "default_rep p (sqlite_kv E) (sq_usable E) sq_slot sq_ver_below s h" and "h \<noteq> []"
    and n: "n = of_nat (length h - 1)" and "below E n s"
    and a: "may_follow p h a" and ad: "default_admits p a" and "has_system a"
  shows "\<exists>s1 s2. CommitBlock p (sqlite_kv E) a s = (Inr (), s1) \<and> RollbackToBlockHeight p E n s1 = (Inr (), s2) \<and>
    BlockByID p (sqlite_kv E) (block_ID p (cb_block a)) s2 = Inl ErrNotFound \<and>
    SystemTransactionsForBlockID p (sqlite_kv E) (block_ID p (cb_block a)) s2 = Inr (SystemTransactions_of p a)"
proof -
  let ?k = "sqlite_kv E" and ?id = "block_ID p (cb_block a)"
  define s1 where "s1 = snd (CommitBlock p ?k a s)"
  define s2 where "s2 = snd (RollbackToBlockHeight p E n s1)"
  have len: "unat n = length h - 1" unfolding n
    by (rule unat_of_nat_less) (use default_repD(4)[OF rep] in simp)
  have H: "n < Height (cb_block a)" using len unat_height[OF a] \<open>h \<noteq> []\<close> by (simp add: word_less_nat_alt)
  have c: "CommitBlock p ?k a s = (Inr (), s1)" "CurrentHeight s1 = Height (cb_block a)"
    using sq.commit_phases[OF rep a ad] by (auto simp: s1_def)
  have rep1: "default_rep p ?k (sq_usable E) sq_slot sq_ver_below s1 (h @ [a])"
    using sq.default_rep_commit[OF rep a ad] by (simp add: s1_def)
  have "kept E n (rows_of (Data s)) s1"
    unfolding s1_def by (rule kept_CommitBlock[OF kept_below[OF \<open>below E n s\<close>] H])
  note roll = rollback_kept[OF this, of p, folded s2_def]
  have lim: "unat n < 2 ^ 63" "n < CurrentHeight s1" using len default_repD(4)[OF rep] H c(2) by simp_all
  note roll = roll[OF lim(2) lim(1) default_repD(1)[OF rep]]
  have "BlockByID p ?k ?id s2 = BlockByID p ?k ?id s"
    by (rule same_rows_queries(2)[OF roll(3) default_repD(3)[OF rep] roll(4)])
  moreover have "BlockByID p ?k ?id s = Inl ErrNotFound"
    using sq.ds.by_id[OF rep, of ?id] hist_fresh(1)[OF a] by simp
  moreover have "SystemTransactionsForBlockID p ?k ?id s2 = SystemTransactionsForBlockID p ?k ?id s1"
    using same_rows_get[OF roll(3) default_repD(3)[OF rep1], of SystemTransactionName _ 0] roll(5)[of SystemTransactionName]
    by (simp add: SystemTransactionsForBlockID_def ds_Get_def sq_GetBytes_def rollback_tables_def table_names_def)
  moreover have "SystemTransactionsForBlockID p ?k ?id s1 = Inr (SystemTransactions_of p a)"
    using sq.ds.system[OF rep1, of ?id] \<open>has_system a\<close> by simp
  moreover have "RollbackToBlockHeight p E n s1 = (Inr (), s2)" using roll(1) by (simp add: s2_def prod_eq_iff)
  ultimately show ?thesis using c(1) by auto
qed

theorem rollback_keeps_system_transactions_witness:
  "\<exists>s1 s2. CommitBlock sample_codec (sqlite_kv sample_env) (sample_commit 1) (sample_run [sample_commit 0]) = (Inr (), s1) \<and>
    RollbackToBlockHeight sample_codec sample_env 0 s1 = (Inr (), s2) \<and>
    BlockByID sample_codec (sqlite_kv sample_env) 2 s2 = Inl ErrNotFound \<and>
    SystemTransactionsForBlockID sample_codec (sqlite_kv sample_env) 2 s2 =
      Inr \<lparr>st_BlockID = 2, st_Transactions = [7], st_ScheduledTransactionIDs = []\<rparr>"
proof -
  have b: "below sample_env 0 (sample_run [sample_commit 0])"
    by (rule below_run_store[OF below_sample]) (simp add: sample_commit_def sample_block_def)
  have id: "block_ID sample_codec (cb_block (sample_commit 1)) = 2"
    by (simp add: sample_commit_def sample_block_def sample_block_ID_def)
  have "has_system (sample_commit 1)" by (simp add: has_system_def sample_commit_def)
  from rollback_keeps_system_transactions[OF sample_rep_run(1) _ _ b sample_follow(2) sample_admits this]
  show ?thesis unfolding id SystemTransactions_of_def by (simp add: sample_commit_def)
qed

section \<open>Snapshots\<close>

text \<open>Commits write only the open database.\<close>

definition other_db :: "string \<Rightarrow> sqlite \<Rightarrow> sqlite \<Rightarrow> bool" where
  "other_db f d d' \<longleftrightarrow> sq_url d' = sq_url d \<and> sq_id d' = sq_id d \<and> sq_stat d' = sq_stat d \<and> sq_db d' = sq_db d \<and>
     sq_snapshotNames d' = sq_snapshotNames d \<and>
     (f \<noteq> sq_db d \<longrightarrow> sq_disk d' f = sq_disk d f)"

lemma other_db_run_store: "other_db f (Data s) (Data (run_store (default_ops p (sqlite_kv E)) as s))"
proof (induction as arbitrary: s)
  case Nil then show ?case by (simp add: run_store_def other_db_def)
next
  case (Cons a as)
  let ?Q = "\<lambda>s'. other_db f (Data s) (Data s')" and ?k = "sqlite_kv E"
  have "?Q (snd (ds_SetVersion ?k st key v ver s'))" if "?Q s'" for st key v ver s'
    using that by (auto simp: other_db_def snd_ds_SetVersion sq_SetV_eq split: prod.splits)
  then have "?Q (snd (CommitBlock p ?k a s))"
    using CommitBlock_keeps[where Q = ?Q and k = ?k and s = s and a = a and p = p]
    by (fastforce simp: snd_ds_Set_sqlite other_db_def)
  then show ?case using Cons.IH[of "snd (CommitBlock p ?k a s)"] by (simp add: run_store_def other_db_def)
qed

lemma usable_run_store:
  assumes "sq_usable E (Data s)"
  shows "sq_usable E (Data (run_store (default_ops p (sqlite_kv E)) as s))"
  using assms
proof (induction as arbitrary: s)
  case (Cons a as)
  let ?Q = "\<lambda>s. sq_usable E (Data s)" and ?k = "sqlite_kv E"
  have "?Q (snd (CommitBlock p ?k a s))"
    using CommitBlock_keeps[where Q = ?Q and k = ?k and s = s and a = a and p = p] Cons.prems
    by (fastforce simp: snd_ds_Set_sqlite snd_ds_SetVersion intro: sq_SetV_usable)
  then show ?case using Cons.IH by (simp add: run_store_def)
qed (simp add: run_store_def)

lemma usable_has_tables: "sq_usable E d \<Longrightarrow> has_tables (sq_disk d (sq_db d))"
  by (auto simp: sq_usable_def has_tables_def open_db_def table_names_def)

lemma snapshot_reload:
  assumes "CreateSnapshot name s = (Inr (), s1)" and "sq_usable E (Data s)"
  shows "\<exists>s2. LoadSnapshot name (run_store (default_ops p (sqlite_kv E)) as s1) = (Inr (), s2) \<and>
    open_db (Data s2) = open_db (Data s)"
proof -
  let ?f = "snapshot_file name (Data s)" and ?s = "run_store (default_ops p (sqlite_kv E)) as s1"
  have sup: "SupportSnapshotsWithCurrentConfig (Data s)" "\<not> has_tables (sq_disk (Data s) ?f)"
    and s1: "s1 = s\<lparr>Data := (Data s)\<lparr>sq_disk := (sq_disk (Data s))(?f \<mapsto> open_db (Data s)),
        sq_snapshotNames := sq_snapshotNames (Data s) @ [name]\<rparr>\<rparr>"
    using assms(1) by (auto simp: CreateSnapshot_def Let_def split: if_splits option.splits)
  have ne: "?f \<noteq> sq_db (Data s)" using usable_has_tables[OF assms(2)] sup(2) by auto
  have o: "other_db ?f (Data s1) (Data ?s)" by (rule other_db_run_store)
  have eqs: "sq_url (Data s1) = sq_url (Data s)" "sq_id (Data s1) = sq_id (Data s)" "sq_stat (Data s1) = sq_stat (Data s)"
    by (simp_all add: s1)
  then have "snapshot_file name (Data ?s) = ?f" "SupportSnapshotsWithCurrentConfig (Data ?s)"
    using o sup(1) by (simp_all add: other_db_def snapshot_file_def SupportSnapshotsWithCurrentConfig_def)
  moreover have disk: "sq_disk (Data ?s) ?f = Some (open_db (Data s))" using o ne by (simp add: other_db_def s1)
  moreover have "has_tables (Some (open_db (Data s)))"
    using usable_has_tables[OF assms(2)] assms(2) by (auto simp: sq_usable_def open_db_def)
  ultimately show ?thesis by (simp add: LoadSnapshot_def Let_def open_db_def)
qed

text \<open>C14: A snapshot can be reloaded: after \<^verbatim>\<open>CreateSnapshot\<close> succeeds, and whatever blocks
  are committed afterwards, \<^verbatim>\<open>LoadSnapshot\<close> succeeds and the open database is the
  one that was saved.\<close>

theorem snapshot_restores:
  assumes "CreateSnapshot name s = (Inr (), s1)" and "sq_usable E (Data s)"
  shows "\<exists>s2. LoadSnapshot name (run_store (default_ops p (sqlite_kv E)) as s1) = (Inr (), s2) \<and>
    open_db (Data s2) = open_db (Data s)"
  using assms by (rule snapshot_reload)

theorem snapshot_restores_witness:
  "\<exists>s1 s2. CreateSnapshot ''x'' sample_sqlite = (Inr (), s1) \<and>
    LoadSnapshot ''x'' (run_store (default_ops sample_codec (sqlite_kv sample_env)) [sample_commit 0] s1) = (Inr (), s2) \<and>
    open_db (Data s2) = open_db (Data sample_sqlite)"
proof -
  have "CreateSnapshot ''x'' sample_sqlite = (Inr (), snd (CreateSnapshot ''x'' sample_sqlite))"
    by (simp add: CreateSnapshot_def sample_sqlite_def SupportSnapshotsWithCurrentConfig_def open_db_def
        createTables_def empty_db_def has_tables_def snapshot_file_def)
  from snapshot_restores[OF this sample_usable, of sample_codec "[sample_commit 0]"] this
  show ?thesis by blast
qed

text \<open>C27: Loading a snapshot opens the saved database itself instead of a copy, so a snapshot
  can be restored only once: blocks committed after a load are written into the
  snapshot, and loading it again changes nothing.\<close>

theorem snapshot_reload_keeps_changes:
  assumes "LoadSnapshot name s = (Inr (), s1)" and "sq_usable E (Data s1)"
  shows "LoadSnapshot name (run_store (default_ops p (sqlite_kv E)) as s1) =
    (Inr (), run_store (default_ops p (sqlite_kv E)) as s1)"
proof -
  let ?f = "snapshot_file name (Data s)" and ?s = "run_store (default_ops p (sqlite_kv E)) as s1"
  have sup: "SupportSnapshotsWithCurrentConfig (Data s)" and s1: "s1 = s\<lparr>Data := (Data s)\<lparr>sq_db := ?f\<rparr>\<rparr>"
    using assms(1) by (auto simp: LoadSnapshot_def Let_def split: if_splits)
  have o: "other_db ?f (Data s1) (Data ?s)" by (rule other_db_run_store)
  have eqs: "sq_url (Data s1) = sq_url (Data s)" "sq_id (Data s1) = sq_id (Data s)" "sq_stat (Data s1) = sq_stat (Data s)"
    by (simp_all add: s1)
  have "sq_db (Data s1) = ?f" by (simp add: s1)
  then have f: "snapshot_file name (Data ?s) = ?f" "SupportSnapshotsWithCurrentConfig (Data ?s)" "sq_db (Data ?s) = ?f"
    using o sup eqs by (simp_all add: other_db_def snapshot_file_def SupportSnapshotsWithCurrentConfig_def)
  have "has_tables (sq_disk (Data ?s) ?f)"
    using usable_has_tables[OF usable_run_store[OF assms(2), of p as]] unfolding f(3) .
  then show ?thesis using f by (auto simp: LoadSnapshot_def Let_def has_tables_def)
qed

theorem snapshot_reload_keeps_changes_witness:
  "\<exists>s s1. LoadSnapshot ''x'' s = (Inr (), s1) \<and>
    LoadSnapshot ''x'' (run_store (default_ops sample_codec (sqlite_kv sample_env)) [sample_commit 0] s1) =
      (Inr (), run_store (default_ops sample_codec (sqlite_kv sample_env)) [sample_commit 0] s1)"
proof -
  let ?s = "snd (CreateSnapshot ''x'' sample_sqlite)" and ?s1 = "snd (LoadSnapshot ''x'' (snd (CreateSnapshot ''x'' sample_sqlite)))"
  have l: "LoadSnapshot ''x'' ?s = (Inr (), ?s1)" and o: "open_db (Data ?s1) = open_db (Data sample_sqlite)"
    "sq_disk (Data ?s1) (sq_db (Data ?s1)) \<noteq> None"
    by (auto simp: CreateSnapshot_def LoadSnapshot_def sample_sqlite_def SupportSnapshotsWithCurrentConfig_def open_db_def
        createTables_def empty_db_def has_tables_def snapshot_file_def table_names_def Let_def)
  have "sq_usable sample_env (Data ?s1)"
    using sample_usable o by (simp add: sq_usable_def rows_of_def)
  from snapshot_reload_keeps_changes[OF l this, of sample_codec "[sample_commit 0]"] l
  show ?thesis by blast
qed

end
