(* ===== verification/Convert.thy ===== *)
theory Convert
  imports Flow_Types
begin

text \<open>
  Conversions between the flow-go and the SDK view of chain data:
  \<^verbatim>\<open>convert/flow.go\<close>, \<^verbatim>\<open>convert/vm.go\<close>, \<^verbatim>\<open>convert/emu.go\<close>, with the
  result types of \<^verbatim>\<open>types/result.go\<close>.

  Identifiers and addresses are byte arrays on both sides, so their conversions
  are the identity. The CCF encoding of Cadence events is the parameter record
  \<^verbatim>\<open>ccf_codec\<close>. The properties are the round trips, with the ranges and
  conventions they depend on.
\<close>

section \<open>SDK data\<close>

type_synonym sdk_id = flow_id
type_synonym sdk_address = address

record sdk_proposal_key =
  sdk_pk_Address :: sdk_address
  sdk_pk_KeyIndex :: u32
  sdk_pk_SequenceNumber :: u64

record sdk_transaction_signature =
  sdk_sig_Address :: sdk_address
  sdk_sig_SignerIndex :: int
  sdk_sig_KeyIndex :: u32
  sdk_sig_Signature :: bytes

record sdk_transaction =
  sdk_ReferenceBlockID :: sdk_id
  sdk_Script :: bytes
  sdk_Arguments :: "bytes list"
  sdk_GasLimit :: u64
  sdk_ProposalKey :: sdk_proposal_key
  sdk_Payer :: sdk_address
  sdk_Authorizers :: "sdk_address list"
  sdk_PayloadSignatures :: "sdk_transaction_signature list"
  sdk_EnvelopeSignatures :: "sdk_transaction_signature list"

record sdk_event =
  sdk_ev_Type :: string
  sdk_ev_TransactionID :: sdk_id
  sdk_ev_TransactionIndex :: int
  sdk_ev_EventIndex :: int
  sdk_ev_Value :: cadence_value

record sdk_account_key =
  sdk_key_Index :: u32
  sdk_key_PublicKey :: bytes
  sdk_key_SigAlgo :: nat
  sdk_key_HashAlgo :: nat
  sdk_key_Weight :: int
  sdk_key_SequenceNumber :: u64
  sdk_key_Revoked :: bool

record sdk_account =
  sdk_acc_Address :: sdk_address
  sdk_acc_Balance :: u64
  sdk_acc_Code :: "bytes option"
  sdk_acc_Keys :: "sdk_account_key list"
  sdk_acc_Contracts :: "string \<rightharpoonup> bytes"

section \<open>Results\<close>

datatype transaction_status = StatusUnknown | StatusPending | StatusFinalized | StatusExecuted | StatusSealed | StatusExpired

text \<open>\<^verbatim>\<open>accessmodel.TransactionResult\<close>; the zero value has status unknown.\<close>

record access_result =
  ar_Status :: transaction_status
  ar_StatusCode :: nat
  ar_ErrorMessage :: string
  ar_Events :: "event list"
  ar_TransactionID :: flow_id
  ar_BlockHeight :: u64
  ar_BlockID :: flow_id
  ar_CollectionID :: flow_id

record sdk_transaction_result =
  sdk_res_Status :: transaction_status
  sdk_res_Error :: "go_error option"
  sdk_res_Events :: "sdk_event list"
  sdk_res_TransactionID :: sdk_id
  sdk_res_BlockHeight :: u64
  sdk_res_BlockID :: sdk_id
  sdk_res_CollectionID :: sdk_id

text \<open>\<^verbatim>\<open>types.TransactionResultDebug\<close>: a message and the fields of \<^verbatim>\<open>Meta\<close>.\<close>

record result_debug =
  dbg_Message :: string
  dbg_Meta :: "(string \<times> string) list"

record TransactionResult =
  tr_TransactionID :: sdk_id
  tr_ComputationUsed :: u64
  tr_MemoryEstimate :: u64
  tr_Error :: "go_error option"
  tr_Logs :: "string list"
  tr_Events :: "sdk_event list"
  tr_Debug :: "result_debug option"

definition TransactionResult_Succeeded :: "TransactionResult \<Rightarrow> bool" where
  "TransactionResult_Succeeded r \<longleftrightarrow> tr_Error r = None"

definition TransactionResult_Reverted :: "TransactionResult \<Rightarrow> bool" where
  "TransactionResult_Reverted r \<longleftrightarrow> \<not> TransactionResult_Succeeded r"

record ScriptResult =
  sr_ScriptID :: sdk_id
  sr_Value :: "cadence_value option"
  sr_Error :: "go_error option"
  sr_Logs :: "string list"
  sr_Events :: "sdk_event list"
  sr_ComputationUsed :: u64
  sr_MemoryEstimate :: u64

definition ScriptResult_Succeeded :: "ScriptResult \<Rightarrow> bool" where
  "ScriptResult_Succeeded r \<longleftrightarrow> sr_Error r = None"

definition ScriptResult_Reverted :: "ScriptResult \<Rightarrow> bool" where
  "ScriptResult_Reverted r \<longleftrightarrow> \<not> ScriptResult_Succeeded r"

text \<open>The names of hashing algorithms are flow-go's, the parameter \<open>algo\<close>.\<close>

definition NewTransactionInvalidHashAlgo ::
  "(nat \<Rightarrow> string) \<Rightarrow> account_public_key \<Rightarrow> address \<Rightarrow> nat \<Rightarrow> result_debug" where
  "NewTransactionInvalidHashAlgo algo key addr invalidAlgo =
     \<lparr>dbg_Message = ''invalid hashing algorithm signature: public key '' @ fmt_d (unat (key_Index key)) @
        '' on account '' @ Address_String addr @
        '' does not have a valid signature: key requires '' @ algo (key_HashAlgo key) @
        '' hashing algorithm, but '' @ algo invalidAlgo @ '' was used'',
      dbg_Meta = []\<rparr>"

definition NewTransactionInvalidSignature :: "transaction_body \<Rightarrow> result_debug" where
  "NewTransactionInvalidSignature tx =
     \<lparr>dbg_Message = '''',
      dbg_Meta =
        [(''payer'', Address_String (Payer tx)),
         (''proposer'', Address_String (pk_Address (ProposalKey tx))),
         (''proposerKeyIndex'', fmt_d (unat (pk_KeyIndex (ProposalKey tx)))),
         (''authorizers'', ''['' @ join_blank (map Address_String (Authorizers tx)) @ '']''),
         (''gasLimit'', fmt_u (GasLimit tx))]\<rparr>"

section \<open>Conversions: convert/flow.go\<close>

definition SDKIdentifierToFlow :: "sdk_id \<Rightarrow> flow_id" where "SDKIdentifierToFlow i = i"
definition FlowIdentifierToSDK :: "flow_id \<Rightarrow> sdk_id" where "FlowIdentifierToSDK i = i"
definition SDKAddressToFlow :: "sdk_address \<Rightarrow> address" where "SDKAddressToFlow a = a"
definition FlowAddressToSDK :: "address \<Rightarrow> sdk_address" where "FlowAddressToSDK a = a"

definition SDKIdentifiersToFlow :: "sdk_id list \<Rightarrow> flow_id list" where
  "SDKIdentifiersToFlow ids = map SDKIdentifierToFlow ids"

definition FlowIdentifiersToSDK :: "flow_id list \<Rightarrow> sdk_id list" where
  "FlowIdentifiersToSDK ids = map FlowIdentifierToSDK ids"

definition SDKAddressesToFlow :: "sdk_address list \<Rightarrow> address list" where
  "SDKAddressesToFlow as = map SDKAddressToFlow as"

definition FlowAddressesToSDK :: "address list \<Rightarrow> sdk_address list" where
  "FlowAddressesToSDK as = map FlowAddressToSDK as"

definition SDKProposalKeyToFlow :: "sdk_proposal_key \<Rightarrow> proposal_key" where
  "SDKProposalKeyToFlow k =
     \<lparr>pk_Address = SDKAddressToFlow (sdk_pk_Address k), pk_KeyIndex = sdk_pk_KeyIndex k,
      pk_SequenceNumber = sdk_pk_SequenceNumber k\<rparr>"

definition FlowProposalKeyToSDK :: "proposal_key \<Rightarrow> sdk_proposal_key" where
  "FlowProposalKeyToSDK k =
     \<lparr>sdk_pk_Address = FlowAddressToSDK (pk_Address k), sdk_pk_KeyIndex = pk_KeyIndex k,
      sdk_pk_SequenceNumber = pk_SequenceNumber k\<rparr>"

definition SDKTransactionSignatureToFlow :: "sdk_transaction_signature \<Rightarrow> transaction_signature" where
  "SDKTransactionSignatureToFlow s =
     \<lparr>sig_Address = SDKAddressToFlow (sdk_sig_Address s), sig_SignerIndex = sdk_sig_SignerIndex s,
      sig_KeyIndex = sdk_sig_KeyIndex s, sig_Signature = sdk_sig_Signature s\<rparr>"

definition FlowTransactionSignatureToSDK :: "transaction_signature \<Rightarrow> sdk_transaction_signature" where
  "FlowTransactionSignatureToSDK s =
     \<lparr>sdk_sig_Address = FlowAddressToSDK (sig_Address s), sdk_sig_SignerIndex = sig_SignerIndex s,
      sdk_sig_KeyIndex = sig_KeyIndex s, sdk_sig_Signature = sig_Signature s\<rparr>"

definition SDKTransactionSignaturesToFlow :: "sdk_transaction_signature list \<Rightarrow> transaction_signature list" where
  "SDKTransactionSignaturesToFlow ss = map SDKTransactionSignatureToFlow ss"

definition FlowTransactionSignaturesToSDK :: "transaction_signature list \<Rightarrow> sdk_transaction_signature list" where
  "FlowTransactionSignaturesToSDK ss = map FlowTransactionSignatureToSDK ss"

definition SDKTransactionToFlow :: "sdk_transaction \<Rightarrow> transaction_body" where
  "SDKTransactionToFlow tx =
     \<lparr>ReferenceBlockID = SDKIdentifierToFlow (sdk_ReferenceBlockID tx), Script = sdk_Script tx,
      Arguments = sdk_Arguments tx, GasLimit = sdk_GasLimit tx,
      ProposalKey = SDKProposalKeyToFlow (sdk_ProposalKey tx), Payer = SDKAddressToFlow (sdk_Payer tx),
      Authorizers = SDKAddressesToFlow (sdk_Authorizers tx),
      PayloadSignatures = SDKTransactionSignaturesToFlow (sdk_PayloadSignatures tx),
      EnvelopeSignatures = SDKTransactionSignaturesToFlow (sdk_EnvelopeSignatures tx)\<rparr>"

definition FlowTransactionToSDK :: "transaction_body \<Rightarrow> sdk_transaction" where
  "FlowTransactionToSDK tx =
     \<lparr>sdk_ReferenceBlockID = FlowIdentifierToSDK (ReferenceBlockID tx), sdk_Script = Script tx,
      sdk_Arguments = Arguments tx, sdk_GasLimit = GasLimit tx,
      sdk_ProposalKey = FlowProposalKeyToSDK (ProposalKey tx), sdk_Payer = FlowAddressToSDK (Payer tx),
      sdk_Authorizers = FlowAddressesToSDK (Authorizers tx),
      sdk_PayloadSignatures = FlowTransactionSignaturesToSDK (PayloadSignatures tx),
      sdk_EnvelopeSignatures = FlowTransactionSignaturesToSDK (EnvelopeSignatures tx)\<rparr>"

record ccf_codec =
  ccf_Encode :: "cadence_value \<Rightarrow> bytes result"
  ccf_Decode :: "bytes \<Rightarrow> cadence_value result"
  cadence_String :: "cadence_value \<Rightarrow> string"

definition SDKEventToFlow :: "ccf_codec \<Rightarrow> sdk_event \<Rightarrow> event result" where
  "SDKEventToFlow C e =
     bindR (ccf_Encode C (sdk_ev_Value e)) (\<lambda>payload.
     Inr \<lparr>ev_Type = sdk_ev_Type e, ev_TransactionID = SDKIdentifierToFlow (sdk_ev_TransactionID e),
          ev_TransactionIndex = of_int (sdk_ev_TransactionIndex e), ev_EventIndex = of_int (sdk_ev_EventIndex e),
          ev_Payload = payload\<rparr>)"

definition is_event :: "cadence_value \<Rightarrow> bool" where
  "is_event v = (case v of CadenceEvent _ _ \<Rightarrow> True | _ \<Rightarrow> False)"

definition FlowEventToSDK :: "ccf_codec \<Rightarrow> event \<Rightarrow> sdk_event result" where
  "FlowEventToSDK C e =
     bindR (ccf_Decode C (ev_Payload e)) (\<lambda>cadenceValue.
     if \<not> is_event cadenceValue
     then Inl (Errorf (''cadence value not of type event: '' @ cadence_String C cadenceValue))
     else Inr \<lparr>sdk_ev_Type = ev_Type e, sdk_ev_TransactionID = FlowIdentifierToSDK (ev_TransactionID e),
               sdk_ev_TransactionIndex = int (unat (ev_TransactionIndex e)),
               sdk_ev_EventIndex = int (unat (ev_EventIndex e)), sdk_ev_Value = cadenceValue\<rparr>)"

definition FlowEventsToSDK :: "ccf_codec \<Rightarrow> event list \<Rightarrow> sdk_event list result" where
  "FlowEventsToSDK C es = mapR (FlowEventToSDK C) es"

definition FlowTransactionResultToSDK :: "ccf_codec \<Rightarrow> access_result \<Rightarrow> sdk_transaction_result result" where
  "FlowTransactionResultToSDK C r =
     bindR (FlowEventsToSDK C (ar_Events r)) (\<lambda>events.
     Inr \<lparr>sdk_res_Status = ar_Status r,
          sdk_res_Error = (if ar_ErrorMessage r \<noteq> ''''
             then Some (ExecutionError (int (ar_StatusCode r)) (ar_ErrorMessage r)) else None),
          sdk_res_Events = events, sdk_res_TransactionID = ar_TransactionID r,
          sdk_res_BlockHeight = ar_BlockHeight r, sdk_res_BlockID = ar_BlockID r,
          sdk_res_CollectionID = ZeroID\<rparr>)"

definition FlowAccountPublicKeyToSDK :: "account_public_key \<Rightarrow> u32 \<Rightarrow> sdk_account_key result" where
  "FlowAccountPublicKeyToSDK k index =
     Inr \<lparr>sdk_key_Index = index, sdk_key_PublicKey = key_PublicKey k, sdk_key_SigAlgo = key_SignAlgo k,
          sdk_key_HashAlgo = key_HashAlgo k, sdk_key_Weight = key_Weight k,
          sdk_key_SequenceNumber = key_SeqNumber k, sdk_key_Revoked = key_Revoked k\<rparr>"

definition SDKAccountKeyToFlow :: "sdk_account_key \<Rightarrow> account_public_key result" where
  "SDKAccountKeyToFlow k =
     Inr \<lparr>key_Index = sdk_key_Index k, key_PublicKey = sdk_key_PublicKey k, key_SignAlgo = sdk_key_SigAlgo k,
          key_HashAlgo = sdk_key_HashAlgo k, key_SeqNumber = sdk_key_SequenceNumber k,
          key_Weight = sdk_key_Weight k, key_Revoked = sdk_key_Revoked k\<rparr>"

definition SDKAccountKeysToFlow :: "sdk_account_key list \<Rightarrow> account_public_key list result" where
  "SDKAccountKeysToFlow ks = mapR SDKAccountKeyToFlow ks"

definition FlowAccountPublicKeysToSDK :: "account_public_key list \<Rightarrow> sdk_account_key list result" where
  "FlowAccountPublicKeysToSDK ks =
     mapR (\<lambda>(i, k). FlowAccountPublicKeyToSDK k (of_nat i)) (enumerate 0 ks)"

definition FlowAccountToSDK :: "account \<Rightarrow> sdk_account result" where
  "FlowAccountToSDK a =
     bindR (FlowAccountPublicKeysToSDK (acc_Keys a)) (\<lambda>keys.
     Inr \<lparr>sdk_acc_Address = FlowAddressToSDK (acc_Address a), sdk_acc_Balance = acc_Balance a,
          sdk_acc_Code = None, sdk_acc_Keys = keys, sdk_acc_Contracts = acc_Contracts a\<rparr>)"

definition SDKAccountToFlow :: "sdk_account \<Rightarrow> account result" where
  "SDKAccountToFlow a =
     bindR (SDKAccountKeysToFlow (sdk_acc_Keys a)) (\<lambda>keys.
     Inr \<lparr>acc_Address = SDKAddressToFlow (sdk_acc_Address a), acc_Balance = sdk_acc_Balance a,
          acc_Keys = keys, acc_Contracts = sdk_acc_Contracts a\<rparr>)"

definition FlowLightCollectionToSDK :: "flow_id list \<Rightarrow> sdk_id list" where
  "FlowLightCollectionToSDK c = FlowIdentifiersToSDK c"

section \<open>Conversions: convert/vm.go and convert/emu.go\<close>

definition VMErrorToEmulator :: "coded_error option \<Rightarrow> go_error option" where
  "VMErrorToEmulator vmError = (case vmError of None \<Rightarrow> None | Some e \<Rightarrow> Some (FVMError e))"

definition VMTransactionResultToEmulator ::
  "ccf_codec \<Rightarrow> flow_id \<Rightarrow> procedure_output \<Rightarrow> TransactionResult result" where
  "VMTransactionResultToEmulator C txnId output =
     bindR (FlowEventsToSDK C (out_Events output)) (\<lambda>sdkEvents.
     Inr \<lparr>tr_TransactionID = FlowIdentifierToSDK txnId, tr_ComputationUsed = out_ComputationUsed output,
          tr_MemoryEstimate = out_MemoryEstimate output, tr_Error = VMErrorToEmulator (out_Err output),
          tr_Logs = out_Logs output, tr_Events = sdkEvents, tr_Debug = None\<rparr>)"

definition ToStorableResult ::
  "procedure_output \<Rightarrow> flow_id \<Rightarrow> u64 \<Rightarrow> flow_id \<Rightarrow> StorableTransactionResult result" where
  "ToStorableResult output blockID blockHeight collectionID =
     (let (errorCode, errorMessage) =
        (case out_Err output of None \<Rightarrow> (0, '''') | Some e \<Rightarrow> (int (err_code e), err_text e))
      in Inr \<lparr>ErrorCode = errorCode, ErrorMessage = errorMessage, Logs = out_Logs output,
              Events = out_Events output, BlockID = blockID, BlockHeight = blockHeight,
              CollectionID = collectionID\<rparr>)"

section \<open>Lemmas\<close>

named_theorems convert_simps \<open>the identity conversions and the conversions of records\<close>

lemmas [convert_simps] =
  SDKIdentifierToFlow_def FlowIdentifierToSDK_def SDKAddressToFlow_def FlowAddressToSDK_def
  SDKIdentifiersToFlow_def FlowIdentifiersToSDK_def SDKAddressesToFlow_def FlowAddressesToSDK_def
  SDKProposalKeyToFlow_def FlowProposalKeyToSDK_def SDKTransactionSignatureToFlow_def
  FlowTransactionSignatureToSDK_def SDKTransactionSignaturesToFlow_def FlowTransactionSignaturesToSDK_def

text \<open>Documented behaviour of CCF: decoding an encoded value gives it back.\<close>

definition ccf_law :: "ccf_codec \<Rightarrow> cadence_value \<Rightarrow> bool" where
  "ccf_law C v \<longleftrightarrow> (\<exists>b. ccf_Encode C v = Inr b \<and> ccf_Decode C b = Inr v)"

definition index_range :: "int \<Rightarrow> bool" where
  "index_range i \<longleftrightarrow> 0 \<le> i \<and> i < 2 ^ 32"

lemma uint32_roundtrip: "uint (of_int i :: u32) = i \<longleftrightarrow> index_range i"
proof -
  have "uint (of_int i :: u32) = i mod 2 ^ 32" by (simp add: uint_word_of_int)
  moreover have "i mod 2 ^ 32 = i \<longleftrightarrow> index_range i"
    using mod_pos_pos_trivial[of i "2 ^ 32"] pos_mod_bound[of "2 ^ 32" i] pos_mod_sign[of "2 ^ 32" i]
    by (auto simp: index_range_def simp del: pos_mod_bound pos_mod_sign)
  ultimately show ?thesis by simp
qed

lemma signature_roundtrip [simp]:
  "SDKTransactionSignatureToFlow (FlowTransactionSignatureToSDK s) = s"
  "FlowTransactionSignatureToSDK (SDKTransactionSignatureToFlow s') = s'"
  by (cases s; simp add: convert_simps) (cases s'; simp add: convert_simps)

lemma proposal_key_roundtrip [simp]:
  "SDKProposalKeyToFlow (FlowProposalKeyToSDK k) = k" "FlowProposalKeyToSDK (SDKProposalKeyToFlow k') = k'"
  by (cases k; simp add: convert_simps) (cases k'; simp add: convert_simps)

lemma signatures_roundtrip [simp]:
  "SDKTransactionSignaturesToFlow (FlowTransactionSignaturesToSDK ss) = ss"
  "FlowTransactionSignaturesToSDK (SDKTransactionSignaturesToFlow ss') = ss'"
  by (simp_all add: SDKTransactionSignaturesToFlow_def FlowTransactionSignaturesToSDK_def map_idI)

lemma address_roundtrip [simp]:
  "SDKAddressesToFlow (FlowAddressesToSDK as) = as" "FlowAddressesToSDK (SDKAddressesToFlow as) = as"
  by (simp_all add: convert_simps map_idI)

text \<open>A key's way through the SDK form replaces its index by its position.\<close>

definition renumber :: "account_public_key list \<Rightarrow> account_public_key list" where
  "renumber ks = map (\<lambda>(i, k). k\<lparr>key_Index := of_nat i\<rparr>) (enumerate 0 ks)"

lemma keys_roundtrip:
  "\<exists>sk. FlowAccountPublicKeysToSDK ks = Inr sk \<and> SDKAccountKeysToFlow sk = Inr (renumber ks)"
proof -
  have "\<exists>sk. mapR (\<lambda>(i, k). FlowAccountPublicKeyToSDK k (of_nat i)) (enumerate n ks) = Inr sk \<and>
    mapR SDKAccountKeyToFlow sk = Inr (map (\<lambda>(i, k). k\<lparr>key_Index := of_nat i\<rparr>) (enumerate n ks))" for n
  proof (induction ks arbitrary: n)
    case (Cons k ks)
    then obtain sk where "mapR (\<lambda>(i, k). FlowAccountPublicKeyToSDK k (of_nat i)) (enumerate (Suc n) ks) = Inr sk"
      "mapR SDKAccountKeyToFlow sk = Inr (map (\<lambda>(i, k). k\<lparr>key_Index := of_nat i\<rparr>) (enumerate (Suc n) ks))"
      by blast
    moreover have "\<exists>s. FlowAccountPublicKeyToSDK k (of_nat n) = Inr s \<and>
        SDKAccountKeyToFlow s = Inr (k\<lparr>key_Index := of_nat n\<rparr>)"
      by (cases k) (simp add: FlowAccountPublicKeyToSDK_def SDKAccountKeyToFlow_def)
    ultimately show ?case by auto
  qed simp
  then show ?thesis
    by (simp add: FlowAccountPublicKeysToSDK_def SDKAccountKeysToFlow_def renumber_def)
qed

lemma length_renumber: "length (renumber ks) = length ks"
  by (simp add: renumber_def)

lemma renumber_nth: "i < length ks \<Longrightarrow> renumber ks ! i = (ks ! i)\<lparr>key_Index := of_nat i\<rparr>"
  by (simp add: renumber_def nth_enumerate_eq)

lemma renumber_id: "renumber ks = ks \<longleftrightarrow> map key_Index ks = map of_nat [0..<length ks]"
proof -
  have "k\<lparr>key_Index := n\<rparr> = k \<longleftrightarrow> key_Index k = n" for k :: account_public_key and n
    by (cases k) auto
  then have "renumber ks = ks \<longleftrightarrow> (\<forall>i < length ks. key_Index (ks ! i) = of_nat i)"
    by (simp add: list_eq_iff_nth_eq length_renumber renumber_nth)
  moreover have "map key_Index ks = map of_nat [0..<length ks] \<longleftrightarrow>
      (\<forall>i < length ks. key_Index (ks ! i) = of_nat i)"
    by (subst list_eq_iff_nth_eq) simp
  ultimately show ?thesis by simp
qed

section \<open>Properties\<close>



definition sample_ccf :: ccf_codec where
  "sample_ccf =
     \<lparr>ccf_Encode = (\<lambda>v. case v of CadenceEvent s _ \<Rightarrow> Inr (bytes_of_string s) | _ \<Rightarrow> Inl (ExternalError ''ccf'')),
      ccf_Decode = (\<lambda>b. Inr (CadenceEvent (string_of_bytes b) [])), cadence_String = (\<lambda>_. ''value'')\<rparr>"


text \<open>C24: Converting an account to the SDK form and back keeps everything exactly when every
  key's index is its position in the list: the conversion numbers keys by
  position and ignores the index they carry.\<close>

theorem account_roundtrip:
  "\<exists>s. FlowAccountToSDK a = Inr s \<and>
    (SDKAccountToFlow s = Inr a \<longleftrightarrow> map key_Index (acc_Keys a) = map of_nat [0..<length (acc_Keys a)])"
proof -
  obtain sk where "FlowAccountPublicKeysToSDK (acc_Keys a) = Inr sk"
    "SDKAccountKeysToFlow sk = Inr (renumber (acc_Keys a))"
    using keys_roundtrip by blast
  then show ?thesis
    by (cases a) (simp add: FlowAccountToSDK_def SDKAccountToFlow_def convert_simps renumber_id)
qed

end
