(* ===== verification/Pragma.thy ===== *)
theory Pragma
  imports Flow_Types
begin

text \<open>
  Pragmas of Cadence programs: \<^verbatim>\<open>emulator/pragma.go\<close>.

  The Cadence parser is the parameter \<open>parse\<close>: it gives the elements of the
  program in the order \<^verbatim>\<open>program.Walk\<close> visits them, or fails.
\<close>

section \<open>Syntax trees, as far as the code looks into them\<close>

datatype ast_expression =
    InvocationExpression string "ast_expression list"
  | StringExpression string
  | OtherExpression

datatype ast_element = PragmaDeclaration ast_expression | OtherElement

section \<open>Pragma lists\<close>

record BasicPragma =
  Name :: string
  Argument :: string

type_synonym PragmaList = "BasicPragma list"

abbreviation PragmaDebug :: string where "PragmaDebug \<equiv> ''debug''"
abbreviation PragmaSourceFile :: string where "PragmaSourceFile \<equiv> ''sourceFile''"

primrec FilterByName :: "PragmaList \<Rightarrow> string \<Rightarrow> PragmaList" where
  "FilterByName [] name = []"
| "FilterByName (p # l) name = (if Name p = name then p # FilterByName l name else FilterByName l name)"

definition First :: "PragmaList \<Rightarrow> BasicPragma option" where
  "First l = (if length l = 0 then None else Some (l ! 0))"

primrec Contains :: "PragmaList \<Rightarrow> string \<Rightarrow> bool" where
  "Contains [] name = False"
| "Contains (p # l) name = (if Name p = name then True else Contains l name)"

primrec Count_from :: "int \<Rightarrow> PragmaList \<Rightarrow> string \<Rightarrow> int" where
  "Count_from c [] name = c"
| "Count_from c (p # l) name = Count_from (if Name p = name then c + 1 else c) l name"

definition Count :: "PragmaList \<Rightarrow> string \<Rightarrow> int" where
  "Count l name = Count_from 0 l name"

text \<open>The body of the walk: what one element adds to the result.\<close>

fun pragma_of :: "ast_element \<Rightarrow> PragmaList" where
  "pragma_of (PragmaDeclaration (InvocationExpression invoked args)) =
     (if length args > 1 then []
      else if length args = 1 then
        (case args ! 0 of
           StringExpression value \<Rightarrow> [\<lparr>Name = invoked, Argument = value\<rparr>]
         | _ \<Rightarrow> [])
      else [\<lparr>Name = invoked, Argument = ''''\<rparr>])"
| "pragma_of _ = []"

definition ExtractPragmas :: "(string \<Rightarrow> ast_element list result) \<Rightarrow> string \<Rightarrow> PragmaList" where
  "ExtractPragmas parse code =
     (case parse code of Inl err \<Rightarrow> [] | Inr program \<Rightarrow> concat (map pragma_of program))"

text \<open>
  \<^verbatim>\<open>pragmas.FilterByName(name).First().Argument()\<close>: calling a method on the nil
  that \<^verbatim>\<open>First\<close> returns for an empty list is a panic.
\<close>

definition first_argument :: "PragmaList \<Rightarrow> string \<Rightarrow> string result" where
  "first_argument l name =
     (case First (FilterByName l name) of
        None \<Rightarrow> Inl (Panic ''nil pointer dereference'')
      | Some p \<Rightarrow> Inr (Argument p))"

section \<open>Lemmas\<close>

lemma FilterByName_filter: "FilterByName l name = filter (\<lambda>p. Name p = name) l"
  by (induction l) auto

lemma Contains_iff: "Contains l name \<longleftrightarrow> (\<exists>p \<in> set l. Name p = name)"
  by (induction l) auto

lemma Count_from_length: "Count_from c l name = c + int (length (FilterByName l name))"
  by (induction l arbitrary: c) auto

lemma Contains_Filter: "Contains l name \<longleftrightarrow> FilterByName l name \<noteq> []"
  by (auto simp: Contains_iff FilterByName_filter filter_empty_conv)

lemma first_argument_ok: "Contains l name \<Longrightarrow> \<exists>a. first_argument l name = Inr a"
  by (cases "FilterByName l name") (auto simp: Contains_Filter first_argument_def First_def)

section \<open>Properties\<close>

text \<open>A pragma list contains a name exactly when its count of that name is positive and
  exactly when filtering by it gives a first pragma, which carries that name and is the first such
  one in the list; so looking up the argument of a pragma after \<^verbatim>\<open>Contains\<close> has
  answered true never dereferences nil, and without that answer it always does.\<close>

theorem pragma_lookup:
  "(Contains l name \<longleftrightarrow> 0 < Count l name) \<and>
   (case find (\<lambda>p. Name p = name) l of
      Some p \<Rightarrow> Contains l name \<and> First (FilterByName l name) = Some p \<and>
                first_argument l name = Inr (Argument p)
    | None \<Rightarrow> \<not> Contains l name \<and> First (FilterByName l name) = None \<and> \<not> is_ok (first_argument l name))"
proof -
  have "First (FilterByName l name) = find (\<lambda>p. Name p = name) l"
    by (induction l) (auto simp: First_def)
  moreover have "Contains l name \<longleftrightarrow> find (\<lambda>p. Name p = name) l \<noteq> None"
    by (auto simp: Contains_iff find_None_iff)
  moreover have "Contains l name \<longleftrightarrow> 0 < Count l name"
    by (simp add: Contains_Filter Count_def Count_from_length)
  ultimately show ?thesis
    by (cases "find (\<lambda>p. Name p = name) l") (simp_all add: first_argument_def)
qed

end
