(* ===== verification/Emulator_Env.thy ===== *)
theory Emulator_Env
  imports Store_Spec Convert Pragma
begin

text \<open>
  The surroundings of the emulated blockchain: its configuration
  (\<^verbatim>\<open>emulator/emulator.go\<close>, the options and \<^verbatim>\<open>config\<close> of
  \<^verbatim>\<open>emulator/blockchain.go\<close>), the execution context it hands to the virtual
  machine, and the record \<^verbatim>\<open>emu\<close> of everything it calls that is not part of the
  repository: the virtual machine, the transaction validator, the Cadence parser,
  the blueprints of system transactions, cryptography, and constants of flow-go.

  Registers written during a block live in flow-go's \<^verbatim>\<open>ExecutionState\<close>, the
  parameter record \<^verbatim>\<open>exec_ops\<close>. Reading through it also records the read; the
  emulator never looks at recorded reads, so \<^verbatim>\<open>es_Get\<close> is a pure lookup.
\<close>

section \<open>Service key: emulator/emulator.go\<close>

record ServiceKey =
  sk_Index :: u32
  sk_Address :: sdk_address
  sk_SequenceNumber :: u64
  sk_PrivateKey :: "bytes option"
  sk_PublicKey :: bytes
  sk_HashAlgo :: nat
  sk_SigAlgo :: nat
  sk_Weight :: int

text \<open>\<^verbatim>\<open>flowsdk.AccountKey\<close> of a service key.\<close>

definition AccountKey :: "ServiceKey \<Rightarrow> sdk_account_key" where
  "AccountKey s =
     \<lparr>sdk_key_Index = sk_Index s, sdk_key_PublicKey = sk_PublicKey s, sdk_key_SigAlgo = sk_SigAlgo s,
      sdk_key_HashAlgo = sk_HashAlgo s, sdk_key_Weight = sk_Weight s,
      sdk_key_SequenceNumber = sk_SequenceNumber s, sdk_key_Revoked = False\<rparr>"

section \<open>Constants and functions of flow-go and the SDK\<close>

type_synonym weights = "(nat, u64) gomap"

record flow_lib =
  chain_Emulator :: string
  chain_MonotonicEmulator :: string
  ServiceAddress :: "string \<Rightarrow> address"
  GenesisTime :: int
  DefaultMaxTransactionGasLimit :: u64
  DefaultMaxTransactionByteSize :: u64
  DefaultMaxCollectionByteSize :: u64
  DefaultMinimumStorageReservation :: u64
  DefaultStorageMBPerFLOW :: u64
  DefaultTransactionFees :: u64
  DefaultMemoryWeights :: weights
  MainnetExecutionEffortWeights :: weights
  AccountKeyWeightThreshold :: int
  parse_UFix64 :: "string \<Rightarrow> u64 result"
  ECDSA_P256 :: nat
  SHA2_256 :: nat
  SHA3_256 :: nat
  GeneratePrivateKey :: "nat \<Rightarrow> bytes \<Rightarrow> bytes result"
  PublicKey_of :: "bytes \<Rightarrow> bytes"
  DecodePublicKey :: "nat \<Rightarrow> bytes \<Rightarrow> bytes option"
  algo_String :: "nat \<Rightarrow> string"

definition defaultServiceKeyPrivateKeySeed :: string where
  "defaultServiceKeyPrivateKeySeed = ''elephant ears space cowboy octopus rodeo potato cannon pineapple''"

definition GenerateDefaultServiceKey :: "flow_lib \<Rightarrow> nat \<Rightarrow> nat \<Rightarrow> ServiceKey result" where
  "GenerateDefaultServiceKey L sigAlgo hashAlgo =
     (case GeneratePrivateKey L sigAlgo (bytes_of_string defaultServiceKeyPrivateKeySeed) of
        Inl err \<Rightarrow> Inl (Panic (''Failed to generate default service key: '' @ Error_text err))
      | Inr privateKey \<Rightarrow>
          Inr \<lparr>sk_Index = 0, sk_Address = 0, sk_SequenceNumber = 0, sk_PrivateKey = Some privateKey,
               sk_PublicKey = PublicKey_of L privateKey, sk_HashAlgo = hashAlgo, sk_SigAlgo = sigAlgo,
               sk_Weight = 0\<rparr>)"

definition DefaultServiceKey :: "flow_lib \<Rightarrow> ServiceKey result" where
  "DefaultServiceKey L = GenerateDefaultServiceKey L (ECDSA_P256 L) (SHA3_256 L)"

section \<open>Configuration: emulator/blockchain.go\<close>

record ContractDescription =
  con_Name :: string
  con_Address :: sdk_address
  con_Description :: string
  con_Source :: bytes

record 's config =
  cf_ServiceKey :: ServiceKey
  cf_Store :: "'s option"
  cf_SimpleAddresses :: bool
  cf_GenesisTokenSupply :: u64
  cf_TransactionMaxGasLimit :: u64
  cf_ScriptGasLimit :: u64
  cf_TransactionExpiry :: u64
  cf_StorageLimitEnabled :: bool
  cf_TransactionFeesEnabled :: bool
  cf_ExecutionEffortWeights :: "weights option"
  cf_ContractRemovalEnabled :: bool
  cf_MinimumStorageReservation :: u64
  cf_StorageMBPerFLOW :: u64
  cf_TransactionValidationEnabled :: bool
  cf_ChainID :: string
  cf_AutoMine :: bool
  cf_Contracts :: "ContractDescription list"
  cf_ComputationReportingEnabled :: bool
  cf_ScheduledTransactionsEnabled :: bool
  cf_SetupVMBridgeEnabled :: bool
  cf_EVMTestHelpersEnabled :: bool

type_synonym 's config_option = "'s config \<Rightarrow> 's config"

definition WithServicePublicKey :: "bytes \<Rightarrow> nat \<Rightarrow> nat \<Rightarrow> 's config_option" where
  "WithServicePublicKey servicePublicKey sigAlgo hashAlgo c =
     c\<lparr>cf_ServiceKey := \<lparr>sk_Index = 0, sk_Address = 0, sk_SequenceNumber = 0, sk_PrivateKey = None,
        sk_PublicKey = servicePublicKey, sk_HashAlgo = hashAlgo, sk_SigAlgo = sigAlgo, sk_Weight = 0\<rparr>\<rparr>"

definition WithServicePrivateKey :: "flow_lib \<Rightarrow> bytes \<Rightarrow> nat \<Rightarrow> nat \<Rightarrow> 's config_option" where
  "WithServicePrivateKey L privateKey sigAlgo hashAlgo c =
     c\<lparr>cf_ServiceKey := \<lparr>sk_Index = 0, sk_Address = 0, sk_SequenceNumber = 0, sk_PrivateKey = Some privateKey,
        sk_PublicKey = PublicKey_of L privateKey, sk_HashAlgo = hashAlgo, sk_SigAlgo = sigAlgo, sk_Weight = 0\<rparr>\<rparr>"

definition WithStore :: "'s \<Rightarrow> 's config_option" where
  "WithStore store c = c\<lparr>cf_Store := Some store\<rparr>"

definition WithSimpleAddresses :: "'s config_option" where
  "WithSimpleAddresses c = c\<lparr>cf_SimpleAddresses := True\<rparr>"

definition WithGenesisTokenSupply :: "u64 \<Rightarrow> 's config_option" where
  "WithGenesisTokenSupply supply c = c\<lparr>cf_GenesisTokenSupply := supply\<rparr>"

definition WithTransactionMaxGasLimit :: "u64 \<Rightarrow> 's config_option" where
  "WithTransactionMaxGasLimit maxLimit c = c\<lparr>cf_TransactionMaxGasLimit := maxLimit\<rparr>"

definition WithScriptGasLimit :: "u64 \<Rightarrow> 's config_option" where
  "WithScriptGasLimit limit c = c\<lparr>cf_ScriptGasLimit := limit\<rparr>"

definition WithTransactionExpiry :: "u64 \<Rightarrow> 's config_option" where
  "WithTransactionExpiry expiry c = c\<lparr>cf_TransactionExpiry := expiry\<rparr>"

definition WithStorageLimitEnabled :: "bool \<Rightarrow> 's config_option" where
  "WithStorageLimitEnabled enabled c = c\<lparr>cf_StorageLimitEnabled := enabled\<rparr>"

definition WithMinimumStorageReservation :: "u64 \<Rightarrow> 's config_option" where
  "WithMinimumStorageReservation v c = c\<lparr>cf_MinimumStorageReservation := v\<rparr>"

definition WithStorageMBPerFLOW :: "u64 \<Rightarrow> 's config_option" where
  "WithStorageMBPerFLOW v c = c\<lparr>cf_StorageMBPerFLOW := v\<rparr>"

definition WithTransactionFeesEnabled :: "bool \<Rightarrow> 's config_option" where
  "WithTransactionFeesEnabled enabled c = c\<lparr>cf_TransactionFeesEnabled := enabled\<rparr>"

definition WithExecutionEffortWeights :: "weights option \<Rightarrow> 's config_option" where
  "WithExecutionEffortWeights w c = c\<lparr>cf_ExecutionEffortWeights := w\<rparr>"

definition WithContractRemovalEnabled :: "bool \<Rightarrow> 's config_option" where
  "WithContractRemovalEnabled enabled c = c\<lparr>cf_ContractRemovalEnabled := enabled\<rparr>"

definition WithTransactionValidationEnabled :: "bool \<Rightarrow> 's config_option" where
  "WithTransactionValidationEnabled enabled c = c\<lparr>cf_TransactionValidationEnabled := enabled\<rparr>"

definition WithChainID :: "string \<Rightarrow> 's config_option" where
  "WithChainID chainID c = c\<lparr>cf_ChainID := chainID\<rparr>"

definition WithComputationReporting :: "bool \<Rightarrow> 's config_option" where
  "WithComputationReporting enabled c = c\<lparr>cf_ComputationReportingEnabled := enabled\<rparr>"

definition WithScheduledTransactions :: "bool \<Rightarrow> 's config_option" where
  "WithScheduledTransactions enabled c = c\<lparr>cf_ScheduledTransactionsEnabled := enabled\<rparr>"

definition WithSetupVMBridgeEnabled :: "bool \<Rightarrow> 's config_option" where
  "WithSetupVMBridgeEnabled enabled c = c\<lparr>cf_SetupVMBridgeEnabled := enabled\<rparr>"

definition WithEVMTestHelpersEnabled :: "bool \<Rightarrow> 's config_option" where
  "WithEVMTestHelpersEnabled enabled c = c\<lparr>cf_EVMTestHelpersEnabled := enabled\<rparr>"

definition Contracts :: "ContractDescription list \<Rightarrow> 's config_option" where
  "Contracts contracts c = c\<lparr>cf_Contracts := contracts\<rparr>"

definition GetStore :: "'s result \<Rightarrow> 's config \<Rightarrow> 's result" where
  "GetStore CreateDefaultStorage c =
     (case cf_Store c of
        None \<Rightarrow> (case CreateDefaultStorage of
                   Inl err \<Rightarrow> Inl (Panic ''Cannot initialize memory storage'') | Inr store \<Rightarrow> Inr store)
      | Some store \<Rightarrow> Inr store)"

definition GetChainID :: "flow_lib \<Rightarrow> 's config \<Rightarrow> string" where
  "GetChainID L c = (if cf_SimpleAddresses c then chain_MonotonicEmulator L else cf_ChainID c)"

definition GetServiceKey :: "flow_lib \<Rightarrow> 's config \<Rightarrow> ServiceKey" where
  "GetServiceKey L c =
     (cf_ServiceKey c)\<lparr>sk_Address := ServiceAddress L (GetChainID L c), sk_Weight := AccountKeyWeightThreshold L\<rparr>"

definition EffectiveExecutionEffortWeights :: "flow_lib \<Rightarrow> 's config \<Rightarrow> weights" where
  "EffectiveExecutionEffortWeights L c =
     (case cf_ExecutionEffortWeights c of Some w \<Rightarrow> w | None \<Rightarrow> MainnetExecutionEffortWeights L)"

definition defaultConfig :: "flow_lib \<Rightarrow> 's config result" where
  "defaultConfig L =
     (case parse_UFix64 L ''1000000000.0'' of
        Inl err \<Rightarrow> Inl (Panic (''Failed to parse default genesis token supply: '' @ Error_text err))
      | Inr genesisTokenSupply \<Rightarrow>
          bindR (DefaultServiceKey L) (\<lambda>key.
          Inr \<lparr>cf_ServiceKey = key, cf_Store = None, cf_SimpleAddresses = False,
               cf_GenesisTokenSupply = genesisTokenSupply,
               cf_TransactionMaxGasLimit = DefaultMaxTransactionGasLimit L,
               cf_ScriptGasLimit = 100000, cf_TransactionExpiry = 0, cf_StorageLimitEnabled = True,
               cf_TransactionFeesEnabled = False, cf_ExecutionEffortWeights = None,
               cf_ContractRemovalEnabled = False,
               cf_MinimumStorageReservation = DefaultMinimumStorageReservation L,
               cf_StorageMBPerFLOW = DefaultStorageMBPerFLOW L, cf_TransactionValidationEnabled = True,
               cf_ChainID = chain_Emulator L, cf_AutoMine = False, cf_Contracts = [],
               cf_ComputationReportingEnabled = False, cf_ScheduledTransactionsEnabled = True,
               cf_SetupVMBridgeEnabled = True, cf_EVMTestHelpersEnabled = False\<rparr>))"

section \<open>Execution context\<close>

record fvm_context =
  ctx_Chain :: string
  ctx_BlockHeader :: "header option"
  ctx_ContractDeploymentRestricted :: bool
  ctx_ContractRemovalRestricted :: bool
  ctx_ComputationLimit :: u64
  ctx_CadenceLogging :: bool
  ctx_AccountStorageLimit :: bool
  ctx_TransactionFeesEnabled :: bool
  ctx_AuthorizationChecksEnabled :: bool
  ctx_SequenceNumberCheckAndIncrementEnabled :: bool
  ctx_RandomSourceHistoryCallAllowed :: bool
  ctx_EVMTestOperationsAllowed :: bool

record bootstrap_procedure =
  bs_Key :: account_public_key
  bs_InitialTokenSupply :: u64
  bs_RestrictedAccountCreationEnabled :: bool
  bs_TransactionFee :: u64
  bs_ExecutionMemoryLimit :: u64
  bs_ExecutionMemoryWeights :: weights
  bs_ExecutionEffortWeights :: weights
  bs_SetupVMBridgeEnabled :: bool
  bs_EVMTestHelpersEnabled :: bool
  bs_AccountCreationFee :: "u64 option"
  bs_MinimumStorageReservation :: "u64 option"
  bs_StorageMBPerFLOW :: "u64 option"

datatype procedure =
    TransactionProcedure transaction_body u32
  | ScriptProcedure bytes "bytes list"
  | BootstrapProcedure bootstrap_procedure

text \<open>What \<^verbatim>\<open>emulator/blocks.go\<close> offers to the virtual machine and the validator.\<close>

record block_source =
  HeaderByID :: "flow_id \<Rightarrow> header option result"
  FinalizedHeader :: "header result"
  SealedHeader :: "header result"
  IndexedHeight :: "u64 result"
  ByHeightFrom :: "u64 \<Rightarrow> header \<Rightarrow> header result"

record validation_options =
  vo_Expiry :: u64
  vo_ExpiryBuffer :: u64
  vo_AllowEmptyReferenceBlockID :: bool
  vo_AllowUnknownReferenceBlockID :: bool
  vo_MaxGasLimit :: u64
  vo_CheckScriptsParse :: bool
  vo_MaxTransactionByteSize :: u64
  vo_MaxCollectionByteSize :: u64

record 'ls exec_ops =
  es_New :: "storage_snapshot \<Rightarrow> 'ls"
  es_Get :: "'ls \<Rightarrow> storage_snapshot"
  es_Merge :: "execution_snapshot \<Rightarrow> 'ls \<Rightarrow> unit result \<times> 'ls"
  es_Finalize :: "'ls \<Rightarrow> execution_snapshot \<times> 'ls"

text \<open>Locations of Cadence programs.\<close>

datatype location =
    TransactionLocation flow_id
  | ScriptLocation flow_id
  | AddressLocation address string
  | OtherLocation string

text \<open>\<^verbatim>\<open>storage.SnapshotProvider\<close>, when the store implements it.\<close>

record 's snapshot_provider =
  sp_Supported :: "'s \<Rightarrow> bool"
  sp_Snapshots :: "'s \<Rightarrow> string list result"
  sp_CreateSnapshot :: "string \<Rightarrow> 's \<Rightarrow> unit result \<times> 's"
  sp_LoadSnapshot :: "string \<Rightarrow> 's \<Rightarrow> unit result \<times> 's"

record ('s, 'ls) emu =
  em_store :: "'s store_ops"
  em_Rollback :: "(u64 \<Rightarrow> 's \<Rightarrow> unit result \<times> 's) option"
  em_Snapshots :: "'s snapshot_provider option"
  em_exec :: "'ls exec_ops"
  em_ccf :: ccf_codec
  em_lib :: flow_lib
  em_NewContext :: "string \<Rightarrow> fvm_context"
  em_Run :: "block_source \<Rightarrow> flow_id \<Rightarrow> fvm_context \<Rightarrow> procedure \<Rightarrow> storage_snapshot \<Rightarrow>
             (execution_snapshot \<times> procedure_output) result"
  em_NewValidator :: "validation_options \<Rightarrow> string \<Rightarrow> unit result"
  em_Validate :: "validation_options \<Rightarrow> string \<Rightarrow> block_source \<Rightarrow> transaction_body \<Rightarrow> unit result"
  em_ParseProgram :: "string \<Rightarrow> ast_element list result"
  em_ProcessCallbacksTransaction :: "string \<Rightarrow> transaction_body result"
  em_ExecuteCallbacksTransactions :: "string \<Rightarrow> event list \<Rightarrow> transaction_body list result"
  em_PendingExecutionEventType :: "string \<Rightarrow> string"
  em_ccf_Decode :: "bytes \<Rightarrow> cadence_value result"
  em_ReplaceAddresses :: "string \<Rightarrow> string \<Rightarrow> string"
  em_Build :: "transaction_body \<Rightarrow> transaction_body result"
  em_GetAccount :: "fvm_context \<Rightarrow> address \<Rightarrow> storage_snapshot \<Rightarrow> account result"
  em_IsAccountNotFoundError :: "go_error \<Rightarrow> bool"
  em_IsInvalidEnvelopeSignature :: "go_error \<Rightarrow> bool"
  em_IsInvalidPayloadSignature :: "go_error \<Rightarrow> bool"
  em_EnvelopeMessage :: "transaction_body \<Rightarrow> bytes"
  em_PayloadMessage :: "transaction_body \<Rightarrow> bytes"
  em_Verify :: "account_public_key \<Rightarrow> bytes \<Rightarrow> bytes \<Rightarrow> nat \<Rightarrow> bool"
  em_ScriptProcedureID :: "bytes \<Rightarrow> bytes list \<Rightarrow> flow_id"
  em_MakeIDFromFingerPrint :: "bytes \<Rightarrow> flow_id"
  em_GeneratedAddress :: "string \<Rightarrow> u64 \<Rightarrow> address"
  em_LocationID :: "location \<Rightarrow> string"
  em_GetAccountContractCode :: "storage_snapshot \<Rightarrow> address \<Rightarrow> string \<Rightarrow> bytes result"
  em_RequestPause :: "unit option \<Rightarrow> unit result"
  em_AddAccountContract :: "sdk_address \<Rightarrow> string \<Rightarrow> string \<Rightarrow> sdk_transaction"
  em_SignEnvelope :: "bytes \<Rightarrow> nat \<Rightarrow> sdk_address \<Rightarrow> u32 \<Rightarrow> sdk_transaction \<Rightarrow> sdk_transaction result"

section \<open>Configuring the context, the bootstrap procedure and the validator\<close>

definition configureFVM :: "('s, 'ls) emu \<Rightarrow> 's config \<Rightarrow> fvm_context" where
  "configureFVM E conf =
     (let ctx = (em_NewContext E (GetChainID (em_lib E) conf))
            \<lparr>ctx_ContractDeploymentRestricted := False,
             ctx_ContractRemovalRestricted := \<not> cf_ContractRemovalEnabled conf,
             ctx_ComputationLimit := cf_ScriptGasLimit conf,
             ctx_CadenceLogging := True,
             ctx_AccountStorageLimit := cf_StorageLimitEnabled conf,
             ctx_TransactionFeesEnabled := cf_TransactionFeesEnabled conf,
             ctx_EVMTestOperationsAllowed := cf_EVMTestHelpersEnabled conf\<rparr>
      in if \<not> cf_TransactionValidationEnabled conf
         then ctx\<lparr>ctx_AuthorizationChecksEnabled := False, ctx_SequenceNumberCheckAndIncrementEnabled := False\<rparr>
         else ctx)"

definition configureBootstrapProcedure ::
  "flow_lib \<Rightarrow> 's config \<Rightarrow> account_public_key \<Rightarrow> u64 \<Rightarrow> bootstrap_procedure" where
  "configureBootstrapProcedure L conf flowAccountKey supply =
     \<lparr>bs_Key = flowAccountKey, bs_InitialTokenSupply = supply,
      bs_RestrictedAccountCreationEnabled = False, bs_TransactionFee = DefaultTransactionFees L,
      bs_ExecutionMemoryLimit = 2 ^ 32 - 1, bs_ExecutionMemoryWeights = DefaultMemoryWeights L,
      bs_ExecutionEffortWeights = EffectiveExecutionEffortWeights L conf,
      bs_SetupVMBridgeEnabled = cf_SetupVMBridgeEnabled conf,
      bs_EVMTestHelpersEnabled = cf_EVMTestHelpersEnabled conf,
      bs_AccountCreationFee = (if cf_StorageLimitEnabled conf then Some (cf_MinimumStorageReservation conf) else None),
      bs_MinimumStorageReservation = (if cf_StorageLimitEnabled conf then Some (cf_MinimumStorageReservation conf) else None),
      bs_StorageMBPerFLOW = (if cf_StorageLimitEnabled conf then Some (cf_StorageMBPerFLOW conf) else None)\<rparr>"

definition configureTransactionValidator :: "('s, 'ls) emu \<Rightarrow> 's config \<Rightarrow> validation_options result" where
  "configureTransactionValidator E conf =
     (let L = em_lib E;
          opts = \<lparr>vo_Expiry = cf_TransactionExpiry conf, vo_ExpiryBuffer = 0,
                  vo_AllowEmptyReferenceBlockID = (cf_TransactionExpiry conf = 0),
                  vo_AllowUnknownReferenceBlockID = False,
                  vo_MaxGasLimit = cf_TransactionMaxGasLimit conf, vo_CheckScriptsParse = True,
                  vo_MaxTransactionByteSize = DefaultMaxTransactionByteSize L,
                  vo_MaxCollectionByteSize = DefaultMaxCollectionByteSize L\<rparr>
      in bindR (em_NewValidator E opts (GetChainID L conf)) (\<lambda>_. Inr opts))"

section \<open>Blocks: emulator/blocks.go\<close>

definition blocks_HeaderByID :: "'h hashes_scheme \<Rightarrow> 's store_ops \<Rightarrow> 's \<Rightarrow> flow_id \<Rightarrow> header option result" where
  "blocks_HeaderByID p ops s i =
     (case st_BlockByID ops i s of
        Inl err \<Rightarrow> if is_ErrNotFound err then Inr None else Inl err
      | Inr block \<Rightarrow> Inr (Some (ToHeader p block)))"

definition blocks_FinalizedHeader :: "'h hashes_scheme \<Rightarrow> 's store_ops \<Rightarrow> 's \<Rightarrow> header result" where
  "blocks_FinalizedHeader p ops s = bindR (st_LatestBlock ops s) (\<lambda>block. Inr (ToHeader p block))"

definition blocks_SealedHeader :: "'h hashes_scheme \<Rightarrow> 's store_ops \<Rightarrow> 's \<Rightarrow> header result" where
  "blocks_SealedHeader p ops s = bindR (st_LatestBlock ops s) (\<lambda>block. Inr (ToHeader p block))"

definition blocks_IndexedHeight :: "'s store_ops \<Rightarrow> 's \<Rightarrow> u64 result" where
  "blocks_IndexedHeight ops s = bindR (st_LatestBlock ops s) (\<lambda>block. Inr (Height block))"

definition blocks_ByHeightFrom ::
  "'h hashes_scheme \<Rightarrow> 's store_ops \<Rightarrow> 's \<Rightarrow> u64 \<Rightarrow> header \<Rightarrow> header result" where
  "blocks_ByHeightFrom p ops s height header =
     (if height > Height header then Inl ErrNotFound
      else bindR (st_BlockByHeight ops height s) (\<lambda>block. Inr (ToHeader p block)))"

definition newBlocks :: "'h hashes_scheme \<Rightarrow> 's store_ops \<Rightarrow> 's \<Rightarrow> block_source" where
  "newBlocks p ops s =
     \<lparr>HeaderByID = blocks_HeaderByID p ops s, FinalizedHeader = blocks_FinalizedHeader p ops s,
      SealedHeader = blocks_SealedHeader p ops s, IndexedHeight = blocks_IndexedHeight ops s,
      ByHeightFrom = blocks_ByHeightFrom p ops s\<rparr>"

section \<open>Clock: emulator/clock.go\<close>

text \<open>A clock reports a time, in milliseconds, at an instant of the outside world.\<close>

type_synonym clock = "int \<Rightarrow> int"

definition SystemClock_Now :: clock where
  "SystemClock_Now instant = instant"

text \<open>One draw from the outside world: the current instant and the result of \<^verbatim>\<open>rand.Intn\<close>.\<close>

type_synonym world = "int \<times> nat"

section \<open>Genesis\<close>

definition Genesis :: "flow_lib \<Rightarrow> string \<Rightarrow> block" where
  "Genesis L chainID =
     \<lparr>ChainID = chainID, ParentID = ZeroID, Height = 0, View = 0, Timestamp = of_int (GenesisTime L),
      Guarantees = [], Seals = []\<rparr>"

end
