(* ===== verification/Pending_Block.thy ===== *)
theory Pending_Block
  imports Emulator_Env
begin

text \<open>
  The pending block: \<^verbatim>\<open>emulator/pendingBlock.go\<close>.

  The maps of transactions and results are association lists, because committing
  a block counts and iterates them; \<^verbatim>\<open>AList.update\<close> is Go's map assignment.
\<close>

section \<open>Definitions\<close>

record IndexedTransactionResult =
  itr_Output :: procedure_output
  itr_Index :: u32

definition MaxViewIncrease :: nat where
  "MaxViewIncrease = 3"

record 'ls pendingBlock =
  pb_height :: u64
  pb_view :: u64
  pb_parentID :: flow_id
  pb_clock :: clock
  pb_timestamp :: int
  pb_transactions :: "(flow_id, transaction_body) gomap"
  pb_transactionIDs :: "flow_id list"
  pb_transactionResults :: "(flow_id, IndexedTransactionResult) gomap"
  pb_ledgerState :: 'ls
  pb_events :: "event list"
  pb_index :: u32

definition newPendingBlock ::
  "'h hashes_scheme \<Rightarrow> 'ls exec_ops \<Rightarrow> world \<Rightarrow> block \<Rightarrow> storage_snapshot \<Rightarrow> clock \<Rightarrow> 'ls pendingBlock" where
  "newPendingBlock p X w prevBlock ledgerSnapshot clk =
     (case w of (instant, intn) \<Rightarrow>
      \<lparr>pb_height = Height prevBlock + 1, pb_view = View prevBlock + of_nat (intn + 1),
       pb_parentID = block_ID p prevBlock, pb_clock = clk, pb_timestamp = clk instant,
       pb_transactions = [], pb_transactionIDs = [], pb_transactionResults = [],
       pb_ledgerState = es_New X ledgerSnapshot, pb_events = [], pb_index = 0\<rparr>)"

definition pb_Collections :: "'ls pendingBlock \<Rightarrow> flow_id list list" where
  "pb_Collections b = (if length (pb_transactionIDs b) = 0 then [] else [pb_transactionIDs b])"

definition pb_Block :: "'h hashes_scheme \<Rightarrow> flow_lib \<Rightarrow> 'ls pendingBlock \<Rightarrow> block" where
  "pb_Block p L b =
     \<lparr>ChainID = chain_Emulator L, ParentID = pb_parentID b, Height = pb_height b, View = pb_view b,
      Timestamp = of_int (pb_timestamp b), Guarantees = map (col_ID p) (pb_Collections b), Seals = []\<rparr>"

definition pb_ID :: "'h hashes_scheme \<Rightarrow> flow_lib \<Rightarrow> 'ls pendingBlock \<Rightarrow> flow_id" where
  "pb_ID p L b = block_ID p (pb_Block p L b)"

definition pb_Finalize :: "'ls exec_ops \<Rightarrow> 'ls pendingBlock \<Rightarrow> execution_snapshot \<times> 'ls pendingBlock" where
  "pb_Finalize X b =
     (let (snap, ls) = es_Finalize X (pb_ledgerState b) in (snap, b\<lparr>pb_ledgerState := ls\<rparr>))"

definition pb_AddTransaction :: "'h hashes_scheme \<Rightarrow> transaction_body \<Rightarrow> 'ls pendingBlock \<Rightarrow> 'ls pendingBlock" where
  "pb_AddTransaction p tx b =
     b\<lparr>pb_transactionIDs := pb_transactionIDs b @ [tx_ID p tx],
       pb_transactions := AList.update (tx_ID p tx) tx (pb_transactions b)\<rparr>"

definition pb_ContainsTransaction :: "flow_id \<Rightarrow> 'ls pendingBlock \<Rightarrow> bool" where
  "pb_ContainsTransaction i b \<longleftrightarrow> map_of (pb_transactions b) i \<noteq> None"

definition pb_GetTransaction :: "flow_id \<Rightarrow> 'ls pendingBlock \<Rightarrow> transaction_body option" where
  "pb_GetTransaction i b = map_of (pb_transactions b) i"

definition pb_NextTransaction :: "'ls pendingBlock \<Rightarrow> transaction_body option" where
  "pb_NextTransaction b =
     (if unat (pb_index b) \<ge> length (pb_transactionIDs b) then None
      else pb_GetTransaction (pb_transactionIDs b ! unat (pb_index b)) b)"

text \<open>
  \<open>run\<close> is \<^verbatim>\<open>vm.Run\<close> with its context. \<^verbatim>\<open>fvm.Transaction\<close> asks a nil
  transaction for its ID, which is a panic.
\<close>

definition pb_ExecuteNextTransaction ::
  "'h hashes_scheme \<Rightarrow> 'ls exec_ops \<Rightarrow>
   (procedure \<Rightarrow> storage_snapshot \<Rightarrow> (execution_snapshot \<times> procedure_output) result) \<Rightarrow>
   'ls pendingBlock \<Rightarrow> procedure_output result \<times> 'ls pendingBlock" where
  "pb_ExecuteNextTransaction p X run b =
     (let txnBody = pb_NextTransaction b; txnIndex = pb_index b; b = b\<lparr>pb_index := pb_index b + 1\<rparr>
      in case txnBody of
           None \<Rightarrow> (Inl (Panic ''nil pointer dereference''), b)
         | Some body \<Rightarrow>
             (case run (TransactionProcedure body txnIndex) (es_Get X (pb_ledgerState b)) of
                Inl err \<Rightarrow> (Inl err, b)
              | Inr (executionSnapshot, output) \<Rightarrow>
                  (let b = b\<lparr>pb_events := pb_events b @ out_Events output\<rparr>;
                       (r, ls) = es_Merge X executionSnapshot (pb_ledgerState b);
                       b = b\<lparr>pb_ledgerState := ls\<rparr>
                   in case r of
                        Inl err \<Rightarrow> (Inl err, b)
                      | Inr _ \<Rightarrow>
                          (Inr output, b\<lparr>pb_transactionResults :=
                             AList.update (tx_ID p body) \<lparr>itr_Output = output, itr_Index = txnIndex\<rparr>
                               (pb_transactionResults b)\<rparr>))))"

definition pb_Size :: "'ls pendingBlock \<Rightarrow> nat" where
  "pb_Size b = length (pb_transactionIDs b)"

definition pb_ExecutionStarted :: "'ls pendingBlock \<Rightarrow> bool" where
  "pb_ExecutionStarted b \<longleftrightarrow> pb_index b > 0"

definition pb_ExecutionComplete :: "'ls pendingBlock \<Rightarrow> bool" where
  "pb_ExecutionComplete b \<longleftrightarrow> pb_index b \<ge> of_nat (pb_Size b)"

definition pb_Empty :: "'ls pendingBlock \<Rightarrow> bool" where
  "pb_Empty b \<longleftrightarrow> length (pb_transactionIDs b) = 0"

definition pb_SetClock :: "world \<Rightarrow> clock \<Rightarrow> 'ls pendingBlock \<Rightarrow> 'ls pendingBlock" where
  "pb_SetClock w clk b = b\<lparr>pb_clock := clk, pb_timestamp := clk (fst w)\<rparr>"

section \<open>Invariant\<close>

text \<open>
  The list of IDs and the map of transactions agree, the index stays within the
  block, and results exist only for transactions already passed. The block is
  small enough for its 32-bit index.
\<close>

definition pb_inv :: "'h hashes_scheme \<Rightarrow> 'ls pendingBlock \<Rightarrow> bool" where
  "pb_inv p b \<longleftrightarrow>
     map fst (pb_transactions b) = pb_transactionIDs b \<and>
     distinct (pb_transactionIDs b) \<and>
     (\<forall>(i, t) \<in> set (pb_transactions b). i = tx_ID p t) \<and>
     unat (pb_index b) \<le> length (pb_transactionIDs b) \<and>
     distinct (map fst (pb_transactionResults b)) \<and>
     set (map fst (pb_transactionResults b)) \<subseteq> set (take (unat (pb_index b)) (pb_transactionIDs b)) \<and>
     length (pb_transactionIDs b) < 2 ^ 32"

text \<open>Every transaction passed so far has a result.\<close>

definition pb_all_results :: "'ls pendingBlock \<Rightarrow> bool" where
  "pb_all_results b \<longleftrightarrow> map fst (pb_transactionResults b) = take (unat (pb_index b)) (pb_transactionIDs b)"

section \<open>Lemmas\<close>

lemma update_snoc: "k \<notin> fst ` set m \<Longrightarrow> AList.update k v m = m @ [(k, v)]"
  by (induction m) auto

lemma map_fst_update_new: "k \<notin> fst ` set m \<Longrightarrow> map fst (AList.update k v m) = map fst m @ [k]"
  by (simp add: update_snoc)

lemma unat_Suc_index:
  "unat (i :: u32) < n \<Longrightarrow> n < 2 ^ 32 \<Longrightarrow> unat (i + 1) = Suc (unat i)"
  by (simp add: unat_word_ariths unat_of_nat mod_less)

lemma pb_ExecutionComplete_iff:
  assumes "pb_inv p b"
  shows "pb_ExecutionComplete b \<longleftrightarrow> unat (pb_index b) = length (pb_transactionIDs b)"
proof -
  have "unat (of_nat (length (pb_transactionIDs b)) :: u32) = length (pb_transactionIDs b)"
    using assms by (intro unat_of_nat_less) (simp add: pb_inv_def)
  then show ?thesis using assms
    by (auto simp: pb_ExecutionComplete_def pb_Size_def word_le_nat_alt pb_inv_def)
qed

lemma pb_NextTransaction_eq:
  assumes "pb_inv p b" "\<not> pb_ExecutionComplete b"
  shows "pb_NextTransaction b = Some (snd (pb_transactions b ! unat (pb_index b)))"
    and "tx_ID p (snd (pb_transactions b ! unat (pb_index b))) = pb_transactionIDs b ! unat (pb_index b)"
    and "unat (pb_index b) < length (pb_transactionIDs b)"
proof -
  let ?i = "unat (pb_index b)" and ?m = "pb_transactions b"
  show lt: "?i < length (pb_transactionIDs b)"
    using assms pb_ExecutionComplete_iff[OF assms(1)] by (auto simp: pb_inv_def)
  have ids: "pb_transactionIDs b = map fst ?m" and "distinct (map fst ?m)"
    using assms(1) by (auto simp: pb_inv_def)
  have "?m ! ?i \<in> set ?m" using lt ids by simp
  then have "map_of ?m (fst (?m ! ?i)) = Some (snd (?m ! ?i))"
    using \<open>distinct (map fst ?m)\<close> by (intro map_of_is_SomeI) (simp_all add: ids)
  then show "pb_NextTransaction b = Some (snd (?m ! ?i))"
    using lt ids by (simp add: pb_NextTransaction_def pb_GetTransaction_def)
  show "tx_ID p (snd (?m ! ?i)) = pb_transactionIDs b ! ?i"
    using \<open>?m ! ?i \<in> set ?m\<close> lt ids assms(1) by (auto simp: pb_inv_def case_prod_unfold)
qed

lemma pb_inv_new [simp]: "pb_inv p (newPendingBlock p X w prev led clk)"
  by (simp add: newPendingBlock_def pb_inv_def split: prod.split)

lemma pb_all_results_new [simp]: "pb_all_results (newPendingBlock p X w prev led clk)"
  by (simp add: newPendingBlock_def pb_all_results_def split: prod.split)

lemma pb_inv_SetClock [simp]: "pb_inv p (pb_SetClock w clk b) \<longleftrightarrow> pb_inv p b"
  by (simp add: pb_inv_def pb_SetClock_def)

lemma pb_all_results_SetClock [simp]: "pb_all_results (pb_SetClock w clk b) \<longleftrightarrow> pb_all_results b"
  by (simp add: pb_all_results_def pb_SetClock_def)

lemma pb_inv_Add:
  assumes "pb_inv p b" "\<not> pb_ContainsTransaction (tx_ID p tx) b" "Suc (pb_Size b) < 2 ^ 32"
  shows "pb_inv p (pb_AddTransaction p tx b)"
proof -
  have "tx_ID p tx \<notin> fst ` set (pb_transactions b)"
    using assms(2) by (simp add: pb_ContainsTransaction_def map_of_eq_None_iff)
  moreover have "set (pb_transactionIDs b) = fst ` set (pb_transactions b)"
    using assms(1) by (metis pb_inv_def set_map)
  moreover have "set (take n (xs @ ys)) \<supseteq> set (take n xs)" for n and xs ys :: "flow_id list"
    by simp
  ultimately show ?thesis using assms(1,3)
    by (auto simp: pb_inv_def pb_AddTransaction_def pb_Size_def update_snoc)
qed

text \<open>One step of execution: what it keeps, and what it records.\<close>

lemma pb_Execute_frame [simp]:
  "pb_height (snd (pb_ExecuteNextTransaction p X run b)) = pb_height b"
  "pb_view (snd (pb_ExecuteNextTransaction p X run b)) = pb_view b"
  "pb_parentID (snd (pb_ExecuteNextTransaction p X run b)) = pb_parentID b"
  "pb_clock (snd (pb_ExecuteNextTransaction p X run b)) = pb_clock b"
  "pb_timestamp (snd (pb_ExecuteNextTransaction p X run b)) = pb_timestamp b"
  "pb_transactions (snd (pb_ExecuteNextTransaction p X run b)) = pb_transactions b"
  "pb_transactionIDs (snd (pb_ExecuteNextTransaction p X run b)) = pb_transactionIDs b"
  "pb_index (snd (pb_ExecuteNextTransaction p X run b)) = pb_index b + 1"
  by (simp_all add: pb_ExecuteNextTransaction_def Let_def split: option.split sum.split prod.split)

lemma pb_Execute_results:
  assumes "pb_NextTransaction b = Some t"
  shows "pb_transactionResults (snd (pb_ExecuteNextTransaction p X run b)) =
    (case fst (pb_ExecuteNextTransaction p X run b) of
       Inl _ \<Rightarrow> pb_transactionResults b
     | Inr out \<Rightarrow> AList.update (tx_ID p t) \<lparr>itr_Output = out, itr_Index = pb_index b\<rparr> (pb_transactionResults b))"
  using assms by (simp add: pb_ExecuteNextTransaction_def Let_def split: sum.split prod.split)

lemma take_Suc_index: "i < length xs \<Longrightarrow> take (Suc i) xs = take i xs @ [xs ! i]"
  by (rule take_Suc_conv_app_nth)

lemma next_not_passed: "distinct xs \<Longrightarrow> i < length xs \<Longrightarrow> xs ! i \<notin> set (take i xs)"
  by (auto simp: in_set_conv_nth nth_eq_iff_index_eq)

lemma step_index:
  assumes inv: "pb_inv p b" and more: "\<not> pb_ExecutionComplete b"
  shows "unat (pb_index b + 1) = Suc (unat (pb_index b))"
  using pb_NextTransaction_eq(3)[OF inv more] inv by (intro unat_Suc_index) (auto simp: pb_inv_def)

lemma step_results:
  assumes inv: "pb_inv p b" and more: "\<not> pb_ExecutionComplete b"
  shows "map fst (pb_transactionResults (snd (pb_ExecuteNextTransaction p X run b))) =
     map fst (pb_transactionResults b) @
     (if is_ok (fst (pb_ExecuteNextTransaction p X run b)) then [pb_transactionIDs b ! unat (pb_index b)] else [])"
proof -
  note next_tx = pb_NextTransaction_eq[OF inv more]
  have "pb_transactionIDs b ! unat (pb_index b) \<notin> set (take (unat (pb_index b)) (pb_transactionIDs b))"
    using inv next_tx(3) by (intro next_not_passed) (auto simp: pb_inv_def)
  then have "pb_transactionIDs b ! unat (pb_index b) \<notin> fst ` set (pb_transactionResults b)"
    using inv by (auto simp: pb_inv_def)
  then show ?thesis
    unfolding pb_Execute_results[OF next_tx(1)] next_tx(2)
    by (auto simp: map_fst_update_new split: sum.split)
qed

lemma pb_inv_Execute:
  assumes inv: "pb_inv p b" and more: "\<not> pb_ExecutionComplete b"
  shows "pb_inv p (snd (pb_ExecuteNextTransaction p X run b))"
proof -
  let ?i = "unat (pb_index b)" and ?ids = "pb_transactionIDs b"
  note lt = pb_NextTransaction_eq(3)[OF inv more]
  have "?ids ! ?i \<notin> set (take ?i ?ids)" using inv lt by (intro next_not_passed) (auto simp: pb_inv_def)
  moreover have "set (map fst (pb_transactionResults b)) \<subseteq> set (take ?i ?ids)" "distinct (map fst (pb_transactionResults b))"
    using inv by (auto simp: pb_inv_def)
  ultimately have "distinct (map fst (pb_transactionResults (snd (pb_ExecuteNextTransaction p X run b))))"
    "set (map fst (pb_transactionResults (snd (pb_ExecuteNextTransaction p X run b)))) \<subseteq> set (take (Suc ?i) ?ids)"
    unfolding step_results[OF inv more] take_Suc_index[OF lt] by auto
  then show ?thesis using inv lt
    unfolding pb_inv_def pb_Execute_frame step_index[OF inv more] by simp
qed

lemma pb_all_results_Execute:
  assumes inv: "pb_inv p b" and more: "\<not> pb_ExecutionComplete b"
    and "pb_all_results b" "is_ok (fst (pb_ExecuteNextTransaction p X run b))"
  shows "pb_all_results (snd (pb_ExecuteNextTransaction p X run b))"
  using assms(3,4) take_Suc_index[OF pb_NextTransaction_eq(3)[OF inv more]]
  by (simp add: pb_all_results_def step_results[OF inv more] step_index[OF inv more] del: take_Suc_conv_app_nth)

end
