(* ===== verification/Computation_Report.thy ===== *)
theory Computation_Report
  imports Convert
begin

text \<open>
  Computation reports of transactions and scripts:
  \<^verbatim>\<open>emulator/computation_report.go\<close>.
\<close>

section \<open>Definitions\<close>

record ProcedureReport =
  rep_Path :: string
  rep_ComputationUsed :: u64
  rep_Intensities :: "string \<rightharpoonup> u64"
  rep_MemoryEstimate :: u64
  rep_Code :: string
  rep_Arguments :: "string list"

record ComputationReport =
  Scripts :: "string \<rightharpoonup> ProcedureReport"
  Transactions :: "string \<rightharpoonup> ProcedureReport"

text \<open>The switch of \<^verbatim>\<open>transformIntensities\<close>: the name under which a kind is reported.\<close>

fun kind_name :: "computation_kind \<Rightarrow> string" where
  "kind_name KindStatement = ''Statement''"
| "kind_name KindLoop = ''Loop''"
| "kind_name KindFunctionInvocation = ''FunctionInvocation''"
| "kind_name KindCreateCompositeValue = ''CreateCompositeValue''"
| "kind_name KindTransferCompositeValue = ''TransferCompositeValue''"
| "kind_name KindDestroyCompositeValue = ''DestroyCompositeValue''"
| "kind_name KindCreateArrayValue = ''CreateArrayValue''"
| "kind_name KindTransferArrayValue = ''TransferArrayValue''"
| "kind_name KindDestroyArrayValue = ''DestroyArrayValue''"
| "kind_name KindCreateDictionaryValue = ''CreateDictionaryValue''"
| "kind_name KindTransferDictionaryValue = ''TransferDictionaryValue''"
| "kind_name KindDestroyDictionaryValue = ''DestroyDictionaryValue''"
| "kind_name KindEncodeValue = ''EncodeValue''"
| "kind_name KindSTDLIBPanic = ''STDLIBPanic''"
| "kind_name KindSTDLIBAssert = ''STDLIBAssert''"
| "kind_name KindSTDLIBRevertibleRandom = ''STDLIBRevertibleRandom''"
| "kind_name KindSTDLIBRLPDecodeString = ''STDLIBRLPDecodeString''"
| "kind_name KindSTDLIBRLPDecodeList = ''STDLIBRLPDecodeList''"
| "kind_name KindHash = ''Hash''"
| "kind_name KindVerifySignature = ''VerifySignature''"
| "kind_name KindAddAccountKey = ''AddAccountKey''"
| "kind_name KindAddEncodedAccountKey = ''AddEncodedAccountKey''"
| "kind_name KindAllocateSlabIndex = ''AllocateSlabIndex''"
| "kind_name KindCreateAccount = ''CreateAccount''"
| "kind_name KindEmitEvent = ''EmitEvent''"
| "kind_name KindGenerateUUID = ''GenerateUUID''"
| "kind_name KindGetAccountAvailableBalance = ''GetAccountAvailableBalance''"
| "kind_name KindGetAccountBalance = ''GetAccountBalance''"
| "kind_name KindGetAccountContractCode = ''GetAccountContractCode''"
| "kind_name KindGetAccountContractNames = ''GetAccountContractNames''"
| "kind_name KindGetAccountKey = ''GetAccountKey''"
| "kind_name KindGetBlockAtHeight = ''GetBlockAtHeight''"
| "kind_name KindGetCode = ''GetCode''"
| "kind_name KindGetCurrentBlockHeight = ''GetCurrentBlockHeight''"
| "kind_name KindGetStorageCapacity = ''GetStorageCapacity''"
| "kind_name KindGetStorageUsed = ''GetStorageUsed''"
| "kind_name KindGetValue = ''GetValue''"
| "kind_name KindRemoveAccountContractCode = ''RemoveAccountContractCode''"
| "kind_name KindResolveLocation = ''ResolveLocation''"
| "kind_name KindRevokeAccountKey = ''RevokeAccountKey''"
| "kind_name KindSetValue = ''SetValue''"
| "kind_name KindUpdateAccountContractCode = ''UpdateAccountContractCode''"
| "kind_name KindValidatePublicKey = ''ValidatePublicKey''"
| "kind_name KindValueExists = ''ValueExists''"
| "kind_name KindAccountKeysCount = ''AccountKeysCount''"
| "kind_name KindBLSVerifyPOP = ''BLSVerifyPOP''"
| "kind_name KindBLSAggregateSignatures = ''BLSAggregateSignatures''"
| "kind_name KindBLSAggregatePublicKeys = ''BLSAggregatePublicKeys''"
| "kind_name KindGetOrLoadProgram = ''GetOrLoadProgram''"
| "kind_name KindGenerateAccountLocalID = ''GenerateAccountLocalID''"
| "kind_name KindGetRandomSourceHistory = ''GetRandomSourceHistory''"
| "kind_name KindEVMGasUsage = ''EVMGasUsage''"
| "kind_name KindRLPEncoding = ''RLPEncoding''"
| "kind_name KindRLPDecoding = ''RLPDecoding''"
| "kind_name KindEncodeEvent = ''EncodeEvent''"
| "kind_name KindEVMEncodeABI = ''EVMEncodeABI''"
| "kind_name KindEVMDecodeABI = ''EVMDecodeABI''"
| "kind_name (KindOther s) = s"

text \<open>The loop over the intensities, in the order the runtime iterates the map.\<close>

definition transformIntensities :: "(computation_kind, u64) gomap \<Rightarrow> string \<rightharpoonup> u64" where
  "transformIntensities intensities = fold (\<lambda>(kind, v) result. result(kind_name kind \<mapsto> v)) intensities Map.empty"

definition ReportScript ::
  "ScriptResult \<Rightarrow> string \<Rightarrow> string \<Rightarrow> string list \<Rightarrow> (computation_kind, u64) gomap \<Rightarrow>
   ComputationReport \<Rightarrow> ComputationReport" where
  "ReportScript r path code arguments intensities cr =
     cr\<lparr>Scripts := (Scripts cr)(ID_String (sr_ScriptID r) \<mapsto>
       \<lparr>rep_Path = path, rep_ComputationUsed = sr_ComputationUsed r,
        rep_Intensities = transformIntensities intensities, rep_MemoryEstimate = sr_MemoryEstimate r,
        rep_Code = code, rep_Arguments = arguments\<rparr>)\<rparr>"

definition ReportTransaction ::
  "TransactionResult \<Rightarrow> string \<Rightarrow> string \<Rightarrow> string list \<Rightarrow> (computation_kind, u64) gomap \<Rightarrow>
   ComputationReport \<Rightarrow> ComputationReport" where
  "ReportTransaction r path code arguments intensities cr =
     cr\<lparr>Transactions := (Transactions cr)(ID_String (tr_TransactionID r) \<mapsto>
       \<lparr>rep_Path = path, rep_ComputationUsed = tr_ComputationUsed r,
        rep_Intensities = transformIntensities intensities, rep_MemoryEstimate = tr_MemoryEstimate r,
        rep_Code = code, rep_Arguments = arguments\<rparr>)\<rparr>"

section \<open>Lemmas\<close>

definition named_kinds :: "computation_kind list" where
  "named_kinds =
     [KindStatement, KindLoop, KindFunctionInvocation, KindCreateCompositeValue,
      KindTransferCompositeValue, KindDestroyCompositeValue, KindCreateArrayValue,
      KindTransferArrayValue, KindDestroyArrayValue, KindCreateDictionaryValue,
      KindTransferDictionaryValue, KindDestroyDictionaryValue, KindEncodeValue, KindSTDLIBPanic,
      KindSTDLIBAssert, KindSTDLIBRevertibleRandom, KindSTDLIBRLPDecodeString,
      KindSTDLIBRLPDecodeList, KindHash, KindVerifySignature, KindAddAccountKey,
      KindAddEncodedAccountKey, KindAllocateSlabIndex, KindCreateAccount, KindEmitEvent,
      KindGenerateUUID, KindGetAccountAvailableBalance, KindGetAccountBalance,
      KindGetAccountContractCode, KindGetAccountContractNames, KindGetAccountKey,
      KindGetBlockAtHeight, KindGetCode, KindGetCurrentBlockHeight, KindGetStorageCapacity,
      KindGetStorageUsed, KindGetValue, KindRemoveAccountContractCode, KindResolveLocation,
      KindRevokeAccountKey, KindSetValue, KindUpdateAccountContractCode, KindValidatePublicKey,
      KindValueExists, KindAccountKeysCount, KindBLSVerifyPOP, KindBLSAggregateSignatures,
      KindBLSAggregatePublicKeys, KindGetOrLoadProgram, KindGenerateAccountLocalID,
      KindGetRandomSourceHistory, KindEVMGasUsage, KindRLPEncoding, KindRLPDecoding,
      KindEncodeEvent, KindEVMEncodeABI, KindEVMDecodeABI]"

lemma distinct_kind_names: "distinct (map kind_name named_kinds)"
  by (simp add: named_kinds_def)

lemma named_kind: "(\<forall>s. k \<noteq> KindOther s) \<Longrightarrow> k \<in> set named_kinds"
  by (cases k) (simp_all add: named_kinds_def)

lemma kind_name_inj:
  assumes "kind_name j = kind_name k" "j \<in> set named_kinds" "k \<in> set named_kinds"
  shows "j = k"
  using assms distinct_kind_names by (auto simp: distinct_map inj_on_def)

text \<open>No kind without a name of its own uses one of the names of the switch.\<close>

definition fresh_names :: "computation_kind list \<Rightarrow> bool" where
  "fresh_names ks \<longleftrightarrow> (\<forall>s. KindOther s \<in> set ks \<longrightarrow> s \<notin> set (map kind_name named_kinds))"

lemma kind_name_inj_on: "fresh_names ks \<Longrightarrow> inj_on kind_name (set ks)"
proof (rule inj_onI)
  fix j k assume *: "fresh_names ks" "j \<in> set ks" "k \<in> set ks" "kind_name j = kind_name k"
  show "j = k"
  proof (cases "(\<exists>s. j = KindOther s) \<or> (\<exists>s. k = KindOther s)")
    case True
    then show ?thesis using * named_kind[of j] named_kind[of k]
      by (auto simp: fresh_names_def) (metis kind_name.simps(58) imageI)+
  next
    case False
    then show ?thesis using kind_name_inj[OF *(4)] named_kind by blast
  qed
qed

lemma transformIntensities_map_of:
  "transformIntensities m = map_of (rev (map (\<lambda>(k, v). (kind_name k, v)) m))"
proof -
  have "fold (\<lambda>(kind, v) result. result(kind_name kind \<mapsto> v)) m r =
      r ++ map_of (rev (map (\<lambda>(k, v). (kind_name k, v)) m))" for r
    by (induction m arbitrary: r) (auto simp: map_add_def fun_eq_iff split: option.split)
  then show ?thesis by (simp add: transformIntensities_def)
qed

section \<open>Properties\<close>

text \<open>The report of computation intensities has one entry per metered kind, with the value
  that was metered, whatever order the runtime iterates the map in: no kind overwrites another.
  (A kind the switch does not name must not call itself like one it names.)\<close>

theorem intensities_complete:
  assumes "distinct (map fst m)" "fresh_names (map fst m)"
  shows "dom (transformIntensities m) = kind_name ` set (map fst m) \<and>
    (\<forall>(k, v) \<in> set m. transformIntensities m (kind_name k) = Some v)"
proof
  let ?n = "map (\<lambda>(k, v). (kind_name k, v)) m"
  have "distinct (map kind_name (map fst m))"
    using kind_name_inj_on[OF assms(2)] assms(1) by (simp only: distinct_map set_map)
  moreover have "map fst ?n = map kind_name (map fst m)" by (simp add: case_prod_unfold)
  ultimately have d: "distinct (map fst (rev ?n))" by (simp only: rev_map[symmetric] distinct_rev)
  show "dom (transformIntensities m) = kind_name ` set (map fst m)"
    unfolding transformIntensities_map_of dom_map_of_conv_image_fst by (force simp: image_image)
  show "\<forall>(k, v) \<in> set m. transformIntensities m (kind_name k) = Some v"
    unfolding transformIntensities_map_of using map_of_is_SomeI[OF d] by fastforce
qed

theorem intensities_complete_witness:
  "transformIntensities [(KindHash, 3), (KindOther ''x'', 4), (KindLoop, 5)] ''Hash'' = Some 3"
  using intensities_complete[of "[(KindHash, 3), (KindOther ''x'', 4), (KindLoop, 5)]"]
  by (auto simp: fresh_names_def named_kinds_def)

end
