(* ===== verification/Emulator.thy ===== *)
theory Emulator
  imports Pending_Block Computation_Report
begin

text \<open>
  The emulated blockchain: the operations of \<^verbatim>\<open>emulator/blockchain.go\<close> that change
  its state, \<^verbatim>\<open>emulator/scheduled_transactions.go\<close>, \<^verbatim>\<open>emulator/contracts.go\<close>
  and the block ticker.

  \<^verbatim>\<open>Blockchain\<close> is the record of the same name; every operation takes and
  returns it, also when it fails. Loggers, the mutex (operations are atomic steps
  here) and the coverage and computation-profile objects handed through to the
  Cadence runtime are left out. Operations that create a pending block take the
  \<^verbatim>\<open>world\<close>: the instant the clock is read at and the result of \<^verbatim>\<open>rand.Intn\<close>.
\<close>

section \<open>State\<close>

record ('s, 'ls) Blockchain =
  bc_storage :: 's
  bc_pendingBlock :: "'ls pendingBlock"
  bc_clock :: clock
  bc_vmCtx :: fvm_context
  bc_transactionValidator :: validation_options
  bc_systemTransactions :: "flow_id \<rightharpoonup> transaction_body"
  bc_serviceKey :: ServiceKey
  bc_debugger :: "unit option"
  bc_activeDebuggingSession :: bool
  bc_currentCode :: string
  bc_currentScriptID :: string
  bc_conf :: "'s config"
  bc_sourceFileMap :: "location \<rightharpoonup> string"
  bc_LatestBlock :: flow_id
  bc_computationReport :: ComputationReport
  bc_published :: nat

text \<open>\<^verbatim>\<open>b.vm.Run\<close>: the machine reads blocks from storage and entropy from the latest block's ID.\<close>

definition vm_Run ::
  "'h hashes_scheme \<Rightarrow> ('s, 'ls) emu \<Rightarrow> ('s, 'ls) Blockchain \<Rightarrow> fvm_context \<Rightarrow> procedure \<Rightarrow> storage_snapshot \<Rightarrow>
   (execution_snapshot \<times> procedure_output) result" where
  "vm_Run p E b = em_Run E (newBlocks p (em_store E) (bc_storage b)) (bc_LatestBlock b)"

text \<open>A storage operation on the storage of the blockchain.\<close>

definition on_storage ::
  "('s \<Rightarrow> 'a result \<times> 's) \<Rightarrow> ('s, 'ls) Blockchain \<Rightarrow> 'a result \<times> ('s, 'ls) Blockchain" where
  "on_storage f b = (let (r, s) = f (bc_storage b) in (r, b\<lparr>bc_storage := s\<rparr>))"

section \<open>Accounts\<close>

definition getLatestBlock :: "('s, 'ls) emu \<Rightarrow> ('s, 'ls) Blockchain \<Rightarrow> block result" where
  "getLatestBlock E b = st_LatestBlock (em_store E) (bc_storage b)"

definition getAccountAtBlock ::
  "('s, 'ls) emu \<Rightarrow> address \<Rightarrow> u64 \<Rightarrow> ('s, 'ls) Blockchain \<Rightarrow> account result" where
  "getAccountAtBlock E addr blockHeight b =
     bindR (st_LedgerByHeight (em_store E) blockHeight (bc_storage b)) (\<lambda>ledger.
     (case em_GetAccount E (bc_vmCtx b) addr ledger of
        Inl err \<Rightarrow> if em_IsAccountNotFoundError E err then Inl (AccountNotFoundError addr) else Inl err
      | Inr account \<Rightarrow> Inr account))"

definition getAccount :: "('s, 'ls) emu \<Rightarrow> address \<Rightarrow> ('s, 'ls) Blockchain \<Rightarrow> account result" where
  "getAccount E addr b =
     bindR (getLatestBlock E b) (\<lambda>latestBlock. getAccountAtBlock E addr (Height latestBlock) b)"

definition GetAccountUnsafe :: "('s, 'ls) emu \<Rightarrow> address \<Rightarrow> ('s, 'ls) Blockchain \<Rightarrow> account result" where
  "GetAccountUnsafe E addr b =
     bindR (getLatestBlock E b) (\<lambda>latestBlock. getAccountAtBlock E addr (Height latestBlock) b)"

definition GetAccountByIndex :: "('s, 'ls) emu \<Rightarrow> u64 \<Rightarrow> ('s, 'ls) Blockchain \<Rightarrow> account result" where
  "GetAccountByIndex E index b =
     GetAccountUnsafe E (SDKAddressToFlow (em_GeneratedAddress E (ctx_Chain (bc_vmCtx b)) index)) b"

definition bc_ServiceKey :: "('s, 'ls) emu \<Rightarrow> ('s, 'ls) Blockchain \<Rightarrow> ServiceKey \<times> ('s, 'ls) Blockchain" where
  "bc_ServiceKey E b =
     (case getAccount E (sk_Address (bc_serviceKey b)) b of
        Inl err \<Rightarrow> (bc_serviceKey b, b)
      | Inr serviceAccount \<Rightarrow>
          (if length (acc_Keys serviceAccount) > 0
           then let key = (bc_serviceKey b)\<lparr>sk_Index := 0,
                      sk_SequenceNumber := key_SeqNumber (acc_Keys serviceAccount ! 0),
                      sk_Weight := key_Weight (acc_Keys serviceAccount ! 0)\<rparr>
                in (key, b\<lparr>bc_serviceKey := key\<rparr>)
           else (bc_serviceKey b, b)))"

section \<open>Starting: New and ReloadBlockchain\<close>

definition bootstrapLedger ::
  "('s, 'ls) emu \<Rightarrow> (fvm_context \<Rightarrow> procedure \<Rightarrow> storage_snapshot \<Rightarrow> (execution_snapshot \<times> procedure_output) result) \<Rightarrow>
   fvm_context \<Rightarrow> storage_snapshot \<Rightarrow> 's config \<Rightarrow> (execution_snapshot \<times> procedure_output) result" where
  "bootstrapLedger E run ctx ledger conf =
     (let L = em_lib E; accountKey = AccountKey (GetServiceKey L conf);
          publicKey = (case DecodePublicKey L (sdk_key_SigAlgo accountKey) (sdk_key_PublicKey accountKey) of
                         None \<Rightarrow> [] | Some k \<Rightarrow> k);
          ctx = ctx\<lparr>ctx_AccountStorageLimit := False\<rparr>;
          flowAccountKey = \<lparr>key_Index = 0, key_PublicKey = publicKey, key_SignAlgo = sdk_key_SigAlgo accountKey,
             key_HashAlgo = sdk_key_HashAlgo accountKey, key_SeqNumber = 0,
             key_Weight = AccountKeyWeightThreshold L, key_Revoked = False\<rparr>;
          bootstrap = configureBootstrapProcedure L conf flowAccountKey (cf_GenesisTokenSupply conf)
      in bindR (run ctx (BootstrapProcedure bootstrap) ledger) (\<lambda>(executionSnapshot, output).
         case out_Err output of Some e \<Rightarrow> Inl (FlowError e) | None \<Rightarrow> Inr (executionSnapshot, output)))"

text \<open>The commit of the genesis block: no transactions, the bootstrap's writes and events.\<close>

definition genesis_commit :: "block \<Rightarrow> execution_snapshot \<Rightarrow> event list \<Rightarrow> commit_args" where
  "genesis_commit genesis snap evs =
     \<lparr>cb_block = genesis, cb_collections = [], cb_transactions = [], cb_results = [],
      cb_systemTransactions = [], cb_systemBodies = [], cb_systemResults = [], cb_snapshot = snap,
      cb_events = evs, cb_scheduled = []\<rparr>"

definition configureNewLedger ::
  "'h hashes_scheme \<Rightarrow> ('s, 'ls) emu \<Rightarrow> 's config \<Rightarrow> fvm_context \<Rightarrow> flow_id \<Rightarrow> 's \<Rightarrow>
   (block \<times> storage_snapshot) result \<times> 's" where
  "configureNewLedger p E conf ctx entropy s =
     (case st_LedgerByHeight (em_store E) 0 s of
        Inl err \<Rightarrow> (Inl err, s)
      | Inr ledger \<Rightarrow>
          (case bootstrapLedger E (em_Run E (newBlocks p (em_store E) s) entropy) ctx ledger conf of
             Inl err \<Rightarrow> (Inl (Errorf_wrap ''failed to bootstrap execution state: '' err), s)
           | Inr (genesisExecutionSnapshot, output) \<Rightarrow>
               (let genesis = Genesis (em_lib E) (GetChainID (em_lib E) conf)
                in bindE (st_CommitBlock (em_store E)
                            (genesis_commit genesis genesisExecutionSnapshot (out_Events output)) s) (\<lambda>_ s.
                   (case st_LedgerByHeight (em_store E) 0 s of
                      Inl err \<Rightarrow> (Inl err, s)
                    | Inr ledger \<Rightarrow> (Inr (genesis, ledger), s))))))"

definition configureExistingLedger ::
  "('s, 'ls) emu \<Rightarrow> block \<Rightarrow> 's \<Rightarrow> (block \<times> storage_snapshot) result \<times> 's" where
  "configureExistingLedger E latestBlock s =
     (case st_LedgerByHeight (em_store E) (Height latestBlock) s of
        Inl err \<Rightarrow> (Inl err, s)
      | Inr latestLedger \<Rightarrow> (Inr (latestBlock, latestLedger), s))"

definition configureLedger ::
  "'h hashes_scheme \<Rightarrow> ('s, 'ls) emu \<Rightarrow> 's config \<Rightarrow> fvm_context \<Rightarrow> flow_id \<Rightarrow> 's \<Rightarrow>
   (block \<times> storage_snapshot) result \<times> 's" where
  "configureLedger p E conf ctx entropy s =
     (case st_LatestBlock (em_store E) s of
        Inl err \<Rightarrow> if is_ErrNotFound err then configureNewLedger p E conf ctx entropy s else (Inl err, s)
      | Inr latestBlock \<Rightarrow> configureExistingLedger E latestBlock s)"

definition ReloadBlockchain ::
  "'h hashes_scheme \<Rightarrow> ('s, 'ls) emu \<Rightarrow> world \<Rightarrow> ('s, 'ls) Blockchain \<Rightarrow> unit result \<times> ('s, 'ls) Blockchain" where
  "ReloadBlockchain p E w b =
     (let b = b\<lparr>bc_vmCtx := configureFVM E (bc_conf b)\<rparr>
      in bindE (on_storage (configureLedger p E (bc_conf b) (bc_vmCtx b) (bc_LatestBlock b)) b)
           (\<lambda>(latestBlock, latestLedger) b.
              let b = b\<lparr>bc_pendingBlock := newPendingBlock p (em_exec E) w latestBlock latestLedger (bc_clock b)\<rparr>
              in case configureTransactionValidator E (bc_conf b) of
                   Inl err \<Rightarrow> (Inl err, b)
                 | Inr v \<Rightarrow> (Inr (), b\<lparr>bc_transactionValidator := v\<rparr>)))"

section \<open>The system chunk transaction\<close>

abbreviation newline :: string where "newline \<equiv> [CHR 0x0A]"

text \<open>\<^verbatim>\<open>emulator/templates/systemChunkTransactionTemplate.cdc\<close>, line by line.\<close>

definition systemChunkTransactionTemplate :: string where
  "systemChunkTransactionTemplate = concat (map (\<lambda>l. l @ newline)
     [''import \"RandomBeaconHistory\"'',
      ''import EVM from \"EVM\"'',
      '''',
      ''transaction {'',
      ''    prepare(serviceAccount: auth(BorrowValue) &Account) {'',
      ''        let randomBeaconHistoryHeartbeat = serviceAccount.storage'',
      ''            .borrow<&RandomBeaconHistory.Heartbeat>(from: RandomBeaconHistory.HeartbeatStoragePath)'',
      ''            ?? panic(\"Couldn't borrow RandomBeaconHistory.Heartbeat Resource\")'',
      ''        randomBeaconHistoryHeartbeat.heartbeat(randomSourceHistory: randomSourceHistory())'',
      '''',
      ''        let evmHeartbeat = serviceAccount.storage'',
      ''            .borrow<&EVM.Heartbeat>(from: /storage/EVMHeartbeat)'',
      ''            ?? panic(\"Couldn't borrow EVM.Heartbeat Resource\")'',
      ''        evmHeartbeat.heartbeat()'',
      ''    }'',
      ''}''])"

text \<open>\<^verbatim>\<open>strings.ReplaceAll\<close> for a non-empty \<open>old\<close>: leftmost, without overlaps.\<close>

fun ReplaceAll :: "nat \<Rightarrow> string \<Rightarrow> string \<Rightarrow> string \<Rightarrow> string" where
  "ReplaceAll skip old new [] = []"
| "ReplaceAll (Suc n) old new (c # s) = ReplaceAll n old new s"
| "ReplaceAll 0 old new (c # s) =
     (if take (length old) (c # s) = old then new @ ReplaceAll (length old - 1) old new s
      else c # ReplaceAll 0 old new s)"

definition systemChunkTransaction :: "('s, 'ls) emu \<Rightarrow> ('s, 'ls) Blockchain \<Rightarrow> transaction_body result" where
  "systemChunkTransaction E b =
     (let serviceAddress = ServiceAddress (em_lib E) (ctx_Chain (bc_vmCtx b));
          script = em_ReplaceAddresses E systemChunkTransactionTemplate (Address_String serviceAddress);
          script = ReplaceAll 0 ''import EVM from \"EVM\"''
                     (''import EVM from '' @ ''0x'' @ Address_String serviceAddress) script
      in em_Build E
           \<lparr>ReferenceBlockID = ZeroID, Script = bytes_of_string script, Arguments = [],
            GasLimit = DefaultMaxTransactionGasLimit (em_lib E),
            ProposalKey = \<lparr>pk_Address = 0, pk_KeyIndex = 0, pk_SequenceNumber = 0\<rparr>,
            Payer = serviceAddress, Authorizers = [serviceAddress],
            PayloadSignatures = [], EnvelopeSignatures = []\<rparr>)"

text \<open>Events and registers of a system transaction go into the pending block.\<close>

definition merge_output ::
  "('s, 'ls) emu \<Rightarrow> execution_snapshot \<Rightarrow> procedure_output \<Rightarrow> ('s, 'ls) Blockchain \<Rightarrow>
   unit result \<times> ('s, 'ls) Blockchain" where
  "merge_output E snap output b =
     (let pb = bc_pendingBlock b; pb = pb\<lparr>pb_events := pb_events pb @ out_Events output\<rparr>;
          (r, ls) = es_Merge (em_exec E) snap (pb_ledgerState pb)
      in (r, b\<lparr>bc_pendingBlock := pb\<lparr>pb_ledgerState := ls\<rparr>\<rparr>))"

definition executeSystemChunkTransaction ::
  "'h hashes_scheme \<Rightarrow> ('s, 'ls) emu \<Rightarrow> u32 \<Rightarrow> ('s, 'ls) Blockchain \<Rightarrow>
   (transaction_body \<times> IndexedTransactionResult) result \<times> ('s, 'ls) Blockchain" where
  "executeSystemChunkTransaction p E txIndex b =
     (case systemChunkTransaction E b of
        Inl err \<Rightarrow> (Inl err, b)
      | Inr txn \<Rightarrow>
          (let ctx = (bc_vmCtx b)\<lparr>ctx_AuthorizationChecksEnabled := False,
                 ctx_SequenceNumberCheckAndIncrementEnabled := False, ctx_RandomSourceHistoryCallAllowed := True,
                 ctx_BlockHeader := Some (ToHeader p (pb_Block p (em_lib E) (bc_pendingBlock b)))\<rparr>
           in case vm_Run p E b ctx (TransactionProcedure txn txIndex)
                     (es_Get (em_exec E) (pb_ledgerState (bc_pendingBlock b))) of
                Inl err \<Rightarrow> (Inl err, b)
              | Inr (executionSnapshot, output) \<Rightarrow>
                  (case out_Err output of
                     Some e \<Rightarrow> (Inl (FlowError e), b)
                   | None \<Rightarrow>
                       bindE (merge_output E executionSnapshot output b) (\<lambda>_ b.
                         (Inr (txn, \<lparr>itr_Output = output, itr_Index = txIndex\<rparr>), b)))))"

section \<open>Scheduled transactions\<close>

primrec parseScheduledIDs :: "('s, 'ls) emu \<Rightarrow> string \<Rightarrow> event list \<Rightarrow> string list result" where
  "parseScheduledIDs E chain [] = Inr []"
| "parseScheduledIDs E chain (e # es) =
     (if em_PendingExecutionEventType E chain \<noteq> ev_Type e then parseScheduledIDs E chain es
      else case em_ccf_Decode E (ev_Payload e) of
             Inl err \<Rightarrow> Inl (Errorf_wrap ''failed to decode event: '' err)
           | Inr (CadenceEvent ty fs) \<Rightarrow>
               (case map_of fs ''id'' of
                  Some (CadenceUInt64 n) \<Rightarrow>
                    bindR (parseScheduledIDs E chain es) (\<lambda>ids. Inr (fmt_u n # ids))
                | _ \<Rightarrow> Inl (Errorf ''id is not uint64''))
           | Inr _ \<Rightarrow> Inl (Errorf ''event data is not a cadence event''))"

text \<open>\<^verbatim>\<open>fmt.Sscanf(s, "%d", &v)\<close> into a \<^verbatim>\<open>uint64\<close>, on strings of digits.\<close>

definition Sscanf_u64 :: "string \<Rightarrow> u64 option" where
  "Sscanf_u64 s =
     (if s \<noteq> [] \<and> list_all (\<lambda>c. c \<in> set ''0123456789'') s \<and> undec s < 2 ^ 64
      then Some (of_nat (undec s)) else None)"

record scheduled_acc =
  sa_transactions :: "(flow_id, transaction_body) gomap"
  sa_results :: "(flow_id, IndexedTransactionResult) gomap"
  sa_scheduled :: "(u64, flow_id) gomap"
  sa_ordered :: "flow_id list"

text \<open>The loop over the transactions that execute callbacks.\<close>

primrec execute_callbacks ::
  "'h hashes_scheme \<Rightarrow> ('s, 'ls) emu \<Rightarrow> fvm_context \<Rightarrow> u32 \<Rightarrow> string list \<Rightarrow> (nat \<times> transaction_body) list \<Rightarrow>
   scheduled_acc \<Rightarrow> ('s, 'ls) Blockchain \<Rightarrow> scheduled_acc result \<times> ('s, 'ls) Blockchain" where
  "execute_callbacks p E ctx base ids [] acc b = (Inr acc, b)"
| "execute_callbacks p E ctx base ids (x # xs) acc b =
     (let (idx, tx) = x; id = tx_ID p tx; acc = acc\<lparr>sa_ordered := sa_ordered acc @ [id]\<rparr>;
          executeTxIndex = base + 1 + of_nat idx
      in case vm_Run p E b ctx (TransactionProcedure tx executeTxIndex)
                (es_Get (em_exec E) (pb_ledgerState (bc_pendingBlock b))) of
           Inl err \<Rightarrow> (Inl err, b)
         | Inr (execSnapshot, execOutput) \<Rightarrow>
             (let acc = acc\<lparr>sa_results := AList.update id \<lparr>itr_Output = execOutput, itr_Index = executeTxIndex\<rparr> (sa_results acc),
                            sa_transactions := AList.update id tx (sa_transactions acc)\<rparr>;
                  acc = (if idx < length ids
                         then case Sscanf_u64 (ids ! idx) of
                                Some n \<Rightarrow> acc\<lparr>sa_scheduled := AList.update n id (sa_scheduled acc)\<rparr>
                              | None \<Rightarrow> acc
                         else acc)
              in case VMTransactionResultToEmulator (em_ccf E) id execOutput of
                   Inl err \<Rightarrow> (Inl err, b)
                 | Inr _ \<Rightarrow> bindE (merge_output E execSnapshot execOutput b) (\<lambda>_ b.
                             execute_callbacks p E ctx base ids xs acc b)))"

definition executeScheduledTransactions ::
  "'h hashes_scheme \<Rightarrow> ('s, 'ls) emu \<Rightarrow> fvm_context \<Rightarrow> ('s, 'ls) Blockchain \<Rightarrow>
   scheduled_acc result \<times> ('s, 'ls) Blockchain" where
  "executeScheduledTransactions p E blockContext b =
     (let ctx = blockContext\<lparr>ctx_AuthorizationChecksEnabled := False,
            ctx_SequenceNumberCheckAndIncrementEnabled := False, ctx_TransactionFeesEnabled := False\<rparr>;
          systemTxBaseIndex = of_nat (length (pb_transactions (bc_pendingBlock b)));
          chain = ctx_Chain (bc_vmCtx b)
      in case em_ProcessCallbacksTransaction E chain of
           Inl err \<Rightarrow> (Inl err, b)
         | Inr processTx \<Rightarrow>
             (case vm_Run p E b ctx (TransactionProcedure processTx systemTxBaseIndex)
                     (es_Get (em_exec E) (pb_ledgerState (bc_pendingBlock b))) of
                Inl err \<Rightarrow> (Inl err, b)
              | Inr (executionSnapshot, output) \<Rightarrow>
                  bindE (merge_output E executionSnapshot output b) (\<lambda>_ b.
                    (case em_ExecuteCallbacksTransactions E chain (out_Events output) of
                       Inl err \<Rightarrow> (Inl err, b)
                     | Inr executeTxs \<Rightarrow>
                         (case parseScheduledIDs E chain (out_Events output) of
                            Inl err \<Rightarrow> (Inl err, b)
                          | Inr scheduledIDs \<Rightarrow>
                              execute_callbacks p E ctx systemTxBaseIndex scheduledIDs (enumerate 0 executeTxs)
                                \<lparr>sa_transactions = [(tx_ID p processTx, processTx)],
                                 sa_results = [(tx_ID p processTx,
                                    \<lparr>itr_Output = output, itr_Index = systemTxBaseIndex\<rparr>)],
                                 sa_scheduled = [], sa_ordered = [tx_ID p processTx]\<rparr> b)))))"

section \<open>Adding and executing transactions\<close>

definition addTransaction ::
  "'h hashes_scheme \<Rightarrow> ('s, 'ls) emu \<Rightarrow> transaction_body \<Rightarrow> ('s, 'ls) Blockchain \<Rightarrow>
   unit result \<times> ('s, 'ls) Blockchain" where
  "addTransaction p E tx b =
     (if pb_ExecutionStarted (bc_pendingBlock b)
      then (Inl (PendingBlockMidExecutionError (pb_ID p (em_lib E) (bc_pendingBlock b))), b)
      else if pb_ContainsTransaction (tx_ID p tx) (bc_pendingBlock b)
      then (Inl (DuplicateTransactionError (tx_ID p tx)), b)
      else case st_TransactionByID (em_store E) (tx_ID p tx) (bc_storage b) of
             Inr _ \<Rightarrow> (Inl (DuplicateTransactionError (tx_ID p tx)), b)
           | Inl err \<Rightarrow>
               (if \<not> is_ErrNotFound err
                then (Inl (Errorf_wrap ''failed to check storage for transaction '' err), b)
                else case em_Validate E (bc_transactionValidator b) (GetChainID (em_lib E) (bc_conf b))
                            (newBlocks p (em_store E) (bc_storage b)) tx of
                       Inl err \<Rightarrow> (Inl (ConvertAccessError err), b)
                     | Inr _ \<Rightarrow> (Inr (), b\<lparr>bc_pendingBlock := pb_AddTransaction p tx (bc_pendingBlock b)\<rparr>)))"

definition setFVMContextFromHeader ::
  "header \<Rightarrow> ('s, 'ls) Blockchain \<Rightarrow> fvm_context \<times> ('s, 'ls) Blockchain" where
  "setFVMContextFromHeader header b =
     (let ctx = (bc_vmCtx b)\<lparr>ctx_BlockHeader := Some header\<rparr> in (ctx, b\<lparr>bc_vmCtx := ctx\<rparr>))"

definition testAlternativeHashAlgo ::
  "('s, 'ls) emu \<Rightarrow> transaction_signature \<Rightarrow> bytes \<Rightarrow> ('s, 'ls) Blockchain \<Rightarrow> result_debug option result" where
  "testAlternativeHashAlgo E sig msg b =
     (case getAccount E (sig_Address sig) b of
        Inl err \<Rightarrow> Inr None
      | Inr acc \<Rightarrow>
          (if length (acc_Keys acc) \<le> unat (sig_KeyIndex sig) then Inl (Panic ''index out of range'')
           else let key = acc_Keys acc ! unat (sig_KeyIndex sig); L = em_lib E;
                    found = find (\<lambda>algo. key_HashAlgo key \<noteq> algo \<and> em_Verify E key (sig_Signature sig) msg algo)
                                 [SHA2_256 L, SHA3_256 L]
                in Inr (map_option (NewTransactionInvalidHashAlgo (algo_String L) key (acc_Address acc)) found)))"

text \<open>The first signature for which \<^verbatim>\<open>testAlternativeHashAlgo\<close> has something to say.\<close>

primrec test_signatures ::
  "('s, 'ls) emu \<Rightarrow> bytes \<Rightarrow> ('s, 'ls) Blockchain \<Rightarrow> transaction_signature list \<Rightarrow> result_debug option result" where
  "test_signatures E msg b [] = Inr None"
| "test_signatures E msg b (sig # sigs) =
     bindR (testAlternativeHashAlgo E sig msg b) (\<lambda>debug.
       case debug of Some d \<Rightarrow> Inr (Some d) | None \<Rightarrow> test_signatures E msg b sigs)"

definition debugSignatureError ::
  "('s, 'ls) emu \<Rightarrow> go_error \<Rightarrow> transaction_body \<Rightarrow> ('s, 'ls) Blockchain \<Rightarrow> result_debug result" where
  "debugSignatureError E err tx b =
     bindR (if em_IsInvalidEnvelopeSignature E err
            then test_signatures E (em_EnvelopeMessage E tx) b (EnvelopeSignatures tx) else Inr None) (\<lambda>d1.
       case d1 of Some d \<Rightarrow> Inr d
       | None \<Rightarrow>
           bindR (if em_IsInvalidPayloadSignature E err
                  then test_signatures E (em_PayloadMessage E tx) b (PayloadSignatures tx) else Inr None) (\<lambda>d2.
             case d2 of Some d \<Rightarrow> Inr d | None \<Rightarrow> Inr (NewTransactionInvalidSignature tx)))"

text \<open>The source map entry of a program that names its source file in a pragma.\<close>

definition note_source_file ::
  "PragmaList \<Rightarrow> location \<Rightarrow> ('s, 'ls) Blockchain \<Rightarrow> unit result \<times> ('s, 'ls) Blockchain" where
  "note_source_file pragmas loc b =
     (if Contains pragmas PragmaSourceFile
      then case first_argument pragmas PragmaSourceFile of
             Inl err \<Rightarrow> (Inl err, b)
           | Inr sourceFile \<Rightarrow> (Inr (), b\<lparr>bc_sourceFileMap := (bc_sourceFileMap b)(loc \<mapsto> sourceFile)\<rparr>)
      else (Inr (), b))"

definition source_of :: "('s, 'ls) Blockchain \<Rightarrow> location \<Rightarrow> string" where
  "source_of b loc = (case bc_sourceFileMap b loc of None \<Rightarrow> '''' | Some f \<Rightarrow> f)"

definition report_transaction ::
  "TransactionResult \<Rightarrow> transaction_body \<Rightarrow> procedure_output \<Rightarrow> ('s, 'ls) Blockchain \<Rightarrow> ('s, 'ls) Blockchain" where
  "report_transaction tr txnBody output b =
     (if cf_ComputationReportingEnabled (bc_conf b)
      then b\<lparr>bc_computationReport :=
             ReportTransaction tr (source_of b (TransactionLocation (tr_TransactionID tr))) (bc_currentCode b)
               (map string_of_bytes (Arguments txnBody)) (out_Intensities output) (bc_computationReport b)\<rparr>
      else b)"

text \<open>A debugging session pauses before programs with the debug pragma.\<close>

definition request_pause :: "('s, 'ls) emu \<Rightarrow> PragmaList \<Rightarrow> ('s, 'ls) Blockchain \<Rightarrow> unit result" where
  "request_pause E pragmas b =
     (if bc_activeDebuggingSession b \<and> Contains pragmas PragmaDebug
      then em_RequestPause E (bc_debugger b) else Inr ())"

text \<open>What happens to the output of the machine once a transaction has run.\<close>

definition finish_transaction ::
  "('s, 'ls) emu \<Rightarrow> flow_id \<Rightarrow> transaction_body \<Rightarrow> PragmaList \<Rightarrow> procedure_output \<Rightarrow> ('s, 'ls) Blockchain \<Rightarrow>
   TransactionResult result \<times> ('s, 'ls) Blockchain" where
  "finish_transaction E txnID txnBody pragmas output b =
     (case bindR (VMTransactionResultToEmulator (em_ccf E) txnID output) (\<lambda>tr.
             case tr_Error tr of
               None \<Rightarrow> Inr tr
             | Some err \<Rightarrow> bindR (debugSignatureError E err txnBody b) (\<lambda>d. Inr (tr\<lparr>tr_Debug := Some d\<rparr>))) of
        Inl err \<Rightarrow> (Inl err, b)
      | Inr tr \<Rightarrow>
          bindE (note_source_file pragmas (TransactionLocation (tr_TransactionID tr)) b) (\<lambda>_ b.
            (Inr tr, report_transaction tr txnBody output b)))"

definition executeNextTransaction ::
  "'h hashes_scheme \<Rightarrow> ('s, 'ls) emu \<Rightarrow> fvm_context \<Rightarrow> ('s, 'ls) Blockchain \<Rightarrow>
   TransactionResult result \<times> ('s, 'ls) Blockchain" where
  "executeNextTransaction p E ctx b =
     (if pb_ExecutionComplete (bc_pendingBlock b)
      then (Inl (PendingBlockTransactionsExhaustedError (pb_ID p (em_lib E) (bc_pendingBlock b))), b)
      else case pb_NextTransaction (bc_pendingBlock b) of
             None \<Rightarrow> (Inl (Panic ''nil pointer dereference''), b)
           | Some txnBody \<Rightarrow>
               (let txnID = tx_ID p txnBody;
                    b = b\<lparr>bc_currentCode := string_of_bytes (Script txnBody), bc_currentScriptID := ID_String txnID\<rparr>;
                    pragmas = ExtractPragmas (em_ParseProgram E) (bc_currentCode b)
                in case request_pause E pragmas b of
                     Inl err \<Rightarrow> (Inl err, b)
                   | Inr _ \<Rightarrow>
                       (let (r, pb) = pb_ExecuteNextTransaction p (em_exec E) (vm_Run p E b ctx) (bc_pendingBlock b);
                            b = b\<lparr>bc_pendingBlock := pb\<rparr>
                        in case r of
                             Inl err \<Rightarrow> (Inl err, b)
                           | Inr output \<Rightarrow> finish_transaction E txnID txnBody pragmas output b)))"

definition ExecuteNextTransaction ::
  "'h hashes_scheme \<Rightarrow> ('s, 'ls) emu \<Rightarrow> ('s, 'ls) Blockchain \<Rightarrow>
   TransactionResult result \<times> ('s, 'ls) Blockchain" where
  "ExecuteNextTransaction p E b =
     (let (blockContext, b) = setFVMContextFromHeader (ToHeader p (pb_Block p (em_lib E) (bc_pendingBlock b))) b
      in executeNextTransaction p E blockContext b)"

section \<open>What executing one transaction keeps\<close>

lemma finish_keeps [simp]:
  "bc_pendingBlock (snd (finish_transaction E i t l out b)) = bc_pendingBlock b"
  "bc_storage (snd (finish_transaction E i t l out b)) = bc_storage b"
  "bc_conf (snd (finish_transaction E i t l out b)) = bc_conf b"
  "bc_systemTransactions (snd (finish_transaction E i t l out b)) = bc_systemTransactions b"
  "bc_clock (snd (finish_transaction E i t l out b)) = bc_clock b"
  by (auto simp: finish_transaction_def note_source_file_def report_transaction_def bindE_def
      split: sum.split prod.split)

lemma executeNext_keeps [simp]:
  "bc_storage (snd (executeNextTransaction p E ctx b)) = bc_storage b"
  "bc_conf (snd (executeNextTransaction p E ctx b)) = bc_conf b"
  "bc_systemTransactions (snd (executeNextTransaction p E ctx b)) = bc_systemTransactions b"
  "bc_clock (snd (executeNextTransaction p E ctx b)) = bc_clock b"
  by (simp_all add: executeNextTransaction_def Let_def case_prod_unfold split: sum.split option.split)

lemma executeNext_pending:
  "bc_pendingBlock (snd (executeNextTransaction p E ctx b)) = bc_pendingBlock b \<or>
   (\<not> pb_ExecutionComplete (bc_pendingBlock b) \<and>
    (\<exists>run. bc_pendingBlock (snd (executeNextTransaction p E ctx b)) =
       snd (pb_ExecuteNextTransaction p (em_exec E) run (bc_pendingBlock b))))"
  by (auto simp: executeNextTransaction_def Let_def case_prod_unfold split: sum.split option.split)

lemma executeNext_ok:
  assumes "executeNextTransaction p E ctx b = (Inr r, b')"
  shows "\<not> pb_ExecutionComplete (bc_pendingBlock b) \<and>
    (\<exists>run out. pb_ExecuteNextTransaction p (em_exec E) run (bc_pendingBlock b) = (Inr out, bc_pendingBlock b'))"
proof -
  have b': "b' = snd (executeNextTransaction p E ctx b)" using assms by simp
  show ?thesis using assms unfolding b'
    by (auto simp: executeNextTransaction_def Let_def case_prod_unfold split: sum.splits option.splits if_splits)
      (metis fst_conv snd_conv prod.collapse)
qed

end
