(* ===== verification/Emulator_Commit.thy ===== *)
theory Emulator_Commit
  imports Emulator
begin

text \<open>
  Executing and committing the pending block, resetting it, running scripts,
  rolling back and snapshots: the rest of the operations of
  \<^verbatim>\<open>emulator/blockchain.go\<close> that change state, with deployment of contracts
  (\<^verbatim>\<open>emulator/contracts.go\<close>) and \<^verbatim>\<open>New\<close>.
\<close>

section \<open>Executing the block\<close>

text \<open>
  The loop of \<^verbatim>\<open>executeBlock\<close>. It ends because every successful step
  raises the index of the pending block and keeps its transactions.
\<close>

lemma executeNext_raises_index:
  assumes "executeNextTransaction p E ctx b = (Inr r, b')"
  shows "unat (of_nat (pb_Size (bc_pendingBlock b')) :: u32) - unat (pb_index (bc_pendingBlock b'))
       < unat (of_nat (pb_Size (bc_pendingBlock b)) :: u32) - unat (pb_index (bc_pendingBlock b))"
proof -
  obtain run out where more: "\<not> pb_ExecutionComplete (bc_pendingBlock b)"
    and step: "pb_ExecuteNextTransaction p (em_exec E) run (bc_pendingBlock b) = (Inr out, bc_pendingBlock b')"
    using executeNext_ok[OF assms] by blast
  have b': "bc_pendingBlock b' = snd (pb_ExecuteNextTransaction p (em_exec E) run (bc_pendingBlock b))"
    using step by simp
  have lt: "pb_index (bc_pendingBlock b) < of_nat (pb_Size (bc_pendingBlock b))"
    using more by (simp add: pb_ExecutionComplete_def not_le)
  then have "unat (pb_index (bc_pendingBlock b) + 1) = Suc (unat (pb_index (bc_pendingBlock b)))"
    using unat_less_exp[of "of_nat (pb_Size (bc_pendingBlock b)) :: u32"]
    by (intro unat_Suc_index) (auto simp: word_less_nat_alt)
  then show ?thesis using lt unfolding b' pb_Execute_frame pb_Size_def
    by (simp add: word_less_nat_alt)
qed

function executeBlock_loop ::
  "'h hashes_scheme \<Rightarrow> ('s, 'ls) emu \<Rightarrow> fvm_context \<Rightarrow> TransactionResult list \<Rightarrow> ('s, 'ls) Blockchain \<Rightarrow>
   (TransactionResult list \<times> go_error option) \<times> ('s, 'ls) Blockchain" where
  "executeBlock_loop p E ctx results b =
     (if \<not> pb_ExecutionComplete (bc_pendingBlock b) \<and> \<not> pb_Empty (bc_pendingBlock b)
      then case executeNextTransaction p E ctx b of
             (Inl err, b') \<Rightarrow> ((results, Some err), b')
           | (Inr result, b') \<Rightarrow> executeBlock_loop p E ctx (results @ [result]) b'
      else ((results, None), b))"
  by pat_completeness auto
termination
  by (relation "measure (\<lambda>(p, E, ctx, results, b).
        unat (of_nat (pb_Size (bc_pendingBlock b)) :: u32) - unat (pb_index (bc_pendingBlock b)))")
    (auto dest: executeNext_raises_index[OF sym])

declare executeBlock_loop.simps [simp del]

definition executeBlock ::
  "'h hashes_scheme \<Rightarrow> ('s, 'ls) emu \<Rightarrow> ('s, 'ls) Blockchain \<Rightarrow>
   (TransactionResult list \<times> go_error option) \<times> ('s, 'ls) Blockchain" where
  "executeBlock p E b =
     (let header = ToHeader p (pb_Block p (em_lib E) (bc_pendingBlock b));
          (blockContext, b) = setFVMContextFromHeader header b
      in if pb_ExecutionComplete (bc_pendingBlock b) \<and> \<not> pb_Empty (bc_pendingBlock b)
         then (([], Some (PendingBlockTransactionsExhaustedError (pb_ID p (em_lib E) (bc_pendingBlock b)))), b)
         else executeBlock_loop p E blockContext [] b)"

section \<open>Committing the block\<close>

definition convertToSealedResults ::
  "(flow_id, IndexedTransactionResult) gomap \<Rightarrow> flow_id \<Rightarrow> u64 \<Rightarrow> flow_id \<Rightarrow>
   (flow_id, StorableTransactionResult) gomap result" where
  "convertToSealedResults results blockID blockHeight collectionID =
     mapR (\<lambda>(id, result).
       bindR (ToStorableResult (itr_Output result) blockID blockHeight collectionID) (\<lambda>temp. Inr (id, temp)))
     results"

text \<open>\<^verbatim>\<open>maps.Copy\<close>.\<close>

definition maps_Copy :: "('k, 'v) gomap \<Rightarrow> ('k, 'v) gomap \<Rightarrow> ('k, 'v) gomap" where
  "maps_Copy dst src = fold (\<lambda>(k, v). AList.update k v) src dst"

definition collectionID_of :: "'h hashes_scheme \<Rightarrow> flow_id list list \<Rightarrow> flow_id" where
  "collectionID_of p collections = (if length collections > 0 then col_ID p (collections ! 0) else ZeroID)"

text \<open>
  The system part of a commit: scheduled transactions, if enabled, then the
  system chunk transaction. The result has the maps and the order of system
  transactions that are stored with the block.
\<close>

record system_part =
  sp_ids :: "flow_id list"
  sp_bodies :: "(flow_id, transaction_body) gomap"
  sp_results :: "(flow_id, StorableTransactionResult) gomap"
  sp_scheduled :: "(u64, flow_id) gomap"

definition commit_scheduled ::
  "'h hashes_scheme \<Rightarrow> ('s, 'ls) emu \<Rightarrow> ('s, 'ls) Blockchain \<Rightarrow> system_part result \<times> ('s, 'ls) Blockchain" where
  "commit_scheduled p E b =
     (let blockContext = (bc_vmCtx b)\<lparr>ctx_BlockHeader :=
            Some (ToHeader p (pb_Block p (em_lib E) (bc_pendingBlock b)))\<rparr>
      in if cf_ScheduledTransactionsEnabled (bc_conf b)
         then bindE (executeScheduledTransactions p E blockContext b) (\<lambda>acc b.
                case convertToSealedResults (sa_results acc) (pb_ID p (em_lib E) (bc_pendingBlock b))
                       (pb_height (bc_pendingBlock b)) ZeroID of
                  Inl err \<Rightarrow> (Inl err, b)
                | Inr convertedResults \<Rightarrow>
                    (Inr \<lparr>sp_ids = sa_ordered acc, sp_bodies = maps_Copy [] (sa_transactions acc),
                          sp_results = maps_Copy [] convertedResults, sp_scheduled = sa_scheduled acc\<rparr>, b))
         else (Inr \<lparr>sp_ids = [], sp_bodies = [], sp_results = [], sp_scheduled = []\<rparr>, b))"

definition commit_system_chunk ::
  "'h hashes_scheme \<Rightarrow> ('s, 'ls) emu \<Rightarrow> system_part \<Rightarrow> ('s, 'ls) Blockchain \<Rightarrow>
   system_part result \<times> ('s, 'ls) Blockchain" where
  "commit_system_chunk p E sys b =
     (let systemChunkIndex = of_nat (length (pb_transactions (bc_pendingBlock b))) + of_nat (length (sp_ids sys))
      in bindE (executeSystemChunkTransaction p E systemChunkIndex b) (\<lambda>(chunkBody, itr) b.
           let systemTxID = tx_ID p chunkBody
           in case ToStorableResult (itr_Output itr) (pb_ID p (em_lib E) (bc_pendingBlock b))
                     (pb_height (bc_pendingBlock b)) ZeroID of
                Inl err \<Rightarrow> (Inl err, b)
              | Inr systemTxStorableResult \<Rightarrow>
                  (Inr (sys\<lparr>sp_bodies := AList.update systemTxID chunkBody (sp_bodies sys),
                            sp_results := AList.update systemTxID systemTxStorableResult (sp_results sys),
                            sp_ids := sp_ids sys @ [systemTxID]\<rparr>), b)))"

text \<open>The two indices written after the block is stored.\<close>

definition index_scheduled_ids ::
  "('s, 'ls) emu \<Rightarrow> flow_id \<Rightarrow> (u64, flow_id) gomap \<Rightarrow> 's \<Rightarrow> unit result \<times> 's" where
  "index_scheduled_ids E blockID scheduled =
     for_each (\<lambda>(n, _) s.
       case st_IndexScheduledTransactionID (em_store E) n blockID s of
         (Inl err, s) \<Rightarrow> (Inl (Errorf_wrap (''failed to index scheduled transaction '' @ fmt_u n @ '': '') err), s)
       | (Inr _, s) \<Rightarrow> (Inr (), s)) scheduled"

definition index_system_results ::
  "('s, 'ls) emu \<Rightarrow> (flow_id \<rightharpoonup> transaction_body) \<Rightarrow> flow_id \<Rightarrow> (flow_id, StorableTransactionResult) gomap \<Rightarrow>
   's \<Rightarrow> unit result \<times> 's" where
  "index_system_results E systemTransactions blockID results =
     for_each (\<lambda>(i, _) s.
       if systemTransactions i = None
       then case st_IndexScheduledTransactionBlockID (em_store E) i blockID s of
              (Inl err, s) \<Rightarrow> (Inl (Errorf_wrap (''failed to index scheduled transaction '' @ ID_String i @ '': '') err), s)
            | (Inr _, s) \<Rightarrow> (Inr (), s)
       else (Inr (), s)) results"

text \<open>What \<^verbatim>\<open>commitBlock\<close> passes to the store, given the pending block after the system part.\<close>

definition commit_args_of ::
  "'h hashes_scheme \<Rightarrow> flow_lib \<Rightarrow> 'ls pendingBlock \<Rightarrow> (flow_id, StorableTransactionResult) gomap \<Rightarrow>
   system_part \<Rightarrow> execution_snapshot \<Rightarrow> commit_args" where
  "commit_args_of p L pb results sys snap =
     \<lparr>cb_block = pb_Block p L pb, cb_collections = pb_Collections pb, cb_transactions = pb_transactions pb,
      cb_results = results, cb_systemTransactions = sp_ids sys, cb_systemBodies = sp_bodies sys,
      cb_systemResults = sp_results sys, cb_snapshot = snap, cb_events = pb_events pb,
      cb_scheduled = sp_scheduled sys\<rparr>"

text \<open>From the call of the store to the new pending block.\<close>

definition store_block ::
  "'h hashes_scheme \<Rightarrow> ('s, 'ls) emu \<Rightarrow> world \<Rightarrow> commit_args \<Rightarrow> ('s, 'ls) Blockchain \<Rightarrow>
   block result \<times> ('s, 'ls) Blockchain" where
  "store_block p E w a b =
     (let block = cb_block a
      in bindE (on_storage (st_CommitBlock (em_store E) a) b) (\<lambda>_ b.
         bindE (on_storage (index_scheduled_ids E (block_ID p block) (cb_scheduled a)) b) (\<lambda>_ b.
         bindE (on_storage (index_system_results E (bc_systemTransactions b) (block_ID p block) (cb_systemResults a)) b)
           (\<lambda>_ b.
         case st_LedgerByHeight (em_store E) (Height block) (bc_storage b) of
           Inl err \<Rightarrow> (Inl err, b)
         | Inr ledger \<Rightarrow>
             (Inr block, b\<lparr>bc_published := Suc (bc_published b),
                bc_pendingBlock := newPendingBlock p (em_exec E) w block ledger (bc_clock b),
                bc_LatestBlock := block_ID p block\<rparr>)))))"

text \<open>\<^verbatim>\<open>commitBlock\<close> up to the call of the store: its guards, the system part and the snapshot.\<close>

definition prepare_commit ::
  "'h hashes_scheme \<Rightarrow> ('s, 'ls) emu \<Rightarrow> ('s, 'ls) Blockchain \<Rightarrow> commit_args result \<times> ('s, 'ls) Blockchain" where
  "prepare_commit p E b =
     (if \<not> pb_ExecutionStarted (bc_pendingBlock b) \<and> \<not> pb_Empty (bc_pendingBlock b)
      then (Inl (PendingBlockCommitBeforeExecutionError (pb_ID p (em_lib E) (bc_pendingBlock b))), b)
      else if pb_ExecutionStarted (bc_pendingBlock b) \<and> \<not> pb_ExecutionComplete (bc_pendingBlock b)
      then (Inl (PendingBlockMidExecutionError (pb_ID p (em_lib E) (bc_pendingBlock b))), b)
      else case convertToSealedResults (pb_transactionResults (bc_pendingBlock b))
                  (pb_ID p (em_lib E) (bc_pendingBlock b)) (pb_height (bc_pendingBlock b))
                  (collectionID_of p (pb_Collections (bc_pendingBlock b))) of
             Inl err \<Rightarrow> (Inl err, b)
           | Inr transactionResults \<Rightarrow>
               bindE (commit_scheduled p E b) (\<lambda>sys b.
               bindE (commit_system_chunk p E sys b) (\<lambda>sys b.
                 let (executionSnapshot, pb) = pb_Finalize (em_exec E) (bc_pendingBlock b)
                 in (Inr (commit_args_of p (em_lib E) pb transactionResults sys executionSnapshot),
                     b\<lparr>bc_pendingBlock := pb\<rparr>))))"

definition commitBlock ::
  "'h hashes_scheme \<Rightarrow> ('s, 'ls) emu \<Rightarrow> world \<Rightarrow> ('s, 'ls) Blockchain \<Rightarrow> block result \<times> ('s, 'ls) Blockchain" where
  "commitBlock p E w b = bindE (prepare_commit p E b) (\<lambda>a b. store_block p E w a b)"

definition executeAndCommitBlock ::
  "'h hashes_scheme \<Rightarrow> ('s, 'ls) emu \<Rightarrow> world \<Rightarrow> ('s, 'ls) Blockchain \<Rightarrow>
   (block \<times> TransactionResult list) result \<times> ('s, 'ls) Blockchain" where
  "executeAndCommitBlock p E w b =
     (case executeBlock p E b of
        ((results, Some err), b) \<Rightarrow> (Inl err, b)
      | ((results, None), b) \<Rightarrow>
          bindE (commitBlock p E w b) (\<lambda>block b. (Inr (block, results), b)))"

definition SendTransaction ::
  "'h hashes_scheme \<Rightarrow> ('s, 'ls) emu \<Rightarrow> world \<Rightarrow> transaction_body \<Rightarrow> ('s, 'ls) Blockchain \<Rightarrow>
   unit result \<times> ('s, 'ls) Blockchain" where
  "SendTransaction p E w flowTx b =
     bindE (addTransaction p E flowTx b) (\<lambda>_ b.
       if cf_AutoMine (bc_conf b)
       then bindE (executeAndCommitBlock p E w b) (\<lambda>_ b. (Inr (), b))
       else (Inr (), b))"

definition ResetPendingBlock ::
  "'h hashes_scheme \<Rightarrow> ('s, 'ls) emu \<Rightarrow> world \<Rightarrow> ('s, 'ls) Blockchain \<Rightarrow> unit result \<times> ('s, 'ls) Blockchain" where
  "ResetPendingBlock p E w b =
     (case st_LatestBlock (em_store E) (bc_storage b) of
        Inl err \<Rightarrow> (Inl err, b)
      | Inr latestBlock \<Rightarrow>
          (case st_LedgerByHeight (em_store E) (Height latestBlock) (bc_storage b) of
             Inl err \<Rightarrow> (Inl err, b)
           | Inr latestLedger \<Rightarrow>
               (Inr (), b\<lparr>bc_pendingBlock := newPendingBlock p (em_exec E) w latestBlock latestLedger (bc_clock b)\<rparr>)))"

definition SetClock :: "world \<Rightarrow> clock \<Rightarrow> ('s, 'ls) Blockchain \<Rightarrow> ('s, 'ls) Blockchain" where
  "SetClock w clk b = b\<lparr>bc_clock := clk, bc_pendingBlock := pb_SetClock w clk (bc_pendingBlock b)\<rparr>"

definition EnableAutoMine :: "('s, 'ls) Blockchain \<Rightarrow> ('s, 'ls) Blockchain" where
  "EnableAutoMine b = b\<lparr>bc_conf := (bc_conf b)\<lparr>cf_AutoMine := True\<rparr>\<rparr>"

definition DisableAutoMine :: "('s, 'ls) Blockchain \<Rightarrow> ('s, 'ls) Blockchain" where
  "DisableAutoMine b = b\<lparr>bc_conf := (bc_conf b)\<lparr>cf_AutoMine := False\<rparr>\<rparr>"

definition StartDebugger :: "('s, 'ls) Blockchain \<Rightarrow> unit option \<times> ('s, 'ls) Blockchain" where
  "StartDebugger b = (bc_debugger b, b\<lparr>bc_activeDebuggingSession := True\<rparr>)"

definition EndDebugging :: "('s, 'ls) Blockchain \<Rightarrow> ('s, 'ls) Blockchain" where
  "EndDebugging b = b\<lparr>bc_activeDebuggingSession := False\<rparr>"

section \<open>Scripts\<close>

definition executeScriptAtBlockID ::
  "'h hashes_scheme \<Rightarrow> ('s, 'ls) emu \<Rightarrow> bytes \<Rightarrow> bytes list \<Rightarrow> flow_id \<Rightarrow> ('s, 'ls) Blockchain \<Rightarrow>
   ScriptResult result \<times> ('s, 'ls) Blockchain" where
  "executeScriptAtBlockID p E script arguments i b =
     (case bindR (st_BlockByID (em_store E) i (bc_storage b)) (\<lambda>requestedBlock.
             bindR (st_LedgerByHeight (em_store E) (Height requestedBlock) (bc_storage b)) (\<lambda>ledger.
             Inr (requestedBlock, ledger))) of
        Inl err \<Rightarrow> (Inl err, b)
      | Inr (requestedBlock, requestedLedgerSnapshot) \<Rightarrow>
          (let blockContext = (bc_vmCtx b)\<lparr>ctx_BlockHeader := Some (ToHeader p requestedBlock)\<rparr>;
               b = b\<lparr>bc_currentCode := string_of_bytes script,
                     bc_currentScriptID := ID_String (em_ScriptProcedureID E script arguments)\<rparr>;
               pragmas = ExtractPragmas (em_ParseProgram E) (bc_currentCode b)
           in case bindR (request_pause E pragmas b) (\<lambda>_.
                     bindR (vm_Run p E b blockContext (ScriptProcedure script arguments) requestedLedgerSnapshot)
                       (\<lambda>(_, output).
                     bindR (FlowEventsToSDK (em_ccf E) (out_Events output)) (\<lambda>events. Inr (output, events)))) of
                Inl err \<Rightarrow> (Inl err, b)
              | Inr (output, events) \<Rightarrow>
                  (let scriptID = em_MakeIDFromFingerPrint E script;
                       (scriptError, convertedValue) =
                         (case out_Err output of
                            None \<Rightarrow> (None, out_Value output)
                          | Some e \<Rightarrow> (VMErrorToEmulator (Some e), None));
                       scriptResult =
                         \<lparr>sr_ScriptID = scriptID, sr_Value = convertedValue, sr_Error = scriptError,
                          sr_Logs = out_Logs output, sr_Events = events,
                          sr_ComputationUsed = out_ComputationUsed output,
                          sr_MemoryEstimate = out_MemoryEstimate output\<rparr>
                   in bindE (note_source_file pragmas (ScriptLocation scriptID) b) (\<lambda>_ b.
                        (Inr scriptResult,
                         if cf_ComputationReportingEnabled (bc_conf b)
                         then b\<lparr>bc_computationReport :=
                                ReportScript scriptResult (source_of b (ScriptLocation scriptID)) (bc_currentCode b)
                                  (map string_of_bytes arguments) (out_Intensities output) (bc_computationReport b)\<rparr>
                         else b)))))"

definition ExecuteScript ::
  "'h hashes_scheme \<Rightarrow> ('s, 'ls) emu \<Rightarrow> bytes \<Rightarrow> bytes list \<Rightarrow> ('s, 'ls) Blockchain \<Rightarrow>
   ScriptResult result \<times> ('s, 'ls) Blockchain" where
  "ExecuteScript p E script arguments b =
     (case getLatestBlock E b of
        Inl err \<Rightarrow> (Inl err, b)
      | Inr latestBlock \<Rightarrow> executeScriptAtBlockID p E script arguments (block_ID p latestBlock) b)"

text \<open>The lookup of a block by height, with the emulator's own error for a missing one.\<close>

definition getBlockByHeight :: "('s, 'ls) emu \<Rightarrow> u64 \<Rightarrow> ('s, 'ls) Blockchain \<Rightarrow> block result" where
  "getBlockByHeight E height b =
     (case st_BlockByHeight (em_store E) height (bc_storage b) of
        Inl err \<Rightarrow> if is_ErrNotFound err then Inl (BlockNotFoundByHeightError height) else Inl err
      | Inr block \<Rightarrow> Inr block)"

definition ExecuteScriptAtBlockHeight ::
  "'h hashes_scheme \<Rightarrow> ('s, 'ls) emu \<Rightarrow> bytes \<Rightarrow> bytes list \<Rightarrow> u64 \<Rightarrow> ('s, 'ls) Blockchain \<Rightarrow>
   ScriptResult result \<times> ('s, 'ls) Blockchain" where
  "ExecuteScriptAtBlockHeight p E script arguments blockHeight b =
     (case getBlockByHeight E blockHeight b of
        Inl err \<Rightarrow> (Inl err, b)
      | Inr requestedBlock \<Rightarrow> executeScriptAtBlockID p E script arguments (block_ID p requestedBlock) b)"

section \<open>Rollback and snapshots\<close>

definition bc_RollbackToBlockHeight ::
  "'h hashes_scheme \<Rightarrow> ('s, 'ls) emu \<Rightarrow> world \<Rightarrow> u64 \<Rightarrow> ('s, 'ls) Blockchain \<Rightarrow>
   unit result \<times> ('s, 'ls) Blockchain" where
  "bc_RollbackToBlockHeight p E w height b =
     (case em_Rollback E of
        None \<Rightarrow> (Inl (Errorf ''storage doesn't support rollback''), b)
      | Some rollback \<Rightarrow>
          bindE (on_storage (rollback height) b) (\<lambda>_ b. ReloadBlockchain p E w b))"

definition snapshotProvider :: "('s, 'ls) emu \<Rightarrow> ('s, 'ls) Blockchain \<Rightarrow> 's snapshot_provider result" where
  "snapshotProvider E b =
     (case em_Snapshots E of
        None \<Rightarrow> Inl (Errorf ''storage doesn't support snapshots'')
      | Some prov \<Rightarrow> if sp_Supported prov (bc_storage b) then Inr prov
                    else Inl (Errorf ''storage doesn't support snapshots''))"

definition bc_Snapshots :: "('s, 'ls) emu \<Rightarrow> ('s, 'ls) Blockchain \<Rightarrow> string list result" where
  "bc_Snapshots E b = bindR (snapshotProvider E b) (\<lambda>prov. sp_Snapshots prov (bc_storage b))"

definition bc_CreateSnapshot ::
  "'h hashes_scheme \<Rightarrow> ('s, 'ls) emu \<Rightarrow> world \<Rightarrow> string \<Rightarrow> ('s, 'ls) Blockchain \<Rightarrow>
   unit result \<times> ('s, 'ls) Blockchain" where
  "bc_CreateSnapshot p E w name b =
     (case snapshotProvider E b of
        Inl err \<Rightarrow> (Inl err, b)
      | Inr prov \<Rightarrow> bindE (on_storage (sp_CreateSnapshot prov name) b) (\<lambda>_ b. ReloadBlockchain p E w b))"

definition bc_LoadSnapshot ::
  "'h hashes_scheme \<Rightarrow> ('s, 'ls) emu \<Rightarrow> world \<Rightarrow> string \<Rightarrow> ('s, 'ls) Blockchain \<Rightarrow>
   unit result \<times> ('s, 'ls) Blockchain" where
  "bc_LoadSnapshot p E w name b =
     (case snapshotProvider E b of
        Inl err \<Rightarrow> (Inl err, b)
      | Inr prov \<Rightarrow> bindE (on_storage (sp_LoadSnapshot prov name) b) (\<lambda>_ b. ReloadBlockchain p E w b))"

section \<open>Contracts: emulator/contracts.go\<close>

definition deployContract ::
  "'h hashes_scheme \<Rightarrow> ('s, 'ls) emu \<Rightarrow> world \<Rightarrow> string \<Rightarrow> bytes \<Rightarrow> ('s, 'ls) Blockchain \<Rightarrow>
   unit result \<times> ('s, 'ls) Blockchain" where
  "deployContract p E w name contract b =
     (let (serviceKey, b) = bc_ServiceKey E b; serviceAddress = sk_Address serviceKey
      in case sk_PrivateKey serviceKey of
           None \<Rightarrow> (Inl (Errorf ''not able to deploy contracts without set private key''), b)
         | Some privateKey \<Rightarrow>
             (case bindR (getLatestBlock E b) (\<lambda>latestBlock.
                     em_SignEnvelope E privateKey (sk_HashAlgo serviceKey) serviceAddress (sk_Index serviceKey)
                       ((em_AddAccountContract E serviceAddress name (string_of_bytes contract))
                         \<lparr>sdk_GasLimit := DefaultMaxTransactionGasLimit (em_lib E),
                          sdk_ReferenceBlockID := block_ID p latestBlock,
                          sdk_ProposalKey := \<lparr>sdk_pk_Address = serviceAddress, sdk_pk_KeyIndex = sk_Index serviceKey,
                             sdk_pk_SequenceNumber = sk_SequenceNumber serviceKey\<rparr>,
                          sdk_Payer := serviceAddress\<rparr>)) of
                Inl err \<Rightarrow> (Inl err, b)
              | Inr tx \<Rightarrow>
                  bindE (addTransaction p E (SDKTransactionToFlow tx) b) (\<lambda>_ b.
                  bindE (executeAndCommitBlock p E w b) (\<lambda>(_, results) b.
                    if results = [] then (Inl (Panic ''index out of range''), b)
                    else case tr_Error (last results) of
                           Some err \<Rightarrow> (Inl err, b)
                         | None \<Rightarrow> (Inr (), b)))))"

primrec DeployContracts ::
  "'h hashes_scheme \<Rightarrow> ('s, 'ls) emu \<Rightarrow> (nat \<Rightarrow> world) \<Rightarrow> ContractDescription list \<Rightarrow> ('s, 'ls) Blockchain \<Rightarrow>
   unit result \<times> ('s, 'ls) Blockchain" where
  "DeployContracts p E ws [] b = (Inr (), b)"
| "DeployContracts p E ws (c # cs) b =
     bindE (deployContract p E (ws 0) (con_Name c) (con_Source c) b) (\<lambda>_ b.
       DeployContracts p E (\<lambda>n. ws (Suc n)) cs b)"

section \<open>New\<close>

definition cache_system_transaction ::
  "'h hashes_scheme \<Rightarrow> transaction_body result \<Rightarrow> ('s, 'ls) Blockchain \<Rightarrow> ('s, 'ls) Blockchain" where
  "cache_system_transaction p r b =
     (case r of
        Inl err \<Rightarrow> b
      | Inr tx \<Rightarrow> b\<lparr>bc_systemTransactions := (bc_systemTransactions b)(tx_ID p tx \<mapsto> tx)\<rparr>)"

definition New ::
  "'h hashes_scheme \<Rightarrow> ('s, 'ls) emu \<Rightarrow> 's result \<Rightarrow> (nat \<Rightarrow> world) \<Rightarrow> 's config_option list \<Rightarrow>
   ('s, 'ls) Blockchain result" where
  "New p E CreateDefaultStorage ws opts =
     bindR (defaultConfig (em_lib E)) (\<lambda>c0.
     let conf = fold (\<lambda>opt c. opt c) opts c0; ctx = configureFVM E conf in
     bindR (GetStore CreateDefaultStorage conf) (\<lambda>store.
     let (r, store) = configureLedger p E conf ctx ZeroID store in
     bindR r (\<lambda>(latestBlock, latestLedger).
     bindR (configureTransactionValidator E conf) (\<lambda>v.
     let b = \<lparr>bc_storage = store,
              bc_pendingBlock = newPendingBlock p (em_exec E) (ws 0) latestBlock latestLedger SystemClock_Now,
              bc_clock = SystemClock_Now, bc_vmCtx = ctx, bc_transactionValidator = v,
              bc_systemTransactions = Map.empty, bc_serviceKey = GetServiceKey (em_lib E) conf,
              bc_debugger = None, bc_activeDebuggingSession = False, bc_currentCode = '''',
              bc_currentScriptID = '''', bc_conf = conf, bc_sourceFileMap = Map.empty,
              bc_LatestBlock = ZeroID,
              bc_computationReport = \<lparr>Scripts = Map.empty, Transactions = Map.empty\<rparr>,
              bc_published = 0\<rparr>;
         b = cache_system_transaction p (em_ProcessCallbacksTransaction E (cf_ChainID conf)) b;
         b = cache_system_transaction p (systemChunkTransaction E b) b
     in if length (cf_Contracts conf) > 0
        then (case DeployContracts p E (\<lambda>n. ws (Suc n)) (cf_Contracts conf) b of
                (Inl err, _) \<Rightarrow> Inl err | (Inr _, b) \<Rightarrow> Inr b)
        else Inr b))))"

section \<open>The block ticker: emulator/blockTicker.go\<close>

text \<open>What one tick does: errors of both calls are dropped.\<close>

definition tick ::
  "'h hashes_scheme \<Rightarrow> ('s, 'ls) emu \<Rightarrow> world \<Rightarrow> ('s, 'ls) Blockchain \<Rightarrow> ('s, 'ls) Blockchain" where
  "tick p E w b = snd (commitBlock p E w (snd (executeBlock p E b)))"

datatype ticker_event = Tick world | Done

text \<open>\<^verbatim>\<open>Start\<close>: the events its \<^verbatim>\<open>select\<close> receives, until \<^verbatim>\<open>done\<close>.\<close>

fun BlocksTicker_Start ::
  "'h hashes_scheme \<Rightarrow> ('s, 'ls) emu \<Rightarrow> ticker_event list \<Rightarrow> ('s, 'ls) Blockchain \<Rightarrow> ('s, 'ls) Blockchain" where
  "BlocksTicker_Start p E [] b = b"
| "BlocksTicker_Start p E (Tick w # es) b = BlocksTicker_Start p E es (tick p E w b)"
| "BlocksTicker_Start p E (Done # es) b = b"

end
