(* ===== verification/Emulator_Inv.thy ===== *)
theory Emulator_Inv
  imports Emulator_Commit Mem_Store Sqlite_Store
begin

text \<open>
  The invariant of the emulated blockchain over any store that keeps the contract
  \<^verbatim>\<open>chain_store\<close>: storage holds a linked chain of blocks, the pending block
  extends its tip, and pending transactions are new to it. Every operation
  keeps it, whatever the virtual machine and the other parameters do, as long as
  identifiers of different things differ, commits can be encoded and random
  draws are in range.
\<close>

section \<open>Operations as data\<close>

datatype operation =
    AddTransaction transaction_body
  | Send world transaction_body
  | ExecuteBlock
  | ExecuteNext
  | Commit world
  | ExecuteAndCommit world
  | Reset world
  | Reload world
  | SetClock_to world clock
  | AutoMine bool
  | Debugging bool
  | RunScript bytes "bytes list" flow_id
  | ReadServiceKey

fun perform ::
  "'h hashes_scheme \<Rightarrow> ('s, 'ls) emu \<Rightarrow> operation \<Rightarrow> ('s, 'ls) Blockchain \<Rightarrow> ('s, 'ls) Blockchain" where
  "perform p E (AddTransaction tx) b = snd (addTransaction p E tx b)"
| "perform p E (Send w tx) b = snd (SendTransaction p E w tx b)"
| "perform p E ExecuteBlock b = snd (executeBlock p E b)"
| "perform p E ExecuteNext b = snd (ExecuteNextTransaction p E b)"
| "perform p E (Commit w) b = snd (commitBlock p E w b)"
| "perform p E (ExecuteAndCommit w) b = snd (executeAndCommitBlock p E w b)"
| "perform p E (Reset w) b = snd (ResetPendingBlock p E w b)"
| "perform p E (Reload w) b = snd (ReloadBlockchain p E w b)"
| "perform p E (SetClock_to w clk) b = SetClock w clk b"
| "perform p E (AutoMine on) b = (if on then EnableAutoMine b else DisableAutoMine b)"
| "perform p E (Debugging on) b = (if on then snd (StartDebugger b) else EndDebugging b)"
| "perform p E (RunScript script args i) b = snd (executeScriptAtBlockID p E script args i b)"
| "perform p E ReadServiceKey b = snd (bc_ServiceKey E b)"

text \<open>The state in which an operation calls \<^verbatim>\<open>commitBlock\<close>, if it does.\<close>

definition commit_state_executed ::
  "'h hashes_scheme \<Rightarrow> ('s, 'ls) emu \<Rightarrow> ('s, 'ls) Blockchain \<Rightarrow> ('s, 'ls) Blockchain option" where
  "commit_state_executed p E b =
     (case executeBlock p E b of ((_, None), b') \<Rightarrow> Some b' | _ \<Rightarrow> None)"

fun commit_state ::
  "'h hashes_scheme \<Rightarrow> ('s, 'ls) emu \<Rightarrow> operation \<Rightarrow> ('s, 'ls) Blockchain \<Rightarrow> ('s, 'ls) Blockchain option" where
  "commit_state p E (Commit w) b = Some b"
| "commit_state p E (ExecuteAndCommit w) b = commit_state_executed p E b"
| "commit_state p E (Send w tx) b =
     (case addTransaction p E tx b of
        (Inr _, b') \<Rightarrow> if cf_AutoMine (bc_conf b') then commit_state_executed p E b' else None
      | (Inl _, _) \<Rightarrow> None)"
| "commit_state p E _ b = None"

text \<open>The arguments an operation passes to the store, if it gets that far, and whether the store accepts them.\<close>

definition attempted ::
  "'h hashes_scheme \<Rightarrow> ('s, 'ls) emu \<Rightarrow> operation \<Rightarrow> ('s, 'ls) Blockchain \<Rightarrow> commit_args option" where
  "attempted p E op b =
     (case commit_state p E op b of
        None \<Rightarrow> None
      | Some b' \<Rightarrow> (case fst (prepare_commit p E b') of Inl _ \<Rightarrow> None | Inr a \<Rightarrow> Some a))"

definition committed ::
  "'h hashes_scheme \<Rightarrow> ('s, 'ls) emu \<Rightarrow> operation \<Rightarrow> ('s, 'ls) Blockchain \<Rightarrow> history" where
  "committed p E op b =
     (case attempted p E op b of None \<Rightarrow> [] | Some a \<Rightarrow> if counts_match a then [a] else [])"

section \<open>The invariant\<close>

definition follows :: "'h hashes_scheme \<Rightarrow> block \<Rightarrow> u64 \<Rightarrow> u64 \<Rightarrow> flow_id \<Rightarrow> bool" where
  "follows p prev ht vw parent \<longleftrightarrow>
     ht = Height prev + 1 \<and> parent = block_ID p prev \<and>
     (\<exists>d. 1 \<le> d \<and> d \<le> MaxViewIncrease \<and> vw = View prev + of_nat d)"

definition linked :: "'h hashes_scheme \<Rightarrow> history \<Rightarrow> bool" where
  "linked p h \<longleftrightarrow>
     (\<forall>i < length h. Height (cb_block (h ! i)) = of_nat i) \<and>
     (\<forall>i. Suc i < length h \<longrightarrow>
        follows p (cb_block (h ! i)) (Height (cb_block (h ! Suc i))) (View (cb_block (h ! Suc i)))
          (ParentID (cb_block (h ! Suc i))))"

definition results_known :: "history \<Rightarrow> bool" where
  "results_known h \<longleftrightarrow> (\<forall>a \<in> set h. fst ` set (cb_results a) \<subseteq> fst ` set (cb_transactions a))"

definition extends_tip :: "'h hashes_scheme \<Rightarrow> history \<Rightarrow> 'ls pendingBlock \<Rightarrow> bool" where
  "extends_tip p h pb \<longleftrightarrow>
     follows p (cb_block (last h)) (pb_height pb) (pb_view pb) (pb_parentID pb) \<and>
     pb_inv p pb \<and> (\<forall>i \<in> set (pb_transactionIDs pb). hist_transaction h i = None)"

definition bc_inv ::
  "'h hashes_scheme \<Rightarrow> ('s \<Rightarrow> history \<Rightarrow> bool) \<Rightarrow> ('s, 'ls) Blockchain \<Rightarrow> history \<Rightarrow> bool" where
  "bc_inv p rep b h \<longleftrightarrow>
     rep (bc_storage b) h \<and> h \<noteq> [] \<and> length h < 2 ^ 63 \<and> valid_chain p h \<and> linked p h \<and> results_known h \<and>
     extends_tip p h (bc_pendingBlock b)"

text \<open>
  What the surroundings owe an operation: a draw of \<^verbatim>\<open>rand.Intn(3)\<close> below 3, a pending block that
  fits its 32-bit index, and a commit that the store can encode and whose
  identifiers do not collide with the history's.
\<close>

definition no_collision :: "'h hashes_scheme \<Rightarrow> history \<Rightarrow> commit_args \<Rightarrow> bool" where
  "no_collision p h a \<longleftrightarrow>
     (\<forall>b \<in> set h. block_ID p (cb_block b) \<noteq> block_ID p (cb_block a)) \<and>
     same_bodies a h \<and> same_collections p a h"

fun draw_ok :: "operation \<Rightarrow> bool" where
  "draw_ok (Send w tx) = (snd w < MaxViewIncrease)"
| "draw_ok (Commit w) = (snd w < MaxViewIncrease)"
| "draw_ok (ExecuteAndCommit w) = (snd w < MaxViewIncrease)"
| "draw_ok (Reset w) = (snd w < MaxViewIncrease)"
| "draw_ok (Reload w) = (snd w < MaxViewIncrease)"
| "draw_ok _ = True"

definition safe_op ::
  "'h hashes_scheme \<Rightarrow> ('s, 'ls) emu \<Rightarrow> (commit_args \<Rightarrow> bool) \<Rightarrow> history \<Rightarrow> operation \<Rightarrow> ('s, 'ls) Blockchain \<Rightarrow> bool" where
  "safe_op p E admits h op b \<longleftrightarrow>
     draw_ok op \<and> Suc (pb_Size (bc_pendingBlock b)) < 2 ^ 32 \<and>
     (\<forall>a. attempted p E op b = Some a \<longrightarrow>
        admits a \<and> no_collision p h a \<and> Suc (length h) < 2 ^ 63)"

text \<open>Documented behaviour of the execution state: the write set it finalizes to is a map.\<close>

definition exec_law :: "'ls exec_ops \<Rightarrow> bool" where
  "exec_law X \<longleftrightarrow> (\<forall>ls. distinct (map fst (WriteSet (fst (es_Finalize X ls)))))"

text \<open>The same of the snapshot a run of the machine returns.\<close>

definition run_law :: "('s, 'ls) emu \<Rightarrow> bool" where
  "run_law E \<longleftrightarrow> (\<forall>bs i ctx proc led snap out.
     em_Run E bs i ctx proc led = Inr (snap, out) \<longrightarrow> distinct (map fst (WriteSet snap)))"

text \<open>Runs of operations, with the history of accepted commits.\<close>

inductive reaches ::
  "'h hashes_scheme \<Rightarrow> ('s, 'ls) emu \<Rightarrow> (commit_args \<Rightarrow> bool) \<Rightarrow> ('s, 'ls) Blockchain \<times> history \<Rightarrow>
   ('s, 'ls) Blockchain \<times> history \<Rightarrow> bool"
  for p E admits c where
  reaches_refl: "reaches p E admits c c"
| reaches_step: "reaches p E admits c (b, h) \<Longrightarrow> safe_op p E admits h op b \<Longrightarrow>
    reaches p E admits c (perform p E op b, h @ committed p E op b)"

inductive_cases reachesE: "reaches p E admits c d"

section \<open>Lemmas: what the parts keep\<close>

lemma new_extends_tip:
  assumes "snd w < MaxViewIncrease"
  shows "extends_tip p h (newPendingBlock p X w (cb_block (last h)) led clk)"
proof -
  obtain t n where w: "w = (t, n)" by (cases w)
  have "\<exists>d. 1 \<le> d \<and> d \<le> MaxViewIncrease \<and>
      View (cb_block (last h)) + of_nat (n + 1) = View (cb_block (last h)) + of_nat d"
    using assms w by (intro exI[of _ "n + 1"]) simp
  then show ?thesis using pb_inv_new[of p X w "cb_block (last h)" led clk]
    by (simp add: extends_tip_def follows_def newPendingBlock_def w)
qed

lemma follows_iff_pb: "follows p prev (pb_height pb) (pb_view pb) (pb_parentID pb) \<longleftrightarrow>
  follows p prev (Height (pb_Block p L pb)) (View (pb_Block p L pb)) (ParentID (pb_Block p L pb))"
  by (simp add: pb_Block_def)

lemma extends_tip_cong:
  assumes "pb_height pb' = pb_height pb" "pb_view pb' = pb_view pb" "pb_parentID pb' = pb_parentID pb"
    "pb_transactionIDs pb' = pb_transactionIDs pb" "pb_inv p pb'" "extends_tip p h pb"
  shows "extends_tip p h pb'"
  using assms by (simp add: extends_tip_def)

text \<open>System transactions change nothing of the blockchain but the pending block's registers and events.\<close>

definition system_frame :: "('s, 'ls) Blockchain \<Rightarrow> ('s, 'ls) Blockchain \<Rightarrow> bool" where
  "system_frame b b' \<longleftrightarrow>
     (\<exists>ls evs. b' = b\<lparr>bc_pendingBlock := (bc_pendingBlock b)\<lparr>pb_events := evs, pb_ledgerState := ls\<rparr>\<rparr>)"

lemma system_frame_refl [simp, intro]: "system_frame b b"
  unfolding system_frame_def
  by (intro exI[of _ "pb_ledgerState (bc_pendingBlock b)"] exI[of _ "pb_events (bc_pendingBlock b)"]) simp

lemma system_frame_trans [trans]: "system_frame a b \<Longrightarrow> system_frame b c \<Longrightarrow> system_frame a c"
  by (fastforce simp: system_frame_def)

lemma system_frameD:
  assumes "system_frame b b'"
  shows "bc_storage b' = bc_storage b" "bc_conf b' = bc_conf b" "bc_clock b' = bc_clock b"
    "bc_systemTransactions b' = bc_systemTransactions b" "bc_vmCtx b' = bc_vmCtx b" "bc_LatestBlock b' = bc_LatestBlock b"
    "pb_transactions (bc_pendingBlock b') = pb_transactions (bc_pendingBlock b)"
    "pb_transactionIDs (bc_pendingBlock b') = pb_transactionIDs (bc_pendingBlock b)"
    "pb_height (bc_pendingBlock b') = pb_height (bc_pendingBlock b)"
    "pb_view (bc_pendingBlock b') = pb_view (bc_pendingBlock b)"
    "pb_parentID (bc_pendingBlock b') = pb_parentID (bc_pendingBlock b)"
    "pb_timestamp (bc_pendingBlock b') = pb_timestamp (bc_pendingBlock b)"
    "pb_transactionResults (bc_pendingBlock b') = pb_transactionResults (bc_pendingBlock b)"
    "pb_index (bc_pendingBlock b') = pb_index (bc_pendingBlock b)"
    "pb_Block p L (bc_pendingBlock b') = pb_Block p L (bc_pendingBlock b)"
    "pb_Collections (bc_pendingBlock b') = pb_Collections (bc_pendingBlock b)"
    "pb_inv p (bc_pendingBlock b') \<longleftrightarrow> pb_inv p (bc_pendingBlock b)"
proof -
  obtain ls evs where "b' = b\<lparr>bc_pendingBlock := (bc_pendingBlock b)\<lparr>pb_events := evs, pb_ledgerState := ls\<rparr>\<rparr>"
    using assms by (auto simp: system_frame_def)
  then show "bc_storage b' = bc_storage b" "bc_conf b' = bc_conf b" "bc_clock b' = bc_clock b"
    "bc_systemTransactions b' = bc_systemTransactions b" "bc_vmCtx b' = bc_vmCtx b" "bc_LatestBlock b' = bc_LatestBlock b"
    "pb_transactions (bc_pendingBlock b') = pb_transactions (bc_pendingBlock b)"
    "pb_transactionIDs (bc_pendingBlock b') = pb_transactionIDs (bc_pendingBlock b)"
    "pb_height (bc_pendingBlock b') = pb_height (bc_pendingBlock b)"
    "pb_view (bc_pendingBlock b') = pb_view (bc_pendingBlock b)"
    "pb_parentID (bc_pendingBlock b') = pb_parentID (bc_pendingBlock b)"
    "pb_timestamp (bc_pendingBlock b') = pb_timestamp (bc_pendingBlock b)"
    "pb_transactionResults (bc_pendingBlock b') = pb_transactionResults (bc_pendingBlock b)"
    "pb_index (bc_pendingBlock b') = pb_index (bc_pendingBlock b)"
    "pb_Block p L (bc_pendingBlock b') = pb_Block p L (bc_pendingBlock b)"
    "pb_Collections (bc_pendingBlock b') = pb_Collections (bc_pendingBlock b)"
    "pb_inv p (bc_pendingBlock b') \<longleftrightarrow> pb_inv p (bc_pendingBlock b)"
    by (simp_all add: pb_Block_def pb_Collections_def pb_inv_def)
qed

lemma merge_output_frame [simp]: "system_frame b (snd (merge_output E snap out b))"
  unfolding merge_output_def Let_def system_frame_def by (auto split: prod.split)

lemma bindE_frame:
  assumes "system_frame b (snd m)" "\<And>x b'. system_frame b' (snd (f x b'))"
  shows "system_frame b (snd (bindE m f))"
proof (cases m)
  case (Pair r b')
  then show ?thesis using assms(1) assms(2)[of b'] by (cases r) (auto intro: system_frame_trans)
qed

lemma execute_callbacks_frame [simp]:
  "system_frame b (snd (execute_callbacks p E ctx base ids xs acc b))"
proof (induction xs arbitrary: acc b)
  case (Cons x xs)
  then show ?case
    by (auto simp: Let_def case_prod_unfold split: sum.split intro!: bindE_frame)
qed simp

lemma executeScheduled_frame [simp]: "system_frame b (snd (executeScheduledTransactions p E ctx b))"
  by (auto simp: executeScheduledTransactions_def Let_def case_prod_unfold split: sum.split intro!: bindE_frame)

lemma executeSystemChunk_frame [simp]: "system_frame b (snd (executeSystemChunkTransaction p E n b))"
  by (auto simp: executeSystemChunkTransaction_def Let_def case_prod_unfold split: sum.split option.split intro!: bindE_frame)

lemma commit_scheduled_frame [simp]: "system_frame b (snd (commit_scheduled p E b))"
  by (auto simp: commit_scheduled_def Let_def split: sum.split intro!: bindE_frame)

lemma commit_system_chunk_frame [simp]: "system_frame b (snd (commit_system_chunk p E sys b))"
  by (auto simp: commit_system_chunk_def Let_def split: sum.split intro!: bindE_frame)

lemma prepare_commit_frame [simp]: "system_frame b (snd (prepare_commit p E b))"
proof -
  have "system_frame b' (snd (let (snap, pb) = pb_Finalize X (bc_pendingBlock b')
      in (Inr (f pb snap), b'\<lparr>bc_pendingBlock := pb\<rparr>)))" for X f and b' :: "('a, 'b) Blockchain"
    unfolding system_frame_def
    by (rule exI[of _ "snd (es_Finalize X (pb_ledgerState (bc_pendingBlock b')))"],
        rule exI[of _ "pb_events (bc_pendingBlock b')"]) (simp add: pb_Finalize_def split: prod.split)
  then show ?thesis
    unfolding prepare_commit_def by (auto split: sum.split intro!: bindE_frame)
qed

text \<open>What a commit passes to the store.\<close>

definition sealed_result :: "flow_id \<Rightarrow> u64 \<Rightarrow> flow_id \<Rightarrow> procedure_output \<Rightarrow> StorableTransactionResult" where
  "sealed_result i n c output =
     \<lparr>ErrorCode = (case out_Err output of None \<Rightarrow> 0 | Some e \<Rightarrow> int (err_code e)),
      ErrorMessage = (case out_Err output of None \<Rightarrow> '''' | Some e \<Rightarrow> err_text e), Logs = out_Logs output,
      Events = out_Events output, BlockID = i, BlockHeight = n, CollectionID = c\<rparr>"

lemma ToStorableResult_eq [simp]: "ToStorableResult output i n c = Inr (sealed_result i n c output)"
  by (simp add: ToStorableResult_def sealed_result_def split: option.split)

lemma convertToSealedResults_eq [simp]:
  "convertToSealedResults results i n c = Inr (map (\<lambda>(k, r). (k, sealed_result i n c (itr_Output r))) results)"
  by (induction results) (auto simp: convertToSealedResults_def)

lemma distinct_maps_Copy: "distinct (map fst dst) \<Longrightarrow> distinct (map fst (maps_Copy dst src))"
  unfolding maps_Copy_def
  by (induction src arbitrary: dst) (auto simp: distinct_update)

lemma commit_scheduled_distinct:
  "commit_scheduled p E b = (Inr sys, b') \<Longrightarrow> distinct (map fst (sp_results sys))"
  by (auto simp: commit_scheduled_def Let_def bindE_eq_Inr distinct_maps_Copy split: if_splits)

lemma commit_system_chunk_distinct:
  "commit_system_chunk p E sys b = (Inr sys', b') \<Longrightarrow> distinct (map fst (sp_results sys)) \<Longrightarrow>
   distinct (map fst (sp_results sys'))"
  by (auto simp: commit_system_chunk_def Let_def bindE_eq_Inr distinct_update)

lemma prepare_commit_args:
  assumes "prepare_commit p E b = (Inr a, b')" "exec_law (em_exec E)"
  shows "cb_block a = pb_Block p (em_lib E) (bc_pendingBlock b)"
    "cb_collections a = pb_Collections (bc_pendingBlock b)"
    "cb_transactions a = pb_transactions (bc_pendingBlock b)"
    "map fst (cb_results a) = map fst (pb_transactionResults (bc_pendingBlock b))"
    "distinct (map fst (cb_systemResults a))"
    "distinct (map fst (WriteSet (cb_snapshot a)))"
    "cb_results a = map (\<lambda>(k, r). (k, sealed_result (block_ID p (cb_block a)) (Height (cb_block a))
       (collectionID_of p (cb_collections a)) (itr_Output r))) (pb_transactionResults (bc_pendingBlock b))"
proof -
  define rs where "rs = map (\<lambda>(k, r). (k, sealed_result (pb_ID p (em_lib E) (bc_pendingBlock b)) (pb_height (bc_pendingBlock b))
      (collectionID_of p (pb_Collections (bc_pendingBlock b))) (itr_Output r))) (pb_transactionResults (bc_pendingBlock b))"
  obtain sys0 b0 sys b1 where s: "commit_scheduled p E b = (Inr sys0, b0)" "commit_system_chunk p E sys0 b0 = (Inr sys, b1)"
    and a: "a = (case pb_Finalize (em_exec E) (bc_pendingBlock b1) of (snap, pb) \<Rightarrow>
              commit_args_of p (em_lib E) pb rs sys snap)"
    using assms(1) by (auto simp: prepare_commit_def bindE_eq_Inr rs_def Let_def case_prod_unfold split: if_splits)
  have f: "system_frame b b1"
    using commit_scheduled_frame[of b p E] commit_system_chunk_frame[of b0 p E sys0] s by (auto intro: system_frame_trans)
  obtain snap ls where fin: "es_Finalize (em_exec E) (pb_ledgerState (bc_pendingBlock b1)) = (snap, ls)"
    by fastforce
  have a': "a = commit_args_of p (em_lib E) ((bc_pendingBlock b1)\<lparr>pb_ledgerState := ls\<rparr>) rs sys snap"
    by (simp add: a pb_Finalize_def fin)
  show blk: "cb_block a = pb_Block p (em_lib E) (bc_pendingBlock b)" and col: "cb_collections a = pb_Collections (bc_pendingBlock b)"
    and "cb_transactions a = pb_transactions (bc_pendingBlock b)"
    using system_frameD[OF f] by (simp_all add: a' commit_args_of_def pb_Block_def pb_Collections_def)
  show "map fst (cb_results a) = map fst (pb_transactionResults (bc_pendingBlock b))"
    by (simp add: a' commit_args_of_def rs_def comp_def case_prod_unfold)
  show "cb_results a = map (\<lambda>(k, r). (k, sealed_result (block_ID p (cb_block a)) (Height (cb_block a))
       (collectionID_of p (cb_collections a)) (itr_Output r))) (pb_transactionResults (bc_pendingBlock b))"
    unfolding blk col by (simp add: a' commit_args_of_def rs_def pb_ID_def) (simp add: pb_Block_def)
  show "distinct (map fst (cb_systemResults a))"
    using commit_system_chunk_distinct[OF s(2) commit_scheduled_distinct[OF s(1)]] by (simp add: a' commit_args_of_def)
  show "distinct (map fst (WriteSet (cb_snapshot a)))"
    using assms(2) fin unfolding exec_law_def by (simp add: a' commit_args_of_def) (metis fst_conv)
qed

lemma hist_result_known: "results_known h \<Longrightarrow> hist_transaction h i = None \<Longrightarrow> hist_result h i = None"
  unfolding hist_result_def hist_transaction_def map_of_rev_None results_known_def
  by (auto simp: bodies_of_def image_iff)

lemma commit_may_follow:
  assumes prep: "prepare_commit p E b = (Inr a, b')" and law: "exec_law (em_exec E)" and inv: "bc_inv p rep b h"
    and free: "no_collision p h a" and len: "Suc (length h) < 2 ^ 63" and counts: "counts_match a"
  shows "may_follow p h a"
proof -
  note a = prepare_commit_args[OF prep law]
  have tip: "extends_tip p h (bc_pendingBlock b)" and h: "h \<noteq> []" "linked p h" "results_known h"
    using inv by (auto simp: bc_inv_def)
  have pb: "pb_inv p (bc_pendingBlock b)" using tip by (simp add: extends_tip_def)
  have "Height (cb_block (last h)) = of_nat (length h - 1)"
    using h(1,2) by (simp add: linked_def last_conv_nth)
  then have ht: "Height (cb_block a) = of_nat (length h)"
    using tip h(1) by (cases h) (simp_all add: a(1) pb_Block_def extends_tip_def follows_def)
  have keys: "fst ` set (cb_results a) \<subseteq> set (pb_transactionIDs (bc_pendingBlock b))"
  proof -
    have "set (map fst (cb_results a)) \<subseteq> set (take (unat (pb_index (bc_pendingBlock b))) (pb_transactionIDs (bc_pendingBlock b)))"
      using pb unfolding a(4) pb_inv_def by blast
    then show ?thesis using set_take_subset by (metis list.set_map order_trans)
  qed
  have "hist_result h i = None" if "i \<in> fst ` set (cb_results a)" for i
    using that keys tip by (intro hist_result_known[OF h(3)]) (auto simp: extends_tip_def)
  moreover have "wf_commit a"
  proof -
    have "distinct (map fst (cb_results a))" using pb unfolding a(4) pb_inv_def by blast
    then show ?thesis using counts a(5,6) by (simp add: wf_commit_def counts_match_def)
  qed
  ultimately show ?thesis using ht len free by (auto simp: may_follow_def no_collision_def)
qed

lemma linked_snoc:
  assumes "linked p h" "h \<noteq> []" "Height (cb_block a) = of_nat (length h)"
    "follows p (cb_block (last h)) (Height (cb_block a)) (View (cb_block a)) (ParentID (cb_block a))"
  shows "linked p (h @ [a])"
  unfolding linked_def
proof (intro conjI allI impI)
  fix i assume "i < length (h @ [a])"
  then show "Height (cb_block ((h @ [a]) ! i)) = of_nat i"
    using assms(1,3) by (cases "i < length h") (auto simp: linked_def nth_append less_Suc_eq)
next
  fix i assume i: "Suc i < length (h @ [a])"
  show "follows p (cb_block ((h @ [a]) ! i)) (Height (cb_block ((h @ [a]) ! Suc i)))
    (View (cb_block ((h @ [a]) ! Suc i))) (ParentID (cb_block ((h @ [a]) ! Suc i)))"
  proof (cases "Suc i < length h")
    case True
    then have "(h @ [a]) ! i = h ! i" "(h @ [a]) ! Suc i = h ! Suc i" by (simp_all add: nth_append)
    then show ?thesis using assms(1) True unfolding linked_def by metis
  next
    case False
    then have len: "Suc i = length h" using i by simp
    then have "h ! i = last h" using assms(2) by (simp add: last_conv_nth flip: len)
    then show ?thesis using assms(4) len by (simp add: nth_append)
  qed
qed

text \<open>Operations that touch neither storage nor the pending block.\<close>

lemma inv_same:
  assumes "bc_inv p rep b h" "bc_storage b' = bc_storage b" "bc_pendingBlock b' = bc_pendingBlock b"
  shows "bc_inv p rep b' h"
  using assms by (simp add: bc_inv_def)

lemma pb_Add_simps [simp]:
  "pb_height (pb_AddTransaction p tx pb) = pb_height pb" "pb_view (pb_AddTransaction p tx pb) = pb_view pb"
  "pb_parentID (pb_AddTransaction p tx pb) = pb_parentID pb"
  "pb_transactionIDs (pb_AddTransaction p tx pb) = pb_transactionIDs pb @ [tx_ID p tx]"
  by (simp_all add: pb_AddTransaction_def)

lemma next_inv:
  assumes "bc_inv p rep b h"
  shows "bc_inv p rep (snd (executeNextTransaction p E ctx b)) h"
  using executeNext_pending[of p E ctx b]
proof
  assume "bc_pendingBlock (snd (executeNextTransaction p E ctx b)) = bc_pendingBlock b"
  then show ?thesis using assms by (intro inv_same[OF assms]) simp_all
next
  assume "\<not> pb_ExecutionComplete (bc_pendingBlock b) \<and>
    (\<exists>run. bc_pendingBlock (snd (executeNextTransaction p E ctx b)) =
       snd (pb_ExecuteNextTransaction p (em_exec E) run (bc_pendingBlock b)))"
  then obtain run where more: "\<not> pb_ExecutionComplete (bc_pendingBlock b)"
    and eq: "bc_pendingBlock (snd (executeNextTransaction p E ctx b)) =
       snd (pb_ExecuteNextTransaction p (em_exec E) run (bc_pendingBlock b))" by blast
  have "pb_inv p (bc_pendingBlock b)" using assms by (simp add: bc_inv_def extends_tip_def)
  then show ?thesis using assms pb_inv_Execute[OF _ more, of p "em_exec E" run]
    by (simp add: bc_inv_def eq extends_tip_def)
qed

lemma loop_inv:
  "bc_inv p rep b h \<Longrightarrow> bc_inv p rep (snd (executeBlock_loop p E ctx rs b)) h"
proof (induction p E ctx rs b rule: executeBlock_loop.induct)
  case (1 p E ctx rs b)
  note step = next_inv[OF "1.prems", of E ctx]
  show ?case
  proof (cases "\<not> pb_ExecutionComplete (bc_pendingBlock b) \<and> \<not> pb_Empty (bc_pendingBlock b)")
    case True
    then show ?thesis
    proof (cases "executeNextTransaction p E ctx b")
      case (Pair r b')
      then show ?thesis using "1.IH"[OF True] step True
        by (cases r) (simp_all add: executeBlock_loop.simps[of p E ctx rs b])
    qed
  qed (use "1.prems" in \<open>auto simp: executeBlock_loop.simps[of p E ctx rs b]\<close>)
qed

lemma executeBlock_inv:
  assumes "bc_inv p rep b h" shows "bc_inv p rep (snd (executeBlock p E b)) h"
proof -
  have "bc_inv p rep (b\<lparr>bc_vmCtx := c\<rparr>) h" for c by (rule inv_same[OF assms]) simp_all
  then show ?thesis
    unfolding executeBlock_def setFVMContextFromHeader_def Let_def prod.case
    by (simp only: if_distrib[of snd] snd_conv) (simp add: loop_inv)
qed

lemma ExecuteNext_inv:
  assumes "bc_inv p rep b h" shows "bc_inv p rep (snd (ExecuteNextTransaction p E b)) h"
proof -
  have "bc_inv p rep (b\<lparr>bc_vmCtx := c\<rparr>) h" for c by (rule inv_same[OF assms]) simp_all
  then show ?thesis
    unfolding ExecuteNextTransaction_def setFVMContextFromHeader_def Let_def prod.case by (rule next_inv)
qed

lemma script_same:
  "bc_storage (snd (executeScriptAtBlockID p E s args i b)) = bc_storage b"
  "bc_pendingBlock (snd (executeScriptAtBlockID p E s args i b)) = bc_pendingBlock b"
  by (auto simp: executeScriptAtBlockID_def Let_def note_source_file_def bindE_def case_prod_unfold split: sum.split)

lemma serviceKey_same:
  "bc_storage (snd (bc_ServiceKey E b)) = bc_storage b" "bc_pendingBlock (snd (bc_ServiceKey E b)) = bc_pendingBlock b"
  by (auto simp: bc_ServiceKey_def Let_def split: sum.split)

lemma cache_system_keeps [simp]:
  "bc_storage (cache_system_transaction p r b) = bc_storage b" "bc_conf (cache_system_transaction p r b) = bc_conf b"
  "bc_pendingBlock (cache_system_transaction p r b) = bc_pendingBlock b"
  by (simp_all add: cache_system_transaction_def split: sum.split)

section \<open>The invariant is kept, over any store that keeps the contract\<close>

context chain_store
begin

lemma index_ids_ok:
  "em_store E = ops \<Longrightarrow> rep s h \<Longrightarrow>
   fst (index_scheduled_ids E i xs s) = Inr () \<and> rep (snd (index_scheduled_ids E i xs s)) h"
proof (induction xs arbitrary: s)
  case (Cons x xs)
  obtain n v where x: "x = (n, v)" by fastforce
  note ix = index_scheduled[OF Cons.prems(2), of n i]
  then obtain s' where "st_IndexScheduledTransactionID ops n i s = (Inr (), s')" "rep s' h"
    by (cases "st_IndexScheduledTransactionID ops n i s") auto
  then show ?case using Cons.IH[OF Cons.prems(1)] Cons.prems(1) by (simp add: index_scheduled_ids_def x)
qed (simp add: index_scheduled_ids_def)

lemma index_results_ok:
  "em_store E = ops \<Longrightarrow> rep s h \<Longrightarrow>
   fst (index_system_results E m i xs s) = Inr () \<and> rep (snd (index_system_results E m i xs s)) h"
proof (induction xs arbitrary: s)
  case (Cons x xs)
  obtain j v where x: "x = (j, v)" by fastforce
  note ix = index_scheduled_tx[OF Cons.prems(2), of j i]
  then obtain s' where "st_IndexScheduledTransactionBlockID ops j i s = (Inr (), s')" "rep s' h"
    by (cases "st_IndexScheduledTransactionBlockID ops j i s") auto
  then show ?case using Cons.IH[OF Cons.prems(1)] Cons.prems by (simp add: index_system_results_def x)
qed (simp add: index_system_results_def)

lemma store_block_ok:
  assumes E: "em_store E = ops" and rep: "rep (bc_storage b) h" and a: "may_follow p h a" and ad: "admits a"
  shows "\<exists>s' led. store_block p E w a b = (Inr (cb_block a), b\<lparr>bc_storage := s', bc_published := Suc (bc_published b),
      bc_pendingBlock := newPendingBlock p (em_exec E) w (cb_block a) led (bc_clock b),
      bc_LatestBlock := block_ID p (cb_block a)\<rparr>) \<and> rep s' (h @ [a])"
proof -
  obtain s1 where s1: "st_CommitBlock ops a (bc_storage b) = (Inr (), s1)" "rep s1 (h @ [a])"
    using commit[OF rep a ad] by (cases "st_CommitBlock ops a (bc_storage b)") auto
  obtain s2 where s2: "index_scheduled_ids E (block_ID p (cb_block a)) (cb_scheduled a) s1 = (Inr (), s2)" "rep s2 (h @ [a])"
    using index_ids_ok[OF E s1(2)] by (metis prod.collapse)
  obtain s3 where s3: "index_system_results E (bc_systemTransactions b) (block_ID p (cb_block a)) (cb_systemResults a) s2
      = (Inr (), s3)" "rep s3 (h @ [a])"
    using index_results_ok[OF E s2(2)] by (metis prod.collapse)
  obtain led where "st_LedgerByHeight ops (Height (cb_block a)) s3 = Inr led"
    using ledger[OF s3(2), of "Height (cb_block a)"] unat_height[OF a] by auto
  then have "store_block p E w a b = (Inr (cb_block a), b\<lparr>bc_storage := s3, bc_published := Suc (bc_published b),
      bc_pendingBlock := newPendingBlock p (em_exec E) w (cb_block a) led (bc_clock b),
      bc_LatestBlock := block_ID p (cb_block a)\<rparr>)"
    using s1(1) s2(1) s3(1) by (simp add: store_block_def on_storage_def E Let_def)
  then show ?thesis using s3(2) by blast
qed

lemma store_block_rejects:
  assumes "em_store E = ops" "\<not> counts_match a"
  shows "\<exists>e. store_block p E w a b = (Inl e, b)"
  using commit_counts[OF assms(2), of "bc_storage b"] assms(1)
  by (auto simp: store_block_def on_storage_def)

lemma commit_inv:
  assumes E: "em_store E = ops" and law: "exec_law (em_exec E)" and inv: "bc_inv p rep b h" and w: "snd w < MaxViewIncrease"
    and ok: "\<And>a. fst (prepare_commit p E b) = Inr a \<Longrightarrow> admits a \<and> no_collision p h a \<and> Suc (length h) < 2 ^ 63"
  shows "bc_inv p rep (snd (commitBlock p E w b))
    (h @ (case fst (prepare_commit p E b) of Inl _ \<Rightarrow> [] | Inr a \<Rightarrow> if counts_match a then [a] else []))"
proof -
  obtain r b' where prep: "prepare_commit p E b = (r, b')" by fastforce
  have f: "system_frame b b'" using prepare_commit_frame[of b p E] prep by simp
  have tip: "extends_tip p h (bc_pendingBlock b)" and pb: "pb_inv p (bc_pendingBlock b)"
    using inv by (auto simp: bc_inv_def extends_tip_def)
  have tip': "extends_tip p h (bc_pendingBlock b')"
    using system_frameD[OF f] pb by (intro extends_tip_cong[OF _ _ _ _ _ tip]) auto
  have inv': "bc_inv p rep b' h" using inv tip' system_frameD(1)[OF f] by (simp add: bc_inv_def)
  show ?thesis
  proof (cases r)
    case (Inl e)
    then show ?thesis using inv' prep by (simp add: commitBlock_def)
  next
    case (Inr a)
    note a = prepare_commit_args[OF prep[unfolded Inr] law]
    show ?thesis
    proof (cases "counts_match a")
      case False
      then show ?thesis using store_block_rejects[OF E False, of w b'] inv' prep Inr by (auto simp: commitBlock_def)
    next
      case True
      have mf: "may_follow p h a" using commit_may_follow[OF prep[unfolded Inr] law inv] ok True prep Inr by simp
      obtain s' led where st: "store_block p E w a b' = (Inr (cb_block a), b'\<lparr>bc_storage := s', bc_published := Suc (bc_published b'),
          bc_pendingBlock := newPendingBlock p (em_exec E) w (cb_block a) led (bc_clock b'),
          bc_LatestBlock := block_ID p (cb_block a)\<rparr>)" "rep s' (h @ [a])"
      proof -
        have "rep (bc_storage b') h" "admits a" using inv' ok[of a] prep Inr by (simp_all add: bc_inv_def)
        then show thesis using that store_block_ok[OF E _ mf] by blast
      qed
      have "linked p (h @ [a])"
        using inv tip follows_iff_pb[of p "cb_block (last h)" "bc_pendingBlock b" "em_lib E"] may_followD(1)[OF mf]
        by (intro linked_snoc) (auto simp: bc_inv_def extends_tip_def a(1))
      moreover have "results_known (h @ [a])"
      proof -
        have "set (map fst (cb_results a)) \<subseteq> set (pb_transactionIDs (bc_pendingBlock b))"
          using pb set_take_subset unfolding a(4) pb_inv_def by fast
        moreover have "set (pb_transactionIDs (bc_pendingBlock b)) = set (map fst (cb_transactions a))"
          using pb unfolding a(3) pb_inv_def by metis
        ultimately show ?thesis using inv by (auto simp: bc_inv_def results_known_def)
      qed
      moreover have "valid_chain p (h @ [a])" using inv mf by (simp add: bc_inv_def valid_chain_snoc)
      ultimately show ?thesis
        using st new_extends_tip[OF w, of p "h @ [a]" "em_exec E" led "bc_clock b'"] may_followD(2)[OF mf] prep Inr True
        by (simp add: commitBlock_def bc_inv_def)
    qed
  qed
qed

lemma add_inv:
  assumes E: "em_store E = ops" and inv: "bc_inv p rep b h" and size: "Suc (pb_Size (bc_pendingBlock b)) < 2 ^ 32"
  shows "bc_inv p rep (snd (addTransaction p E tx b)) h"
proof (cases "fst (addTransaction p E tx b)")
  case (Inl e)
  then have "snd (addTransaction p E tx b) = b"
    by (auto simp: addTransaction_def split: if_splits sum.splits)
  then show ?thesis using inv by simp
next
  case (Inr u)
  then have new: "\<not> pb_ContainsTransaction (tx_ID p tx) (bc_pendingBlock b)"
    and res: "snd (addTransaction p E tx b) = b\<lparr>bc_pendingBlock := pb_AddTransaction p tx (bc_pendingBlock b)\<rparr>"
    and miss: "\<exists>e. st_TransactionByID ops (tx_ID p tx) (bc_storage b) = Inl e"
    by (auto simp: addTransaction_def E split: if_splits sum.splits)
  have "hist_transaction h (tx_ID p tx) = None"
    using miss inv transaction[of "bc_storage b" h "tx_ID p tx"]
    by (cases "hist_transaction h (tx_ID p tx)") (auto simp: bc_inv_def)
  moreover have "pb_inv p (pb_AddTransaction p tx (bc_pendingBlock b))"
    using inv new size by (intro pb_inv_Add) (auto simp: bc_inv_def extends_tip_def)
  ultimately show ?thesis using inv by (simp add: res bc_inv_def extends_tip_def)
qed

lemma reset_inv:
  assumes E: "em_store E = ops" and inv: "bc_inv p rep b h" and w: "snd w < MaxViewIncrease"
  shows "bc_inv p rep (snd (ResetPendingBlock p E w b)) h"
proof -
  have "st_LatestBlock ops (bc_storage b) = Inr (cb_block (last h))"
    using inv by (intro latest) (auto simp: bc_inv_def)
  then show ?thesis using inv new_extends_tip[OF w, of p h "em_exec E" _ "bc_clock b"]
    by (auto simp: ResetPendingBlock_def E bc_inv_def split: sum.split)
qed

lemma reload_inv:
  assumes E: "em_store E = ops" and inv: "bc_inv p rep b h" and w: "snd w < MaxViewIncrease"
  shows "bc_inv p rep (snd (ReloadBlockchain p E w b)) h"
proof -
  have "st_LatestBlock ops (bc_storage b) = Inr (cb_block (last h))"
    using inv by (intro latest) (auto simp: bc_inv_def)
  then show ?thesis using inv new_extends_tip[OF w, of p h "em_exec E" _ "bc_clock b"]
    by (auto simp: ReloadBlockchain_def on_storage_def configureLedger_def configureExistingLedger_def Let_def E
        bc_inv_def split: sum.split)
qed

lemma executeAndCommit_inv:
  assumes E: "em_store E = ops" and law: "exec_law (em_exec E)" and inv: "bc_inv p rep b h" and w: "snd w < MaxViewIncrease"
    and ok: "\<And>b' a. commit_state_executed p E b = Some b' \<Longrightarrow> fst (prepare_commit p E b') = Inr a \<Longrightarrow>
      admits a \<and> no_collision p h a \<and> Suc (length h) < 2 ^ 63"
  shows "bc_inv p rep (snd (executeAndCommitBlock p E w b))
    (h @ (case commit_state_executed p E b of None \<Rightarrow> [] | Some b' \<Rightarrow>
       (case fst (prepare_commit p E b') of Inl _ \<Rightarrow> [] | Inr a \<Rightarrow> if counts_match a then [a] else [])))"
proof -
  obtain rs e b' where x: "executeBlock p E b = ((rs, e), b')" by (metis prod.collapse)
  have inv': "bc_inv p rep b' h" using executeBlock_inv[OF inv, of E] x by simp
  show ?thesis
  proof (cases e)
    case None
    then have c: "commit_state_executed p E b = Some b'" using x by (simp add: commit_state_executed_def)
    have "snd (executeAndCommitBlock p E w b) = snd (commitBlock p E w b')"
      using x None by (cases "commitBlock p E w b'"; cases "fst (commitBlock p E w b')") (simp_all add: executeAndCommitBlock_def)
    then show ?thesis using commit_inv[OF E law inv' w] ok[OF c] c by simp
  next
    case (Some err)
    then show ?thesis using inv' x by (simp add: executeAndCommitBlock_def commit_state_executed_def)
  qed
qed

lemma send_inv:
  assumes E: "em_store E = ops" and law: "exec_law (em_exec E)" and inv: "bc_inv p rep b h"
    and safe: "safe_op p E admits h (Send w tx) b"
  shows "bc_inv p rep (snd (SendTransaction p E w tx b)) (h @ committed p E (Send w tx) b)"
proof -
  obtain r b' where add: "addTransaction p E tx b = (r, b')" by fastforce
  have inv': "bc_inv p rep b' h"
    using add_inv[OF E inv, of tx] safe add by (simp add: safe_op_def)
  show ?thesis
  proof (cases r)
    case (Inl e)
    then show ?thesis using inv' add by (simp add: SendTransaction_def committed_def attempted_def)
  next
    case (Inr u)
    show ?thesis
    proof (cases "cf_AutoMine (bc_conf b')")
      case False
      then show ?thesis using inv' add Inr by (simp add: SendTransaction_def committed_def attempted_def)
    next
      case True
      then have state: "commit_state p E (Send w tx) b = commit_state_executed p E b'" using add Inr by simp
      have "snd (SendTransaction p E w tx b) = snd (executeAndCommitBlock p E w b')"
        using add Inr True by (cases "executeAndCommitBlock p E w b'"; cases "fst (executeAndCommitBlock p E w b')")
          (simp_all add: SendTransaction_def)
      moreover have "bc_inv p rep (snd (executeAndCommitBlock p E w b')) (h @ committed p E (Send w tx) b)"
        using executeAndCommit_inv[OF E law inv', of w] safe state
        by (auto simp: safe_op_def committed_def attempted_def split: option.splits sum.splits if_splits)
      ultimately show ?thesis by simp
    qed
  qed
qed

lemma perform_inv:
  assumes E: "em_store E = ops" and law: "exec_law (em_exec E)" and inv: "bc_inv p rep b h"
    and safe: "safe_op p E admits h op b"
  shows "bc_inv p rep (perform p E op b) (h @ committed p E op b)"
proof (cases op)
  case (AddTransaction tx)
  then show ?thesis using add_inv[OF E inv] safe by (simp add: committed_def attempted_def safe_op_def)
next
  case (Send w tx)
  then show ?thesis using send_inv[OF E law inv] safe by simp
next
  case ExecuteBlock
  then show ?thesis using executeBlock_inv[OF inv] by (simp add: committed_def attempted_def)
next
  case ExecuteNext
  then show ?thesis using ExecuteNext_inv[OF inv] by (simp add: committed_def attempted_def)
next
  case (Commit w)
  then show ?thesis using commit_inv[OF E law inv, of w] safe
    by (auto simp: committed_def attempted_def safe_op_def split: sum.splits if_splits)
next
  case (ExecuteAndCommit w)
  then show ?thesis using executeAndCommit_inv[OF E law inv, of w] safe
    by (auto simp: committed_def attempted_def safe_op_def split: option.splits sum.splits if_splits)
next
  case (Reset w)
  then show ?thesis using reset_inv[OF E inv] safe by (simp add: committed_def attempted_def safe_op_def)
next
  case (Reload w)
  then show ?thesis using reload_inv[OF E inv] safe by (simp add: committed_def attempted_def safe_op_def)
next
  case (SetClock_to w clk)
  then show ?thesis using inv
    by (simp add: committed_def attempted_def SetClock_def bc_inv_def extends_tip_def) (simp add: pb_SetClock_def)
next
  case (AutoMine on)
  then show ?thesis using inv_same[OF inv]
    by (simp add: committed_def attempted_def EnableAutoMine_def DisableAutoMine_def)
next
  case (Debugging on)
  then show ?thesis using inv_same[OF inv]
    by (simp add: committed_def attempted_def StartDebugger_def EndDebugging_def)
next
  case (RunScript s args i)
  then show ?thesis using inv_same[OF inv script_same] by (simp add: committed_def attempted_def)
next
  case ReadServiceKey
  then show ?thesis using inv_same[OF inv serviceKey_same] by (simp add: committed_def attempted_def)
qed

lemma reaches_inv:
  assumes "reaches p E admits c d" "em_store E = ops" "exec_law (em_exec E)" "bc_inv p rep (fst c) (snd c)"
  shows "bc_inv p rep (fst d) (snd d)"
  using assms(1)
proof (induction rule: reaches.induct)
  case reaches_refl
  then show ?case using assms(4) by simp
next
  case (reaches_step b h op)
  then show ?case using perform_inv[OF assms(2,3)] by simp
qed

text \<open>Starting on an empty store commits the genesis block.\<close>

lemma genesis_may_follow:
  "distinct (map fst (WriteSet snap)) \<Longrightarrow> may_follow p [] (genesis_commit (Genesis L chain) snap evs)"
  by (simp add: may_follow_def genesis_commit_def Genesis_def wf_commit_def same_bodies_def same_collections_def bodies_of_def)

lemma configureNewLedger_ok:
  assumes E: "em_store E = ops" and rep: "rep s []"
    and run: "run_law E" and ad: "\<And>snap evs. admits (genesis_commit (Genesis (em_lib E) (GetChainID (em_lib E) conf)) snap evs)"
    and ok: "configureNewLedger p E conf ctx i s = (Inr (blk, led), s')"
  shows "\<exists>snap evs. rep s' [genesis_commit blk snap evs] \<and> blk = Genesis (em_lib E) (GetChainID (em_lib E) conf) \<and>
    may_follow p [] (genesis_commit blk snap evs)"
proof -
  obtain led0 snap out where l0: "st_LedgerByHeight ops 0 s = Inr led0"
    and bs: "bootstrapLedger E (em_Run E (newBlocks p ops s) i) ctx led0 conf = Inr (snap, out)"
    using ok by (auto simp: configureNewLedger_def E split: sum.splits)
  let ?g = "genesis_commit (Genesis (em_lib E) (GetChainID (em_lib E) conf)) snap (out_Events out)"
  obtain ctx' proc where "em_Run E (newBlocks p ops s) i ctx' proc led0 = Inr (snap, out)"
    using bs by (auto simp: bootstrapLedger_def Let_def bindR_eq_Inr split: option.splits)
  then have "distinct (map fst (WriteSet snap))" using run unfolding run_law_def by blast
  then have mf: "may_follow p [] ?g" by (rule genesis_may_follow)
  obtain s1 where s1: "st_CommitBlock ops ?g s = (Inr (), s1)" "rep s1 [?g]"
    using commit[OF rep mf ad] by (cases "st_CommitBlock ops ?g s") auto
  then have "s' = s1" "blk = Genesis (em_lib E) (GetChainID (em_lib E) conf)"
    using ok l0 bs by (auto simp: configureNewLedger_def E Let_def split: sum.splits)
  then show ?thesis using s1(2) mf by blast
qed

lemma New_inv:
  assumes E: "em_store E = ops" and run: "run_law E" and w: "snd (ws 0) < MaxViewIncrease"
    and conf: "defaultConfig (em_lib E) = Inr c0" "cf_Contracts (fold (\<lambda>opt c. opt c) opts c0) = []"
    and store: "GetStore dflt (fold (\<lambda>opt c. opt c) opts c0) = Inr s" "rep s []"
    and ad: "\<And>chain snap evs. admits (genesis_commit (Genesis (em_lib E) chain) snap evs)"
    and ok: "New p E dflt ws opts = Inr b"
  shows "\<exists>snap evs. bc_inv p rep b [genesis_commit (Genesis (em_lib E) (GetChainID (em_lib E) (bc_conf b))) snap evs]"
proof -
  let ?conf = "fold (\<lambda>opt c. opt c) opts c0"
  obtain blk led s' where l: "configureLedger p E ?conf (configureFVM E ?conf) ZeroID s = (Inr (blk, led), s')"
    using ok conf store(1)
    by (cases "configureLedger p E ?conf (configureFVM E ?conf) ZeroID s") (auto simp: New_def Let_def bindR_eq_Inr)
  then have "configureNewLedger p E ?conf (configureFVM E ?conf) ZeroID s = (Inr (blk, led), s')"
    using latest_none[OF store(2)] by (simp add: configureLedger_def E)
  then obtain snap evs where "rep s' [genesis_commit blk snap evs]" "blk = Genesis (em_lib E) (GetChainID (em_lib E) ?conf)"
      and mf: "may_follow p [] (genesis_commit blk snap evs)"
    using configureNewLedger_ok[OF E store(2) run ad] by blast
  then obtain g where g: "rep s' [g]" "cb_block g = blk" "blk = Genesis (em_lib E) (GetChainID (em_lib E) ?conf)" "cb_results g = []"
    "g = genesis_commit blk snap evs" by (simp add: genesis_commit_def)
  have "bc_storage b = s' \<and> bc_conf b = ?conf \<and>
      bc_pendingBlock b = newPendingBlock p (em_exec E) (ws 0) (cb_block (last [g])) led SystemClock_Now"
    using ok conf store(1) l g(2)
    by (auto simp: New_def Let_def bindR_eq_Inr)
  moreover have "linked p [g]" "valid_chain p [g]" using g(2,3,5) mf by (simp_all add: linked_def Genesis_def valid_chain_def)
  ultimately have "bc_inv p rep b [g]" "bc_conf b = ?conf"
    using g new_extends_tip[OF w, of p "[g]" "em_exec E" led SystemClock_Now]
    by (simp_all add: bc_inv_def results_known_def)
  then show ?thesis using g(3,5) by auto
qed

end

end
