(* ===== verification/Emulator_Chain.thy ===== *)
theory Emulator_Chain
  imports Emulator_Inv Sample
begin

text \<open>
  The invariant of the emulated blockchain on the two stores of the repository,
  and a small concrete emulator (a machine that runs every procedure
  successfully without effects) on which the properties are evaluated.
\<close>

section \<open>A concrete emulator\<close>

definition sample_lib :: flow_lib where
  "sample_lib =
     \<lparr>chain_Emulator = ''flow-emulator'', chain_MonotonicEmulator = ''flow-emulator-monotonic'',
      ServiceAddress = (\<lambda>_. 1), GenesisTime = 0, DefaultMaxTransactionGasLimit = 9999,
      DefaultMaxTransactionByteSize = 1500000, DefaultMaxCollectionByteSize = 3000000,
      DefaultMinimumStorageReservation = 100000, DefaultStorageMBPerFLOW = 100, DefaultTransactionFees = 10,
      DefaultMemoryWeights = [], MainnetExecutionEffortWeights = [], AccountKeyWeightThreshold = 1000,
      parse_UFix64 = (\<lambda>_. Inr 1000), ECDSA_P256 = 2, SHA2_256 = 1, SHA3_256 = 3,
      GeneratePrivateKey = (\<lambda>_ seed. Inr seed), PublicKey_of = (\<lambda>k. k), DecodePublicKey = (\<lambda>_ k. Some k),
      algo_String = (\<lambda>_. ''algo'')\<rparr>"

type_synonym sample_state = "storage_snapshot \<times> (register_id \<times> bytes) list"
type_synonym sample_mem_chain = "((register_id \<times> bytes) list list memstore, sample_state) Blockchain"

definition sample_exec :: "sample_state exec_ops" where
  "sample_exec =
     \<lparr>es_New = (\<lambda>s. (s, [])),
      es_Get = (\<lambda>(s, ws) r. case map_of ws r of None \<Rightarrow> s r | Some v \<Rightarrow> Inr v),
      es_Merge = (\<lambda>x (s, ws). (Inr (), (s, WriteSet x @ ws))),
      es_Finalize = (\<lambda>(s, ws). (\<lparr>WriteSet = AList.clearjunk ws\<rparr>, (s, ws)))\<rparr>"

definition sample_output :: procedure_output where
  "sample_output = \<lparr>out_Logs = [], out_Events = [], out_ComputationUsed = 0, out_MemoryEstimate = 0,
     out_Intensities = [], out_Err = None, out_Value = None\<rparr>"

definition sample_ctx :: "string \<Rightarrow> fvm_context" where
  "sample_ctx chain =
     \<lparr>ctx_Chain = chain, ctx_BlockHeader = None, ctx_ContractDeploymentRestricted = True,
      ctx_ContractRemovalRestricted = True, ctx_ComputationLimit = 0, ctx_CadenceLogging = False,
      ctx_AccountStorageLimit = False, ctx_TransactionFeesEnabled = False, ctx_AuthorizationChecksEnabled = True,
      ctx_SequenceNumberCheckAndIncrementEnabled = True, ctx_RandomSourceHistoryCallAllowed = False,
      ctx_EVMTestOperationsAllowed = False\<rparr>"

definition sample_emu :: "'s store_ops \<Rightarrow> ('s, sample_state) emu" where
  "sample_emu ops =
     \<lparr>em_store = ops, em_Rollback = None, em_Snapshots = None, em_exec = sample_exec, em_ccf = sample_ccf,
      em_lib = sample_lib, em_NewContext = sample_ctx,
      em_Run = (\<lambda>_ _ _ _ _. Inr (\<lparr>WriteSet = []\<rparr>, sample_output)),
      em_NewValidator = (\<lambda>_ _. Inr ()), em_Validate = (\<lambda>_ _ _ _. Inr ()),
      em_ParseProgram = (\<lambda>_. Inr []),
      em_ProcessCallbacksTransaction = (\<lambda>_. Inr (sample_tx 5)),
      em_ExecuteCallbacksTransactions = (\<lambda>_ _. Inr []),
      em_PendingExecutionEventType = (\<lambda>_. ''PendingExecution''),
      em_ccf_Decode = (\<lambda>_. Inl (ExternalError ''ccf'')),
      em_ReplaceAddresses = (\<lambda>s _. s), em_Build = (\<lambda>t. Inr (sample_tx 7)),
      em_GetAccount = (\<lambda>_ _ _. Inl (ExternalError ''account'')),
      em_IsAccountNotFoundError = (\<lambda>_. True), em_IsInvalidEnvelopeSignature = (\<lambda>_. False),
      em_IsInvalidPayloadSignature = (\<lambda>_. False), em_EnvelopeMessage = (\<lambda>_. []), em_PayloadMessage = (\<lambda>_. []),
      em_Verify = (\<lambda>_ _ _ _. False), em_ScriptProcedureID = (\<lambda>_ _. 9), em_MakeIDFromFingerPrint = (\<lambda>_. 9),
      em_GeneratedAddress = (\<lambda>_ n. n), em_LocationID = (\<lambda>_. ''location''),
      em_GetAccountContractCode = (\<lambda>_ _ _. Inl (ExternalError ''contract'')),
      em_RequestPause = (\<lambda>_. Inl (Panic ''nil pointer dereference'')),
      em_AddAccountContract = (\<lambda>_ _ _. FlowTransactionToSDK (sample_tx 8)),
      em_SignEnvelope = (\<lambda>_ _ _ _ tx. Inr tx)\<rparr>"

lemma exec_law_sample: "exec_law (em_exec (sample_emu ops))"
  by (auto simp: exec_law_def sample_emu_def sample_exec_def)

lemma run_law_sample: "run_law (sample_emu ops)"
  by (simp add: run_law_def sample_emu_def)

lemma sample_emu_simps [simp]:
  "em_store (sample_emu ops) = ops" "em_lib (sample_emu ops) = sample_lib" "em_exec (sample_emu ops) = sample_exec"
  "em_Run (sample_emu ops) = (\<lambda>_ _ _ _ _. Inr (\<lparr>WriteSet = []\<rparr>, sample_output))"
  "em_NewValidator (sample_emu ops) = (\<lambda>_ _. Inr ())" "em_ProcessCallbacksTransaction (sample_emu ops) = (\<lambda>_. Inr (sample_tx 5))"
  "em_ExecuteCallbacksTransactions (sample_emu ops) = (\<lambda>_ _. Inr [])" "em_Build (sample_emu ops) = (\<lambda>_. Inr (sample_tx 7))"
  "out_Err sample_output = None" "out_Events sample_output = []"
  by (simp_all add: sample_emu_def sample_output_def)

abbreviation sample_mem :: "((register_id \<times> bytes) list list memstore, sample_state) emu" where
  "sample_mem \<equiv> sample_emu (memstore_ops sample_codec sample_tree)"

definition fresh :: "('s, 'ls) Blockchain \<Rightarrow> bool" where
  "fresh b \<longleftrightarrow> cf_ScheduledTransactionsEnabled (bc_conf b) \<and> pb_transactions (bc_pendingBlock b) = [] \<and>
     pb_transactionIDs (bc_pendingBlock b) = [] \<and> pb_transactionResults (bc_pendingBlock b) = [] \<and>
     pb_index (bc_pendingBlock b) = 0 \<and> \<not> bc_activeDebuggingSession b"

lemma cache_system_session [simp]:
  "bc_activeDebuggingSession (cache_system_transaction p r b) = bc_activeDebuggingSession b"
  by (simp add: cache_system_transaction_def split: sum.split)

lemma sample_New:
  "\<exists>b. New sample_codec sample_mem (Inr ms_New) (\<lambda>_. (0, 0)) [] = Inr b \<and> fresh b"
proof -
  have latest: "ms_LatestBlock (ms_New :: 't memstore) = Inl ErrNotFound"
    by (simp add: ms_LatestBlock_def ms_New_def)
  have "\<exists>s. ms_CommitBlock sample_codec sample_tree (genesis_commit g snap evs) ms_New = (Inr (), s)" for g snap evs
    by (simp add: ms_CommitBlock_def genesis_commit_def ms_storeBlock_def ms_insertExecutionSnapshot_def
        ms_insertEvents_def ms_New_def Let_def)
  then obtain s where commit: "ms_CommitBlock sample_codec sample_tree
      (genesis_commit (Genesis sample_lib ''flow-emulator'') \<lparr>WriteSet = []\<rparr> []) ms_New = (Inr (), s)" by blast
  have ledger: "ms_LedgerByHeight sample_tree 0 s' = Inr (tree_Get sample_tree (ms_tree sample_tree 0 s'))" for s'
    by (simp add: ms_LedgerByHeight_def)
  obtain c :: "(register_id \<times> bytes) list list memstore config" where c: "defaultConfig sample_lib = Inr c" "cf_Contracts c = []" "cf_Store c = None"
      "cf_ScheduledTransactionsEnabled c" "GetChainID sample_lib c = ''flow-emulator''"
    by (simp add: defaultConfig_def DefaultServiceKey_def GenerateDefaultServiceKey_def GetChainID_def sample_lib_def)
  have boot: "bootstrapLedger sample_mem (\<lambda>_ _ _. Inr (\<lparr>WriteSet = []\<rparr>, sample_output)) ctx l c =
      Inr (\<lparr>WriteSet = []\<rparr>, sample_output)" for ctx l
    by (simp add: bootstrapLedger_def Let_def)
  have led: "\<exists>blk l. configureLedger sample_codec sample_mem c ctx ZeroID ms_New = (Inr (blk, l), s)" for ctx
    using commit by (simp add: configureLedger_def configureNewLedger_def latest ledger boot c(5))
  then obtain blk l where l: "configureLedger sample_codec sample_mem c (configureFVM sample_mem c) ZeroID ms_New = (Inr (blk, l), s)"
    by blast
  have "\<exists>v. configureTransactionValidator sample_mem c = Inr v"
    by (simp add: configureTransactionValidator_def Let_def)
  then obtain v where "configureTransactionValidator sample_mem c = Inr v" by blast
  then show ?thesis
    using c l by (simp add: New_def GetStore_def Let_def newPendingBlock_def fresh_def)
qed

text \<open>Committing an empty block stores the two system transactions.\<close>

lemma sample_merge [simp]:
  "merge_output (sample_emu ops) snap sample_output b =
     (Inr (), b\<lparr>bc_pendingBlock := (bc_pendingBlock b)\<lparr>pb_ledgerState :=
        snd (es_Merge sample_exec snap (pb_ledgerState (bc_pendingBlock b)))\<rparr>\<rparr>)"
  by (simp add: merge_output_def Let_def sample_exec_def split: prod.split)

lemma sample_system_chunk:
  "\<exists>b'. executeSystemChunkTransaction p (sample_emu ops) n b =
     (Inr (sample_tx 7, \<lparr>itr_Output = sample_output, itr_Index = n\<rparr>), b')"
  by (simp add: executeSystemChunkTransaction_def systemChunkTransaction_def vm_Run_def Let_def)

lemma sample_scheduled:
  "\<exists>b' acc. executeScheduledTransactions p (sample_emu ops) ctx b = (Inr acc, b') \<and>
     sa_transactions acc = [(tx_ID p (sample_tx 5), sample_tx 5)] \<and> sa_ordered acc = [tx_ID p (sample_tx 5)] \<and>
     map fst (sa_results acc) = [tx_ID p (sample_tx 5)]"
  by (simp add: executeScheduledTransactions_def vm_Run_def Let_def)

lemma sample_prepare:
  assumes pb0: "cf_ScheduledTransactionsEnabled (bc_conf b)"
    "length (pb_transactions (bc_pendingBlock b)) = length (pb_transactionResults (bc_pendingBlock b))"
    "pb_ExecutionStarted (bc_pendingBlock b) \<or> pb_Empty (bc_pendingBlock b)" "pb_ExecutionComplete (bc_pendingBlock b)"
  shows "\<exists>a b'. prepare_commit sample_codec (sample_emu ops) b = (Inr a, b') \<and> counts_match a \<and>
     cb_systemBodies a = [(5, sample_tx 5), (7, sample_tx 7)]"
proof -
  define ctx where "ctx = (bc_vmCtx b)\<lparr>ctx_BlockHeader :=
    Some (ToHeader sample_codec (pb_Block sample_codec sample_lib (bc_pendingBlock b)))\<rparr>"
  have i: "sample_tx_ID (sample_tx 5) = 5" "sample_tx_ID (sample_tx 7) = 7"
    by (simp_all add: sample_tx_ID_def sample_tx_def)
  obtain b1 acc where s: "executeScheduledTransactions sample_codec (sample_emu ops) ctx b = (Inr acc, b1)"
      "sa_transactions acc = [(5, sample_tx 5)]" "sa_ordered acc = [5]" "map fst (sa_results acc) = [5]"
    using sample_scheduled[of sample_codec ops ctx b] i by auto
  then obtain r where r: "sa_results acc = [(5, r)]" by (cases "sa_results acc") auto
  have f: "system_frame b b1" using executeScheduled_frame[of b sample_codec "sample_emu ops" ctx] s(1) by simp
  let ?n = "of_nat (length (pb_transactions (bc_pendingBlock b1))) + 1"
  obtain b2 where c: "executeSystemChunkTransaction sample_codec (sample_emu ops) ?n b1 =
     (Inr (sample_tx 7, \<lparr>itr_Output = sample_output, itr_Index = ?n\<rparr>), b2)"
    using sample_system_chunk by blast
  have g: "system_frame b b2" using system_frame_trans[OF f executeSystemChunk_frame[of b1 sample_codec "sample_emu ops" ?n]] c by simp
  have "pb_transactions (bc_pendingBlock b2) = pb_transactions (bc_pendingBlock b)" using system_frameD(7)[OF g] .
  then show ?thesis
    using assms s r c i
    by (auto simp add: prepare_commit_def commit_scheduled_def ctx_def[symmetric]
        Let_def commit_system_chunk_def pb_Finalize_def commit_args_of_def counts_match_def maps_Copy_def case_prod_unfold)
qed

section \<open>The chain of the emulator\<close>
section \<open>The chain of the emulator\<close>

context chain_store
begin

lemma inv_queries:
  assumes "bc_inv p rep b h" "em_store E = ops"
  shows "getLatestBlock E b = Inr (cb_block (last h))"
    "getBlockByHeight E n b = the_or (BlockNotFoundByHeightError n) (hist_block h n)"
    "Height (cb_block (last h)) = of_nat (length h - 1)" "pb_height (bc_pendingBlock b) = of_nat (length h)"
proof -
  have r: "rep (bc_storage b) h" and h: "h \<noteq> []" and l: "linked p h" and e: "extends_tip p h (bc_pendingBlock b)"
    using assms(1) by (simp_all add: bc_inv_def)
  show "getLatestBlock E b = Inr (cb_block (last h))"
    using latest[OF r h] assms(2) by (simp add: getLatestBlock_def)
  show "getBlockByHeight E n b = the_or (BlockNotFoundByHeightError n) (hist_block h n)"
    using by_height[OF r, of n] assms(2) by (cases "hist_block h n") (simp_all add: getBlockByHeight_def the_or_def)
  show t: "Height (cb_block (last h)) = of_nat (length h - 1)"
    using l h by (simp add: linked_def last_conv_nth)
  show "pb_height (bc_pendingBlock b) = of_nat (length h)"
    using e h t by (cases h) (simp_all add: extends_tip_def follows_def)
qed

end

lemma reaches_extends: "reaches p E admits c d \<Longrightarrow> \<exists>xs. snd d = snd c @ xs"
  by (induction rule: reaches.induct) auto


lemma sample_step:
  assumes b: "fresh b" "pb_height (bc_pendingBlock b) = 1" and g: "g = genesis_commit (Genesis sample_lib c) snap evs"
  shows "\<exists>b' a. reaches sample_codec sample_mem (\<lambda>_. True) (b, [g]) (b', [g, a])"
proof -
  have "pb_Empty (bc_pendingBlock b)" "pb_ExecutionComplete (bc_pendingBlock b)"
    "length (pb_transactions (bc_pendingBlock b)) = length (pb_transactionResults (bc_pendingBlock b))"
    using b(1) by (simp_all add: fresh_def pb_Empty_def pb_ExecutionComplete_def pb_Size_def)
  then obtain a b' where a0: "prepare_commit sample_codec sample_mem b = (Inr a, b')" "counts_match a"
      "cb_systemBodies a = [(5, sample_tx 5), (7, sample_tx 7)]"
    using sample_prepare[of b] b(1) unfolding fresh_def by blast
  have a: "prepare_commit sample_codec sample_mem b = (Inr a, b')" "counts_match a"
      "cb_collections a = []" "bodies_of a = [(5, sample_tx 5), (7, sample_tx 7)]"
    using a0 prepare_commit_args(2,3)[OF a0(1) exec_law_sample] b(1)
    by (simp_all add: bodies_of_def fresh_def pb_Collections_def)
  have at: "attempted sample_codec sample_mem (Commit (0, 0)) b = Some a" by (simp add: attempted_def a(1))
  have "Height (cb_block a) = 1" using prepare_commit_args(1)[OF a(1) exec_law_sample] b(2) by (simp add: pb_Block_def)
  moreover have "bodies_of g = []" "cb_collections g = []" by (simp_all add: g genesis_commit_def bodies_of_def)
  moreover have "Height (cb_block g) = 0" by (simp add: g genesis_commit_def Genesis_def)
  ultimately have "no_collision sample_codec [g] a"
    using a(3,4) by (simp add: no_collision_def sample_block_ID_def same_bodies_def same_collections_def)
  then have "safe_op sample_codec sample_mem (\<lambda>_. True) [g] (Commit (0, 0)) b"
    using b(1) by (simp add: safe_op_def at MaxViewIncrease_def pb_Size_def fresh_def)
  moreover have "committed sample_codec sample_mem (Commit (0, 0)) b = [a]" by (simp add: committed_def at a(2))
  ultimately show ?thesis using reaches_step[OF reaches_refl] by (metis append_Cons append_Nil)
qed

text \<open>C1: An emulator started on an empty in-memory store (with no contracts to deploy) and driven by any run of
  operations holds a chain that begins with the genesis block: blocks have consecutive heights, each names the ID of the
  one before it as its parent and raises the view by 1 to 3, the block lookups answer from exactly this chain,
  the latest block is its last, and the pending block has the next height. Assumed of the surroundings: the snapshot
  tree and the virtual machine keep their documented laws, random draws are in range, and identifiers do not
  collide.\<close>

theorem mem_chain_from_genesis:
  assumes "em_store E = memstore_ops p T" "tree_law T" "run_law E" "exec_law (em_exec E)" "snd (ws 0) < MaxViewIncrease"
    "defaultConfig (em_lib E) = Inr c" "cf_Contracts (fold (\<lambda>opt. opt) opts c) = []"
    "GetStore dflt (fold (\<lambda>opt. opt) opts c) = Inr ms_New" "New p E dflt ws opts = Inr b"
  shows "\<exists>g snap evs. g = genesis_commit (Genesis (em_lib E) (GetChainID (em_lib E) (bc_conf b))) snap evs \<and>
    (\<forall>b' h. reaches p E (\<lambda>_. True) (b, [g]) (b', h) \<longrightarrow>
       hd h = g \<and> linked p h \<and> bc_inv p (mem_rep p T) b' h \<and>
       getLatestBlock E b' = Inr (cb_block (last h)) \<and>
       (\<forall>n. getBlockByHeight E n b' = the_or (BlockNotFoundByHeightError n) (hist_block h n)) \<and>
       pb_height (bc_pendingBlock b') = of_nat (length h))"
proof -
  obtain g snap evs where g: "bc_inv p (mem_rep p T) b [g]"
      "g = genesis_commit (Genesis (em_lib E) (GetChainID (em_lib E) (bc_conf b))) snap evs"
    using mem.New_inv[OF assms(1,3,5,6) _ assms(8) mem_rep_New[OF assms(2)] _ assms(9)] assms(7) by auto
  have "hd h = g \<and> linked p h \<and> bc_inv p (mem_rep p T) b' h \<and>
       getLatestBlock E b' = Inr (cb_block (last h)) \<and>
       (\<forall>n. getBlockByHeight E n b' = the_or (BlockNotFoundByHeightError n) (hist_block h n)) \<and>
       pb_height (bc_pendingBlock b') = of_nat (length h)"
    if r: "reaches p E (\<lambda>_. True) (b, [g]) (b', h)" for b' h
  proof -
    have i: "bc_inv p (mem_rep p T) b' h" using mem.reaches_inv[OF r assms(1,4)] g(1) by simp
    moreover have "hd h = g" using reaches_extends[OF r] by auto
    ultimately show ?thesis using mem.inv_queries[OF i assms(1)] by (simp add: bc_inv_def)
  qed
  then show ?thesis using g(2) by blast
qed

theorem mem_chain_from_genesis_witness:
  "\<exists>b g a b'. New sample_codec sample_mem (Inr ms_New) (\<lambda>_. (0, 0)) [] = Inr b \<and>
     reaches sample_codec sample_mem (\<lambda>_. True) (b, [g]) (b', [g, a]) \<and>
     getBlockByHeight sample_mem 1 b' = Inr (cb_block a) \<and> ParentID (cb_block a) = 1 \<and>
     pb_height (bc_pendingBlock b') = 2"
proof -
  obtain b where b: "New sample_codec sample_mem (Inr ms_New) (\<lambda>_. (0, 0)) [] = Inr b" "fresh b"
    using sample_New by blast
  obtain c where c: "defaultConfig sample_lib = Inr c" "cf_Contracts c = []"
      "GetStore (Inr ms_New) c = Inr (ms_New :: (register_id \<times> bytes) list list memstore)"
    by (simp add: defaultConfig_def DefaultServiceKey_def GenerateDefaultServiceKey_def GetStore_def sample_lib_def)
  obtain g snap evs where g: "g = genesis_commit (Genesis sample_lib (GetChainID sample_lib (bc_conf b))) snap evs"
    and r: "\<And>b' h. reaches sample_codec sample_mem (\<lambda>_. True) (b, [g]) (b', h) \<Longrightarrow>
       linked sample_codec h \<and> getBlockByHeight sample_mem 1 b' = the_or (BlockNotFoundByHeightError 1) (hist_block h 1) \<and>
       pb_height (bc_pendingBlock b') = of_nat (length h)"
    using mem_chain_from_genesis[OF _ tree_law_sample run_law_sample exec_law_sample _ _ _ _ b(1), of c] c
    by (simp add: MaxViewIncrease_def) blast
  obtain b' a where s: "reaches sample_codec sample_mem (\<lambda>_. True) (b, [g]) (b', [g, a])"
    using sample_step[OF b(2) _ g] r[OF reaches_refl] by auto
  have "ParentID (cb_block a) = block_ID sample_codec (cb_block g)"
    using r[OF s] by (auto simp: linked_def follows_def)
  then show ?thesis
    using b(1) s r[OF s] by (fastforce simp: g genesis_commit_def Genesis_def sample_block_ID_def hist_block_def)
qed

section \<open>The chain in the SQLite store\<close>

abbreviation sqlite_rep :: "'x codec_scheme \<Rightarrow> sql_env \<Rightarrow> sqlite_store \<Rightarrow> history \<Rightarrow> bool" where
  "sqlite_rep p V \<equiv> default_rep p (sqlite_kv V) (sq_usable V) sq_slot sq_ver_below"

abbreviation sample_sq :: "(sqlite_store, sample_state) emu" where
  "sample_sq \<equiv> sample_emu (default_ops sample_codec (sqlite_kv sample_env))"

text \<open>C2: An emulator over the SQLite store that holds a linked chain keeps holding one, extended by
  exactly the commits the store accepted, through every run of operations: transactions added, executed and committed in any
  order and interleaving, failed commits, resets, reloads, scripts, and changes of clock, mining mode and debugging.
  The block lookups answer from this chain. Assumed: the database
  is usable, commits can be encoded, and identifiers do not collide.\<close>

theorem sqlite_chain_kept:
  assumes "reaches p E (default_admits p) (b, h) (b', h')" "em_store E = default_ops p (sqlite_kv V)"
    "exec_law (em_exec E)" "bc_inv p (sqlite_rep p V) b h"
  shows "bc_inv p (sqlite_rep p V) b' h' \<and> (\<exists>new. h' = h @ new) \<and>
    getLatestBlock E b' = Inr (cb_block (last h')) \<and>
    (\<forall>n. getBlockByHeight E n b' = the_or (BlockNotFoundByHeightError n) (hist_block h' n))"
proof -
  have i: "bc_inv p (sqlite_rep p V) b' h'" using sq.ds.reaches_inv[OF assms(1-3)] assms(4) by simp
  moreover have "\<exists>new. h' = h @ new" using reaches_extends[OF assms(1)] by simp
  ultimately show ?thesis using sq.ds.inv_queries[OF i assms(2)] by simp
qed

definition sample_conf :: "sqlite_store config" where
  "sample_conf = (projr (defaultConfig sample_lib))\<lparr>cf_ScheduledTransactionsEnabled := False\<rparr>"

definition sample_chain :: "(sqlite_store, sample_state) Blockchain" where
  "sample_chain =
     \<lparr>bc_storage = snd (CommitBlock sample_codec (sqlite_kv sample_env) (sample_commit 0) sample_sqlite),
      bc_pendingBlock = newPendingBlock sample_codec sample_exec (0, 0) (sample_block 0) (\<lambda>_. Inr []) (\<lambda>_. 0),
      bc_clock = (\<lambda>_. 0), bc_vmCtx = sample_ctx ''flow-emulator'', bc_transactionValidator = projr (configureTransactionValidator sample_sq sample_conf),
      bc_systemTransactions = Map.empty, bc_serviceKey = cf_ServiceKey sample_conf,
      bc_debugger = None, bc_activeDebuggingSession = False, bc_currentCode = '''',
      bc_currentScriptID = '''', bc_conf = sample_conf, bc_sourceFileMap = Map.empty,
      bc_LatestBlock = ZeroID,
      bc_computationReport = \<lparr>Scripts = Map.empty, Transactions = Map.empty\<rparr>,
      bc_published = 0\<rparr>"

definition sample_commit1 :: commit_args where
  "sample_commit1 = (sample_commit 1)\<lparr>cb_snapshot := \<lparr>WriteSet = []\<rparr>, cb_events := []\<rparr>"

lemma sample_chain_inv: "bc_inv sample_codec (sqlite_rep sample_codec sample_env) sample_chain [sample_commit 0]"
proof -
  have "sqlite_rep sample_codec sample_env (bc_storage sample_chain) [sample_commit 0]"
    using sq.ds.commit[OF sample_rep_empty sample_follow(1) sample_admits] by (simp add: sample_chain_def)
  moreover have "extends_tip sample_codec [sample_commit 0] (bc_pendingBlock sample_chain)"
    using new_extends_tip[of "(0, 0)" sample_codec "[sample_commit 0]" sample_exec]
    by (simp add: sample_chain_def MaxViewIncrease_def sample_commit_def)
  ultimately show ?thesis
    using sample_follow(1)
    by (simp add: bc_inv_def linked_def results_known_def valid_chain_def) (simp add: sample_commit_def sample_block_def)
qed

lemma sample_chain_prepare: "fst (prepare_commit sample_codec sample_sq sample_chain) = Inr sample_commit1"
  by (simp add: prepare_commit_def commit_scheduled_def commit_system_chunk_def executeSystemChunkTransaction_def
      systemChunkTransaction_def vm_Run_def Let_def sample_chain_def newPendingBlock_def pb_ExecutionStarted_def
      pb_Empty_def pb_Finalize_def commit_args_of_def sample_conf_def case_prod_unfold)
    (simp add: sample_exec_def sample_commit1_def sample_commit_def sealed_result_def pb_Block_def pb_ID_def
      pb_Collections_def sample_block_def sample_result_def sample_tx_ID_def sample_block_ID_def sample_lib_def
      sample_output_def sample_tx_def)

lemma sample_commit1_admits: "default_admits sample_codec sample_commit1"
  using sample_admits[of 1] by (simp add: default_admits_def sample_commit1_def bodies_of_def SystemTransactions_of_def)
    (simp add: sample_codec_def rt_def of_be_be_bytes)

lemma sample_chain_step:
  "reaches sample_codec sample_sq (default_admits sample_codec) (sample_chain, [sample_commit 0])
     (perform sample_codec sample_sq (Commit (0, 0)) sample_chain, [sample_commit 0, sample_commit1])"
proof -
  let ?op = "Commit (0, 0)"
  have at: "attempted sample_codec sample_sq ?op sample_chain = Some sample_commit1"
    using sample_chain_prepare by (simp add: attempted_def)
  have com: "committed sample_codec sample_sq ?op sample_chain = [sample_commit1]"
    by (simp add: committed_def at counts_match_def sample_commit1_def sample_commit_def)
  have "no_collision sample_codec [sample_commit 0] sample_commit1"
    by (simp add: no_collision_def sample_commit1_def sample_commit_def sample_block_def sample_block_ID_def
        same_bodies_def same_collections_def bodies_of_def)
  moreover have "pb_Size (bc_pendingBlock sample_chain) = 0"
    by (simp add: pb_Size_def sample_chain_def newPendingBlock_def)
  ultimately have "safe_op sample_codec sample_sq (default_admits sample_codec) [sample_commit 0] ?op sample_chain"
    using sample_commit1_admits by (simp add: safe_op_def at MaxViewIncrease_def)
  then show ?thesis
    using reaches_step[OF reaches_refl, of sample_codec sample_sq "default_admits sample_codec" "[sample_commit 0]" ?op sample_chain] com
    by simp
qed

theorem sqlite_chain_kept_witness:
  "bc_inv sample_codec (sqlite_rep sample_codec sample_env) sample_chain [sample_commit 0] \<and>
   getBlockByHeight sample_sq 1 (perform sample_codec sample_sq (Commit (0, 0)) sample_chain) = Inr (sample_block 1)"
  using sqlite_chain_kept[OF sample_chain_step _ exec_law_sample sample_chain_inv] sample_chain_inv
  by (simp add: hist_block_def sample_commit1_def sample_commit_def the_or_def)

end
