(* ===== verification/Emulator_Exec.thy ===== *)
theory Emulator_Exec
  imports Emulator_Chain
begin

text \<open>
  What the operations of the emulated blockchain do: executing a block runs its
  transactions once each and in order, a commit stores exactly the
  pending block, a refused operation leaves no trace, and scripts are
  read-only.
\<close>

section \<open>Executing a block\<close>

text \<open>Every transaction passed so far has one result, in order, with its position as index.\<close>

definition pb_recorded :: "'ls pendingBlock \<Rightarrow> bool" where
  "pb_recorded b \<longleftrightarrow>
     map (\<lambda>(i, r). (i, itr_Index r)) (pb_transactionResults b) =
     map (\<lambda>n. (pb_transactionIDs b ! n, of_nat n)) [0 ..< unat (pb_index b)]"

lemma recorded_new [simp]: "pb_recorded (newPendingBlock p X w prev led clk)"
  by (simp add: pb_recorded_def newPendingBlock_def split: prod.split)

lemma recorded_Add:
  assumes "pb_recorded b" "pb_index b = 0" shows "pb_recorded (pb_AddTransaction p tx b)"
  using assms by (simp add: pb_recorded_def pb_AddTransaction_def)

lemma recorded_keys:
  assumes "pb_recorded b" "pb_inv p b"
  shows "map fst (pb_transactionResults b) = take (unat (pb_index b)) (pb_transactionIDs b)"
proof -
  have "map fst (map (\<lambda>(i, r). (i, itr_Index r)) (pb_transactionResults b)) =
      map fst (map (\<lambda>n. (pb_transactionIDs b ! n, of_nat n :: u32)) [0 ..< unat (pb_index b)])"
    using assms(1) by (simp only: pb_recorded_def)
  then have "map fst (pb_transactionResults b) = map ((!) (pb_transactionIDs b)) [0 ..< unat (pb_index b)]"
    by (simp add: comp_def case_prod_unfold)
  moreover have "unat (pb_index b) \<le> length (pb_transactionIDs b)" using assms(2) by (simp add: pb_inv_def)
  ultimately show ?thesis by (simp add: list_eq_iff_nth_eq)
qed

lemma recorded_Execute:
  assumes inv: "pb_inv p b" and more: "\<not> pb_ExecutionComplete b" and rec: "pb_recorded b"
    and ok: "pb_ExecuteNextTransaction p X run b = (Inr out, b')"
  shows "pb_recorded b'"
proof -
  note tx = pb_NextTransaction_eq[OF inv more]
  let ?t = "snd (pb_transactions b ! unat (pb_index b))"
  have b': "b' = snd (pb_ExecuteNextTransaction p X run b)" using ok by simp
  have "pb_transactionIDs b ! unat (pb_index b) \<notin> set (take (unat (pb_index b)) (pb_transactionIDs b))"
    using inv tx(3) by (intro next_not_passed) (auto simp: pb_inv_def)
  then have "tx_ID p ?t \<notin> fst ` set (pb_transactionResults b)"
    using recorded_keys[OF rec inv] tx(2) by (metis list.set_map)
  then have "pb_transactionResults b' = pb_transactionResults b @ [(tx_ID p ?t, \<lparr>itr_Output = out, itr_Index = pb_index b\<rparr>)]"
    using pb_Execute_results[OF tx(1), of p X run] ok by (simp add: update_snoc)
  then show ?thesis
    using rec tx(2) by (simp add: pb_recorded_def b' step_index[OF inv more])
qed

lemma finish_ID:
  "finish_transaction E i t l out b = (Inr r, b') \<Longrightarrow> tr_TransactionID r = i"
  by (auto simp: finish_transaction_def VMTransactionResultToEmulator_def FlowIdentifierToSDK_def bindE_eq_Inr bindR_eq_Inr
      split: sum.splits option.splits)

lemma executeNext_step:
  assumes "executeNextTransaction p E ctx b = (Inr r, b')" "pb_inv p (bc_pendingBlock b)" "pb_recorded (bc_pendingBlock b)"
  shows "pb_inv p (bc_pendingBlock b')" "pb_recorded (bc_pendingBlock b')"
    "pb_transactionIDs (bc_pendingBlock b') = pb_transactionIDs (bc_pendingBlock b)"
    "tr_TransactionID r = pb_transactionIDs (bc_pendingBlock b) ! unat (pb_index (bc_pendingBlock b))"
    "unat (pb_index (bc_pendingBlock b')) = Suc (unat (pb_index (bc_pendingBlock b)))"
    "unat (pb_index (bc_pendingBlock b)) < length (pb_transactionIDs (bc_pendingBlock b))"
proof -
  obtain run out where more: "\<not> pb_ExecutionComplete (bc_pendingBlock b)"
    and step: "pb_ExecuteNextTransaction p (em_exec E) run (bc_pendingBlock b) = (Inr out, bc_pendingBlock b')"
    using executeNext_ok[OF assms(1)] by blast
  have b': "bc_pendingBlock b' = snd (pb_ExecuteNextTransaction p (em_exec E) run (bc_pendingBlock b))"
    using step by simp
  note tx = pb_NextTransaction_eq[OF assms(2) more]
  show "pb_inv p (bc_pendingBlock b')" unfolding b' by (rule pb_inv_Execute[OF assms(2) more])
  show "pb_recorded (bc_pendingBlock b')" by (rule recorded_Execute[OF assms(2) more assms(3) step])
  show "pb_transactionIDs (bc_pendingBlock b') = pb_transactionIDs (bc_pendingBlock b)"
    "unat (pb_index (bc_pendingBlock b')) = Suc (unat (pb_index (bc_pendingBlock b)))"
    unfolding b' using step_index[OF assms(2) more] by simp_all
  show "unat (pb_index (bc_pendingBlock b)) < length (pb_transactionIDs (bc_pendingBlock b))" by (rule tx(3))
  show "tr_TransactionID r = pb_transactionIDs (bc_pendingBlock b) ! unat (pb_index (bc_pendingBlock b))"
  proof -
    have "\<exists>i t l out c. finish_transaction E i t l out c = (Inr r, b') \<and>
        i = pb_transactionIDs (bc_pendingBlock b) ! unat (pb_index (bc_pendingBlock b))"
      using assms(1) more tx(1,2)
      by (simp add: executeNextTransaction_def Let_def case_prod_unfold split: sum.splits) blast
    then show ?thesis using finish_ID by blast
  qed
qed

lemma loop_in_order:
  "executeBlock_loop p E ctx rs0 b = ((rs, None), b') \<Longrightarrow> pb_inv p (bc_pendingBlock b) \<Longrightarrow> pb_recorded (bc_pendingBlock b) \<Longrightarrow>
   map tr_TransactionID rs = map tr_TransactionID rs0 @ drop (unat (pb_index (bc_pendingBlock b))) (pb_transactionIDs (bc_pendingBlock b)) \<and>
   pb_transactionIDs (bc_pendingBlock b') = pb_transactionIDs (bc_pendingBlock b) \<and>
   pb_inv p (bc_pendingBlock b') \<and> pb_recorded (bc_pendingBlock b') \<and> pb_ExecutionComplete (bc_pendingBlock b')"
proof (induction p E ctx rs0 b rule: executeBlock_loop.induct)
  case (1 p E ctx rs0 b)
  show ?case
  proof (cases "\<not> pb_ExecutionComplete (bc_pendingBlock b) \<and> \<not> pb_Empty (bc_pendingBlock b)")
    case True
    then obtain r b1 where s: "executeNextTransaction p E ctx b = (Inr r, b1)"
      and l: "executeBlock_loop p E ctx (rs0 @ [r]) b1 = ((rs, None), b')"
    proof (cases "executeNextTransaction p E ctx b")
      case (Pair r b1)
      then show ?thesis using that "1.prems"(1) True
        by (cases r) (simp_all add: executeBlock_loop.simps[of p E ctx rs0 b])
    qed
    note st = executeNext_step[OF s "1.prems"(2,3)]
    show ?thesis using "1.IH"[OF True s[symmetric] refl l st(1,2)] st(3-6)
      by (simp add: Cons_nth_drop_Suc)
  next
    case False
    then have "rs = rs0" "b' = b" using "1.prems"(1) by (auto simp: executeBlock_loop.simps[of p E ctx rs0 b])
    moreover have "unat (pb_index (bc_pendingBlock b)) = length (pb_transactionIDs (bc_pendingBlock b))"
      using False pb_ExecutionComplete_iff[OF "1.prems"(2)] "1.prems"(2) by (auto simp: pb_Empty_def pb_inv_def)
    ultimately show ?thesis using "1.prems"(2,3) pb_ExecutionComplete_iff[OF "1.prems"(2)] by simp
  qed
qed


lemma loop_keeps [simp]: "bc_storage (snd (executeBlock_loop p E ctx rs b)) = bc_storage b \<and>
    bc_conf (snd (executeBlock_loop p E ctx rs b)) = bc_conf b"
proof (induction p E ctx rs b rule: executeBlock_loop.induct)
  case (1 p E ctx rs b)
  obtain r b1 where s: "executeNextTransaction p E ctx b = (r, b1)" by fastforce
  then have "bc_storage b1 = bc_storage b" "bc_conf b1 = bc_conf b" using executeNext_keeps(1,2)[of p E ctx b] by simp_all
  then show ?case using "1.IH" s
    by (cases r) (auto simp: executeBlock_loop.simps[of p E ctx rs b])
qed

lemma executeNext_transactions [simp]:
  "pb_transactions (bc_pendingBlock (snd (executeNextTransaction p E ctx b))) = pb_transactions (bc_pendingBlock b)"
  using executeNext_pending[of p E ctx b] by auto

lemma loop_transactions [simp]:
  "pb_transactions (bc_pendingBlock (snd (executeBlock_loop p E ctx rs b))) = pb_transactions (bc_pendingBlock b)"
proof (induction p E ctx rs b rule: executeBlock_loop.induct)
  case (1 p E ctx rs b)
  obtain r b1 where s: "executeNextTransaction p E ctx b = (r, b1)" by fastforce
  then show ?case using "1.IH" executeNext_transactions[of p E ctx b]
    by (cases r) (auto simp: executeBlock_loop.simps[of p E ctx rs b])
qed

lemma executeBlock_transactions [simp]:
  "pb_transactions (bc_pendingBlock (snd (executeBlock p E b))) = pb_transactions (bc_pendingBlock b)"
  unfolding executeBlock_def setFVMContextFromHeader_def Let_def prod.case by simp

lemma executeBlock_storage [simp]:
  "bc_storage (snd (executeBlock p E b)) = bc_storage b" "bc_conf (snd (executeBlock p E b)) = bc_conf b"
  unfolding executeBlock_def setFVMContextFromHeader_def Let_def prod.case by simp_all

text \<open>
  A machine that never fails fatally: a failing transaction is an output with an error, not an error of the run; merges of
  its write sets succeed, event payloads decode, and the key index of every signature names a key of the account.
\<close>

definition machine_total :: "('s, 'ls) emu \<Rightarrow> bool" where
  "machine_total E \<longleftrightarrow>
     (\<forall>bs i ctx proc led. is_ok (em_Run E bs i ctx proc led)) \<and>
     (\<forall>snap ls. is_ok (fst (es_Merge (em_exec E) snap ls))) \<and>
     (\<forall>i out. is_ok (VMTransactionResultToEmulator (em_ccf E) i out)) \<and>
     (\<forall>err tx b. is_ok (debugSignatureError E err tx b))"

lemma is_ok_obtain: "is_ok r \<longleftrightarrow> (\<exists>x. r = Inr x)"
  by (cases r) simp_all

lemma report_keeps_session [simp]:
  "bc_activeDebuggingSession (report_transaction r t out b) = bc_activeDebuggingSession b"
  by (simp add: report_transaction_def)

lemma finish_total:
  assumes "machine_total E"
  shows "\<exists>r b'. finish_transaction E i t l out b = (Inr r, b') \<and> bc_activeDebuggingSession b' = bc_activeDebuggingSession b"
proof -
  obtain tr where tr: "VMTransactionResultToEmulator (em_ccf E) i out = Inr tr"
    using assms unfolding machine_total_def is_ok_obtain by metis
  define d where "d err = projr (debugSignatureError E err t b)" for err
  have d: "debugSignatureError E err t b = Inr (d err)" for err
    using assms unfolding machine_total_def is_ok_obtain d_def by (metis sum.sel(2))
  have n: "\<exists>b'. note_source_file l loc b = (Inr (), b') \<and> bc_activeDebuggingSession b' = bc_activeDebuggingSession b" for loc
  proof (cases "Contains l PragmaSourceFile")
    case True
    then obtain f where "first_argument l PragmaSourceFile = Inr f" using first_argument_ok by blast
    then show ?thesis by (simp add: note_source_file_def)
  qed (simp add: note_source_file_def)

  define tr' where "tr' = (case tr_Error tr of None \<Rightarrow> tr | Some err \<Rightarrow> tr\<lparr>tr_Debug := Some (d err)\<rparr>)"
  obtain b' where b': "note_source_file l (TransactionLocation (tr_TransactionID tr')) b = (Inr (), b')"
      "bc_activeDebuggingSession b' = bc_activeDebuggingSession b" using n by blast
  have "(case tr_Error tr of None \<Rightarrow> Inr tr | Some err \<Rightarrow> bindR (debugSignatureError E err t b) (\<lambda>d. Inr (tr\<lparr>tr_Debug := Some d\<rparr>))) = Inr tr'"
    by (simp add: tr'_def d split: option.split)
  then show ?thesis using b' by (simp add: finish_transaction_def tr)
qed

lemma executeNext_total:
  assumes "machine_total E" "pb_inv p (bc_pendingBlock b)" "\<not> pb_ExecutionComplete (bc_pendingBlock b)" "\<not> bc_activeDebuggingSession b"
  shows "\<exists>r b'. executeNextTransaction p E ctx b = (Inr r, b') \<and> \<not> bc_activeDebuggingSession b'"
proof -
  let ?t = "snd (pb_transactions (bc_pendingBlock b) ! unat (pb_index (bc_pendingBlock b)))"
  have tx: "pb_NextTransaction (bc_pendingBlock b) = Some ?t" by (rule pb_NextTransaction_eq(1)[OF assms(2,3)])
  define c where "c = b\<lparr>bc_currentCode := string_of_bytes (Script ?t), bc_currentScriptID := ID_String (tx_ID p ?t)\<rparr>"
  have "\<exists>out pb. pb_ExecuteNextTransaction p (em_exec E) (vm_Run p E c ctx) (bc_pendingBlock b) = (Inr out, pb)"
  proof -
    have run: "\<exists>snap out. vm_Run p E c ctx q led = Inr (snap, out)" for q led
      using assms(1) unfolding machine_total_def is_ok_obtain vm_Run_def by (metis surj_pair)
    obtain snap out where "vm_Run p E c ctx (TransactionProcedure ?t (pb_index (bc_pendingBlock b)))
        (es_Get (em_exec E) (pb_ledgerState (bc_pendingBlock b))) = Inr (snap, out)" using run by blast
    moreover obtain ls where "es_Merge (em_exec E) snap (pb_ledgerState (bc_pendingBlock b)) = (Inr (), ls)"
      using assms(1) unfolding machine_total_def is_ok_obtain by (metis prod.collapse old.unit.exhaust)
    ultimately show ?thesis by (simp add: pb_ExecuteNextTransaction_def tx Let_def)
  qed
  then obtain out pb where x: "pb_ExecuteNextTransaction p (em_exec E) (vm_Run p E c ctx) (bc_pendingBlock b) = (Inr out, pb)"
    by blast
  let ?l = "ExtractPragmas (em_ParseProgram E) (string_of_bytes (Script ?t))"
  obtain r b' where "finish_transaction E (tx_ID p ?t) ?t ?l out (c\<lparr>bc_pendingBlock := pb\<rparr>) = (Inr r, b')"
      "\<not> bc_activeDebuggingSession b'"
    using finish_total[OF assms(1), of "tx_ID p ?t" ?t ?l out "c\<lparr>bc_pendingBlock := pb\<rparr>"] assms(4) by (auto simp: c_def)
  then show ?thesis using assms(3,4) tx x
    by (simp add: executeNextTransaction_def request_pause_def Let_def c_def)
qed

lemma loop_total:
  "machine_total E \<Longrightarrow> pb_inv p (bc_pendingBlock b) \<Longrightarrow> pb_recorded (bc_pendingBlock b) \<Longrightarrow> \<not> bc_activeDebuggingSession b \<Longrightarrow>
   \<exists>rs' b'. executeBlock_loop p E ctx rs b = ((rs', None), b')"
proof (induction p E ctx rs b rule: executeBlock_loop.induct)
  case (1 p E ctx rs b)
  show ?case
  proof (cases "\<not> pb_ExecutionComplete (bc_pendingBlock b) \<and> \<not> pb_Empty (bc_pendingBlock b)")
    case True
    obtain r b1 where s: "executeNextTransaction p E ctx b = (Inr r, b1)" "\<not> bc_activeDebuggingSession b1"
      using executeNext_total[OF "1.prems"(1,2) _ "1.prems"(4)] True by blast
    note st = executeNext_step[OF s(1) "1.prems"(2,3)]
    show ?thesis using "1.IH"[OF True s(1)[symmetric] refl "1.prems"(1) st(1,2) s(2)] True s(1)
      by (simp add: executeBlock_loop.simps[of p E ctx rs b])
  qed (auto simp: executeBlock_loop.simps[of p E ctx rs b])
qed

lemma executeBlock_total:
  assumes "machine_total E" "pb_inv p (bc_pendingBlock b)" "pb_recorded (bc_pendingBlock b)" "\<not> bc_activeDebuggingSession b"
    "pb_ExecutionComplete (bc_pendingBlock b) \<longrightarrow> pb_Empty (bc_pendingBlock b)"
  shows "\<exists>rs b'. executeBlock p E b = ((rs, None), b')"
proof -
  let ?ctx = "(bc_vmCtx b)\<lparr>ctx_BlockHeader := Some (ToHeader p (pb_Block p (em_lib E) (bc_pendingBlock b)))\<rparr>"
  have "\<exists>rs b'. executeBlock_loop p E ?ctx [] (b\<lparr>bc_vmCtx := ?ctx\<rparr>) = ((rs, None), b')"
    using assms by (intro loop_total) simp_all
  then show ?thesis using assms(5)
    unfolding executeBlock_def setFVMContextFromHeader_def Let_def prod.case by simp
qed

section \<open>Concrete blocks\<close>

lemma machine_total_sample: "machine_total (sample_emu ops)"
proof -
  have "\<exists>r. mapR (FlowEventToSDK sample_ccf) es = Inr r" for es
    by (induction es) (auto simp: FlowEventToSDK_def sample_ccf_def is_event_def)
  then obtain f where "mapR (FlowEventToSDK sample_ccf) es = Inr (f es)" for es by metis
  then have "is_ok (VMTransactionResultToEmulator (em_ccf (sample_emu ops)) i out)" for i out
    by (simp add: VMTransactionResultToEmulator_def FlowEventsToSDK_def sample_emu_def)
  moreover have "is_ok (debugSignatureError (sample_emu ops) err tx b)" for err tx b
    by (simp add: debugSignatureError_def sample_emu_def)
  ultimately show ?thesis by (auto simp: machine_total_def sample_exec_def)
qed

text \<open>A pending block with two transactions on top of a stored genesis block.\<close>

definition sample_pending :: "(sqlite_store, sample_state) Blockchain" where
  "sample_pending = sample_chain\<lparr>bc_pendingBlock :=
     pb_AddTransaction sample_codec (sample_tx 4) (pb_AddTransaction sample_codec (sample_tx 3) (bc_pendingBlock sample_chain))\<rparr>"

lemma sample_pending_simps [simp]:
  "pb_transactionIDs (bc_pendingBlock sample_pending) = [3, 4]" "pb_index (bc_pendingBlock sample_pending) = 0"
  "pb_transactions (bc_pendingBlock sample_pending) = [(3, sample_tx 3), (4, sample_tx 4)]"
  "pb_transactionResults (bc_pendingBlock sample_pending) = []" "\<not> bc_activeDebuggingSession sample_pending"
  by (simp_all add: sample_pending_def sample_chain_def newPendingBlock_def pb_AddTransaction_def sample_tx_ID_def sample_tx_def)

lemma sample_pending_ok:
  "pb_inv sample_codec (bc_pendingBlock sample_pending)" "pb_recorded (bc_pendingBlock sample_pending)"
  "\<not> pb_ExecutionComplete (bc_pendingBlock sample_pending)" "\<not> pb_Empty (bc_pendingBlock sample_pending)"
  by (simp_all add: pb_inv_def pb_recorded_def pb_ExecutionComplete_def pb_Size_def pb_Empty_def sample_tx_ID_def)
    (simp_all add: sample_tx_def)




section \<open>Adding and committing\<close>

lemma map_of_agree:
  assumes "(i, t) \<in> set xs" "\<forall>(j, u) \<in> set xs. j = i \<longrightarrow> u = t" shows "map_of xs i = Some t"
  using assms by (induction xs) auto

lemma safe_commitD:
  "safe_op p E admits h (Commit w) b \<Longrightarrow> fst (prepare_commit p E b) = Inr a \<Longrightarrow>
   admits a \<and> no_collision p h a \<and> Suc (length h) < 2 ^ 63"
  by (simp add: safe_op_def attempted_def)

context chain_store
begin

lemma add_spec:
  assumes "em_store E = ops" "bc_inv p rep b h"
  shows "addTransaction p E tx b =
    (if pb_index (bc_pendingBlock b) \<noteq> 0
     then (Inl (PendingBlockMidExecutionError (pb_ID p (em_lib E) (bc_pendingBlock b))), b)
     else if tx_ID p tx \<in> set (pb_transactionIDs (bc_pendingBlock b)) \<or> hist_transaction h (tx_ID p tx) \<noteq> None
     then (Inl (DuplicateTransactionError (tx_ID p tx)), b)
     else case em_Validate E (bc_transactionValidator b) (GetChainID (em_lib E) (bc_conf b))
                 (newBlocks p ops (bc_storage b)) tx of
            Inl err \<Rightarrow> (Inl (ConvertAccessError err), b)
          | Inr _ \<Rightarrow> (Inr (), b\<lparr>bc_pendingBlock := (bc_pendingBlock b)
              \<lparr>pb_transactionIDs := pb_transactionIDs (bc_pendingBlock b) @ [tx_ID p tx],
               pb_transactions := pb_transactions (bc_pendingBlock b) @ [(tx_ID p tx, tx)]\<rparr>\<rparr>))"
proof -
  have r: "rep (bc_storage b) h" and pb: "pb_inv p (bc_pendingBlock b)"
    using assms(2) by (simp_all add: bc_inv_def extends_tip_def)
  have "set (pb_transactionIDs (bc_pendingBlock b)) = fst ` set (pb_transactions (bc_pendingBlock b))"
    using pb by (metis pb_inv_def set_map)
  then have c: "pb_ContainsTransaction (tx_ID p tx) (bc_pendingBlock b) \<longleftrightarrow> tx_ID p tx \<in> set (pb_transactionIDs (bc_pendingBlock b))"
    by (simp add: pb_ContainsTransaction_def map_of_eq_None_iff)
  then have u: "pb_AddTransaction p tx (bc_pendingBlock b) = (bc_pendingBlock b)
      \<lparr>pb_transactionIDs := pb_transactionIDs (bc_pendingBlock b) @ [tx_ID p tx],
       pb_transactions := pb_transactions (bc_pendingBlock b) @ [(tx_ID p tx, tx)]\<rparr>"
    if "tx_ID p tx \<notin> set (pb_transactionIDs (bc_pendingBlock b))"
    using that by (simp add: pb_AddTransaction_def pb_ContainsTransaction_def map_of_eq_None_iff update_snoc)
  show ?thesis using transaction[OF r, of "tx_ID p tx"] u assms(1)
    by (cases "hist_transaction h (tx_ID p tx)")
      (simp_all add: addTransaction_def c pb_ExecutionStarted_def word_gt_0 the_or_def split: sum.split)
qed

lemma commit_ok:
  assumes E: "em_store E = ops" and law: "exec_law (em_exec E)" and inv: "bc_inv p rep b h"
    and safe: "\<And>a. fst (prepare_commit p E b) = Inr a \<Longrightarrow> admits a \<and> no_collision p h a \<and> Suc (length h) < 2 ^ 63" and ok: "commitBlock p E w b = (Inr blk, b')"
  shows "\<exists>a led. fst (prepare_commit p E b) = Inr a \<and> counts_match a \<and> blk = cb_block a \<and> may_follow p h a \<and>
    rep (bc_storage b') (h @ [a]) \<and> bc_published b' = Suc (bc_published b) \<and>
    bc_pendingBlock b' = newPendingBlock p (em_exec E) w blk led (bc_clock b)"
proof -
  obtain a b1 where prep: "prepare_commit p E b = (Inr a, b1)"
    using ok by (auto simp: commitBlock_def bindE_eq_Inr)
  have f: "system_frame b b1" using prepare_commit_frame[of b p E] prep by simp
  have st: "store_block p E w a b1 = (Inr blk, b')" using ok prep by (simp add: commitBlock_def)
  have c: "counts_match a" using store_block_rejects[OF E, of a w b1] st by (cases "counts_match a") auto
  have s: "admits a" "no_collision p h a" "Suc (length h) < 2 ^ 63"
    using safe prep by auto
  have mf: "may_follow p h a" by (rule commit_may_follow[OF prep law inv s(2,3) c])
  have "rep (bc_storage b1) h" using inv system_frameD(1)[OF f] by (simp add: bc_inv_def)
  then obtain s' led where "store_block p E w a b1 = (Inr (cb_block a), b1\<lparr>bc_storage := s', bc_published := Suc (bc_published b1),
      bc_pendingBlock := newPendingBlock p (em_exec E) w (cb_block a) led (bc_clock b1),
      bc_LatestBlock := block_ID p (cb_block a)\<rparr>)" "rep s' (h @ [a])"
    using store_block_ok[OF E _ mf s(1)] by blast
  moreover have "bc_published b1 = bc_published b" using f by (auto simp: system_frame_def)
  ultimately show ?thesis using st prep c mf system_frameD(3)[OF f] by auto
qed

lemma commit_succeeds:
  assumes E: "em_store E = ops" and law: "exec_law (em_exec E)" and inv: "bc_inv p rep b h"
    and safe: "\<And>a. fst (prepare_commit p E b) = Inr a \<Longrightarrow> admits a \<and> no_collision p h a \<and> Suc (length h) < 2 ^ 63" and prep: "prepare_commit p E b = (Inr a, b1)" and c: "counts_match a"
  shows "\<exists>b'. commitBlock p E w b = (Inr (cb_block a), b')"
proof -
  have s: "admits a" "no_collision p h a" "Suc (length h) < 2 ^ 63"
    using safe prep by auto
  have mf: "may_follow p h a" by (rule commit_may_follow[OF prep law inv s(2,3) c])
  have f: "system_frame b b1" using prepare_commit_frame[of b p E] prep by simp
  have "rep (bc_storage b1) h" using inv system_frameD(1)[OF f] by (simp add: bc_inv_def)
  then show ?thesis using store_block_ok[OF E _ mf s(1), of b1 w] prep by (auto simp: commitBlock_def)
qed

lemma commit_readable:
  assumes E: "em_store E = ops" and law: "exec_law (em_exec E)" and inv: "bc_inv p rep b h"
    and safe: "\<And>a. fst (prepare_commit p E b) = Inr a \<Longrightarrow> admits a \<and> no_collision p h a \<and> Suc (length h) < 2 ^ 63" and ok: "commitBlock p E w b = (Inr blk, b')"
    and t: "(i, t) \<in> set (pb_transactions (bc_pendingBlock b))"
  shows "st_TransactionByID ops i (bc_storage b') = Inr t \<and>
    (\<exists>r. (i, r) \<in> set (pb_transactionResults (bc_pendingBlock b)) \<and>
       st_TransactionResultByID ops i (bc_storage b') = Inr (sealed_result (block_ID p blk) (Height blk)
         (collectionID_of p (pb_Collections (bc_pendingBlock b))) (itr_Output r)))"
proof -
  obtain a b1 where prep: "prepare_commit p E b = (Inr a, b1)"
    using ok by (auto simp: commitBlock_def bindE_eq_Inr)
  obtain c: "counts_match a" and blk: "blk = cb_block a" and mf: "may_follow p h a" and rep: "rep (bc_storage b') (h @ [a])"
    using commit_ok[OF E law inv safe ok] prep by auto
  note a = prepare_commit_args[OF prep law]
  have pb: "pb_inv p (bc_pendingBlock b)" using inv by (simp add: bc_inv_def extends_tip_def)
  have "(i, t) \<in> set (bodies_of a)" using t a(3) by (simp add: bodies_of_def)
  then have "map_of (rev (bodies_of a)) i = Some t"
    using may_followD(5)[OF mf] by (intro map_of_agree) (fastforce simp: same_bodies_def)+
  then have body: "hist_transaction (h @ [a]) i = Some t" by (simp add: map_add_def)
  let ?ks = "map fst (pb_transactionResults (bc_pendingBlock b))" and ?ids = "pb_transactionIDs (bc_pendingBlock b)"
  have n: "length (pb_transactions (bc_pendingBlock b)) = length (pb_transactionResults (bc_pendingBlock b))"
    using c a(3) arg_cong[OF a(4), of length] by (simp add: counts_match_def)
  have ids: "map fst (pb_transactions (bc_pendingBlock b)) = ?ids" "distinct ?ids" "distinct ?ks"
    "set ?ks \<subseteq> set (take (unat (pb_index (bc_pendingBlock b))) ?ids)"
    using pb unfolding pb_inv_def by blast+
  have "set ?ks \<subseteq> set ?ids" using ids(4) set_take_subset by fast
  moreover have "card (set ?ks) = card (set ?ids)"
    unfolding distinct_card[OF ids(2)] distinct_card[OF ids(3)] using n ids(1) by (metis length_map)
  ultimately have "set ?ks = set ?ids" by (intro card_subset_eq) simp_all
  moreover have "i \<in> set (map fst (pb_transactions (bc_pendingBlock b)))" using t by force
  ultimately have "i \<in> set ?ks" unfolding ids(1) by simp
  then obtain r where r: "(i, r) \<in> set (pb_transactionResults (bc_pendingBlock b))" by auto
  let ?r = "sealed_result (block_ID p blk) (Height blk) (collectionID_of p (pb_Collections (bc_pendingBlock b))) (itr_Output r)"
  have "(i, ?r) \<in> set (cb_results a)"
    unfolding a(7) set_map a(2) blk
    using imageI[OF r, of "\<lambda>(k, r). (k, sealed_result (block_ID p (cb_block a)) (Height (cb_block a))
      (collectionID_of p (pb_Collections (bc_pendingBlock b))) (itr_Output r))"] by simp
  moreover have "distinct (map fst (cb_results a))" using ids(3) a(4) by simp
  ultimately have "map_of (rev (cb_results a)) i = Some ?r"
    by (intro map_of_is_SomeI) (simp_all flip: rev_map)
  then have res: "hist_result (h @ [a]) i = Some ?r" by (simp add: map_add_def)
  show ?thesis using transaction[OF rep, of i, unfolded body] tx_result[OF rep, of i, unfolded res] r
    by (auto simp: the_or_def)
qed

lemma send_mined:
  assumes E: "em_store E = ops" and law: "exec_law (em_exec E)" and inv: "bc_inv p rep b h"
    and safe: "safe_op p E admits h (Send w tx) b" and mine: "cf_AutoMine (bc_conf b)"
    and ok: "SendTransaction p E w tx b = (Inr (), b')"
  shows "\<exists>blk out. getLatestBlock E b' = Inr blk \<and> st_TransactionByID ops (tx_ID p tx) (bc_storage b') = Inr tx \<and>
    st_TransactionResultByID ops (tx_ID p tx) (bc_storage b') = Inr (sealed_result (block_ID p blk) (Height blk)
      (collectionID_of p [pb_transactionIDs (bc_pendingBlock b) @ [tx_ID p tx]]) out)"
proof -
  obtain b1 where add: "addTransaction p E tx b = (Inr (), b1)" using ok by (auto simp: SendTransaction_def bindE_eq_Inr)
  have new: "\<not> pb_ContainsTransaction (tx_ID p tx) (bc_pendingBlock b)"
    and b1: "b1 = b\<lparr>bc_pendingBlock := pb_AddTransaction p tx (bc_pendingBlock b)\<rparr>"
    using add by (auto simp: addTransaction_def split: if_splits sum.splits)
  have inv1: "bc_inv p rep b1 h" using add_inv[OF E inv, of tx] safe add by (simp add: safe_op_def)
  obtain rs blk b2 where x: "executeBlock p E b1 = ((rs, None), b2)" and c: "commitBlock p E w b2 = (Inr blk, b')"
    using ok mine add unfolding b1
    by (auto simp: SendTransaction_def executeAndCommitBlock_def bindE_eq_Inr split: prod.splits option.splits)
  have inv2: "bc_inv p rep b2 h" using executeBlock_inv[OF inv1, of E] x by simp
  have "commit_state p E (Send w tx) b = Some b2" using add mine x by (simp add: b1 commit_state_executed_def)
  then have s: "admits a \<and> no_collision p h a \<and> Suc (length h) < 2 ^ 63" if "fst (prepare_commit p E b2) = Inr a" for a
    using safe that by (simp add: safe_op_def attempted_def)
  have txs: "pb_transactions (bc_pendingBlock b2) = pb_transactions (bc_pendingBlock b1)"
    using executeBlock_transactions[of p E b1] x by simp
  have "map fst (pb_transactions (bc_pendingBlock b1)) = pb_transactionIDs (bc_pendingBlock b1)"
    "map fst (pb_transactions (bc_pendingBlock b2)) = pb_transactionIDs (bc_pendingBlock b2)"
    using inv1 inv2 unfolding bc_inv_def extends_tip_def pb_inv_def by blast+
  then have "pb_transactionIDs (bc_pendingBlock b2) = pb_transactionIDs (bc_pendingBlock b1)" using txs by metis
  then have ids: "pb_transactionIDs (bc_pendingBlock b2) = pb_transactionIDs (bc_pendingBlock b) @ [tx_ID p tx]"
    by (simp add: b1)
  have "(tx_ID p tx, tx) \<in> set (pb_transactions (bc_pendingBlock b2))"
    using new unfolding txs b1 by (simp add: pb_AddTransaction_def pb_ContainsTransaction_def map_of_eq_None_iff update_snoc)
  note read = commit_readable[OF E law inv2 s c this]
  obtain a where "rep (bc_storage b') (h @ [a])" "blk = cb_block a" using commit_ok[OF E law inv2 s c] by blast
  then have "getLatestBlock E b' = Inr blk" using latest[of "bc_storage b'" "h @ [a]"] E by (simp add: getLatestBlock_def)
  then show ?thesis using read ids by (auto simp: pb_Collections_def)
qed

end

text \<open>C9: Adding a transaction does exactly this, on an emulator over the in-memory store that holds a chain: once execution of the pending
  block has started it is refused; a transaction that is already pending or anywhere on the chain is refused as a duplicate; one the
  validator rejects is refused with the converted error; any other becomes the last transaction of the pending
  block. A refused transaction changes nothing.\<close>

theorem add_transaction_spec:
  assumes "em_store E = memstore_ops p T" "bc_inv p (mem_rep p T) b h"
  shows "addTransaction p E tx b =
    (if pb_index (bc_pendingBlock b) \<noteq> 0
     then (Inl (PendingBlockMidExecutionError (pb_ID p (em_lib E) (bc_pendingBlock b))), b)
     else if tx_ID p tx \<in> set (pb_transactionIDs (bc_pendingBlock b)) \<or> hist_transaction h (tx_ID p tx) \<noteq> None
     then (Inl (DuplicateTransactionError (tx_ID p tx)), b)
     else case em_Validate E (bc_transactionValidator b) (GetChainID (em_lib E) (bc_conf b))
                 (newBlocks p (memstore_ops p T) (bc_storage b)) tx of
            Inl err \<Rightarrow> (Inl (ConvertAccessError err), b)
          | Inr _ \<Rightarrow> (Inr (), b\<lparr>bc_pendingBlock := (bc_pendingBlock b)
              \<lparr>pb_transactionIDs := pb_transactionIDs (bc_pendingBlock b) @ [tx_ID p tx],
               pb_transactions := pb_transactions (bc_pendingBlock b) @ [(tx_ID p tx, tx)]\<rparr>\<rparr>))"
  by (rule mem.add_spec[OF assms])

text \<open>A fresh emulator over the in-memory store.\<close>

lemma sample_started:
  "\<exists>b g snap evs. New sample_codec sample_mem (Inr ms_New) (\<lambda>_. (0, 0)) [] = Inr b \<and> fresh b \<and>
     bc_inv sample_codec (mem_rep sample_codec sample_tree) b [g] \<and> g = genesis_commit (Genesis sample_lib (GetChainID sample_lib (bc_conf b))) snap evs"
proof -
  obtain b where b: "New sample_codec sample_mem (Inr ms_New) (\<lambda>_. (0, 0)) [] = Inr b" "fresh b"
    using sample_New by blast
  obtain c where c: "defaultConfig sample_lib = Inr c" "cf_Contracts c = []"
      "GetStore (Inr ms_New) c = Inr (ms_New :: (register_id \<times> bytes) list list memstore)"
    by (simp add: defaultConfig_def DefaultServiceKey_def GenerateDefaultServiceKey_def GetStore_def sample_lib_def)
  have "\<exists>snap evs. bc_inv sample_codec (mem_rep sample_codec sample_tree) b
      [genesis_commit (Genesis (em_lib sample_mem) (GetChainID (em_lib sample_mem) (bc_conf b))) snap evs]"
    using c by (intro mem.New_inv[OF _ run_law_sample _ _ _ _ mem_rep_New[OF tree_law_sample] _ b(1), of c])
      (simp_all add: MaxViewIncrease_def)
  then show ?thesis using b by auto
qed

theorem add_transaction_spec_witness:
  "\<exists>b. New sample_codec sample_mem (Inr ms_New) (\<lambda>_. (0, 0)) [] = Inr b \<and>
     fst (addTransaction sample_codec sample_mem (sample_tx 3) b) = Inr () \<and>
     pb_transactionIDs (bc_pendingBlock (snd (addTransaction sample_codec sample_mem (sample_tx 3) b))) = [3]"
proof -
  obtain b g snap evs where b: "New sample_codec sample_mem (Inr ms_New) (\<lambda>_. (0, 0)) [] = Inr b" "fresh b"
    "bc_inv sample_codec (mem_rep sample_codec sample_tree) b [g]"
    "g = genesis_commit (Genesis sample_lib (GetChainID sample_lib (bc_conf b))) snap evs" using sample_started by blast
  have "hist_transaction [g] 3 = None" by (simp add: b(4) hist_transaction_def genesis_commit_def bodies_of_def)
  moreover have "sample_tx_ID (sample_tx 3) = 3" by (simp add: sample_tx_ID_def sample_tx_def)
  moreover have "em_Validate sample_mem = (\<lambda>_ _ _ _. Inr ())" by (simp add: sample_emu_def)
  ultimately show ?thesis using add_transaction_spec[OF _ b(3), of sample_mem "sample_tx 3"] b(1,2)
    by (simp add: fresh_def)
qed


text \<open>An emulator over the genesis block to which one transaction has been added and executed.\<close>

definition sample_genesis :: "commit_args \<Rightarrow> bool" where
  "sample_genesis g \<longleftrightarrow> Height (cb_block g) = 0 \<and> bodies_of g = [] \<and> cb_collections g = []"

definition sample_ran :: "commit_args \<Rightarrow> sample_mem_chain \<Rightarrow> bool" where
  "sample_ran g e \<longleftrightarrow> sample_genesis g \<and> bc_inv sample_codec (mem_rep sample_codec sample_tree) e [g] \<and>
     cf_ScheduledTransactionsEnabled (bc_conf e) \<and> pb_transactions (bc_pendingBlock e) = [(3, sample_tx 3)] \<and>
     pb_ExecutionComplete (bc_pendingBlock e) \<and> pb_recorded (bc_pendingBlock e)"

lemma sample_tx_3 [simp]: "sample_tx_ID (sample_tx 3) = 3"
  by (simp add: sample_tx_ID_def sample_tx_def)

lemma sample_runs:
  fixes b :: sample_mem_chain
  assumes b: "fresh b" "bc_inv sample_codec (mem_rep sample_codec sample_tree) b [g]" "sample_genesis g"
  shows "\<exists>d rs e. addTransaction sample_codec sample_mem (sample_tx 3) b = (Inr (), d) \<and> bc_conf d = bc_conf b \<and>
     executeBlock sample_codec sample_mem d = ((rs, None), e) \<and> sample_ran g e"
proof -
  define d where "d = snd (addTransaction sample_codec sample_mem (sample_tx 3) b)"
  have h: "hist_transaction [g] 3 = None" using b(3) by (simp add: hist_transaction_def sample_genesis_def)
  have add: "addTransaction sample_codec sample_mem (sample_tx 3) b = (Inr (), b\<lparr>bc_pendingBlock := (bc_pendingBlock b)
      \<lparr>pb_transactionIDs := [3], pb_transactions := [(3, sample_tx 3)]\<rparr>\<rparr>)"
    using mem.add_spec[OF _ b(2), of sample_mem "sample_tx 3"] b(1) h by (simp add: fresh_def) (simp add: sample_emu_def)
  have inv: "bc_inv sample_codec (mem_rep sample_codec sample_tree) d [g]"
    using mem.add_inv[OF _ b(2), of sample_mem "sample_tx 3"] b(1) by (simp add: d_def fresh_def pb_Size_def)
  have pbd: "pb_inv sample_codec (bc_pendingBlock d)" using inv by (simp add: bc_inv_def extends_tip_def)
  have rec: "pb_recorded (bc_pendingBlock d)" "\<not> bc_activeDebuggingSession d" "\<not> pb_ExecutionComplete (bc_pendingBlock d)"
    using b(1) by (simp_all add: d_def add fresh_def pb_recorded_def pb_ExecutionComplete_def pb_Size_def)
  obtain rs e where x: "executeBlock sample_codec sample_mem d = ((rs, None), e)"
    using executeBlock_total[OF machine_total_sample[of "memstore_ops sample_codec sample_tree"] pbd rec(1,2)] rec(3) by auto
  let ?ctx = "(bc_vmCtx d)\<lparr>ctx_BlockHeader := Some (ToHeader sample_codec (pb_Block sample_codec (em_lib sample_mem) (bc_pendingBlock d)))\<rparr>"
  have "executeBlock_loop sample_codec sample_mem ?ctx [] (d\<lparr>bc_vmCtx := ?ctx\<rparr>) = ((rs, None), e)"
    using x rec(3) unfolding executeBlock_def setFVMContextFromHeader_def Let_def prod.case by simp
  from loop_in_order[OF this] pbd rec(1)
  have "pb_recorded (bc_pendingBlock e)" "pb_ExecutionComplete (bc_pendingBlock e)" by simp_all
  moreover have "pb_transactions (bc_pendingBlock d) = [(3, sample_tx 3)]" "bc_conf d = bc_conf b" by (simp_all add: d_def add)
  then have "pb_transactions (bc_pendingBlock e) = [(3, sample_tx 3)]" "bc_conf e = bc_conf b"
    using executeBlock_transactions[of sample_codec sample_mem d] executeBlock_storage(2)[of sample_codec sample_mem d]
    unfolding x snd_conv by simp_all
  moreover have "bc_inv sample_codec (mem_rep sample_codec sample_tree) e [g]" using executeBlock_inv[OF inv, of sample_mem] x by simp
  ultimately have "sample_ran g e" using b(1,3) by (simp add: sample_ran_def fresh_def)
  then show ?thesis using x unfolding d_def add by simp
qed

lemma sample_commits:
  assumes "sample_ran g e"
  shows "\<exists>a c b'. prepare_commit sample_codec sample_mem e = (Inr a, c) \<and> no_collision sample_codec [g] a \<and> Height (cb_block a) = 1 \<and>
     commitBlock sample_codec sample_mem (0, 0) e = (Inr (cb_block a), b')"
proof -
  note b = assms[unfolded sample_ran_def sample_genesis_def]
  have pb: "pb_inv sample_codec (bc_pendingBlock e)" using b by (simp add: bc_inv_def extends_tip_def)
  then have ids: "pb_transactionIDs (bc_pendingBlock e) = [3]" using b by (simp add: pb_inv_def)
  have n: "unat (pb_index (bc_pendingBlock e)) = 1" using pb_ExecutionComplete_iff[OF pb] b ids by simp
  have "length (pb_transactionResults (bc_pendingBlock e)) = 1"
    using arg_cong[OF recorded_keys[OF _ pb], of length] b n ids by simp
  moreover have "pb_ExecutionStarted (bc_pendingBlock e)" using n by (auto simp: pb_ExecutionStarted_def word_less_nat_alt)
  ultimately obtain a c where a: "prepare_commit sample_codec sample_mem e = (Inr a, c)" "counts_match a"
      "cb_systemBodies a = [(5, sample_tx 5), (7, sample_tx 7)]"
    using sample_prepare[of e] b by (metis One_nat_def length_Cons list.size(3))
  note args = prepare_commit_args[OF a(1) exec_law_sample]
  have ht: "Height (cb_block a) = 1" using b args(1) by (simp add: pb_Block_def bc_inv_def extends_tip_def follows_def)
  have "bodies_of a = [(3, sample_tx 3), (5, sample_tx 5), (7, sample_tx 7)]" using a(3) args(3) b by (simp add: bodies_of_def)
  moreover have "cb_collections a = [[3]]" using args(2) ids by (simp add: pb_Collections_def)
  ultimately have nc: "no_collision sample_codec [g] a"
    using b ht by (simp add: no_collision_def sample_block_ID_def same_bodies_def same_collections_def)
  have "\<exists>b'. commitBlock sample_codec sample_mem (0, 0) e = (Inr (cb_block a), b')"
    using b nc a(1) by (intro mem.commit_succeeds[OF _ exec_law_sample _ _ a(1,2), where h = "[g]"]) auto
  then show ?thesis using a(1) nc ht by blast
qed

lemma sample_genesis_started:
  "\<exists>(b :: sample_mem_chain) g. fresh b \<and> bc_inv sample_codec (mem_rep sample_codec sample_tree) b [g] \<and> sample_genesis g"
proof -
  obtain b :: sample_mem_chain and g snap evs
    where b: "fresh b" "bc_inv sample_codec (mem_rep sample_codec sample_tree) b [g]"
    "g = genesis_commit (Genesis sample_lib (GetChainID sample_lib (bc_conf b))) snap evs" using sample_started by blast
  then have "sample_genesis g" by (simp add: sample_genesis_def genesis_commit_def Genesis_def bodies_of_def)
  then show ?thesis using b(1,2) by blast
qed


text \<open>C8: A block is never stored with a transaction that has no result. While some pending transaction has no
  result (the block was not executed, only in part, or the machine failed fatally on a transaction and execution went on after it),
  every commit over the SQLite store is refused with an error: the store is not touched and the pending transactions stay.\<close>

theorem commit_needs_results:
  assumes "em_store E = default_ops p (sqlite_kv V)" "exec_law (em_exec E)" "pb_inv p (bc_pendingBlock b)"
    "i \<in> set (pb_transactionIDs (bc_pendingBlock b))" "map_of (pb_transactionResults (bc_pendingBlock b)) i = None"
  shows "\<exists>e b'. commitBlock p E w b = (Inl e, b') \<and> bc_storage b' = bc_storage b \<and>
    pb_transactionIDs (bc_pendingBlock b') = pb_transactionIDs (bc_pendingBlock b)"
proof -
  obtain r b1 where prep: "prepare_commit p E b = (r, b1)" by fastforce
  have f: "system_frame b b1" using prepare_commit_frame[of b p E] prep by simp
  show ?thesis
  proof (cases r)
    case (Inl e)
    then show ?thesis using prep system_frameD(1,8)[OF f] by (simp add: commitBlock_def)
  next
    case (Inr a)
    note args = prepare_commit_args[OF prep[unfolded Inr] assms(2)]
    have "\<not> counts_match a"
    proof
      assume "counts_match a"
      then have "length (pb_transactions (bc_pendingBlock b)) = length (pb_transactionResults (bc_pendingBlock b))"
        using args(3) arg_cong[OF args(4), of length] by (simp add: counts_match_def)
      moreover have ids: "map fst (pb_transactions (bc_pendingBlock b)) = pb_transactionIDs (bc_pendingBlock b)"
        "distinct (pb_transactionIDs (bc_pendingBlock b))" "distinct (map fst (pb_transactionResults (bc_pendingBlock b)))"
        "set (map fst (pb_transactionResults (bc_pendingBlock b))) \<subseteq> set (pb_transactionIDs (bc_pendingBlock b))"
        using assms(3) set_take_subset unfolding pb_inv_def by fast+
      ultimately have "set (map fst (pb_transactionResults (bc_pendingBlock b))) = set (pb_transactionIDs (bc_pendingBlock b))"
        using distinct_card[OF ids(2)] distinct_card[OF ids(3)] by (intro card_subset_eq) (metis length_map finite_set)+
      then show False using assms(4,5) by (auto simp: map_of_eq_None_iff)
    qed
    then show ?thesis using sq.ds.store_block_rejects[OF assms(1), of a w b1] prep Inr system_frameD(1,8)[OF f]
      by (auto simp: commitBlock_def)
  qed
qed

theorem commit_needs_results_witness:
  "\<exists>e b'. commitBlock sample_codec sample_sq (0, 0) sample_pending = (Inl e, b') \<and>
     pb_transactionIDs (bc_pendingBlock b') = [3, 4]"
  using commit_needs_results[of sample_sq sample_codec sample_env sample_pending 3 "(0, 0)"] exec_law_sample sample_pending_ok(1)
  by (auto simp del: sample_emu_simps(3))

text \<open>Everything but the code and ID of the current script, the source map and the report.\<close>

definition same_but_script :: "('s, 'ls) Blockchain \<Rightarrow> ('s, 'ls) Blockchain \<Rightarrow> bool" where
  "same_but_script b b' \<longleftrightarrow>
     bc_storage b' = bc_storage b \<and> bc_pendingBlock b' = bc_pendingBlock b \<and> bc_clock b' = bc_clock b \<and>
     bc_vmCtx b' = bc_vmCtx b \<and> bc_transactionValidator b' = bc_transactionValidator b \<and>
     bc_systemTransactions b' = bc_systemTransactions b \<and> bc_serviceKey b' = bc_serviceKey b \<and>
     bc_activeDebuggingSession b' = bc_activeDebuggingSession b \<and> bc_conf b' = bc_conf b \<and>
     bc_LatestBlock b' = bc_LatestBlock b \<and> bc_published b' = bc_published b"

lemma script_same_but:
  "same_but_script b (snd (executeScriptAtBlockID p E script args i b))"
  by (auto simp: same_but_script_def executeScriptAtBlockID_def Let_def note_source_file_def bindE_def case_prod_unfold
      split: sum.split)




end
