(* ===== verification/Emulator_Queries.thy ===== *)
theory Emulator_Queries
  imports Emulator_Exec
begin

text \<open>
  The read side of \<^verbatim>\<open>emulator/blockchain.go\<close>: blocks, collections,
  transactions, results, events, system and scheduled transactions, logs, source
  files and registers. The lookups answer from the pending block first, then from
  storage, then from the cached system transactions.
\<close>

section \<open>Blocks and collections\<close>

definition PendingBlockID :: "'h hashes_scheme \<Rightarrow> ('s, 'ls) emu \<Rightarrow> ('s, 'ls) Blockchain \<Rightarrow> flow_id" where
  "PendingBlockID p E b = pb_ID p (em_lib E) (bc_pendingBlock b)"

definition PendingBlockView :: "('s, 'ls) Blockchain \<Rightarrow> u64" where
  "PendingBlockView b = pb_view (bc_pendingBlock b)"

text \<open>\<^verbatim>\<open>time.UnixMilli(int64(t))\<close>, as milliseconds since the epoch.\<close>

definition UnixMilli :: "u64 \<Rightarrow> int" where
  "UnixMilli t = sint t"

definition PendingBlockTimestamp :: "'h hashes_scheme \<Rightarrow> ('s, 'ls) emu \<Rightarrow> ('s, 'ls) Blockchain \<Rightarrow> int" where
  "PendingBlockTimestamp p E b = UnixMilli (Timestamp (pb_Block p (em_lib E) (bc_pendingBlock b)))"

definition CurrentScript :: "('s, 'ls) Blockchain \<Rightarrow> string \<times> string" where
  "CurrentScript b = (bc_currentScriptID b, bc_currentCode b)"

definition getBlockByID :: "('s, 'ls) emu \<Rightarrow> flow_id \<Rightarrow> ('s, 'ls) Blockchain \<Rightarrow> block result" where
  "getBlockByID E i b =
     (case st_BlockByID (em_store E) i (bc_storage b) of
        Inl err \<Rightarrow> if is_ErrNotFound err then Inl (BlockNotFoundByIDError i) else Inl err
      | Inr block \<Rightarrow> Inr block)"

definition getCollectionByID :: "('s, 'ls) emu \<Rightarrow> flow_id \<Rightarrow> ('s, 'ls) Blockchain \<Rightarrow> flow_id list result" where
  "getCollectionByID E colID b =
     (case st_CollectionByID (em_store E) colID (bc_storage b) of
        Inl err \<Rightarrow> if is_ErrNotFound err then Inl (CollectionNotFoundError colID) else Inl err
      | Inr col \<Rightarrow> Inr col)"

definition getFullCollectionByID :: "('s, 'ls) emu \<Rightarrow> flow_id \<Rightarrow> ('s, 'ls) Blockchain \<Rightarrow> transaction_body list result" where
  "getFullCollectionByID E colID b =
     (case st_FullCollectionByID (em_store E) colID (bc_storage b) of
        Inl err \<Rightarrow> if is_ErrNotFound err then Inl (CollectionNotFoundError colID) else Inl err
      | Inr col \<Rightarrow> Inr col)"

section \<open>Transactions and results\<close>

definition getTransaction :: "('s, 'ls) emu \<Rightarrow> flow_id \<Rightarrow> ('s, 'ls) Blockchain \<Rightarrow> transaction_body result" where
  "getTransaction E txID b =
     (case pb_GetTransaction txID (bc_pendingBlock b) of
        Some pendingTx \<Rightarrow> Inr pendingTx
      | None \<Rightarrow>
          (case st_TransactionByID (em_store E) txID (bc_storage b) of
             Inr tx \<Rightarrow> Inr tx
           | Inl err \<Rightarrow>
               if \<not> is_ErrNotFound err then Inl err
               else case bc_systemTransactions b txID of
                      Some tx \<Rightarrow> Inr tx
                    | None \<Rightarrow> Inl (TransactionNotFoundError txID)))"

text \<open>The zero value with a status.\<close>

definition status_only :: "transaction_status \<Rightarrow> access_result" where
  "status_only st =
     \<lparr>ar_Status = st, ar_StatusCode = 0, ar_ErrorMessage = '''', ar_Events = [], ar_TransactionID = ZeroID,
      ar_BlockHeight = 0, ar_BlockID = ZeroID, ar_CollectionID = ZeroID\<rparr>"

definition sealed_access :: "flow_id \<Rightarrow> StorableTransactionResult \<Rightarrow> access_result" where
  "sealed_access txID storedResult =
     \<lparr>ar_Status = StatusSealed, ar_StatusCode = (if ErrorCode storedResult > 0 then 1 else 0),
      ar_ErrorMessage = ErrorMessage storedResult, ar_Events = Events storedResult, ar_TransactionID = txID,
      ar_BlockHeight = BlockHeight storedResult, ar_BlockID = BlockID storedResult,
      ar_CollectionID = CollectionID storedResult\<rparr>"

definition getSystemTransactionResult ::
  "('s, 'ls) emu \<Rightarrow> flow_id \<Rightarrow> flow_id \<Rightarrow> ('s, 'ls) Blockchain \<Rightarrow> access_result result" where
  "getSystemTransactionResult E blockID txID b =
     (case st_SystemTransactionResultByID (em_store E) blockID txID (bc_storage b) of
        Inl err \<Rightarrow> if is_ErrNotFound err then Inr (status_only StatusUnknown) else Inl err
      | Inr storedResult \<Rightarrow> Inr (sealed_access txID storedResult))"

definition getTransactionResult :: "('s, 'ls) emu \<Rightarrow> flow_id \<Rightarrow> ('s, 'ls) Blockchain \<Rightarrow> access_result result" where
  "getTransactionResult E txID b =
     (if pb_ContainsTransaction txID (bc_pendingBlock b) then Inr (status_only StatusPending)
      else case st_TransactionResultByID (em_store E) txID (bc_storage b) of
             Inl err \<Rightarrow>
               if is_ErrNotFound err
               then case st_ScheduledTransactionBlockIDByTxID (em_store E) txID (bc_storage b) of
                      Inr blockID \<Rightarrow> getSystemTransactionResult E blockID txID b
                    | Inl indexErr \<Rightarrow> Inr (status_only StatusUnknown)
               else Inl err
           | Inr storedResult \<Rightarrow> Inr (sealed_access txID storedResult))"

definition GetLogs :: "('s, 'ls) emu \<Rightarrow> flow_id \<Rightarrow> ('s, 'ls) Blockchain \<Rightarrow> string list result" where
  "GetLogs E i b =
     (case st_TransactionResultByID (em_store E) i (bc_storage b) of
        Inl err \<Rightarrow> Inl err | Inr txResult \<Rightarrow> Inr (Logs txResult))"

section \<open>Events\<close>

record block_events =
  be_BlockID :: flow_id
  be_BlockHeight :: u64
  be_BlockTimestamp :: int
  be_Events :: "event list"

definition block_events_of :: "'h hashes_scheme \<Rightarrow> block \<Rightarrow> event list \<Rightarrow> block_events" where
  "block_events_of p block events =
     \<lparr>be_BlockID = block_ID p block, be_BlockHeight = Height block,
      be_BlockTimestamp = UnixMilli (Timestamp block), be_Events = events\<rparr>"

text \<open>
  Both range queries leave their loop at the first error, and the error is a
  variable of the loop body that shadows the named result: the caller always
  gets a nil error.
\<close>

primrec GetEventsForBlockIDs ::
  "'h hashes_scheme \<Rightarrow> ('s, 'ls) emu \<Rightarrow> string \<Rightarrow> flow_id list \<Rightarrow> ('s, 'ls) Blockchain \<Rightarrow> block_events list" where
  "GetEventsForBlockIDs p E eventType [] b = []"
| "GetEventsForBlockIDs p E eventType (blockID # blockIDs) b =
     (case st_BlockByID (em_store E) blockID (bc_storage b) of
        Inl err \<Rightarrow> []
      | Inr block \<Rightarrow>
          (case st_EventsByHeight (em_store E) (Height block) eventType (bc_storage b) of
             Inl err \<Rightarrow> []
           | Inr events \<Rightarrow> block_events_of p block events # GetEventsForBlockIDs p E eventType blockIDs b))"

text \<open>
  The counter of \<^verbatim>\<open>GetEventsForHeightRange\<close> is a \<^verbatim>\<open>uint64\<close> that wraps, so the
  loop has no bound of its own; \<^const>\<open>None\<close> is a loop that does not end.
\<close>

partial_function (option) GetEventsForHeightRange ::
  "'h hashes_scheme \<Rightarrow> ('s, 'ls) emu \<Rightarrow> string \<Rightarrow> u64 \<Rightarrow> u64 \<Rightarrow> ('s, 'ls) Blockchain \<Rightarrow> block_events list option" where
  "GetEventsForHeightRange p E eventType blockHeight endHeight b =
     (if blockHeight \<le> endHeight
      then case st_BlockByHeight (em_store E) blockHeight (bc_storage b) of
             Inl err \<Rightarrow> Some []
           | Inr block \<Rightarrow>
               (case st_EventsByHeight (em_store E) blockHeight eventType (bc_storage b) of
                  Inl err \<Rightarrow> Some []
                | Inr events \<Rightarrow>
                    Option.bind (GetEventsForHeightRange p E eventType (blockHeight + 1) endHeight b)
                      (\<lambda>result. Some (block_events_of p block events # result)))
      else Some [])"

definition GetEventsByHeight :: "('s, 'ls) emu \<Rightarrow> u64 \<Rightarrow> string \<Rightarrow> ('s, 'ls) Blockchain \<Rightarrow> event list result" where
  "GetEventsByHeight E blockHeight eventType b = st_EventsByHeight (em_store E) blockHeight eventType (bc_storage b)"

section \<open>The transactions of a block\<close>

definition block_error :: "flow_id \<Rightarrow> go_error \<Rightarrow> go_error" where
  "block_error blockID err = Errorf_wrap (''failed to get block '' @ ID_String blockID @ '': '') err"

definition item_error :: "string \<Rightarrow> nat \<Rightarrow> flow_id \<Rightarrow> go_error \<Rightarrow> go_error" where
  "item_error what j i err =
     Errorf_wrap (''failed to get '' @ what @ '' ['' @ fmt_d j @ ''] '' @ ID_String i @ '': '') err"

text \<open>A \<open>for j, i := range ids\<close> loop that looks up each ID and wraps the first error.\<close>

definition look_up_all :: "string \<Rightarrow> (flow_id \<Rightarrow> 'a result) \<Rightarrow> flow_id list \<Rightarrow> 'a list result" where
  "look_up_all what get ids =
     mapR (\<lambda>(j, i). case get i of Inl err \<Rightarrow> Inl (item_error what j i err) | Inr x \<Rightarrow> Inr x) (enumerate 0 ids)"

text \<open>The loop over the collections a block guarantees.\<close>

definition in_guarantees ::
  "('s, 'ls) emu \<Rightarrow> string \<Rightarrow> (flow_id \<Rightarrow> 'a result) \<Rightarrow> block \<Rightarrow> ('s, 'ls) Blockchain \<Rightarrow> 'a list result" where
  "in_guarantees E what get block b =
     bindR (mapR (\<lambda>(i, colID).
              case getCollectionByID E colID b of
                Inl err \<Rightarrow> Inl (item_error ''collection'' i colID err)
              | Inr c \<Rightarrow> look_up_all what get c) (enumerate 0 (Guarantees block)))
       (\<lambda>xss. Inr (concat xss))"

definition GetTransactionsByBlockID ::
  "('s, 'ls) emu \<Rightarrow> flow_id \<Rightarrow> ('s, 'ls) Blockchain \<Rightarrow> transaction_body list result" where
  "GetTransactionsByBlockID E blockID b =
     (case getBlockByID E blockID b of
        Inl err \<Rightarrow> Inl (block_error blockID err)
      | Inr block \<Rightarrow>
          bindR (in_guarantees E ''transaction'' (\<lambda>txID. getTransaction E txID b) block b) (\<lambda>transactions.
          case st_SystemTransactionsForBlockID (em_store E) blockID (bc_storage b) of
            Inl err \<Rightarrow> Inl (Errorf_wrap ''failed to get system transactions '' err)
          | Inr st \<Rightarrow>
              bindR (look_up_all ''transaction'' (\<lambda>txID. getTransaction E txID b) (st_Transactions st))
                (\<lambda>system. Inr (transactions @ system))))"

definition GetTransactionResultsByBlockID ::
  "('s, 'ls) emu \<Rightarrow> flow_id \<Rightarrow> ('s, 'ls) Blockchain \<Rightarrow> access_result list result" where
  "GetTransactionResultsByBlockID E blockID b =
     (case getBlockByID E blockID b of
        Inl err \<Rightarrow> Inl (block_error blockID err)
      | Inr block \<Rightarrow>
          bindR (in_guarantees E ''transaction result'' (\<lambda>txID. getTransactionResult E txID b) block b) (\<lambda>results.
          case st_SystemTransactionsForBlockID (em_store E) blockID (bc_storage b) of
            Inl err \<Rightarrow> Inl (Errorf_wrap ''failed to get system transactions '' err)
          | Inr st \<Rightarrow>
              bindR (look_up_all ''system transaction result'' (\<lambda>txID. getSystemTransactionResult E blockID txID b)
                       (st_Transactions st))
                (\<lambda>system. Inr (results @ system))))"

section \<open>System and scheduled transactions\<close>

definition system_error :: "flow_id \<Rightarrow> go_error \<Rightarrow> go_error" where
  "system_error blockID err = Errorf_wrap (''failed to get system transactions for block '' @ ID_String blockID @ '': '') err"

definition GetSystemTransactionsForBlock ::
  "('s, 'ls) emu \<Rightarrow> flow_id \<Rightarrow> ('s, 'ls) Blockchain \<Rightarrow> flow_id list result" where
  "GetSystemTransactionsForBlock E blockID b =
     (case st_SystemTransactionsForBlockID (em_store E) blockID (bc_storage b) of
        Inl err \<Rightarrow> if is_ErrNotFound err then Inr [] else Inl (system_error blockID err)
      | Inr systemTxs \<Rightarrow> Inr (st_Transactions systemTxs))"

text \<open>
  The guard shared by the queries of one system transaction: the record of the
  block, or a not-found error for \<open>missing\<close>.
\<close>

definition system_of_block ::
  "('s, 'ls) emu \<Rightarrow> flow_id \<Rightarrow> flow_id \<Rightarrow> ('s, 'ls) Blockchain \<Rightarrow> SystemTransactions result" where
  "system_of_block E missing blockID b =
     (case st_SystemTransactionsForBlockID (em_store E) blockID (bc_storage b) of
        Inl err \<Rightarrow> if is_ErrNotFound err then Inl (TransactionNotFoundError missing) else Inl (system_error blockID err)
      | Inr systemTxs \<Rightarrow> Inr systemTxs)"

text \<open>The ID a query for \<open>txID\<close> reads: the zero ID stands for the last system transaction of the block.\<close>

definition system_tx_id :: "flow_id \<Rightarrow> SystemTransactions \<Rightarrow> flow_id result" where
  "system_tx_id txID systemTxs =
     (if txID = ZeroID
      then if st_Transactions systemTxs = [] then Inl (TransactionNotFoundError txID)
           else Inr (last (st_Transactions systemTxs))
      else if txID \<in> set (st_Transactions systemTxs) then Inr txID else Inl (TransactionNotFoundError txID))"

definition GetSystemTransaction ::
  "('s, 'ls) emu \<Rightarrow> flow_id \<Rightarrow> flow_id \<Rightarrow> ('s, 'ls) Blockchain \<Rightarrow> transaction_body result" where
  "GetSystemTransaction E txID blockID b =
     bindR (system_of_block E txID blockID b) (\<lambda>systemTxs.
     bindR (system_tx_id txID systemTxs) (\<lambda>txID. getTransaction E txID b))"

definition GetSystemTransactionResult ::
  "('s, 'ls) emu \<Rightarrow> flow_id \<Rightarrow> flow_id \<Rightarrow> ('s, 'ls) Blockchain \<Rightarrow> access_result result" where
  "GetSystemTransactionResult E txID blockID b =
     bindR (system_of_block E txID blockID b) (\<lambda>systemTxs.
     bindR (system_tx_id txID systemTxs) (\<lambda>txID. getSystemTransactionResult E blockID txID b))"

definition scheduled_tx_id :: "u64 \<Rightarrow> SystemTransactions \<Rightarrow> flow_id result" where
  "scheduled_tx_id scheduledTxID systemTxs =
     (case map_of (st_ScheduledTransactionIDs systemTxs) scheduledTxID of
        None \<Rightarrow> Inl (TransactionNotFoundError ZeroID) | Some txID \<Rightarrow> Inr txID)"

definition GetScheduledTransactionByBlockID ::
  "('s, 'ls) emu \<Rightarrow> u64 \<Rightarrow> flow_id \<Rightarrow> ('s, 'ls) Blockchain \<Rightarrow> transaction_body result" where
  "GetScheduledTransactionByBlockID E scheduledTxID blockID b =
     bindR (system_of_block E ZeroID blockID b) (\<lambda>systemTxs.
     bindR (scheduled_tx_id scheduledTxID systemTxs) (\<lambda>txID. getTransaction E txID b))"

definition GetScheduledTransactionResultByBlockID ::
  "('s, 'ls) emu \<Rightarrow> u64 \<Rightarrow> flow_id \<Rightarrow> ('s, 'ls) Blockchain \<Rightarrow> access_result result" where
  "GetScheduledTransactionResultByBlockID E scheduledTxID blockID b =
     bindR (system_of_block E ZeroID blockID b) (\<lambda>systemTxs.
     bindR (scheduled_tx_id scheduledTxID systemTxs) (\<lambda>txID. getSystemTransactionResult E blockID txID b))"

text \<open>The block of a scheduled transaction, from the global index.\<close>

definition scheduled_block :: "('s, 'ls) emu \<Rightarrow> u64 \<Rightarrow> ('s, 'ls) Blockchain \<Rightarrow> flow_id result" where
  "scheduled_block E scheduledTxID b =
     (case st_BlockIDByScheduledTransactionID (em_store E) scheduledTxID (bc_storage b) of
        Inl err \<Rightarrow>
          if is_ErrNotFound err then Inl (TransactionNotFoundError ZeroID)
          else Inl (Errorf_wrap (''failed to find block for scheduled transaction '' @ fmt_u scheduledTxID @ '': '') err)
      | Inr blockID \<Rightarrow> Inr blockID)"

definition GetScheduledTransaction ::
  "('s, 'ls) emu \<Rightarrow> u64 \<Rightarrow> ('s, 'ls) Blockchain \<Rightarrow> transaction_body result" where
  "GetScheduledTransaction E scheduledTxID b =
     bindR (scheduled_block E scheduledTxID b) (\<lambda>blockID.
     bindR (system_of_block E ZeroID blockID b) (\<lambda>systemTxs.
     bindR (scheduled_tx_id scheduledTxID systemTxs) (\<lambda>txID. getTransaction E txID b)))"

definition GetScheduledTransactionResult ::
  "('s, 'ls) emu \<Rightarrow> u64 \<Rightarrow> ('s, 'ls) Blockchain \<Rightarrow> access_result result" where
  "GetScheduledTransactionResult E scheduledTxID b =
     bindR (scheduled_block E scheduledTxID b) (\<lambda>blockID.
     bindR (system_of_block E ZeroID blockID b) (\<lambda>systemTxs.
     bindR (scheduled_tx_id scheduledTxID systemTxs) (\<lambda>txID. getSystemTransactionResult E blockID txID b)))"

section \<open>Source files and registers\<close>

definition GetSourceFile :: "('s, 'ls) emu \<Rightarrow> location \<Rightarrow> ('s, 'ls) Blockchain \<Rightarrow> string result" where
  "GetSourceFile E loc b =
     (case bc_sourceFileMap b loc of
        Some value \<Rightarrow> Inr value
      | None \<Rightarrow>
          (case loc of
             AddressLocation addr name \<Rightarrow>
               (case em_GetAccountContractCode E (es_Get (em_exec E) (pb_ledgerState (bc_pendingBlock b))) addr name of
                  Inl err \<Rightarrow> Inr (em_LocationID E loc)
                | Inr code \<Rightarrow>
                    (let pragmas = ExtractPragmas (em_ParseProgram E) (string_of_bytes code)
                     in if Contains pragmas PragmaSourceFile then first_argument pragmas PragmaSourceFile
                        else Inr (em_LocationID E loc)))
           | _ \<Rightarrow> Inr (em_LocationID E loc)))"

definition GetRegisterValues :: "('s, 'ls) emu \<Rightarrow> register_id list \<Rightarrow> u64 \<Rightarrow> ('s, 'ls) Blockchain \<Rightarrow> bytes list result" where
  "GetRegisterValues E registerIDs height b =
     (case st_LedgerByHeight (em_store E) height (bc_storage b) of
        Inl err \<Rightarrow> Inl err
      | Inr ledger \<Rightarrow> mapR ledger registerIDs)"

section \<open>What the queries answer\<close>

context chain_store
begin

lemma events_range:
  assumes "em_store E = ops" "rep (bc_storage b) h" "length h < 2 ^ 63"
  shows "GetEventsForHeightRange p E ty s e b =
    Some (map (\<lambda>n. block_events_of p (cb_block (h ! n)) (filter (match_type ty) (cb_events (h ! n))))
      [unat s ..< min (Suc (unat e)) (length h)])"
proof (induction "length h - unat s" arbitrary: s rule: less_induct)
  case less
  let ?f = "\<lambda>n. block_events_of p (cb_block (h ! n)) (filter (match_type ty) (cb_events (h ! n)))"
  show ?case
  proof (cases "s \<le> e \<and> unat s < length h")
    case True
    then have s: "unat (s + 1) = Suc (unat s)"
      using assms(3) by (simp add: unat_word_ariths mod_less)
    have lt: "length h - unat (s + 1) < length h - unat s" using True unfolding s by (intro diff_less_mono2) auto
    have "st_BlockByHeight ops s (bc_storage b) = Inr (cb_block (h ! unat s))"
      "st_EventsByHeight ops s ty (bc_storage b) = Inr (filter (match_type ty) (cb_events (h ! unat s)))"
      using by_height[OF assms(2), of s] events[OF assms(2), of s ty] True by (simp_all add: hist_block_def hist_events_def)
    then have "GetEventsForHeightRange p E ty s e b = Some (?f (unat s) # map ?f [Suc (unat s) ..< min (Suc (unat e)) (length h)])"
      using True assms(1) less[OF lt] s by (simp add: GetEventsForHeightRange.simps[of p E ty s])
    also have "\<dots> = Some (map ?f [unat s ..< min (Suc (unat e)) (length h)])"
      using True by (subst (2) upt_conv_Cons) (simp_all add: word_le_nat_alt)
    finally show ?thesis .
  next
    case False
    then have "[unat s ..< min (Suc (unat e)) (length h)] = []" by (auto simp: word_le_nat_alt)
    moreover have "s \<le> e \<Longrightarrow> st_BlockByHeight ops s (bc_storage b) = Inl ErrNotFound"
      using False by_height[OF assms(2), of s] by (simp add: hist_block_def)
    ultimately show ?thesis using assms(1) by (simp add: GetEventsForHeightRange.simps[of p E ty s])
  qed
qed

lemma transaction_known:
  assumes "em_store E = ops" "bc_inv p rep b h" "hist_transaction h i = Some t"
  shows "getTransaction E i b = Inr t"
proof -
  have "i \<notin> set (pb_transactionIDs (bc_pendingBlock b))" using assms(2,3) by (auto simp: bc_inv_def extends_tip_def)
  moreover have "map fst (pb_transactions (bc_pendingBlock b)) = pb_transactionIDs (bc_pendingBlock b)"
    using assms(2) unfolding bc_inv_def extends_tip_def pb_inv_def by blast
  ultimately have "pb_GetTransaction i (bc_pendingBlock b) = None"
    by (metis pb_GetTransaction_def map_of_eq_None_iff list.set_map)
  moreover have "rep (bc_storage b) h" using assms(2) by (simp add: bc_inv_def)
  ultimately show ?thesis using transaction[of "bc_storage b" h i] assms(1,3) by (simp add: getTransaction_def)
qed

end

text \<open>C16: The query for events in a range of heights always ends, for every pair of 64-bit bounds: on a chain in the in-memory store it returns,
  block by block in order of height, the events of the given type (of every type if it is empty) of exactly the
  stored blocks between the two bounds; a range that reaches beyond the chain is cut off at its tip, without an
  error.\<close>

theorem events_in_range:
  assumes "em_store E = memstore_ops p T" "bc_inv p (mem_rep p T) b h"
  shows "GetEventsForHeightRange p E ty s e b =
    Some (map (\<lambda>n. block_events_of p (cb_block (h ! n)) (filter (match_type ty) (cb_events (h ! n))))
      [unat s ..< min (Suc (unat e)) (length h)])"
  using mem.events_range[OF assms(1), of b h ty s e] assms(2) by (simp add: bc_inv_def)

theorem events_in_range_witness:
  "\<exists>(b :: sample_mem_chain) (g :: commit_args). GetEventsForHeightRange sample_codec sample_mem '''' 0 (- 1) b =
     Some [block_events_of sample_codec (cb_block g) (cb_events g)]"
proof -
  obtain b :: sample_mem_chain and g where b: "bc_inv sample_codec (mem_rep sample_codec sample_tree) b [g]"
    using sample_genesis_started by blast
  have "filter (match_type '''') (cb_events g) = cb_events g" by (simp add: match_type_def)
  then have "GetEventsForHeightRange sample_codec sample_mem '''' 0 (- 1) b = Some [block_events_of sample_codec (cb_block g) (cb_events g)]"
    using events_in_range[OF _ b, of sample_mem "''''" 0 "- 1"] by simp
  then show ?thesis by blast
qed

text \<open>The blocks the emulator makes: the guarantees are the collections, and every ID has its body.\<close>

definition closed_commit :: "'h hashes_scheme \<Rightarrow> commit_args \<Rightarrow> bool" where
  "closed_commit p a \<longleftrightarrow>
     Guarantees (cb_block a) = map (col_ID p) (cb_collections a) \<and>
     (\<forall>i \<in> set (concat (cb_collections a)) \<union> set (cb_systemTransactions a). i \<in> fst ` set (bodies_of a))"

lemma look_up_all_ok:
  assumes "\<And>i. i \<in> set ids \<Longrightarrow> get i = Inr (f i)"
  shows "look_up_all what get ids = Inr (map f ids)"
proof -
  have "mapR (\<lambda>(j, i). case get i of Inl err \<Rightarrow> Inl (item_error what j i err) | Inr x \<Rightarrow> Inr x) (enumerate n ids) = Inr (map f ids)" for n
    using assms by (induction ids arbitrary: n) simp_all
  then show ?thesis by (simp add: look_up_all_def)
qed

lemma in_guarantees_ok:
  assumes "Guarantees blk = map (col_ID p) cols" "\<And>c. c \<in> set cols \<Longrightarrow> getCollectionByID E (col_ID p c) b = Inr c"
    "\<And>i. i \<in> set (concat cols) \<Longrightarrow> get i = Inr (f i)"
  shows "in_guarantees E what get blk b = Inr (map f (concat cols))"
proof -
  have "mapR (\<lambda>(i, colID). case getCollectionByID E colID b of
      Inl err \<Rightarrow> Inl (item_error ''collection'' i colID err) | Inr c \<Rightarrow> look_up_all what get c)
      (enumerate n (map (col_ID p) cols)) = Inr (map (map f) cols)" for n
    using assms(2,3) by (induction cols arbitrary: n) (simp_all add: look_up_all_ok)
  then show ?thesis by (simp add: in_guarantees_def assms(1) map_concat)
qed

lemma valid_chain_lookup:
  assumes v: "valid_chain p h" and n: "n < length h"
  shows "hist_height p h (block_ID p (cb_block (h ! n))) = Some (of_nat n)"
    "(i, t) \<in> set (bodies_of (h ! n)) \<Longrightarrow> hist_transaction h i = Some t"
    "c \<in> set (cb_collections (h ! n)) \<Longrightarrow> hist_collection p h (col_ID p c) = Some c"
    "has_system (h ! n) \<Longrightarrow> hist_system p h (block_ID p (cb_block (h ! n))) = Some (SystemTransactions_of p (h ! n))"
    "\<not> has_system (h ! n) \<Longrightarrow> hist_system p h (block_ID p (cb_block (h ! n))) = None"
proof (atomize(full), use v n in \<open>induction h arbitrary: n i t c rule: rev_induct\<close>)
  case (snoc a h)
  have v: "valid_chain p h" and mf: "may_follow p h a" using snoc.prems(1) by (simp_all add: valid_chain_snoc)
  note D = may_followD[OF mf]
  show ?case
  proof (cases "n < length h")
    case True
    then have n: "(h @ [a]) ! n = h ! n" "h ! n \<in> set h" by (simp_all add: nth_append)
    note IH = snoc.IH[OF v True]
    have id: "block_ID p (cb_block (h ! n)) \<noteq> block_ID p (cb_block a)" using D(4)[OF n(2)] by simp
    have body: "hist_transaction (h @ [a]) i = Some t" if "(i, t) \<in> set (bodies_of (h ! n))" for i t
    proof (cases "i \<in> fst ` set (bodies_of a)")
      case True
      then obtain u where u: "(i, u) \<in> set (bodies_of a)" by auto
      then have "map_of (rev (bodies_of a)) i = Some t"
        using D(5) that n(2) u by (intro map_of_agree) (fastforce simp: same_bodies_def)+
      then show ?thesis by (simp add: map_add_def)
    next
      case False
      then have "map_of (rev (bodies_of a)) i = None" by (simp add: map_of_rev_None)
      then show ?thesis using IH that by (simp add: map_add_def)
    qed
    have col: "hist_collection p (h @ [a]) (col_ID p c) = Some c" if "c \<in> set (cb_collections (h ! n))" for c
    proof (cases "map_of (map (\<lambda>c. (col_ID p c, c)) (rev (cb_collections a))) (col_ID p c)")
      case None
      then show ?thesis using IH that by (simp add: map_add_def)
    next
      case (Some d)
      then have "d \<in> set (cb_collections a)" "col_ID p d = col_ID p c" by (auto dest!: map_of_SomeD)
      then have "d = c" using D(6) that n(2) by (fastforce simp: same_collections_def)
      then show ?thesis using Some by (simp add: map_add_def)
    qed
    show ?thesis using IH id body col by (simp add: n(1))
  next
    case False
    then have n: "n = length h" using snoc.prems(2) by simp
    have body: "map_of (rev (bodies_of a)) i = Some t" if "(i, t) \<in> set (bodies_of a)" for i t
      using D(5) that by (intro map_of_agree) (fastforce simp: same_bodies_def)+
    have col: "map_of (map (\<lambda>c. (col_ID p c, c)) (rev (cb_collections a))) (col_ID p c) = Some c"
      if "c \<in> set (cb_collections a)" for c
      using D(6) that by (intro map_of_agree) (fastforce simp: same_collections_def)+
    have "hist_system p h (block_ID p (cb_block a)) = None"
      using D(4) by (fastforce simp: hist_system_def map_of_eq_None_iff)
    then show ?thesis using body col D(1) by (auto simp: n map_add_def)
  qed
qed simp





text \<open>C19: Registers are versioned by height: reading registers at the height of any stored block of a chain in the SQLite store gives, for each of them,
  the last value written in the blocks up to and including that height, and the empty value if there was none; blocks
  committed later do not change the answer.\<close>

theorem registers_at_height:
  assumes "em_store E = default_ops p (sqlite_kv V)" "sqlite_rep p V (bc_storage b) h" "unat n < length h"
  shows "GetRegisterValues E rs n b = Inr (map (\<lambda>r. value_of (last_write r (take (Suc (unat n)) h))) rs)"
proof -
  obtain f where "st_LedgerByHeight (default_ops p (sqlite_kv V)) n (bc_storage b) = Inr f"
      "\<And>r. f r = Inr (value_of (hist_register h n r))"
    using sq.ds.ledger[OF assms(2,3)] by blast
  then show ?thesis using assms(1) by (simp add: GetRegisterValues_def hist_register_def mapR_eq_map)
qed

theorem registers_at_height_witness:
  "GetRegisterValues sample_sq [sample_register] 0 sample_chain = Inr [word_bytes 0]"
proof -
  have "sqlite_rep sample_codec sample_env (bc_storage sample_chain) [sample_commit 0]"
    using sample_chain_inv by (simp add: bc_inv_def)
  from registers_at_height[OF _ this, of sample_sq 0 "[sample_register]"] show ?thesis
    by (simp add: last_write_def value_of_def sample_commit_def)
qed

section \<open>Scheduled transaction IDs\<close>

lemma digit_char: "k < 10 \<Longrightarrow> char_of (48 + k) \<in> set ''0123456789''" for k :: nat
proof -
  have "list_all (\<lambda>k. char_of (48 + k) \<in> set ''0123456789'') [0 ..< 10 :: nat]" by code_simp
  then show "k < 10 \<Longrightarrow> ?thesis" by (simp add: list_all_iff)
qed

lemma fmt_d_digits: "list_all (\<lambda>c. c \<in> set ''0123456789'') (fmt_d n)"
proof (induction n rule: fmt_d.induct)
  case (1 n)
  show ?case
  proof (cases "n < 10")
    case True
    then show ?thesis using digit_char[OF True] by (simp only: fmt_d.simps[of n] list.pred_inject if_True simp_thms)
  next
    case False
    have "n mod 10 < 10" by simp
    from digit_char[OF this] show ?thesis using 1 False
      by (simp only: fmt_d.simps[of n] list.pred_inject list_all_append if_False simp_thms)
  qed
qed

lemma Sscanf_fmt_u [simp]: "Sscanf_u64 (fmt_u n) = Some n"
proof -
  have "fmt_d (unat n) \<noteq> []" by (simp add: fmt_d.simps[of "unat n"])
  moreover have "unat n < 2 ^ 64" using unat_less_exp[of n] by simp
  ultimately show ?thesis using fmt_d_digits[of "unat n"] by (simp add: Sscanf_u64_def fmt_u_def)
qed

text \<open>The number an event carries.\<close>

definition scheduled_id_of :: "('s, 'ls) emu \<Rightarrow> event \<Rightarrow> u64 option" where
  "scheduled_id_of E e =
     (case em_ccf_Decode E (ev_Payload e) of
        Inr (CadenceEvent ty fs) \<Rightarrow> (case map_of fs ''id'' of Some (CadenceUInt64 n) \<Rightarrow> Some n | _ \<Rightarrow> None)
      | _ \<Rightarrow> None)"



end
