(* ===== verification/Emulator_API.thy ===== *)
theory Emulator_API
  imports Emulator_Queries
begin

text \<open>
  The interface \<^verbatim>\<open>Emulator\<close> of \<^verbatim>\<open>emulator/emulator.go\<close>, through which the
  adapters and the server use the blockchain, as a record of operations on a
  state \<^typ>\<open>'b\<close>; its implementation by \<^verbatim>\<open>Blockchain\<close>; and the contract
  \<^verbatim>\<open>block_reader\<close> that the adapters rely on when they read blocks.

  An operation that draws a time or a random number takes the draw as an argument of
  type \<^typ>\<open>world\<close>. The reports of code coverage, computation and profiling
  are only handed through by the callers and have no field here.
\<close>

section \<open>The interface\<close>

record 'b emulator_api =
  ea_ServiceKey :: "'b \<Rightarrow> ServiceKey \<times> 'b"
  ea_Ping :: "'b \<Rightarrow> unit result"
  ea_GetNetworkParameters :: "'b \<Rightarrow> string"
  ea_GetLatestBlock :: "'b \<Rightarrow> block result"
  ea_GetBlockByID :: "flow_id \<Rightarrow> 'b \<Rightarrow> block result"
  ea_GetBlockByHeight :: "u64 \<Rightarrow> 'b \<Rightarrow> block result"
  ea_GetCollectionByID :: "flow_id \<Rightarrow> 'b \<Rightarrow> flow_id list result"
  ea_GetFullCollectionByID :: "flow_id \<Rightarrow> 'b \<Rightarrow> transaction_body list result"
  ea_GetTransaction :: "flow_id \<Rightarrow> 'b \<Rightarrow> transaction_body result"
  ea_GetTransactionResult :: "flow_id \<Rightarrow> 'b \<Rightarrow> access_result result"
  ea_GetTransactionsByBlockID :: "flow_id \<Rightarrow> 'b \<Rightarrow> transaction_body list result"
  ea_GetTransactionResultsByBlockID :: "flow_id \<Rightarrow> 'b \<Rightarrow> access_result list result"
  ea_GetSystemTransaction :: "flow_id \<Rightarrow> flow_id \<Rightarrow> 'b \<Rightarrow> transaction_body result"
  ea_GetSystemTransactionResult :: "flow_id \<Rightarrow> flow_id \<Rightarrow> 'b \<Rightarrow> access_result result"
  ea_GetScheduledTransaction :: "u64 \<Rightarrow> 'b \<Rightarrow> transaction_body result"
  ea_GetScheduledTransactionResult :: "u64 \<Rightarrow> 'b \<Rightarrow> access_result result"
  ea_GetAccount :: "address \<Rightarrow> 'b \<Rightarrow> account result"
  ea_GetAccountAtBlockHeight :: "address \<Rightarrow> u64 \<Rightarrow> 'b \<Rightarrow> account result"
  ea_GetAccountByIndex :: "u64 \<Rightarrow> 'b \<Rightarrow> account result"
  ea_GetAccountUnsafe :: "address \<Rightarrow> 'b \<Rightarrow> account result"
  ea_GetEventsByHeight :: "u64 \<Rightarrow> string \<Rightarrow> 'b \<Rightarrow> event list result"
  ea_GetEventsForBlockIDs :: "string \<Rightarrow> flow_id list \<Rightarrow> 'b \<Rightarrow> block_events list result"
  ea_GetEventsForHeightRange :: "string \<Rightarrow> u64 \<Rightarrow> u64 \<Rightarrow> 'b \<Rightarrow> block_events list result option"
  ea_ExecuteScript :: "bytes \<Rightarrow> bytes list \<Rightarrow> 'b \<Rightarrow> ScriptResult result \<times> 'b"
  ea_ExecuteScriptAtBlockHeight :: "bytes \<Rightarrow> bytes list \<Rightarrow> u64 \<Rightarrow> 'b \<Rightarrow> ScriptResult result \<times> 'b"
  ea_ExecuteScriptAtBlockID :: "bytes \<Rightarrow> bytes list \<Rightarrow> flow_id \<Rightarrow> 'b \<Rightarrow> ScriptResult result \<times> 'b"
  ea_SendTransaction :: "world \<Rightarrow> transaction_body \<Rightarrow> 'b \<Rightarrow> unit result \<times> 'b"
  ea_AddTransaction :: "transaction_body \<Rightarrow> 'b \<Rightarrow> unit result \<times> 'b"
  ea_StartDebugger :: "'b \<Rightarrow> unit option \<times> 'b"
  ea_EndDebugging :: "'b \<Rightarrow> 'b"
  ea_Snapshots :: "'b \<Rightarrow> string list result"
  ea_CreateSnapshot :: "world \<Rightarrow> string \<Rightarrow> 'b \<Rightarrow> unit result \<times> 'b"
  ea_LoadSnapshot :: "world \<Rightarrow> string \<Rightarrow> 'b \<Rightarrow> unit result \<times> 'b"
  ea_RollbackToBlockHeight :: "world \<Rightarrow> u64 \<Rightarrow> 'b \<Rightarrow> unit result \<times> 'b"
  ea_EnableAutoMine :: "'b \<Rightarrow> 'b"
  ea_DisableAutoMine :: "'b \<Rightarrow> 'b"
  ea_ExecuteAndCommitBlock :: "world \<Rightarrow> 'b \<Rightarrow> (block \<times> TransactionResult list) result \<times> 'b"
  ea_ExecuteNextTransaction :: "'b \<Rightarrow> TransactionResult result \<times> 'b"
  ea_ExecuteBlock :: "'b \<Rightarrow> (TransactionResult list \<times> go_error option) \<times> 'b"
  ea_CommitBlock :: "world \<Rightarrow> 'b \<Rightarrow> block result \<times> 'b"
  ea_GetLogs :: "flow_id \<Rightarrow> 'b \<Rightarrow> string list result"
  ea_GetSourceFile :: "location \<Rightarrow> 'b \<Rightarrow> string result"
  ea_is_Blockchain :: bool

section \<open>The implementation: emulator/blockchain.go\<close>

definition Ping :: "('s, 'ls) Blockchain \<Rightarrow> unit result" where
  "Ping b = Inr ()"

definition GetChain :: "('s, 'ls) Blockchain \<Rightarrow> string" where
  "GetChain b = ctx_Chain (bc_vmCtx b)"

definition GetNetworkParameters :: "('s, 'ls) Blockchain \<Rightarrow> string" where
  "GetNetworkParameters b = GetChain b"

text \<open>
  The fields are the exported methods of \<^verbatim>\<open>Blockchain\<close>: each takes the lock and
  calls the operation modelled under its own or its unexported name.
\<close>

definition Blockchain_api :: "'h hashes_scheme \<Rightarrow> ('s, 'ls) emu \<Rightarrow> ('s, 'ls) Blockchain emulator_api" where
  "Blockchain_api p E =
     \<lparr>ea_ServiceKey = bc_ServiceKey E,
      ea_Ping = Ping,
      ea_GetNetworkParameters = GetNetworkParameters,
      ea_GetLatestBlock = getLatestBlock E,
      ea_GetBlockByID = getBlockByID E,
      ea_GetBlockByHeight = getBlockByHeight E,
      ea_GetCollectionByID = getCollectionByID E,
      ea_GetFullCollectionByID = getFullCollectionByID E,
      ea_GetTransaction = getTransaction E,
      ea_GetTransactionResult = getTransactionResult E,
      ea_GetTransactionsByBlockID = GetTransactionsByBlockID E,
      ea_GetTransactionResultsByBlockID = GetTransactionResultsByBlockID E,
      ea_GetSystemTransaction = GetSystemTransaction E,
      ea_GetSystemTransactionResult = GetSystemTransactionResult E,
      ea_GetScheduledTransaction = GetScheduledTransaction E,
      ea_GetScheduledTransactionResult = GetScheduledTransactionResult E,
      ea_GetAccount = getAccount E,
      ea_GetAccountAtBlockHeight = getAccountAtBlock E,
      ea_GetAccountByIndex = GetAccountByIndex E,
      ea_GetAccountUnsafe = GetAccountUnsafe E,
      ea_GetEventsByHeight = GetEventsByHeight E,
      ea_GetEventsForBlockIDs = (\<lambda>ty ids b. Inr (GetEventsForBlockIDs p E ty ids b)),
      ea_GetEventsForHeightRange = (\<lambda>ty s e b. map_option Inr (GetEventsForHeightRange p E ty s e b)),
      ea_ExecuteScript = ExecuteScript p E,
      ea_ExecuteScriptAtBlockHeight = ExecuteScriptAtBlockHeight p E,
      ea_ExecuteScriptAtBlockID = executeScriptAtBlockID p E,
      ea_SendTransaction = SendTransaction p E,
      ea_AddTransaction = addTransaction p E,
      ea_StartDebugger = StartDebugger,
      ea_EndDebugging = EndDebugging,
      ea_Snapshots = bc_Snapshots E,
      ea_CreateSnapshot = bc_CreateSnapshot p E,
      ea_LoadSnapshot = bc_LoadSnapshot p E,
      ea_RollbackToBlockHeight = bc_RollbackToBlockHeight p E,
      ea_EnableAutoMine = EnableAutoMine,
      ea_DisableAutoMine = DisableAutoMine,
      ea_ExecuteAndCommitBlock = executeAndCommitBlock p E,
      ea_ExecuteNextTransaction = ExecuteNextTransaction p E,
      ea_ExecuteBlock = executeBlock p E,
      ea_CommitBlock = commitBlock p E,
      ea_GetLogs = GetLogs E,
      ea_GetSourceFile = GetSourceFile E,
      ea_is_Blockchain = True\<rparr>"

section \<open>The contract for reading blocks\<close>

text \<open>
  \<open>holds b h\<close>: the state \<open>b\<close> holds the chain \<open>h\<close>, a block per height. The contract is what
  \<^verbatim>\<open>GetLatestBlock\<close>, \<^verbatim>\<open>GetBlockByHeight\<close> and \<^verbatim>\<open>GetBlockByID\<close> promise of it.
\<close>

locale block_reader =
  fixes p :: "'h hashes_scheme"
    and api :: "'b emulator_api"
    and holds :: "'b \<Rightarrow> block list \<Rightarrow> bool"
  assumes nonempty: "holds b h \<Longrightarrow> h \<noteq> [] \<and> length h < 2 ^ 63"
    and heights: "holds b h \<Longrightarrow> n < length h \<Longrightarrow> Height (h ! n) = of_nat n"
    and distinct_ids: "holds b h \<Longrightarrow> distinct (map (block_ID p) h)"
    and latest_block: "holds b h \<Longrightarrow> ea_GetLatestBlock api b = Inr (last h)"
    and block_at: "holds b h \<Longrightarrow> ea_GetBlockByHeight api k b =
          (if unat k < length h then Inr (h ! unat k) else Inl (BlockNotFoundByHeightError k))"
    and block_of: "holds b h \<Longrightarrow> n < length h \<Longrightarrow> ea_GetBlockByID api (block_ID p (h ! n)) b = Inr (h ! n)"
    and block_missing: "holds b h \<Longrightarrow> i \<notin> block_ID p ` set h \<Longrightarrow> ea_GetBlockByID api i b = Inl (BlockNotFoundByIDError i)"

text \<open>The chain a \<^verbatim>\<open>Blockchain\<close> on the store \<open>ops\<close> holds, for a relation between stores and histories.\<close>

definition bc_holds ::
  "'h hashes_scheme \<Rightarrow> ('s, 'ls) emu \<Rightarrow> 's store_ops \<Rightarrow> ('s \<Rightarrow> history \<Rightarrow> bool) \<Rightarrow> ('s, 'ls) Blockchain \<Rightarrow> block list \<Rightarrow> bool" where
  "bc_holds p E ops rep b blocks \<longleftrightarrow> em_store E = ops \<and> (\<exists>h. bc_inv p rep b h \<and> blocks = map cb_block h)"

lemma valid_chain_ids: "valid_chain p h \<Longrightarrow> distinct (map (\<lambda>a. block_ID p (cb_block a)) h)"
proof (induction h rule: rev_induct)
  case (snoc a h)
  then have "valid_chain p h" "may_follow p h a" by (simp_all add: valid_chain_snoc)
  then show ?case using snoc.IH may_followD(4)[of p h a] by (fastforce simp: image_iff)
qed simp

context chain_store
begin

lemma reads_blocks: "block_reader p (Blockchain_api p E) (bc_holds p E ops rep)"
proof
  fix b h assume "bc_holds p E ops rep b h"
  then obtain g where E: "em_store E = ops" and g: "bc_inv p rep b g" and h: "h = map cb_block g"
    by (auto simp: bc_holds_def)
  note q = inv_queries[OF g E]
  have v: "valid_chain p g" and r: "rep (bc_storage b) g" and l: "length g < 2 ^ 63" using g by (simp_all add: bc_inv_def)
  show "h \<noteq> [] \<and> length h < 2 ^ 63" using g by (simp add: h bc_inv_def)
  show "n < length h \<Longrightarrow> Height (h ! n) = of_nat n" for n using g by (simp add: h bc_inv_def linked_def)
  show "distinct (map (block_ID p) h)" using valid_chain_ids[OF v] by (simp add: h comp_def)
  show "ea_GetLatestBlock (Blockchain_api p E) b = Inr (last h)"
    using q(1) g by (simp add: Blockchain_api_def h last_map bc_inv_def)
  show "ea_GetBlockByHeight (Blockchain_api p E) k b =
      (if unat k < length h then Inr (h ! unat k) else Inl (BlockNotFoundByHeightError k))" for k
    using q(2)[of k] by (simp add: Blockchain_api_def h hist_block_def)
  show "ea_GetBlockByID (Blockchain_api p E) (block_ID p (h ! n)) b = Inr (h ! n)" if "n < length h" for n
    using that by_id[OF r] valid_chain_lookup(1)[OF v, of n] l
    by (simp add: Blockchain_api_def getBlockByID_def E h hist_block_def unat_of_nat)
  show "ea_GetBlockByID (Blockchain_api p E) i b = Inl (BlockNotFoundByIDError i)" if "i \<notin> block_ID p ` set h" for i
  proof -
    have "hist_height p g i = None" using that by (auto simp: hist_height_def h map_of_eq_None_iff)
    then show ?thesis using by_id[OF r, of i] by (simp add: Blockchain_api_def getBlockByID_def E)
  qed
qed

end

interpretation mem_reader: block_reader p "Blockchain_api p E" "bc_holds p E (memstore_ops p T) (mem_rep p T)" for p E T
  by (rule mem.reads_blocks)

interpretation sq_reader: block_reader p "Blockchain_api p E" "bc_holds p E (default_ops p (sqlite_kv V)) (sqlite_rep p V)" for p E V
  by (rule sq.ds.reads_blocks)

end
