(* ===== verification/Access_Adapter.thy ===== *)
theory Access_Adapter
  imports Emulator_API
begin

text \<open>
  \<^verbatim>\<open>adapters/access.go\<close>: the Access API on top of the interface \<^verbatim>\<open>Emulator\<close>. A
  definition \<open>access_X\<close> is the method \<^verbatim>\<open>AccessAdapter.X\<close>.

  Outside the repository are the JSON encoding of Cadence values, the conversion of an
  event from CCF to JSON, the ID of a header,
  the name of a transaction status, and flow-go's streamer, which calls the data function of a
  subscription for one height after another; a subscription is its start height and
  its data function.
\<close>

section \<open>Errors and libraries\<close>

datatype status_code = InvalidArgument | NotFound | Internal

text \<open>The errors the adapter returns: a gRPC status, or an error of the emulator passed on as it is.\<close>

datatype access_error =
    StatusError status_code string
  | Plain go_error

type_synonym 'a access = "access_error + 'a"

text \<open>The text of a status is gRPC's, the parameter \<open>status_Error\<close>.\<close>

record access_lib =
  status_Error :: "status_code \<Rightarrow> string \<Rightarrow> string"
  jsoncdc_Encode :: "cadence_value option \<Rightarrow> bytes result"
  CcfEventToJsonEvent :: "event \<Rightarrow> event result"
  header_ID :: "header \<Rightarrow> flow_id"
  status_String :: "transaction_status \<Rightarrow> string"

fun access_Error_text :: "access_lib \<Rightarrow> access_error \<Rightarrow> string" where
  "access_Error_text L (StatusError code m) = status_Error L code m"
| "access_Error_text L (Plain e) = Error_text e"

text \<open>
  \<^verbatim>\<open>convertError\<close> switches on the dynamic type. The first case names the value type
  \<^verbatim>\<open>types.InvalidArgumentError\<close>, whereas the errors of that name are pointers, so
  they take the default; the second is the interface of the not-found errors.
\<close>

fun is_not_found :: "access_error \<Rightarrow> bool" where
  "is_not_found (Plain e) = isNotFoundError e"
| "is_not_found (StatusError code m) = False"

definition convertError :: "access_lib \<Rightarrow> access_error \<Rightarrow> status_code \<Rightarrow> access_error" where
  "convertError L err code = StatusError (if is_not_found err then NotFound else code) (access_Error_text L err)"

definition converted :: "access_lib \<Rightarrow> status_code \<Rightarrow> 'a result \<Rightarrow> 'a access" where
  "converted L code r = (case r of Inl err \<Rightarrow> Inl (convertError L (Plain err) code) | Inr x \<Rightarrow> Inr x)"

datatype event_encoding = JSON_CDC_V0 | CCF_V0

datatype block_status = BlockStatusUnknown | BlockStatusFinalized | BlockStatusSealed

definition ConvertCCFEventsToJsonEvents :: "access_lib \<Rightarrow> event list \<Rightarrow> event list result" where
  "ConvertCCFEventsToJsonEvents L events = mapR (CcfEventToJsonEvent L) events"

text \<open>\<^verbatim>\<open>result.Events = ConvertCCFEventsToJsonEvents(result.Events)\<close> if the caller wants JSON.\<close>

definition encode_events :: "access_lib \<Rightarrow> event_encoding \<Rightarrow> access_result \<Rightarrow> access_result result" where
  "encode_events L v result =
     (if v = JSON_CDC_V0
      then bindR (ConvertCCFEventsToJsonEvents L (ar_Events result)) (\<lambda>events. Inr (result\<lparr>ar_Events := events\<rparr>))
      else Inr result)"

definition encode_block_events :: "access_lib \<Rightarrow> event_encoding \<Rightarrow> block_events list \<Rightarrow> block_events list result" where
  "encode_block_events L v bes =
     (if v = JSON_CDC_V0
      then mapR (\<lambda>be. bindR (ConvertCCFEventsToJsonEvents L (be_Events be)) (\<lambda>events. Inr (be\<lparr>be_Events := events\<rparr>))) bes
      else Inr bes)"

section \<open>Blocks and collections\<close>

definition access_Ping :: "access_lib \<Rightarrow> 'b emulator_api \<Rightarrow> 'b \<Rightarrow> unit access" where
  "access_Ping L api b = converted L Internal (ea_Ping api b)"

definition access_GetNetworkParameters :: "'b emulator_api \<Rightarrow> 'b \<Rightarrow> string" where
  "access_GetNetworkParameters api b = ea_GetNetworkParameters api b"

definition access_GetLatestBlock :: "access_lib \<Rightarrow> 'b emulator_api \<Rightarrow> 'b \<Rightarrow> (block \<times> block_status) access" where
  "access_GetLatestBlock L api b =
     bindR (converted L Internal (ea_GetLatestBlock api b)) (\<lambda>block. Inr (block, BlockStatusSealed))"

definition access_GetBlockByHeight :: "access_lib \<Rightarrow> 'b emulator_api \<Rightarrow> u64 \<Rightarrow> 'b \<Rightarrow> (block \<times> block_status) access" where
  "access_GetBlockByHeight L api height b =
     bindR (converted L Internal (ea_GetBlockByHeight api height b)) (\<lambda>block. Inr (block, BlockStatusSealed))"

definition access_GetBlockByID :: "access_lib \<Rightarrow> 'b emulator_api \<Rightarrow> flow_id \<Rightarrow> 'b \<Rightarrow> (block \<times> block_status) access" where
  "access_GetBlockByID L api i b =
     bindR (converted L Internal (ea_GetBlockByID api i b)) (\<lambda>block. Inr (block, BlockStatusSealed))"

definition access_GetLatestBlockHeader ::
  "'h hashes_scheme \<Rightarrow> access_lib \<Rightarrow> 'b emulator_api \<Rightarrow> 'b \<Rightarrow> (header \<times> block_status) access" where
  "access_GetLatestBlockHeader p L api b =
     bindR (converted L Internal (ea_GetLatestBlock api b)) (\<lambda>block. Inr (ToHeader p block, BlockStatusSealed))"

definition access_GetBlockHeaderByHeight ::
  "'h hashes_scheme \<Rightarrow> access_lib \<Rightarrow> 'b emulator_api \<Rightarrow> u64 \<Rightarrow> 'b \<Rightarrow> (header \<times> block_status) access" where
  "access_GetBlockHeaderByHeight p L api height b =
     bindR (converted L Internal (ea_GetBlockByHeight api height b)) (\<lambda>block. Inr (ToHeader p block, BlockStatusSealed))"

definition access_GetBlockHeaderByID ::
  "'h hashes_scheme \<Rightarrow> access_lib \<Rightarrow> 'b emulator_api \<Rightarrow> flow_id \<Rightarrow> 'b \<Rightarrow> (header \<times> block_status) access" where
  "access_GetBlockHeaderByID p L api i b =
     bindR (converted L Internal (ea_GetBlockByID api i b)) (\<lambda>block. Inr (ToHeader p block, BlockStatusSealed))"

definition access_GetCollectionByID :: "access_lib \<Rightarrow> 'b emulator_api \<Rightarrow> flow_id \<Rightarrow> 'b \<Rightarrow> flow_id list access" where
  "access_GetCollectionByID L api i b = converted L Internal (ea_GetCollectionByID api i b)"

definition access_GetFullCollectionByID :: "access_lib \<Rightarrow> 'b emulator_api \<Rightarrow> flow_id \<Rightarrow> 'b \<Rightarrow> transaction_body list access" where
  "access_GetFullCollectionByID L api i b = converted L Internal (ea_GetFullCollectionByID api i b)"

section \<open>Transactions and results\<close>

definition access_GetTransaction :: "access_lib \<Rightarrow> 'b emulator_api \<Rightarrow> flow_id \<Rightarrow> 'b \<Rightarrow> transaction_body access" where
  "access_GetTransaction L api i b = converted L Internal (ea_GetTransaction api i b)"

definition access_GetTransactionResult ::
  "access_lib \<Rightarrow> 'b emulator_api \<Rightarrow> flow_id \<Rightarrow> flow_id \<Rightarrow> event_encoding \<Rightarrow> 'b \<Rightarrow> access_result access" where
  "access_GetTransactionResult L api i blockID v b =
     (let fallback = converted L Internal (bindR (ea_GetTransactionResult api i b) (encode_events L v))
      in if blockID \<noteq> ZeroID
         then case ea_GetSystemTransactionResult api i blockID b of
                Inr sysResult \<Rightarrow> converted L Internal (encode_events L v sysResult)
              | Inl err \<Rightarrow> fallback
         else fallback)"

text \<open>The text of a failed conversion of events.\<close>

definition convert_events_failed :: "'a result \<Rightarrow> 'a access" where
  "convert_events_failed r =
     (case r of Inl err \<Rightarrow> Inl (StatusError Internal (''failed to convert events: '' @ Error_text err)) | Inr x \<Rightarrow> Inr x)"

definition access_GetSystemTransaction :: "access_lib \<Rightarrow> 'b emulator_api \<Rightarrow> flow_id \<Rightarrow> flow_id \<Rightarrow> 'b \<Rightarrow> transaction_body access" where
  "access_GetSystemTransaction L api txID blockID b = converted L NotFound (ea_GetSystemTransaction api txID blockID b)"

definition access_GetSystemTransactionResult ::
  "access_lib \<Rightarrow> 'b emulator_api \<Rightarrow> flow_id \<Rightarrow> flow_id \<Rightarrow> event_encoding \<Rightarrow> 'b \<Rightarrow> access_result access" where
  "access_GetSystemTransactionResult L api txID blockID v b =
     bindR (converted L NotFound (ea_GetSystemTransactionResult api txID blockID b)) (\<lambda>result.
     convert_events_failed (encode_events L v result))"

definition access_GetScheduledTransaction :: "access_lib \<Rightarrow> 'b emulator_api \<Rightarrow> u64 \<Rightarrow> 'b \<Rightarrow> transaction_body access" where
  "access_GetScheduledTransaction L api scheduledTxID b = converted L NotFound (ea_GetScheduledTransaction api scheduledTxID b)"

definition access_GetScheduledTransactionResult ::
  "access_lib \<Rightarrow> 'b emulator_api \<Rightarrow> u64 \<Rightarrow> event_encoding \<Rightarrow> 'b \<Rightarrow> access_result access" where
  "access_GetScheduledTransactionResult L api scheduledTxID v b =
     bindR (converted L NotFound (ea_GetScheduledTransactionResult api scheduledTxID b)) (\<lambda>result.
     convert_events_failed (encode_events L v result))"

text \<open>Every result of the block is converted before the one asked for is returned.\<close>

definition access_GetTransactionResultByIndex ::
  "access_lib \<Rightarrow> 'b emulator_api \<Rightarrow> flow_id \<Rightarrow> u32 \<Rightarrow> event_encoding \<Rightarrow> 'b \<Rightarrow> access_result access" where
  "access_GetTransactionResultByIndex L api blockID index v b =
     bindR (converted L Internal (ea_GetTransactionResultsByBlockID api blockID b)) (\<lambda>results.
     if length results \<le> unat index
     then Inl (convertError L (Plain (TransactionNotFoundError ZeroID)) Internal)
     else bindR (converted L Internal (mapR (encode_events L v) results)) (\<lambda>results.
            if unat index < length results then Inr (results ! unat index) else Inl (Plain (Panic ''index out of range''))))"

definition access_GetTransactionsByBlockID :: "access_lib \<Rightarrow> 'b emulator_api \<Rightarrow> flow_id \<Rightarrow> 'b \<Rightarrow> transaction_body list access" where
  "access_GetTransactionsByBlockID L api blockID b = converted L Internal (ea_GetTransactionsByBlockID api blockID b)"

definition access_GetTransactionResultsByBlockID ::
  "access_lib \<Rightarrow> 'b emulator_api \<Rightarrow> flow_id \<Rightarrow> event_encoding \<Rightarrow> 'b \<Rightarrow> access_result list access" where
  "access_GetTransactionResultsByBlockID L api blockID v b =
     converted L Internal (bindR (ea_GetTransactionResultsByBlockID api blockID b) (mapR (encode_events L v)))"

definition access_SendTransaction ::
  "access_lib \<Rightarrow> 'b emulator_api \<Rightarrow> world \<Rightarrow> transaction_body \<Rightarrow> 'b \<Rightarrow> unit access \<times> 'b" where
  "access_SendTransaction L api w tx b = (let (r, b) = ea_SendTransaction api w tx b in (converted L Internal r, b))"

section \<open>Accounts\<close>

definition access_GetAccount :: "access_lib \<Rightarrow> 'b emulator_api \<Rightarrow> address \<Rightarrow> 'b \<Rightarrow> account access" where
  "access_GetAccount L api addr b = converted L Internal (ea_GetAccount api addr b)"

text \<open>The error of \<^verbatim>\<open>GetAccount\<close> is a status already, and is converted once more.\<close>

definition access_GetAccountAtLatestBlock :: "access_lib \<Rightarrow> 'b emulator_api \<Rightarrow> address \<Rightarrow> 'b \<Rightarrow> account access" where
  "access_GetAccountAtLatestBlock L api addr b =
     (case access_GetAccount L api addr b of Inl err \<Rightarrow> Inl (convertError L err Internal) | Inr account \<Rightarrow> Inr account)"

definition access_GetAccountAtBlockHeight :: "access_lib \<Rightarrow> 'b emulator_api \<Rightarrow> address \<Rightarrow> u64 \<Rightarrow> 'b \<Rightarrow> account access" where
  "access_GetAccountAtBlockHeight L api addr height b = converted L Internal (ea_GetAccountAtBlockHeight api addr height b)"

definition access_GetAccountBalanceAtLatestBlock :: "access_lib \<Rightarrow> 'b emulator_api \<Rightarrow> address \<Rightarrow> 'b \<Rightarrow> u64 access" where
  "access_GetAccountBalanceAtLatestBlock L api addr b =
     bindR (converted L Internal (ea_GetAccount api addr b)) (\<lambda>account. Inr (acc_Balance account))"

definition access_GetAccountBalanceAtBlockHeight :: "access_lib \<Rightarrow> 'b emulator_api \<Rightarrow> address \<Rightarrow> u64 \<Rightarrow> 'b \<Rightarrow> u64 access" where
  "access_GetAccountBalanceAtBlockHeight L api addr height b =
     bindR (converted L Internal (ea_GetAccountAtBlockHeight api addr height b)) (\<lambda>account. Inr (acc_Balance account))"

text \<open>The loop over the keys of an account.\<close>

definition key_at_index :: "u32 \<Rightarrow> account \<Rightarrow> account_public_key access" where
  "key_at_index keyIndex account =
     the_or (StatusError NotFound (''failed to get account key by index: '' @ fmt_d (unat keyIndex)))
       (find (\<lambda>key. key_Index key = keyIndex) (acc_Keys account))"

definition access_GetAccountKeyAtLatestBlock ::
  "access_lib \<Rightarrow> 'b emulator_api \<Rightarrow> address \<Rightarrow> u32 \<Rightarrow> 'b \<Rightarrow> account_public_key access" where
  "access_GetAccountKeyAtLatestBlock L api addr keyIndex b =
     bindR (converted L Internal (ea_GetAccount api addr b)) (key_at_index keyIndex)"

definition access_GetAccountKeyAtBlockHeight ::
  "access_lib \<Rightarrow> 'b emulator_api \<Rightarrow> address \<Rightarrow> u32 \<Rightarrow> u64 \<Rightarrow> 'b \<Rightarrow> account_public_key access" where
  "access_GetAccountKeyAtBlockHeight L api addr keyIndex height b =
     bindR (converted L Internal (ea_GetAccountAtBlockHeight api addr height b)) (key_at_index keyIndex)"

definition access_GetAccountKeysAtLatestBlock ::
  "access_lib \<Rightarrow> 'b emulator_api \<Rightarrow> address \<Rightarrow> 'b \<Rightarrow> account_public_key list access" where
  "access_GetAccountKeysAtLatestBlock L api addr b =
     bindR (converted L Internal (ea_GetAccount api addr b)) (\<lambda>account. Inr (acc_Keys account))"

definition access_GetAccountKeysAtBlockHeight ::
  "access_lib \<Rightarrow> 'b emulator_api \<Rightarrow> address \<Rightarrow> u64 \<Rightarrow> 'b \<Rightarrow> account_public_key list access" where
  "access_GetAccountKeysAtBlockHeight L api addr height b =
     bindR (converted L Internal (ea_GetAccountAtBlockHeight api addr height b)) (\<lambda>account. Inr (acc_Keys account))"

section \<open>Scripts and events\<close>

definition convertScriptResult :: "access_lib \<Rightarrow> ScriptResult result \<Rightarrow> bytes access" where
  "convertScriptResult L r =
     (case r of
        Inl err \<Rightarrow> Inl (StatusError InvalidArgument (Error_text err))
      | Inr result \<Rightarrow>
          (case sr_Error result of
             Some e \<Rightarrow> Inl (StatusError InvalidArgument (Error_text e))
           | None \<Rightarrow> converted L InvalidArgument (jsoncdc_Encode L (sr_Value result))))"

definition access_ExecuteScriptAtLatestBlock ::
  "access_lib \<Rightarrow> 'b emulator_api \<Rightarrow> bytes \<Rightarrow> bytes list \<Rightarrow> 'b \<Rightarrow> bytes access \<times> 'b" where
  "access_ExecuteScriptAtLatestBlock L api script arguments b =
     (case ea_GetLatestBlock api b of
        Inl err \<Rightarrow> (Inl (Plain err), b)
      | Inr latestBlock \<Rightarrow>
          (let (r, b) = ea_ExecuteScript api script arguments b in (convertScriptResult L r, b)))"

definition access_ExecuteScriptAtBlockHeight ::
  "access_lib \<Rightarrow> 'b emulator_api \<Rightarrow> u64 \<Rightarrow> bytes \<Rightarrow> bytes list \<Rightarrow> 'b \<Rightarrow> bytes access \<times> 'b" where
  "access_ExecuteScriptAtBlockHeight L api blockHeight script arguments b =
     (let (r, b) = ea_ExecuteScriptAtBlockHeight api script arguments blockHeight b in (convertScriptResult L r, b))"

definition access_ExecuteScriptAtBlockID ::
  "access_lib \<Rightarrow> 'b emulator_api \<Rightarrow> flow_id \<Rightarrow> bytes \<Rightarrow> bytes list \<Rightarrow> 'b \<Rightarrow> bytes access \<times> 'b" where
  "access_ExecuteScriptAtBlockID L api blockID script arguments b =
     (let (r, b) = ea_ExecuteScriptAtBlockID api script arguments blockID b in (convertScriptResult L r, b))"

text \<open>\<^const>\<open>None\<close> is a query of the emulator that does not end.\<close>

definition access_GetEventsForHeightRange ::
  "access_lib \<Rightarrow> 'b emulator_api \<Rightarrow> string \<Rightarrow> u64 \<Rightarrow> u64 \<Rightarrow> event_encoding \<Rightarrow> 'b \<Rightarrow> block_events list access option" where
  "access_GetEventsForHeightRange L api eventType startHeight endHeight v b =
     map_option (\<lambda>r. converted L Internal (bindR r (encode_block_events L v)))
       (ea_GetEventsForHeightRange api eventType startHeight endHeight b)"

definition access_GetEventsForBlockIDs ::
  "access_lib \<Rightarrow> 'b emulator_api \<Rightarrow> string \<Rightarrow> flow_id list \<Rightarrow> event_encoding \<Rightarrow> 'b \<Rightarrow> block_events list access" where
  "access_GetEventsForBlockIDs L api eventType blockIDs v b =
     converted L Internal (bindR (ea_GetEventsForBlockIDs api eventType blockIDs b) (encode_block_events L v))"

end
