(* ===== verification/Access_Subscriptions.thy ===== *)
theory Access_Subscriptions
  imports Access_Adapter
begin

text \<open>
  The subscriptions of \<^verbatim>\<open>adapters/access.go\<close>: blocks, headers, digests and the
  status of a transaction. A subscription is the height it starts at and the function
  that flow-go's streamer calls for one height after another; an error that wraps
  \<^verbatim>\<open>ErrBlockNotReady\<close> makes the streamer wait, one that wraps \<^verbatim>\<open>ErrEndOfData\<close>
  ends the stream.
\<close>

section \<open>Subscriptions to blocks\<close>

datatype data_error =
    BlockNotReady string
  | EndOfData string
  | DataError go_error

datatype 'f subscription =
    FailedSubscription go_error string
  | HeightBasedSubscription u64 'f

type_synonym ('b, 'd) get_data = "u64 \<Rightarrow> 'b \<Rightarrow> data_error + 'd"

definition validateHeight :: "'b emulator_api \<Rightarrow> u64 \<Rightarrow> 'b \<Rightarrow> data_error + unit" where
  "validateHeight api height b =
     (case ea_GetLatestBlock api b of
        Inl err \<Rightarrow> Inl (DataError (Errorf_wrap ''could not get latest block: '' err))
      | Inr latestBlock \<Rightarrow>
          if height > Height latestBlock
          then Inl (BlockNotReady (''block '' @ fmt_u height @ '' is not available yet: ''))
          else Inr ())"

definition access_getBlock :: "'b emulator_api \<Rightarrow> u64 \<Rightarrow> 'b \<Rightarrow> data_error + block" where
  "access_getBlock api height b =
     bindR (validateHeight api height b) (\<lambda>_.
     case ea_GetBlockByHeight api height b of
       Inl err \<Rightarrow> Inl (BlockNotReady (''failed to retrieve block for height '' @ fmt_u height @ '': ''))
     | Inr block \<Rightarrow> Inr block)"

definition access_getBlockHeader :: "'h hashes_scheme \<Rightarrow> 'b emulator_api \<Rightarrow> u64 \<Rightarrow> 'b \<Rightarrow> data_error + header" where
  "access_getBlockHeader p api height b =
     bindR (validateHeight api height b) (\<lambda>_.
     case ea_GetBlockByHeight api height b of
       Inl err \<Rightarrow> Inl (BlockNotReady (''failed to retrieve block header for height '' @ fmt_u height @ '': ''))
     | Inr block \<Rightarrow> Inr (ToHeader p block))"

definition getBlockResponse :: "'b emulator_api \<Rightarrow> ('b, block) get_data" where
  "getBlockResponse api height b = access_getBlock api height b"

definition getBlockHeaderResponse :: "'h hashes_scheme \<Rightarrow> 'b emulator_api \<Rightarrow> ('b, header) get_data" where
  "getBlockHeaderResponse p api height b = access_getBlockHeader p api height b"

record block_digest =
  bd_BlockID :: flow_id
  bd_Height :: u64
  bd_Timestamp :: int

text \<open>
  \<^verbatim>\<open>time.Unix(int64(t), 0)\<close>, in milliseconds since the epoch: the argument counts seconds, although the
  timestamp of a header counts milliseconds.
\<close>

definition time_Unix :: "u64 \<Rightarrow> int" where
  "time_Unix t = 1000 * sint t"

definition getBlockDigestResponse ::
  "access_lib \<Rightarrow> 'h hashes_scheme \<Rightarrow> 'b emulator_api \<Rightarrow> ('b, block_digest) get_data" where
  "getBlockDigestResponse L p api height b =
     bindR (access_getBlockHeader p api height b) (\<lambda>header.
     Inr \<lparr>bd_BlockID = header_ID L header, bd_Height = Height header, bd_Timestamp = time_Unix (Timestamp header)\<rparr>)"

text \<open>The type assertion to \<^verbatim>\<open>*emulator.Blockchain\<close>, which has the broadcaster.\<close>

definition height_based :: "'b emulator_api \<Rightarrow> u64 \<Rightarrow> 'f \<Rightarrow> 'f subscription" where
  "height_based api start getData =
     (if ea_is_Blockchain api then HeightBasedSubscription start getData
      else FailedSubscription (Errorf ''emulator is not a Blockchain'') ''invalid emulator type'')"

definition subscribeBlocksFromStartBlockID :: "'b emulator_api \<Rightarrow> flow_id \<Rightarrow> 'f \<Rightarrow> 'b \<Rightarrow> 'f subscription" where
  "subscribeBlocksFromStartBlockID api startBlockID getData b =
     (case ea_GetBlockByID api startBlockID b of
        Inl err \<Rightarrow> FailedSubscription err ''could not get block by ID''
      | Inr block \<Rightarrow> height_based api (Height block) getData)"

definition subscribeBlocksFromStartHeight :: "'b emulator_api \<Rightarrow> u64 \<Rightarrow> 'f \<Rightarrow> 'f subscription" where
  "subscribeBlocksFromStartHeight api startHeight getData = height_based api startHeight getData"

definition subscribeBlocksFromLatest :: "'b emulator_api \<Rightarrow> 'f \<Rightarrow> 'b \<Rightarrow> 'f subscription" where
  "subscribeBlocksFromLatest api getData b =
     (case ea_GetLatestBlock api b of
        Inl err \<Rightarrow> FailedSubscription err ''could not get latest block''
      | Inr block \<Rightarrow> height_based api (Height block) getData)"

definition SubscribeBlocksFromStartBlockID :: "'b emulator_api \<Rightarrow> flow_id \<Rightarrow> 'b \<Rightarrow> ('b, block) get_data subscription" where
  "SubscribeBlocksFromStartBlockID api i b = subscribeBlocksFromStartBlockID api i (getBlockResponse api) b"

definition SubscribeBlocksFromStartHeight :: "'b emulator_api \<Rightarrow> u64 \<Rightarrow> ('b, block) get_data subscription" where
  "SubscribeBlocksFromStartHeight api height = subscribeBlocksFromStartHeight api height (getBlockResponse api)"

definition SubscribeBlocksFromLatest :: "'b emulator_api \<Rightarrow> 'b \<Rightarrow> ('b, block) get_data subscription" where
  "SubscribeBlocksFromLatest api b = subscribeBlocksFromLatest api (getBlockResponse api) b"

definition SubscribeBlockHeadersFromStartBlockID ::
  "'h hashes_scheme \<Rightarrow> 'b emulator_api \<Rightarrow> flow_id \<Rightarrow> 'b \<Rightarrow> ('b, header) get_data subscription" where
  "SubscribeBlockHeadersFromStartBlockID p api i b = subscribeBlocksFromStartBlockID api i (getBlockHeaderResponse p api) b"

definition SubscribeBlockHeadersFromStartHeight ::
  "'h hashes_scheme \<Rightarrow> 'b emulator_api \<Rightarrow> u64 \<Rightarrow> ('b, header) get_data subscription" where
  "SubscribeBlockHeadersFromStartHeight p api height = subscribeBlocksFromStartHeight api height (getBlockHeaderResponse p api)"

definition SubscribeBlockHeadersFromLatest ::
  "'h hashes_scheme \<Rightarrow> 'b emulator_api \<Rightarrow> 'b \<Rightarrow> ('b, header) get_data subscription" where
  "SubscribeBlockHeadersFromLatest p api b = subscribeBlocksFromLatest api (getBlockHeaderResponse p api) b"

definition SubscribeBlockDigestsFromStartBlockID ::
  "access_lib \<Rightarrow> 'h hashes_scheme \<Rightarrow> 'b emulator_api \<Rightarrow> flow_id \<Rightarrow> 'b \<Rightarrow> ('b, block_digest) get_data subscription" where
  "SubscribeBlockDigestsFromStartBlockID L p api i b = subscribeBlocksFromStartBlockID api i (getBlockDigestResponse L p api) b"

definition SubscribeBlockDigestsFromStartHeight ::
  "access_lib \<Rightarrow> 'h hashes_scheme \<Rightarrow> 'b emulator_api \<Rightarrow> u64 \<Rightarrow> ('b, block_digest) get_data subscription" where
  "SubscribeBlockDigestsFromStartHeight L p api height = subscribeBlocksFromStartHeight api height (getBlockDigestResponse L p api)"

definition SubscribeBlockDigestsFromLatest ::
  "access_lib \<Rightarrow> 'h hashes_scheme \<Rightarrow> 'b emulator_api \<Rightarrow> 'b \<Rightarrow> ('b, block_digest) get_data subscription" where
  "SubscribeBlockDigestsFromLatest L p api b = subscribeBlocksFromLatest api (getBlockDigestResponse L p api) b"

section \<open>Subscriptions to the status of a transaction\<close>

text \<open>The numbers of flow-go's enumeration, which the loop counts through.\<close>

fun status_number :: "transaction_status \<Rightarrow> nat" where
  "status_number StatusUnknown = 0"
| "status_number StatusPending = 1"
| "status_number StatusFinalized = 2"
| "status_number StatusExecuted = 3"
| "status_number StatusSealed = 4"
| "status_number StatusExpired = 5"

definition all_statuses :: "transaction_status list" where
  "all_statuses = [StatusUnknown, StatusPending, StatusFinalized, StatusExecuted, StatusSealed, StatusExpired]"

definition status_update :: "access_result \<Rightarrow> transaction_status \<Rightarrow> access_result" where
  "status_update txResult st =
     (let result = (status_only st)\<lparr>ar_TransactionID := ar_TransactionID txResult\<rparr>;
          result = (if status_number st \<ge> status_number StatusFinalized
                    then result\<lparr>ar_BlockID := ar_BlockID txResult, ar_BlockHeight := ar_BlockHeight txResult,
                           ar_CollectionID := ar_CollectionID txResult\<rparr>
                    else result)
      in if status_number st \<ge> status_number StatusExecuted
         then result\<lparr>ar_Events := ar_Events txResult, ar_ErrorMessage := ar_ErrorMessage txResult\<rparr>
         else result)"

text \<open>\<^verbatim>\<open>for status := prevStatus + 1; status <= currentStatus; status++\<close>.\<close>

definition generateTransactionStatusUpdates ::
  "access_result \<Rightarrow> transaction_status \<Rightarrow> transaction_status \<Rightarrow> access_result list" where
  "generateTransactionStatusUpdates txResult prevStatus currentStatus =
     (if prevStatus = currentStatus then []
      else map (status_update txResult)
        (filter (\<lambda>st. status_number prevStatus < status_number st \<and> status_number st \<le> status_number currentStatus)
          all_statuses))"

text \<open>The data function, with the variable \<^verbatim>\<open>lastStatus\<close> it captures as its state. \<^const>\<open>None\<close> is \<^verbatim>\<open>nil\<close>: nothing to send.\<close>

definition getTransactionStatusResponse ::
  "access_lib \<Rightarrow> 'b emulator_api \<Rightarrow> flow_id \<Rightarrow> u64 \<Rightarrow> event_encoding \<Rightarrow> u64 \<Rightarrow> 'b \<Rightarrow> transaction_status \<Rightarrow>
   (data_error + access_result list option) \<times> transaction_status" where
  "getTransactionStatusResponse L api txID startHeight v height b lastStatus =
     (case validateHeight api height b of
        Inl err \<Rightarrow> (Inl err, lastStatus)
      | Inr _ \<Rightarrow>
          if lastStatus = StatusSealed \<or> lastStatus = StatusExpired
          then (Inl (EndOfData (''transaction final status '' @ status_String L lastStatus @ '' already reported: '')), lastStatus)
          else case ea_GetTransactionResult api txID b of
                 Inl err \<Rightarrow>
                   if height - startHeight \<ge> 600
                   then (Inr (Some [(status_only StatusExpired)\<lparr>ar_TransactionID := txID\<rparr>]), StatusExpired)
                   else (Inr None, lastStatus)
               | Inr txResult \<Rightarrow>
                   (case encode_events L v txResult of
                      Inl err \<Rightarrow> (Inl (DataError (Errorf_wrap ''failed to convert events: '' err)), lastStatus)
                    | Inr txResult \<Rightarrow>
                        (let currentStatus = StatusSealed
                         in if currentStatus \<noteq> lastStatus
                            then (Inr (Some (generateTransactionStatusUpdates txResult lastStatus currentStatus)), currentStatus)
                            else (Inr None, lastStatus))))"

definition createTransactionSubscription ::
  "access_lib \<Rightarrow> 'b emulator_api \<Rightarrow> flow_id \<Rightarrow> flow_id \<Rightarrow> event_encoding \<Rightarrow> 'b \<Rightarrow>
   (u64 \<Rightarrow> 'b \<Rightarrow> transaction_status \<Rightarrow> (data_error + access_result list option) \<times> transaction_status) subscription" where
  "createTransactionSubscription L api txID startBlockID v b =
     (case ea_GetBlockByID api startBlockID b of
        Inl err \<Rightarrow> FailedSubscription err ''failed to get start block''
      | Inr startBlock \<Rightarrow>
          height_based api (Height startBlock) (getTransactionStatusResponse L api txID (Height startBlock) v))"

type_synonym 'b status_subscription =
  "(u64 \<Rightarrow> 'b \<Rightarrow> transaction_status \<Rightarrow> (data_error + access_result list option) \<times> transaction_status) subscription"

text \<open>\<^verbatim>\<open>SubscribeTransactionStatuses\<close> and \<^verbatim>\<open>SubscribeTransactionStatusesFromLatest\<close> have the same body.\<close>

definition SubscribeTransactionStatuses ::
  "access_lib \<Rightarrow> 'h hashes_scheme \<Rightarrow> 'b emulator_api \<Rightarrow> flow_id \<Rightarrow> event_encoding \<Rightarrow> 'b \<Rightarrow> 'b status_subscription" where
  "SubscribeTransactionStatuses L p api txID v b =
     (case ea_GetLatestBlock api b of
        Inl err \<Rightarrow> FailedSubscription err ''failed to lookup latest block''
      | Inr latestBlock \<Rightarrow> createTransactionSubscription L api txID (block_ID p latestBlock) v b)"

definition SubscribeTransactionStatusesFromStartHeight ::
  "access_lib \<Rightarrow> 'h hashes_scheme \<Rightarrow> 'b emulator_api \<Rightarrow> flow_id \<Rightarrow> u64 \<Rightarrow> event_encoding \<Rightarrow> 'b \<Rightarrow> 'b status_subscription" where
  "SubscribeTransactionStatusesFromStartHeight L p api txID startHeight v b =
     (case ea_GetBlockByHeight api startHeight b of
        Inl err \<Rightarrow> FailedSubscription err ''failed to get start block''
      | Inr block \<Rightarrow> createTransactionSubscription L api txID (block_ID p block) v b)"

definition SubscribeTransactionStatusesFromStartBlockID ::
  "access_lib \<Rightarrow> 'b emulator_api \<Rightarrow> flow_id \<Rightarrow> flow_id \<Rightarrow> event_encoding \<Rightarrow> 'b \<Rightarrow> 'b status_subscription" where
  "SubscribeTransactionStatusesFromStartBlockID L api txID startBlockID v b =
     createTransactionSubscription L api txID startBlockID v b"

definition SendAndSubscribeTransactionStatuses ::
  "access_lib \<Rightarrow> 'h hashes_scheme \<Rightarrow> 'b emulator_api \<Rightarrow> world \<Rightarrow> transaction_body \<Rightarrow> event_encoding \<Rightarrow> 'b \<Rightarrow>
   'b status_subscription \<times> 'b" where
  "SendAndSubscribeTransactionStatuses L p api w tx v b =
     (case ea_SendTransaction api w tx b of
        (Inl err, b) \<Rightarrow> (FailedSubscription err ''failed to send transaction'', b)
      | (Inr _, b) \<Rightarrow> (createTransactionSubscription L api (tx_ID p tx) (ReferenceBlockID tx) v b, b))"

section \<open>What a subscriber receives\<close>

lemma converted_simps [simp]:
  "converted L code (Inr x) = Inr x"
  "converted L code (Inl e) = Inl (StatusError (if isNotFoundError e then NotFound else code) (Error_text e))"
  by (simp_all add: converted_def convertError_def)

context block_reader
begin

lemma tip_height: "holds b h \<Longrightarrow> unat (Height (last h)) = length h - 1"
proof -
  assume h: "holds b h"
  have "Height (last h) = of_nat (length h - 1)" using nonempty[OF h] heights[OF h] by (simp add: last_conv_nth)
  moreover have "length h - 1 < 2 ^ 64" using nonempty[OF h] by (simp add: less_imp_diff_less)
  ultimately show "unat (Height (last h)) = length h - 1" by (simp add: unat_of_nat)
qed

lemma height_ready:
  assumes "holds b h"
  shows "validateHeight api k b =
    (if unat k < length h then Inr () else Inl (BlockNotReady (''block '' @ fmt_u k @ '' is not available yet: '')))"
proof -
  have "Height (last h) < k \<longleftrightarrow> \<not> unat k < length h"
    using tip_height[OF assms] nonempty[OF assms] by (cases h) (auto simp: word_less_nat_alt)
  then show ?thesis using latest_block[OF assms] by (simp add: validateHeight_def)
qed

lemma block_data:
  assumes "holds b h"
  shows "getBlockResponse api k b =
      (if unat k < length h then Inr (h ! unat k) else Inl (BlockNotReady (''block '' @ fmt_u k @ '' is not available yet: '')))"
    "getBlockHeaderResponse p api k b =
      (if unat k < length h then Inr (ToHeader p (h ! unat k))
       else Inl (BlockNotReady (''block '' @ fmt_u k @ '' is not available yet: '')))"
  using block_at[OF assms, of k] height_ready[OF assms, of k]
  by (simp_all add: getBlockResponse_def getBlockHeaderResponse_def access_getBlock_def access_getBlockHeader_def)

lemma block_queries:
  assumes "holds b h"
  shows "access_GetLatestBlock L api b = Inr (last h, BlockStatusSealed)"
    "access_GetBlockByHeight L api k b =
      (if unat k < length h then Inr (h ! unat k, BlockStatusSealed)
       else Inl (StatusError NotFound (''could not find block at height '' @ fmt_u k)))"
  using latest_block[OF assms] block_at[OF assms, of k]
  by (simp_all add: access_GetLatestBlock_def access_GetBlockByHeight_def)

end

lemma bc_holdsI: "em_store E = ops \<Longrightarrow> bc_inv p rep b h \<Longrightarrow> bc_holds p E ops rep b (map cb_block h)"
  by (auto simp: bc_holds_def)



section \<open>The statuses a subscriber receives\<close>

text \<open>The statuses sent by a sequence of calls, each for a height and in the state the emulator has by then.\<close>

fun sent :: "data_error + access_result list option \<Rightarrow> transaction_status list" where
  "sent (Inr (Some results)) = map ar_Status results"
| "sent r = []"

primrec status_stream ::
  "access_lib \<Rightarrow> 'b emulator_api \<Rightarrow> flow_id \<Rightarrow> u64 \<Rightarrow> event_encoding \<Rightarrow> (u64 \<times> 'b) list \<Rightarrow> transaction_status \<Rightarrow>
   transaction_status list" where
  "status_stream L api txID start v [] st = []"
| "status_stream L api txID start v (c # cs) st =
     (let (r, st) = getTransactionStatusResponse L api txID start v (fst c) (snd c) st
      in sent r @ status_stream L api txID start v cs st)"

lemma status_updates_all:
  "map ar_Status (generateTransactionStatusUpdates r StatusUnknown StatusSealed) =
     [StatusPending, StatusFinalized, StatusExecuted, StatusSealed]"
  by (simp add: generateTransactionStatusUpdates_def all_statuses_def status_update_def status_only_def)

lemma final_sends_nothing:
  assumes "st = StatusSealed \<or> st = StatusExpired"
  shows "sent (fst (getTransactionStatusResponse L api txID start v k b st)) = []"
    "snd (getTransactionStatusResponse L api txID start v k b st) = st"
  using assms by (auto simp: getTransactionStatusResponse_def split: sum.splits)

lemma final_stream: "st = StatusSealed \<or> st = StatusExpired \<Longrightarrow> status_stream L api txID start v cs st = []"
  by (induction cs) (simp_all add: final_sends_nothing case_prod_unfold Let_def)

lemma status_step:
  assumes "getTransactionStatusResponse L api txID start v k b StatusUnknown = (r, st)"
  shows "st = StatusUnknown \<and> sent r = [] \<or> st = StatusExpired \<and> sent r = [StatusExpired] \<or>
    st = StatusSealed \<and> sent r = [StatusPending, StatusFinalized, StatusExecuted, StatusSealed]"
  using assms
  by (auto simp: getTransactionStatusResponse_def Let_def status_updates_all status_only_def split: sum.splits if_splits)

text \<open>C29: Whatever heights the streamer asks for and whatever happens to the chain between two calls, a subscriber to the status of a
  transaction receives either nothing, or the single status Expired, or the statuses Pending, Finalized, Executed and
  Sealed in this order, each once.\<close>

theorem status_stream_final:
  "status_stream L api txID start v calls StatusUnknown
     \<in> {[], [StatusExpired], [StatusPending, StatusFinalized, StatusExecuted, StatusSealed]}"
proof (induction calls)
  case (Cons c cs)
  obtain r st where c: "getTransactionStatusResponse L api txID start v (fst c) (snd c) StatusUnknown = (r, st)"
    by (cases "getTransactionStatusResponse L api txID start v (fst c) (snd c) StatusUnknown")
  show ?case using status_step[OF c] Cons by (auto simp: c final_stream)
qed simp

text \<open>C36: A transaction that the emulator itself reports as Unknown or as Pending is reported to the first subscriber who asks for an
  available block as Pending, Finalized, Executed and Sealed at once, with a zero transaction ID and a zero block ID. The
  expiry branch of the data function is not reached, because the emulator does not answer an unknown transaction with an
  error.\<close>

theorem unknown_reported_sealed:
  assumes "em_store E = memstore_ops p T" "bc_inv p (mem_rep p T) b h" "unat k < length h"
    "getTransactionResult E txID b = Inr (status_only st)"
  shows "\<exists>results. getTransactionStatusResponse L (Blockchain_api p E) txID start v k b StatusUnknown =
      (Inr (Some results), StatusSealed) \<and>
    map ar_Status results = [StatusPending, StatusFinalized, StatusExecuted, StatusSealed] \<and>
    (\<forall>r \<in> set results. ar_TransactionID r = ZeroID \<and> ar_BlockID r = ZeroID)"
proof -
  have "validateHeight (Blockchain_api p E) k b = Inr ()"
    using mem_reader.height_ready[OF bc_holdsI[OF assms(1,2)], of k] assms(3) by simp
  moreover have "encode_events L v (status_only st) = Inr (status_only st)"
    by (simp add: encode_events_def ConvertCCFEventsToJsonEvents_def status_only_def)
  ultimately have "getTransactionStatusResponse L (Blockchain_api p E) txID start v k b StatusUnknown =
      (Inr (Some (generateTransactionStatusUpdates (status_only st) StatusUnknown StatusSealed)), StatusSealed)"
    using assms(4) by (simp add: getTransactionStatusResponse_def Blockchain_api_def)
  moreover have "\<forall>r \<in> set (generateTransactionStatusUpdates (status_only st) StatusUnknown StatusSealed).
      ar_TransactionID r = ZeroID \<and> ar_BlockID r = ZeroID"
    by (auto simp: generateTransactionStatusUpdates_def status_update_def status_only_def Let_def)
  ultimately show ?thesis using status_updates_all by blast
qed

definition sample_access_lib :: access_lib where
  "sample_access_lib =
     \<lparr>status_Error = (\<lambda>code m. m), jsoncdc_Encode = (\<lambda>v. Inr []), CcfEventToJsonEvent = Inr,
      header_ID = (\<lambda>h. ucast (Height h)), status_String = (\<lambda>st. ''status'')\<rparr>"

theorem unknown_reported_sealed_witness:
  "\<exists>(b :: sample_mem_chain) results.
     getTransactionStatusResponse sample_access_lib (Blockchain_api sample_codec sample_mem) 3 0 CCF_V0 0 b StatusUnknown =
       (Inr (Some results), StatusSealed) \<and>
     map ar_Status results = [StatusPending, StatusFinalized, StatusExecuted, StatusSealed]"
proof -
  obtain b :: sample_mem_chain and g
    where b: "fresh b" "bc_inv sample_codec (mem_rep sample_codec sample_tree) b [g]" "sample_genesis g"
    using sample_genesis_started by blast
  then obtain e where e: "sample_ran g e" using sample_runs[OF b] by blast
  then have inv: "bc_inv sample_codec (mem_rep sample_codec sample_tree) e [g]"
    and "getTransactionResult sample_mem 3 e = Inr (status_only StatusPending)"
    by (simp_all add: sample_ran_def getTransactionResult_def pb_ContainsTransaction_def)
  from unknown_reported_sealed[OF _ inv _ this(2), of 0 sample_access_lib 0 CCF_V0] show ?thesis by fastforce
qed

section \<open>Bounds and missing entities\<close>

lemma mapR_nth: "mapR f xs = Inr ys \<Longrightarrow> i < length xs \<Longrightarrow> i < length ys \<and> f (xs ! i) = Inr (ys ! i)"
  by (induction xs arbitrary: ys i) (auto simp: bindR_eq_Inr nth_Cons split: nat.split)

text \<open>The query for the result of a transaction by its 32-bit index in a block answers every index: beyond the results of the
  block with the status NotFound, otherwise with the result at that index with its events converted, or with an error status if
  the events of some result of the block do not convert. It never indexes out of range.\<close>

theorem result_by_index:
  assumes "ea_GetTransactionResultsByBlockID api blockID b = Inr results"
  shows "access_GetTransactionResultByIndex L api blockID index v b =
    (if length results \<le> unat index then Inl (StatusError NotFound (Error_text (TransactionNotFoundError ZeroID)))
     else case mapR (encode_events L v) results of
            Inl err \<Rightarrow> Inl (StatusError (if isNotFoundError err then NotFound else Internal) (Error_text err))
          | Inr _ \<Rightarrow> converted L Internal (encode_events L v (results ! unat index)))"
proof (cases "mapR (encode_events L v) results")
  case (Inr encoded)
  then show ?thesis using assms mapR_nth[OF Inr, of "unat index"]
    by (simp add: access_GetTransactionResultByIndex_def convertError_def)
qed (use assms in \<open>simp add: access_GetTransactionResultByIndex_def convertError_def\<close>)

theorem result_by_index_witness:
  "access_GetTransactionResultByIndex sample_access_lib (Blockchain_api sample_codec sample_sq) (sample_block_ID (sample_block 0))
     0 CCF_V0 sample_chain = Inr (sealed_access 7 (sample_result 0)) \<and>
   access_GetTransactionResultByIndex sample_access_lib (Blockchain_api sample_codec sample_sq) (sample_block_ID (sample_block 0))
     1 CCF_V0 sample_chain = Inl (StatusError NotFound (Error_text (TransactionNotFoundError ZeroID)))"
proof -
  let ?api = "Blockchain_api sample_codec sample_sq" and ?i = "sample_block_ID (sample_block 0)"
  have r: "sqlite_rep sample_codec sample_env (bc_storage sample_chain) [sample_commit 0]"
    using sample_chain_inv by (simp add: bc_inv_def)
  have "ea_GetTransactionResultsByBlockID ?api ?i sample_chain = Inr [sealed_access 7 (sample_result 0)]"
    using sq.ds.by_id[OF r, of ?i] sq.ds.system[OF r, of ?i] sq.ds.system_result[OF r, of ?i 7]
    by (simp add: Blockchain_api_def GetTransactionResultsByBlockID_def getBlockByID_def in_guarantees_def look_up_all_def
        getSystemTransactionResult_def hist_height_def hist_block_def hist_system_def hist_system_result_def
        system_results_of_def SystemTransactions_of_def has_system_def sample_commit_def)
      (simp add: sample_block_def)
  from result_by_index[OF this, of sample_access_lib 0 CCF_V0] result_by_index[OF this, of sample_access_lib 1 CCF_V0]
  show ?thesis by (simp add: encode_events_def)
qed

text \<open>An account that does not exist is reported with the status NotFound by the query for an account and by the queries at a
  given height, but with the status Internal by the query at the latest block, which converts the error a second time.\<close>

lemma account_not_found:
  assumes "ea_GetAccount api addr b = Inl (AccountNotFoundError addr)"
  shows "access_GetAccount L api addr b = Inl (StatusError NotFound (Error_text (AccountNotFoundError addr))) \<and>
    access_GetAccountBalanceAtLatestBlock L api addr b = Inl (StatusError NotFound (Error_text (AccountNotFoundError addr))) \<and>
    access_GetAccountAtLatestBlock L api addr b =
      Inl (StatusError Internal (status_Error L NotFound (Error_text (AccountNotFoundError addr))))"
  using assms
  by (simp add: access_GetAccount_def access_GetAccountAtLatestBlock_def access_GetAccountBalanceAtLatestBlock_def convertError_def)

end
