(* ===== verification/SDK_Adapter.thy ===== *)
theory SDK_Adapter
  imports Access_Subscriptions
begin

text \<open>
  \<^verbatim>\<open>adapters/sdk.go\<close>: the emulator with the types of the Go SDK. A definition
  \<open>SDK_X\<close> is the method \<^verbatim>\<open>SDKAdapter.X\<close>.

  Outside the repository are the template of the transaction that creates an account, signing, the ID of an SDK
  transaction, and the encodings and the field lookup of Cadence values; they are the record \<^verbatim>\<open>sdk_lib\<close>.
\<close>

section \<open>Blocks\<close>

record sdk_lib =
  sl_access :: access_lib
  sl_ccf :: ccf_codec
  sl_CreateAccount :: "sdk_account_key list \<Rightarrow> (string \<times> string) list \<Rightarrow> sdk_address \<Rightarrow> sdk_transaction result"
  sl_SignEnvelope :: "bytes option \<Rightarrow> nat \<Rightarrow> sdk_address \<Rightarrow> u32 \<Rightarrow> sdk_transaction \<Rightarrow> sdk_transaction result"
  sl_tx_ID :: "sdk_transaction \<Rightarrow> sdk_id"
  sl_MaxGasLimit :: u64
  sl_EventAccountCreated :: string
  sl_AddressParameter :: string
  SearchFieldByName :: "cadence_value \<Rightarrow> string \<Rightarrow> cadence_value option"

record sdk_block_header =
  sb_ID :: sdk_id
  sb_ParentID :: sdk_id
  sb_Height :: u64
  sb_Timestamp :: int

record sdk_block = sdk_block_header +
  sb_CollectionGuarantees :: "sdk_id list"
  sb_Seals :: "(sdk_id \<times> sdk_id) list"

definition sdk_header_of :: "'h hashes_scheme \<Rightarrow> block \<Rightarrow> sdk_block_header" where
  "sdk_header_of p block =
     \<lparr>sb_ID = FlowIdentifierToSDK (block_ID p block), sb_ParentID = FlowIdentifierToSDK (ParentID block),
      sb_Height = Height block, sb_Timestamp = UnixMilli (Timestamp block)\<rparr>"

definition convertBlockPayload :: "block \<Rightarrow> sdk_id list \<times> (sdk_id \<times> sdk_id) list" where
  "convertBlockPayload block =
     (map FlowIdentifierToSDK (Guarantees block),
      map (\<lambda>s. (FlowIdentifierToSDK (seal_BlockID s), FlowIdentifierToSDK (seal_ResultID s))) (Seals block))"

definition sdk_block_of :: "'h hashes_scheme \<Rightarrow> block \<Rightarrow> sdk_block" where
  "sdk_block_of p block =
     \<lparr>sb_ID = FlowIdentifierToSDK (block_ID p block), sb_ParentID = FlowIdentifierToSDK (ParentID block),
      sb_Height = Height block, sb_Timestamp = UnixMilli (Timestamp block),
      sb_CollectionGuarantees = fst (convertBlockPayload block), sb_Seals = snd (convertBlockPayload block)\<rparr>"

text \<open>\<^verbatim>\<open>status.Error(codes.Internal, err.Error())\<close>.\<close>

definition internal :: "'a result \<Rightarrow> 'a access" where
  "internal r = (case r of Inl err \<Rightarrow> Inl (StatusError Internal (Error_text err)) | Inr x \<Rightarrow> Inr x)"

text \<open>An error of the emulator returned as it is.\<close>

definition plain :: "'a result \<Rightarrow> 'a access" where
  "plain r = (case r of Inl err \<Rightarrow> Inl (Plain err) | Inr x \<Rightarrow> Inr x)"

definition SDK_Ping :: "'b emulator_api \<Rightarrow> 'b \<Rightarrow> unit result" where
  "SDK_Ping api b = ea_Ping api b"

definition SDK_GetChainID :: "'b emulator_api \<Rightarrow> 'b \<Rightarrow> string" where
  "SDK_GetChainID api b = ea_GetNetworkParameters api b"

definition SDK_EnableAutoMine :: "'b emulator_api \<Rightarrow> 'b \<Rightarrow> 'b" where
  "SDK_EnableAutoMine api b = ea_EnableAutoMine api b"

definition SDK_DisableAutoMine :: "'b emulator_api \<Rightarrow> 'b \<Rightarrow> 'b" where
  "SDK_DisableAutoMine api b = ea_DisableAutoMine api b"

definition SDK_GetLatestBlockHeader ::
  "'h hashes_scheme \<Rightarrow> 'b emulator_api \<Rightarrow> 'b \<Rightarrow> (sdk_block_header \<times> block_status) access" where
  "SDK_GetLatestBlockHeader p api b =
     bindR (internal (ea_GetLatestBlock api b)) (\<lambda>block. Inr (sdk_header_of p block, BlockStatusSealed))"

definition SDK_GetBlockHeaderByHeight ::
  "'h hashes_scheme \<Rightarrow> 'b emulator_api \<Rightarrow> u64 \<Rightarrow> 'b \<Rightarrow> (sdk_block_header \<times> block_status) access" where
  "SDK_GetBlockHeaderByHeight p api height b =
     bindR (internal (ea_GetBlockByHeight api height b)) (\<lambda>block. Inr (sdk_header_of p block, BlockStatusSealed))"

definition SDK_GetBlockHeaderByID ::
  "'h hashes_scheme \<Rightarrow> 'b emulator_api \<Rightarrow> sdk_id \<Rightarrow> 'b \<Rightarrow> (sdk_block_header \<times> block_status) access" where
  "SDK_GetBlockHeaderByID p api i b =
     bindR (plain (ea_GetBlockByID api (SDKIdentifierToFlow i) b)) (\<lambda>block. Inr (sdk_header_of p block, BlockStatusSealed))"

definition SDK_GetLatestBlock ::
  "'h hashes_scheme \<Rightarrow> 'b emulator_api \<Rightarrow> 'b \<Rightarrow> (sdk_block \<times> block_status) access" where
  "SDK_GetLatestBlock p api b =
     bindR (internal (ea_GetLatestBlock api b)) (\<lambda>block. Inr (sdk_block_of p block, BlockStatusSealed))"

definition SDK_GetBlockByHeight ::
  "'h hashes_scheme \<Rightarrow> 'b emulator_api \<Rightarrow> u64 \<Rightarrow> 'b \<Rightarrow> (sdk_block \<times> block_status) access" where
  "SDK_GetBlockByHeight p api height b =
     bindR (internal (ea_GetBlockByHeight api height b)) (\<lambda>block. Inr (sdk_block_of p block, BlockStatusSealed))"

definition SDK_GetBlockByID ::
  "'h hashes_scheme \<Rightarrow> 'b emulator_api \<Rightarrow> sdk_id \<Rightarrow> 'b \<Rightarrow> (sdk_block \<times> block_status) access" where
  "SDK_GetBlockByID p api i b =
     bindR (internal (ea_GetBlockByID api (SDKIdentifierToFlow i) b)) (\<lambda>block. Inr (sdk_block_of p block, BlockStatusSealed))"

section \<open>Collections, transactions, accounts and events\<close>

definition SDK_GetCollectionByID :: "'b emulator_api \<Rightarrow> sdk_id \<Rightarrow> 'b \<Rightarrow> sdk_id list result" where
  "SDK_GetCollectionByID api i b =
     bindR (ea_GetCollectionByID api (SDKIdentifierToFlow i) b) (\<lambda>c. Inr (FlowLightCollectionToSDK c))"

definition SDK_SendTransaction ::
  "'b emulator_api \<Rightarrow> world \<Rightarrow> sdk_transaction \<Rightarrow> 'b \<Rightarrow> unit result \<times> 'b" where
  "SDK_SendTransaction api w tx b = ea_SendTransaction api w (SDKTransactionToFlow tx) b"

definition SDK_GetTransaction :: "'b emulator_api \<Rightarrow> sdk_id \<Rightarrow> 'b \<Rightarrow> sdk_transaction result" where
  "SDK_GetTransaction api i b =
     bindR (ea_GetTransaction api (SDKIdentifierToFlow i) b) (\<lambda>tx. Inr (FlowTransactionToSDK tx))"

definition SDK_GetTransactionResult :: "sdk_lib \<Rightarrow> 'b emulator_api \<Rightarrow> sdk_id \<Rightarrow> 'b \<Rightarrow> sdk_transaction_result result" where
  "SDK_GetTransactionResult S api i b =
     bindR (ea_GetTransactionResult api (SDKIdentifierToFlow i) b) (FlowTransactionResultToSDK (sl_ccf S))"

definition SDK_getAccount :: "'b emulator_api \<Rightarrow> sdk_address \<Rightarrow> 'b \<Rightarrow> sdk_account result" where
  "SDK_getAccount api addr b = bindR (ea_GetAccount api (SDKAddressToFlow addr) b) FlowAccountToSDK"

definition SDK_GetAccount :: "'b emulator_api \<Rightarrow> sdk_address \<Rightarrow> 'b \<Rightarrow> sdk_account result" where
  "SDK_GetAccount api addr b = SDK_getAccount api addr b"

definition SDK_GetAccountAtLatestBlock :: "'b emulator_api \<Rightarrow> sdk_address \<Rightarrow> 'b \<Rightarrow> sdk_account result" where
  "SDK_GetAccountAtLatestBlock api addr b = SDK_getAccount api addr b"

definition SDK_GetAccountAtBlockHeight :: "'b emulator_api \<Rightarrow> sdk_address \<Rightarrow> u64 \<Rightarrow> 'b \<Rightarrow> sdk_account result" where
  "SDK_GetAccountAtBlockHeight api addr height b =
     bindR (ea_GetAccountAtBlockHeight api (SDKAddressToFlow addr) height b) FlowAccountToSDK"

definition SDK_GetTransactionsByBlockID :: "'b emulator_api \<Rightarrow> sdk_id \<Rightarrow> 'b \<Rightarrow> sdk_transaction list result" where
  "SDK_GetTransactionsByBlockID api i b =
     bindR (ea_GetTransactionsByBlockID api (SDKIdentifierToFlow i) b) (\<lambda>txs. Inr (map FlowTransactionToSDK txs))"

definition SDK_GetTransactionResultsByBlockID ::
  "sdk_lib \<Rightarrow> 'b emulator_api \<Rightarrow> sdk_id \<Rightarrow> 'b \<Rightarrow> sdk_transaction_result list result" where
  "SDK_GetTransactionResultsByBlockID S api i b =
     bindR (ea_GetTransactionResultsByBlockID api (SDKIdentifierToFlow i) b) (mapR (FlowTransactionResultToSDK (sl_ccf S)))"

record sdk_block_events =
  sbe_BlockID :: sdk_id
  sbe_Height :: u64
  sbe_BlockTimestamp :: int
  sbe_Events :: "sdk_event list"

definition sdk_block_events_of :: "sdk_lib \<Rightarrow> block_events \<Rightarrow> sdk_block_events result" where
  "sdk_block_events_of S be =
     bindR (FlowEventsToSDK (sl_ccf S) (be_Events be)) (\<lambda>events.
     Inr \<lparr>sbe_BlockID = FlowIdentifierToSDK (be_BlockID be), sbe_Height = be_BlockHeight be,
          sbe_BlockTimestamp = be_BlockTimestamp be, sbe_Events = events\<rparr>)"

definition SDK_GetEventsForBlockIDs ::
  "sdk_lib \<Rightarrow> 'b emulator_api \<Rightarrow> string \<Rightarrow> sdk_id list \<Rightarrow> 'b \<Rightarrow> sdk_block_events list result" where
  "SDK_GetEventsForBlockIDs S api eventType blockIDs b =
     bindR (ea_GetEventsForBlockIDs api eventType (SDKIdentifiersToFlow blockIDs) b) (mapR (sdk_block_events_of S))"

definition SDK_GetEventsForHeightRange ::
  "sdk_lib \<Rightarrow> 'b emulator_api \<Rightarrow> string \<Rightarrow> u64 \<Rightarrow> u64 \<Rightarrow> 'b \<Rightarrow> sdk_block_events list result option" where
  "SDK_GetEventsForHeightRange S api eventType startHeight endHeight b =
     map_option (\<lambda>r. bindR r (mapR (sdk_block_events_of S)))
       (ea_GetEventsForHeightRange api eventType startHeight endHeight b)"

section \<open>Scripts\<close>

definition SDK_executeScriptAtBlock ::
  "sdk_lib \<Rightarrow> 'b emulator_api \<Rightarrow> bytes \<Rightarrow> bytes list \<Rightarrow> u64 \<Rightarrow> 'b \<Rightarrow> bytes result \<times> 'b" where
  "SDK_executeScriptAtBlock S api script arguments blockHeight b =
     bindE (ea_ExecuteScriptAtBlockHeight api script arguments blockHeight b) (\<lambda>result b.
       (case sr_Error result of
          Some err \<Rightarrow> Inl err
        | None \<Rightarrow> jsoncdc_Encode (sl_access S) (sr_Value result), b))"

definition SDK_ExecuteScriptAtLatestBlock ::
  "sdk_lib \<Rightarrow> 'b emulator_api \<Rightarrow> bytes \<Rightarrow> bytes list \<Rightarrow> 'b \<Rightarrow> bytes result \<times> 'b" where
  "SDK_ExecuteScriptAtLatestBlock S api script arguments b =
     (case ea_GetLatestBlock api b of
        Inl err \<Rightarrow> (Inl err, b)
      | Inr block \<Rightarrow> SDK_executeScriptAtBlock S api script arguments (Height block) b)"

definition SDK_ExecuteScriptAtBlockHeight ::
  "sdk_lib \<Rightarrow> 'b emulator_api \<Rightarrow> u64 \<Rightarrow> bytes \<Rightarrow> bytes list \<Rightarrow> 'b \<Rightarrow> bytes result \<times> 'b" where
  "SDK_ExecuteScriptAtBlockHeight S api blockHeight script arguments b =
     SDK_executeScriptAtBlock S api script arguments blockHeight b"

definition SDK_ExecuteScriptAtBlockID ::
  "sdk_lib \<Rightarrow> 'b emulator_api \<Rightarrow> sdk_id \<Rightarrow> bytes \<Rightarrow> bytes list \<Rightarrow> 'b \<Rightarrow> bytes result \<times> 'b" where
  "SDK_ExecuteScriptAtBlockID S api blockID script arguments b =
     (case ea_GetBlockByID api (SDKIdentifierToFlow blockID) b of
        Inl err \<Rightarrow> (Inl err, b)
      | Inr block \<Rightarrow> SDK_executeScriptAtBlock S api script arguments (Height block) b)"

section \<open>Creating an account\<close>

text \<open>
  The loop over the events of the transaction: the address in the first event of the type, the zero address if
  there is none. A field that is not an address fails the type assertion.
\<close>

definition created_address :: "sdk_lib \<Rightarrow> sdk_event list \<Rightarrow> sdk_address result" where
  "created_address S events =
     (case find (\<lambda>e. sdk_ev_Type e = sl_EventAccountCreated S) events of
        None \<Rightarrow> Inr 0
      | Some e \<Rightarrow>
          (case SearchFieldByName S (sdk_ev_Value e) (sl_AddressParameter S) of
             Some (CadenceAddress a) \<Rightarrow> Inr a
           | _ \<Rightarrow> Inl (Panic ''interface conversion: not a cadence.Address'')))"

definition find_created :: "sdk_lib \<Rightarrow> sdk_id \<Rightarrow> TransactionResult list \<Rightarrow> sdk_address result" where
  "find_created S txID results =
     (case find (\<lambda>r. tr_TransactionID r = txID) results of
        None \<Rightarrow> Inl (Errorf (''failed to find result for tx '' @ ID_String txID))
      | Some txResult \<Rightarrow>
          (case tr_Error txResult of
             Some err \<Rightarrow> Inl err
           | None \<Rightarrow>
               bindR (created_address S (tr_Events txResult)) (\<lambda>addr.
               if addr = 0 then Inl (Errorf ''failed to find AccountCreated event'') else Inr addr)))"

text \<open>The transaction, from the template and signed by the service key.\<close>

definition account_transaction ::
  "sdk_lib \<Rightarrow> 'h hashes_scheme \<Rightarrow> ServiceKey \<Rightarrow> block \<Rightarrow> sdk_account_key list \<Rightarrow> (string \<times> string) list \<Rightarrow>
   sdk_transaction result" where
  "account_transaction S p serviceKey latestBlock publicKeys contracts =
     bindR (sl_CreateAccount S publicKeys contracts (sk_Address serviceKey)) (\<lambda>tx.
     sl_SignEnvelope S (sk_PrivateKey serviceKey) (sk_HashAlgo serviceKey) (sk_Address serviceKey) (sk_Index serviceKey)
       (tx\<lparr>sdk_GasLimit := sl_MaxGasLimit S,
           sdk_ReferenceBlockID := FlowIdentifierToSDK (block_ID p latestBlock),
           sdk_ProposalKey := \<lparr>sdk_pk_Address = sk_Address serviceKey, sdk_pk_KeyIndex = sk_Index serviceKey,
              sdk_pk_SequenceNumber = sk_SequenceNumber serviceKey\<rparr>,
           sdk_Payer := sk_Address serviceKey\<rparr>))"

text \<open>The three draws are those of \<^verbatim>\<open>SendTransaction\<close>, \<^verbatim>\<open>ExecuteAndCommitBlock\<close> and \<^verbatim>\<open>CommitBlock\<close>.\<close>

definition SDK_CreateAccount ::
  "sdk_lib \<Rightarrow> 'h hashes_scheme \<Rightarrow> 'b emulator_api \<Rightarrow> world \<times> world \<times> world \<Rightarrow> sdk_account_key list \<Rightarrow>
   (string \<times> string) list \<Rightarrow> 'b \<Rightarrow> sdk_address result \<times> 'b" where
  "SDK_CreateAccount S p api ws publicKeys contracts b =
     (let (serviceKey, b) = ea_ServiceKey api b
      in case bindR (ea_GetLatestBlock api b) (\<lambda>latestBlock.
                account_transaction S p serviceKey latestBlock publicKeys contracts) of
           Inl err \<Rightarrow> (Inl err, b)
         | Inr tx \<Rightarrow>
             bindE (SDK_SendTransaction api (fst ws) tx b) (\<lambda>_ b.
             bindE (ea_ExecuteAndCommitBlock api (fst (snd ws)) b) (\<lambda>(_, results) b.
             bindE (ea_CommitBlock api (snd (snd ws)) b) (\<lambda>_ b.
               (find_created S (sl_tx_ID S tx) results, b)))))"

section \<open>The two adapters agree on scripts\<close>

definition ok_part :: "'e + 'a \<Rightarrow> 'a option" where
  "ok_part r = (case r of Inl _ \<Rightarrow> None | Inr x \<Rightarrow> Some x)"

lemma script_values:
  "ok_part (convertScriptResult (sl_access S) r) =
     ok_part (bindR r (\<lambda>result. case sr_Error result of
        Some err \<Rightarrow> Inl err | None \<Rightarrow> jsoncdc_Encode (sl_access S) (sr_Value result)))"
  by (auto simp: convertScriptResult_def ok_part_def converted_def split: sum.splits option.splits)

lemma adapters_same_script:
  "snd (SDK_executeScriptAtBlock S api s args k b) = snd (access_ExecuteScriptAtBlockHeight (sl_access S) api k s args b)"
  "ok_part (fst (SDK_executeScriptAtBlock S api s args k b)) =
     ok_part (fst (access_ExecuteScriptAtBlockHeight (sl_access S) api k s args b))"
proof -
  obtain r c where x: "ea_ExecuteScriptAtBlockHeight api s args k b = (r, c)"
    by (cases "ea_ExecuteScriptAtBlockHeight api s args k b")
  show "snd (SDK_executeScriptAtBlock S api s args k b) = snd (access_ExecuteScriptAtBlockHeight (sl_access S) api k s args b)"
    "ok_part (fst (SDK_executeScriptAtBlock S api s args k b)) =
     ok_part (fst (access_ExecuteScriptAtBlockHeight (sl_access S) api k s args b))"
    by (cases r; simp add: SDK_executeScriptAtBlock_def access_ExecuteScriptAtBlockHeight_def x script_values)+
qed

lemma script_by_height_is_by_id:
  assumes "getBlockByHeight E k b = Inr blk"
  shows "ExecuteScriptAtBlockHeight p E s args k b = executeScriptAtBlockID p E s args (block_ID p blk) b"
  using assms by (simp add: ExecuteScriptAtBlockHeight_def)

lemma adapters_same_block:
  assumes "em_store E = default_ops p (sqlite_kv V)" "bc_inv p (sqlite_rep p V) b h" "n < length h"
  defines "api \<equiv> Blockchain_api p E" and "i \<equiv> block_ID p (cb_block (h ! n))"
  shows "access_ExecuteScriptAtBlockID (sl_access S) api i s args b = access_ExecuteScriptAtBlockHeight (sl_access S) api (of_nat n) s args b"
    "SDK_ExecuteScriptAtBlockID S api i s args b = SDK_ExecuteScriptAtBlockHeight S api (of_nat n) s args b"
    "snd (SDK_ExecuteScriptAtBlockHeight S api (of_nat n) s args b) = snd (access_ExecuteScriptAtBlockHeight (sl_access S) api (of_nat n) s args b)"
    "ok_part (fst (SDK_ExecuteScriptAtBlockHeight S api (of_nat n) s args b)) =
       ok_part (fst (access_ExecuteScriptAtBlockHeight (sl_access S) api (of_nat n) s args b))"
    "n = length h - 1 \<Longrightarrow> access_ExecuteScriptAtLatestBlock (sl_access S) api s args b =
       access_ExecuteScriptAtBlockHeight (sl_access S) api (of_nat n) s args b"
    "n = length h - 1 \<Longrightarrow> SDK_ExecuteScriptAtLatestBlock S api s args b = SDK_ExecuteScriptAtBlockHeight S api (of_nat n) s args b"
proof -
  note H = bc_holdsI[OF assms(1,2)]
  have "n < 2 ^ 64" using sq_reader.nonempty[OF H] assms(3) by simp
  then have u: "unat (of_nat n :: u64) = n" by (simp add: unat_of_nat)
  have at: "getBlockByHeight E (of_nat n) b = Inr (cb_block (h ! n))"
    using sq_reader.block_at[OF H, of "of_nat n"] u assms(3) by (simp add: Blockchain_api_def)
  have hn: "Height (cb_block (h ! n)) = of_nat n" using sq_reader.heights[OF H, of n] assms(3) by simp
  have byid: "ea_GetBlockByID api i b = Inr (cb_block (h ! n))"
    using sq_reader.block_of[OF H, of n] assms(3) by (simp add: api_def i_def)
  note script = script_by_height_is_by_id[OF at, of p s args]
  show "access_ExecuteScriptAtBlockID (sl_access S) api i s args b = access_ExecuteScriptAtBlockHeight (sl_access S) api (of_nat n) s args b"
    by (simp add: access_ExecuteScriptAtBlockID_def access_ExecuteScriptAtBlockHeight_def api_def i_def Blockchain_api_def script)
  show "SDK_ExecuteScriptAtBlockID S api i s args b = SDK_ExecuteScriptAtBlockHeight S api (of_nat n) s args b"
    using byid hn by (simp add: SDK_ExecuteScriptAtBlockID_def SDK_ExecuteScriptAtBlockHeight_def SDKIdentifierToFlow_def)
  show "snd (SDK_ExecuteScriptAtBlockHeight S api (of_nat n) s args b) = snd (access_ExecuteScriptAtBlockHeight (sl_access S) api (of_nat n) s args b)"
    "ok_part (fst (SDK_ExecuteScriptAtBlockHeight S api (of_nat n) s args b)) =
       ok_part (fst (access_ExecuteScriptAtBlockHeight (sl_access S) api (of_nat n) s args b))"
    by (simp_all add: SDK_ExecuteScriptAtBlockHeight_def adapters_same_script)
  assume n: "n = length h - 1"
  have l: "getLatestBlock E b = Inr (cb_block (h ! n))"
    using sq_reader.latest_block[OF H] sq_reader.nonempty[OF H] n by (simp add: Blockchain_api_def last_map last_conv_nth)
  show "access_ExecuteScriptAtLatestBlock (sl_access S) api s args b =
       access_ExecuteScriptAtBlockHeight (sl_access S) api (of_nat n) s args b"
    by (simp add: access_ExecuteScriptAtLatestBlock_def access_ExecuteScriptAtBlockHeight_def api_def Blockchain_api_def
        ExecuteScript_def l script)
  show "SDK_ExecuteScriptAtLatestBlock S api s args b = SDK_ExecuteScriptAtBlockHeight S api (of_nat n) s args b"
    by (simp add: SDK_ExecuteScriptAtLatestBlock_def SDK_ExecuteScriptAtBlockHeight_def api_def Blockchain_api_def l hn)
qed

text \<open>C30: On a chain in the SQLite store, the two adapters agree on scripts. For every block, asking the Access API for the block's
  height or for its ID, or the SDK adapter for either, leaves the emulator in the same state and yields the same value or no
  value; asking for the latest block is the same as asking for the height of the tip.\<close>

theorem adapters_agree:
  assumes "em_store E = default_ops p (sqlite_kv V)" "bc_inv p (sqlite_rep p V) b h" "n < length h"
    "api = Blockchain_api p E" "i = block_ID p (cb_block (h ! n))" "L = sl_access S"
  shows "access_ExecuteScriptAtBlockID L api i s args b = access_ExecuteScriptAtBlockHeight L api (of_nat n) s args b \<and>
    SDK_ExecuteScriptAtBlockID S api i s args b = SDK_ExecuteScriptAtBlockHeight S api (of_nat n) s args b \<and>
    snd (SDK_ExecuteScriptAtBlockHeight S api (of_nat n) s args b) = snd (access_ExecuteScriptAtBlockHeight L api (of_nat n) s args b) \<and>
    ok_part (fst (SDK_ExecuteScriptAtBlockHeight S api (of_nat n) s args b)) =
      ok_part (fst (access_ExecuteScriptAtBlockHeight L api (of_nat n) s args b)) \<and>
    (n = length h - 1 \<longrightarrow>
       access_ExecuteScriptAtLatestBlock L api s args b = access_ExecuteScriptAtBlockHeight L api (of_nat n) s args b \<and>
       SDK_ExecuteScriptAtLatestBlock S api s args b = SDK_ExecuteScriptAtBlockHeight S api (of_nat n) s args b)"
  using adapters_same_block[OF assms(1-3), of S s args] unfolding assms(4-6) by blast

definition sample_sdk_lib :: sdk_lib where
  "sample_sdk_lib =
     \<lparr>sl_access = sample_access_lib, sl_ccf = sample_ccf,
      sl_CreateAccount = (\<lambda>keys contracts payer. Inr (FlowTransactionToSDK (sample_tx 9))),
      sl_SignEnvelope = (\<lambda>key algo addr index tx. Inr tx), sl_tx_ID = (\<lambda>tx. sample_tx_ID (SDKTransactionToFlow tx)),
      sl_MaxGasLimit = 9999, sl_EventAccountCreated = ''flow.AccountCreated'', sl_AddressParameter = ''address'',
      SearchFieldByName = (\<lambda>v name. case v of CadenceEvent ty fs \<Rightarrow> map_of fs name | _ \<Rightarrow> None)\<rparr>"

theorem adapters_agree_witness:
  "SDK_ExecuteScriptAtLatestBlock sample_sdk_lib (Blockchain_api sample_codec sample_sq) [] [] sample_chain =
     SDK_ExecuteScriptAtBlockHeight sample_sdk_lib (Blockchain_api sample_codec sample_sq) 0 [] [] sample_chain"
  using adapters_agree[OF _ sample_chain_inv _ refl refl refl, of sample_sq 0 sample_sdk_lib "[]" "[]"] by simp

section \<open>Creating an account while blocks are mined automatically\<close>

lemma commit_empties:
  assumes "commitBlock p E w b = (Inr blk, b')" shows "pb_Empty (bc_pendingBlock b')"
proof -
  have "pb_Empty (newPendingBlock p X w blk l clk)" for X :: "'b exec_ops" and blk l clk
    by (simp add: newPendingBlock_def pb_Empty_def case_prod_unfold)
  moreover obtain a :: commit_args and d where "(case st_LedgerByHeight (em_store E) (Height (cb_block a)) (bc_storage d) of
      Inl err \<Rightarrow> (Inl err, d)
    | Inr ledger \<Rightarrow> (Inr (cb_block a), d\<lparr>bc_published := Suc (bc_published d),
        bc_pendingBlock := newPendingBlock p (em_exec E) w (cb_block a) ledger (bc_clock d),
        bc_LatestBlock := block_ID p (cb_block a)\<rparr>)) = (Inr blk, b')"
    using assms unfolding commitBlock_def store_block_def Let_def bindE_eq_Inr by blast
  ultimately show ?thesis by (cases "st_LedgerByHeight (em_store E) (Height (cb_block a)) (bc_storage d)") auto
qed

lemma execute_empty:
  assumes "pb_Empty (bc_pendingBlock b)" "executeAndCommitBlock p E w b = (Inr (blk, results), b')"
  shows "results = []"
proof -
  obtain ctx c where c: "setFVMContextFromHeader (ToHeader p (pb_Block p (em_lib E) (bc_pendingBlock b))) b = (ctx, c)"
    by (cases "setFVMContextFromHeader (ToHeader p (pb_Block p (em_lib E) (bc_pendingBlock b))) b")
  then have "bc_pendingBlock c = bc_pendingBlock b" by (auto simp: setFVMContextFromHeader_def Let_def)
  then have "executeBlock p E b = (([], None), c)"
    using assms(1) by (simp add: executeBlock_def c executeBlock_loop.simps)
  then show ?thesis using assms(2) by (auto simp: executeAndCommitBlock_def bindE_eq_Inr)
qed

text \<open>C37: While blocks are mined automatically, creating an account through the SDK adapter always returns an error: sending the
  transaction already executes and commits it, so the block the adapter executes next is empty, and the adapter looks for
  the result of the transaction among the results of that empty block.\<close>

theorem create_account_automine:
  assumes "cf_AutoMine (bc_conf b)"
  shows "\<exists>err. fst (SDK_CreateAccount S p (Blockchain_api p E) ws keys contracts b) = Inl err"
proof (rule ccontr)
  assume "\<not> ?thesis"
  then obtain addr where "fst (SDK_CreateAccount S p (Blockchain_api p E) ws keys contracts b) = Inr addr"
    by (cases "fst (SDK_CreateAccount S p (Blockchain_api p E) ws keys contracts b)") auto
  then obtain b' where ok: "SDK_CreateAccount S p (Blockchain_api p E) ws keys contracts b = (Inr addr, b')"
    by (cases "SDK_CreateAccount S p (Blockchain_api p E) ws keys contracts b") auto
  obtain key c where key: "bc_ServiceKey E b = (key, c)" by (cases "bc_ServiceKey E b")
  have mine: "cf_AutoMine (bc_conf c)"
    using key assms by (auto simp: bc_ServiceKey_def Let_def split: sum.splits if_splits)
  obtain tx d blk results e where send: "SendTransaction p E (fst ws) (SDKTransactionToFlow tx) c = (Inr (), d)"
    and exec: "executeAndCommitBlock p E (fst (snd ws)) d = (Inr (blk, results), e)"
    and found: "find_created S (sl_tx_ID S tx) results = Inr addr"
    using ok by (auto simp: SDK_CreateAccount_def SDK_SendTransaction_def Blockchain_api_def key bindE_eq_Inr split: sum.splits)
  obtain c' where add: "addTransaction p E (SDKTransactionToFlow tx) c = (Inr (), c')"
    using send by (auto simp: SendTransaction_def bindE_eq_Inr)
  then have "cf_AutoMine (bc_conf c')" using mine by (auto simp: addTransaction_def split: if_splits sum.splits)
  then obtain c'' blk' where "commitBlock p E (fst ws) c'' = (Inr blk', d)"
    using send add
    by (auto simp: SendTransaction_def executeAndCommitBlock_def bindE_eq_Inr split: prod.splits option.splits)
  then have "pb_Empty (bc_pendingBlock d)" by (rule commit_empties)
  then show False using execute_empty[OF _ exec] found by (simp add: find_created_def)
qed

theorem create_account_automine_witness:
  "\<exists>err. fst (SDK_CreateAccount sample_sdk_lib sample_codec (Blockchain_api sample_codec sample_sq) ((0, 0), (0, 0), (0, 0)) [] []
     (EnableAutoMine sample_chain)) = Inl err"
  by (rule create_account_automine) (simp add: EnableAutoMine_def)

end
