(* ===== verification/State_Stream.thy ===== *)
theory State_Stream
  imports Access_Subscriptions
begin

text \<open>
  \<^verbatim>\<open>server/access/streamBackend.go\<close>: the execution data of a block, assembled from the
  transactions and results of its collections, and the subscriptions to execution data, events
  and account statuses.

  Outside the repository are the names of the EVM event types, the filters a subscriber passes, and
  the conversion of errors to gRPC statuses.
\<close>

section \<open>Execution data\<close>

record stream_lib =
  EventTypeBlockExecuted :: string
  EventTypeTransactionExecuted :: string
  IsBlobNotFoundError :: "data_error \<Rightarrow> bool"
  rpc_ConvertError :: "data_error \<Rightarrow> string \<Rightarrow> access_error"
  data_error_text :: "data_error \<Rightarrow> string"

record chunk_execution_data =
  ck_Collection :: "transaction_body list"
  ck_Events :: "event list"
  ck_TransactionResults :: "(flow_id \<times> bool) list"

record block_execution_data =
  ed_BlockID :: flow_id
  ed_ChunkExecutionDatas :: "chunk_execution_data list"

text \<open>The loop over the transactions of a collection.\<close>

definition transaction_data ::
  "('s, 'ls) emu \<Rightarrow> ('s, 'ls) Blockchain \<Rightarrow> flow_id \<Rightarrow> (transaction_body \<times> access_result) result" where
  "transaction_data E b i =
     bindR (getTransaction E i b) (\<lambda>tx. bindR (getTransactionResult E i b) (\<lambda>txResult. Inr (tx, txResult)))"

definition chunk_of :: "('s, 'ls) emu \<Rightarrow> ('s, 'ls) Blockchain \<Rightarrow> flow_id \<Rightarrow> chunk_execution_data result" where
  "chunk_of E b colID =
     bindR (getCollectionByID E colID b) (\<lambda>lightCollection.
     bindR (mapR (transaction_data E b) lightCollection) (\<lambda>txs.
     Inr \<lparr>ck_Collection = map fst txs, ck_Events = concat (map (\<lambda>x. ar_Events (snd x)) txs),
          ck_TransactionResults = map (\<lambda>x. (ar_TransactionID (snd x), ar_ErrorMessage (snd x) \<noteq> '''')) txs\<rparr>))"

definition evm_event_type :: "('s, 'ls) emu \<Rightarrow> ('s, 'ls) Blockchain \<Rightarrow> string \<Rightarrow> string" where
  "evm_event_type E b name = em_LocationID E (AddressLocation (ServiceAddress (em_lib E) (GetChain b)) name)"

text \<open>The EVM events go to the last chunk; a block without collections gets a chunk for them.\<close>

definition add_evm_events ::
  "event list \<Rightarrow> event list \<Rightarrow> chunk_execution_data list \<Rightarrow> chunk_execution_data list" where
  "add_evm_events evmTxEvents evmBlockEvents chunks =
     (if length chunks > 0
      then butlast chunks @ [(last chunks)\<lparr>ck_Events := ck_Events (last chunks) @ evmBlockEvents\<rparr>]
      else [\<lparr>ck_Collection = [], ck_Events = evmTxEvents @ evmBlockEvents, ck_TransactionResults = []\<rparr>])"

definition as_data :: "'a result \<Rightarrow> data_error + 'a" where
  "as_data r = (case r of Inl err \<Rightarrow> Inl (DataError err) | Inr x \<Rightarrow> Inr x)"

definition getExecutionData ::
  "stream_lib \<Rightarrow> 'h hashes_scheme \<Rightarrow> ('s, 'ls) emu \<Rightarrow> u64 \<Rightarrow> ('s, 'ls) Blockchain \<Rightarrow> data_error + block_execution_data" where
  "getExecutionData X p E height b =
     (case getBlockByHeight E height b of
        Inl err \<Rightarrow>
          (case err of
             BlockNotFoundByHeightError n \<Rightarrow> Inl (BlockNotReady (Error_text err))
           | _ \<Rightarrow> Inl (DataError err))
      | Inr block \<Rightarrow>
          as_data (
          bindR (mapR (chunk_of E b) (Guarantees block)) (\<lambda>chunks.
          bindR (GetEventsByHeight E height (evm_event_type E b (EventTypeTransactionExecuted X)) b) (\<lambda>evmTxEvents.
          bindR (GetEventsByHeight E height (evm_event_type E b (EventTypeBlockExecuted X)) b) (\<lambda>evmBlockEvents.
          Inr \<lparr>ed_BlockID = block_ID p block,
               ed_ChunkExecutionDatas = add_evm_events evmTxEvents evmBlockEvents chunks\<rparr>)))))"

text \<open>An error that may wrap one of the sentinels, wrapped once more.\<close>

fun wrap_data_error :: "string \<Rightarrow> data_error \<Rightarrow> data_error" where
  "wrap_data_error m (BlockNotReady t) = BlockNotReady (m @ t)"
| "wrap_data_error m (EndOfData t) = EndOfData (m @ t)"
| "wrap_data_error m (DataError e) = DataError (Errorf_wrap m e)"

definition data_of_block ::
  "stream_lib \<Rightarrow> 'h hashes_scheme \<Rightarrow> ('s, 'ls) emu \<Rightarrow> u64 \<Rightarrow> ('s, 'ls) Blockchain \<Rightarrow> data_error + block_execution_data" where
  "data_of_block X p E height b =
     (case getExecutionData X p E height b of
        Inl err \<Rightarrow> Inl (wrap_data_error (''could not get execution data for block '' @ fmt_u height @ '': '') err)
      | Inr d \<Rightarrow> Inr d)"

fun is_not_found_data :: "data_error \<Rightarrow> bool" where
  "is_not_found_data (DataError e) = is_ErrNotFound e"
| "is_not_found_data d = False"

definition GetExecutionDataByBlockID ::
  "stream_lib \<Rightarrow> 'h hashes_scheme \<Rightarrow> ('s, 'ls) emu \<Rightarrow> flow_id \<Rightarrow> ('s, 'ls) Blockchain \<Rightarrow> block_execution_data access" where
  "GetExecutionDataByBlockID X p E blockID b =
     (case getBlockByID E blockID b of
        Inl err \<Rightarrow> Inl (Plain (Errorf_wrap (''could not get block header for '' @ ID_String blockID @ '': '') err))
      | Inr block \<Rightarrow>
          (case getExecutionData X p E (Height block) b of
             Inl err \<Rightarrow>
               if is_not_found_data err \<or> IsBlobNotFoundError X err
               then Inl (StatusError NotFound (''could not find execution data: '' @ data_error_text X err))
               else Inl (rpc_ConvertError X err ''could not get execution data'')
           | Inr d \<Rightarrow> Inr d))"

section \<open>Data functions\<close>

definition getExecutionDataResponse ::
  "stream_lib \<Rightarrow> 'h hashes_scheme \<Rightarrow> ('s, 'ls) emu \<Rightarrow> (('s, 'ls) Blockchain, u64 \<times> block_execution_data) get_data" where
  "getExecutionDataResponse X p E height b = bindR (data_of_block X p E height b) (\<lambda>d. Inr (height, d))"

record events_response =
  er_BlockID :: flow_id
  er_Height :: u64
  er_Events :: "event list"

definition filtered_events :: "(event list \<Rightarrow> event list) \<Rightarrow> block_execution_data \<Rightarrow> event list" where
  "filtered_events flt d = concat (map (\<lambda>c. flt (ck_Events c)) (ed_ChunkExecutionDatas d))"

definition getEventsResponse ::
  "stream_lib \<Rightarrow> 'h hashes_scheme \<Rightarrow> ('s, 'ls) emu \<Rightarrow> (event list \<Rightarrow> event list) \<Rightarrow>
   (('s, 'ls) Blockchain, events_response) get_data" where
  "getEventsResponse X p E flt height b =
     bindR (data_of_block X p E height b) (\<lambda>d.
     Inr \<lparr>er_BlockID = ed_BlockID d, er_Height = height, er_Events = filtered_events flt d\<rparr>)"

record 'g account_statuses_response =
  as_BlockID :: flow_id
  as_Height :: u64
  as_AccountEvents :: 'g

definition getAccountStatusResponse ::
  "stream_lib \<Rightarrow> 'h hashes_scheme \<Rightarrow> ('s, 'ls) emu \<Rightarrow> (event list \<Rightarrow> event list) \<Rightarrow> (event list \<Rightarrow> 'g) \<Rightarrow>
   (('s, 'ls) Blockchain, 'g account_statuses_response) get_data" where
  "getAccountStatusResponse X p E flt GroupCoreEventsByAccountAddress height b =
     bindR (data_of_block X p E height b) (\<lambda>d.
     Inr \<lparr>as_BlockID = ed_BlockID d, as_Height = height,
          as_AccountEvents = GroupCoreEventsByAccountAddress (filtered_events flt d)\<rparr>)"

section \<open>Subscriptions\<close>

definition newSubscriptionByBlockId :: "('s, 'ls) emu \<Rightarrow> flow_id \<Rightarrow> 'f \<Rightarrow> ('s, 'ls) Blockchain \<Rightarrow> 'f subscription" where
  "newSubscriptionByBlockId E startBlockID f b =
     (case getBlockByID E startBlockID b of
        Inl err \<Rightarrow> FailedSubscription err ''could not get block by ID''
      | Inr block \<Rightarrow> HeightBasedSubscription (Height block) f)"

definition newSubscriptionByHeight :: "u64 \<Rightarrow> 'f \<Rightarrow> 'f subscription" where
  "newSubscriptionByHeight startHeight f = HeightBasedSubscription startHeight f"

definition newSubscriptionByLatestHeight :: "('s, 'ls) emu \<Rightarrow> 'f \<Rightarrow> ('s, 'ls) Blockchain \<Rightarrow> 'f subscription" where
  "newSubscriptionByLatestHeight E f b =
     (case getLatestBlock E b of
        Inl err \<Rightarrow> FailedSubscription err ''could not get latest block''
      | Inr block \<Rightarrow> HeightBasedSubscription (Height block) f)"

text \<open>
  Both lookups ask whether the error is a \<^verbatim>\<open>BlockNotFoundByIDError\<close>. For the second, which looks a height up,
  the answer makes no difference: every error becomes \<^verbatim>\<open>ErrNotFound\<close>.
\<close>

definition getStartHeight :: "('s, 'ls) emu \<Rightarrow> flow_id \<Rightarrow> u64 \<Rightarrow> ('s, 'ls) Blockchain \<Rightarrow> u64 result" where
  "getStartHeight E blockID height b =
     (case getBlockByID E blockID b of
        Inr block \<Rightarrow> Inr (Height block)
      | Inl err \<Rightarrow>
          (case err of
             BlockNotFoundByIDError i \<Rightarrow>
               (case getBlockByHeight E height b of
                  Inr block \<Rightarrow> Inr (Height block)
                | Inl err \<Rightarrow> Inl ErrNotFound)
           | _ \<Rightarrow> Inl ErrNotFound))"

definition from_start_height ::
  "('s, 'ls) emu \<Rightarrow> flow_id \<Rightarrow> u64 \<Rightarrow> 'f \<Rightarrow> ('s, 'ls) Blockchain \<Rightarrow> 'f subscription" where
  "from_start_height E startBlockID startHeight f b =
     (case getStartHeight E startBlockID startHeight b of
        Inl err \<Rightarrow> FailedSubscription err ''could not get start height''
      | Inr nextHeight \<Rightarrow> HeightBasedSubscription nextHeight f)"

definition SubscribeExecutionDataFromStartBlockID ::
  "stream_lib \<Rightarrow> 'h hashes_scheme \<Rightarrow> ('s, 'ls) emu \<Rightarrow> flow_id \<Rightarrow> ('s, 'ls) Blockchain \<Rightarrow> (('s, 'ls) Blockchain, u64 \<times> block_execution_data) get_data subscription" where
  "SubscribeExecutionDataFromStartBlockID X p E startBlockID b = newSubscriptionByBlockId E startBlockID (getExecutionDataResponse X p E) b"

definition SubscribeExecutionDataFromStartBlockHeight ::
  "stream_lib \<Rightarrow> 'h hashes_scheme \<Rightarrow> ('s, 'ls) emu \<Rightarrow> u64 \<Rightarrow> (('s, 'ls) Blockchain, u64 \<times> block_execution_data) get_data subscription" where
  "SubscribeExecutionDataFromStartBlockHeight X p E startHeight = newSubscriptionByHeight startHeight (getExecutionDataResponse X p E)"

definition SubscribeExecutionDataFromLatest ::
  "stream_lib \<Rightarrow> 'h hashes_scheme \<Rightarrow> ('s, 'ls) emu \<Rightarrow> ('s, 'ls) Blockchain \<Rightarrow> (('s, 'ls) Blockchain, u64 \<times> block_execution_data) get_data subscription" where
  "SubscribeExecutionDataFromLatest X p E b = newSubscriptionByLatestHeight E (getExecutionDataResponse X p E) b"

definition SubscribeExecutionData ::
  "stream_lib \<Rightarrow> 'h hashes_scheme \<Rightarrow> ('s, 'ls) emu \<Rightarrow> flow_id \<Rightarrow> u64 \<Rightarrow> ('s, 'ls) Blockchain \<Rightarrow> (('s, 'ls) Blockchain, u64 \<times> block_execution_data) get_data subscription" where
  "SubscribeExecutionData X p E startBlockID startHeight b = from_start_height E startBlockID startHeight (getExecutionDataResponse X p E) b"

definition SubscribeEventsFromStartBlockID ::
  "stream_lib \<Rightarrow> 'h hashes_scheme \<Rightarrow> ('s, 'ls) emu \<Rightarrow> (event list \<Rightarrow> event list) \<Rightarrow> flow_id \<Rightarrow> ('s, 'ls) Blockchain \<Rightarrow> (('s, 'ls) Blockchain, events_response) get_data subscription" where
  "SubscribeEventsFromStartBlockID X p E flt startBlockID b = newSubscriptionByBlockId E startBlockID (getEventsResponse X p E flt) b"

definition SubscribeEventsFromStartHeight ::
  "stream_lib \<Rightarrow> 'h hashes_scheme \<Rightarrow> ('s, 'ls) emu \<Rightarrow> (event list \<Rightarrow> event list) \<Rightarrow> u64 \<Rightarrow> (('s, 'ls) Blockchain, events_response) get_data subscription" where
  "SubscribeEventsFromStartHeight X p E flt startHeight = newSubscriptionByHeight startHeight (getEventsResponse X p E flt)"

definition SubscribeEventsFromLatest ::
  "stream_lib \<Rightarrow> 'h hashes_scheme \<Rightarrow> ('s, 'ls) emu \<Rightarrow> (event list \<Rightarrow> event list) \<Rightarrow> ('s, 'ls) Blockchain \<Rightarrow> (('s, 'ls) Blockchain, events_response) get_data subscription" where
  "SubscribeEventsFromLatest X p E flt b = newSubscriptionByLatestHeight E (getEventsResponse X p E flt) b"

definition SubscribeEvents ::
  "stream_lib \<Rightarrow> 'h hashes_scheme \<Rightarrow> ('s, 'ls) emu \<Rightarrow> (event list \<Rightarrow> event list) \<Rightarrow> flow_id \<Rightarrow> u64 \<Rightarrow> ('s, 'ls) Blockchain \<Rightarrow> (('s, 'ls) Blockchain, events_response) get_data subscription" where
  "SubscribeEvents X p E flt startBlockID startHeight b = from_start_height E startBlockID startHeight (getEventsResponse X p E flt) b"

definition SubscribeAccountStatusesFromStartBlockID ::
  "stream_lib \<Rightarrow> 'h hashes_scheme \<Rightarrow> ('s, 'ls) emu \<Rightarrow> (event list \<Rightarrow> event list) \<Rightarrow> (event list \<Rightarrow> 'g) \<Rightarrow> flow_id \<Rightarrow> ('s, 'ls) Blockchain \<Rightarrow> (('s, 'ls) Blockchain, 'g account_statuses_response) get_data subscription" where
  "SubscribeAccountStatusesFromStartBlockID X p E flt grp startBlockID b = newSubscriptionByBlockId E startBlockID (getAccountStatusResponse X p E flt grp) b"

definition SubscribeAccountStatusesFromStartHeight ::
  "stream_lib \<Rightarrow> 'h hashes_scheme \<Rightarrow> ('s, 'ls) emu \<Rightarrow> (event list \<Rightarrow> event list) \<Rightarrow> (event list \<Rightarrow> 'g) \<Rightarrow> u64 \<Rightarrow> (('s, 'ls) Blockchain, 'g account_statuses_response) get_data subscription" where
  "SubscribeAccountStatusesFromStartHeight X p E flt grp startHeight = newSubscriptionByHeight startHeight (getAccountStatusResponse X p E flt grp)"

definition SubscribeAccountStatusesFromLatestBlock ::
  "stream_lib \<Rightarrow> 'h hashes_scheme \<Rightarrow> ('s, 'ls) emu \<Rightarrow> (event list \<Rightarrow> event list) \<Rightarrow> (event list \<Rightarrow> 'g) \<Rightarrow> ('s, 'ls) Blockchain \<Rightarrow> (('s, 'ls) Blockchain, 'g account_statuses_response) get_data subscription" where
  "SubscribeAccountStatusesFromLatestBlock X p E flt grp b = newSubscriptionByLatestHeight E (getAccountStatusResponse X p E flt grp) b"

section \<open>What the streams deliver\<close>

lemma concat_add_evm:
  "concat (map ck_Events (add_evm_events txs blk chunks)) =
     (if chunks = [] then txs else concat (map ck_Events chunks)) @ blk"
  by (cases chunks rule: rev_cases) (simp_all add: add_evm_events_def)

lemma concat_map_concat: "concat (map f (concat xss)) = concat (map (\<lambda>xs. concat (map f xs)) xss)"
  by (induction xss) simp_all

lemma filtered_all: "filtered_events (filter P) d = filter P (concat (map ck_Events (ed_ChunkExecutionDatas d)))"
  by (simp add: filtered_events_def filter_concat comp_def)

context chain_store
begin

lemma result_stored:
  assumes "em_store E = ops" "bc_inv p rep b h" "hist_result h i = Some r" "hist_transaction h i = Some t"
  shows "getTransactionResult E i b = Inr (sealed_access i r)"
proof -
  have "i \<notin> set (pb_transactionIDs (bc_pendingBlock b))" using assms(2,4) by (auto simp: bc_inv_def extends_tip_def)
  moreover have "map fst (pb_transactions (bc_pendingBlock b)) = pb_transactionIDs (bc_pendingBlock b)"
    using assms(2) unfolding bc_inv_def extends_tip_def pb_inv_def by blast
  ultimately have "\<not> pb_ContainsTransaction i (bc_pendingBlock b)"
    by (metis pb_ContainsTransaction_def map_of_eq_None_iff list.set_map)
  moreover have "rep (bc_storage b) h" using assms(2) by (simp add: bc_inv_def)
  ultimately show ?thesis using tx_result[of "bc_storage b" h i] assms(1,3) by (simp add: getTransactionResult_def)
qed

lemma chunk_events:
  assumes "em_store E = ops" "bc_inv p rep b h" "hist_collection p h (col_ID p c) = Some c"
    "\<And>i. i \<in> set c \<Longrightarrow> hist_transaction h i \<noteq> None \<and> hist_result h i \<noteq> None"
  shows "\<exists>ck. chunk_of E b (col_ID p c) = Inr ck \<and> ck_Events ck = concat (map (\<lambda>i. Events (the (hist_result h i))) c)"
proof -
  have "rep (bc_storage b) h" using assms(2) by (simp add: bc_inv_def)
  then have "getCollectionByID E (col_ID p c) b = Inr c"
    using collection[of "bc_storage b" h "col_ID p c"] assms(1,3) by (simp add: getCollectionByID_def)
  moreover have "mapR (transaction_data E b) c =
      Inr (map (\<lambda>i. (the (hist_transaction h i), sealed_access i (the (hist_result h i)))) c)"
    using assms(4) transaction_known[OF assms(1,2)] result_stored[OF assms(1,2)]
    by (intro mapR_eq_map) (fastforce simp: transaction_data_def)
  ultimately show ?thesis by (simp add: chunk_of_def comp_def sealed_access_def)
qed

lemma events_streamed:
  assumes E: "em_store E = ops" and inv: "bc_inv p rep b h" and n: "n < length h"
    and g: "Guarantees (cb_block (h ! n)) = map (col_ID p) (cb_collections (h ! n))"
    and known: "\<And>i. i \<in> set (concat (cb_collections (h ! n))) \<Longrightarrow> hist_transaction h i \<noteq> None \<and> hist_result h i \<noteq> None"
  shows "getEventsResponse X p E (filter P) (of_nat n) b =
    Inr \<lparr>er_BlockID = block_ID p (cb_block (h ! n)), er_Height = of_nat n,
         er_Events = filter P ((if cb_collections (h ! n) = []
           then filter (match_type (evm_event_type E b (EventTypeTransactionExecuted X))) (cb_events (h ! n))
           else concat (map (\<lambda>i. Events (the (hist_result h i))) (concat (cb_collections (h ! n))))) @
           filter (match_type (evm_event_type E b (EventTypeBlockExecuted X))) (cb_events (h ! n)))\<rparr>"
proof -
  have r: "rep (bc_storage b) h" and v: "valid_chain p h" and l: "length h < 2 ^ 63" using inv by (simp_all add: bc_inv_def)
  have u: "unat (of_nat n :: u64) = n" using l n by (intro unat_of_nat_less) simp
  have blk: "getBlockByHeight E (of_nat n) b = Inr (cb_block (h ! n))"
    using inv_queries(2)[OF inv E, of "of_nat n"] u n by (simp add: hist_block_def)
  have ev: "GetEventsByHeight E (of_nat n) ty b = Inr (filter (match_type ty) (cb_events (h ! n)))" for ty
    using events[OF r, of "of_nat n" ty] u n E by (simp add: GetEventsByHeight_def hist_events_def)
  have "\<exists>ck. chunk_of E b (col_ID p c) = Inr ck \<and> ck_Events ck = concat (map (\<lambda>i. Events (the (hist_result h i))) c)"
    if "c \<in> set (cb_collections (h ! n))" for c
    using that known by (intro chunk_events[OF E inv] valid_chain_lookup(3)[OF v n]) auto
  then obtain ck where ck: "\<And>c. c \<in> set (cb_collections (h ! n)) \<Longrightarrow> chunk_of E b (col_ID p c) = Inr (ck c) \<and>
      ck_Events (ck c) = concat (map (\<lambda>i. Events (the (hist_result h i))) c)" by metis
  have "mapR (chunk_of E b) (map (col_ID p) cs) = Inr (map ck cs)" if "set cs \<subseteq> set (cb_collections (h ! n))" for cs
    using that ck by (induction cs) auto
  then have chunks: "mapR (chunk_of E b) (Guarantees (cb_block (h ! n))) = Inr (map ck (cb_collections (h ! n)))"
    by (simp add: g)
  have "concat (map (\<lambda>c. ck_Events (ck c)) (cb_collections (h ! n))) =
      concat (map (\<lambda>i. Events (the (hist_result h i))) (concat (cb_collections (h ! n))))"
    using ck by (simp add: concat_map_concat cong: map_cong)
  then show ?thesis
    by (simp add: getEventsResponse_def data_of_block_def getExecutionData_def as_data_def blk chunks ev filtered_all
        concat_add_evm comp_def)
qed

end

text \<open>C31: The event stream, on a chain in the in-memory store: for the height of a stored block whose guarantees are its collections, and
  whose transactions are stored with their results, it delivers the events a filter selects among all events of the block's
  transactions, in the order of the collections and of the transactions in them, followed by the EVM block event; for a block
  without collections, such as the genesis block, the EVM transaction events followed by the EVM block event. For a
  height beyond the chain it makes the streamer wait.\<close>

theorem event_stream:
  assumes "em_store E = memstore_ops p T" "bc_inv p (mem_rep p T) b h" "n < length h"
    "Guarantees (cb_block (h ! n)) = map (col_ID p) (cb_collections (h ! n))"
    "\<And>i. i \<in> set (concat (cb_collections (h ! n))) \<Longrightarrow> hist_transaction h i \<noteq> None \<and> hist_result h i \<noteq> None"
    "length h \<le> unat k"
  shows "getEventsResponse X p E (filter P) (of_nat n) b =
    Inr \<lparr>er_BlockID = block_ID p (cb_block (h ! n)), er_Height = of_nat n,
         er_Events = filter P ((if cb_collections (h ! n) = []
           then filter (match_type (evm_event_type E b (EventTypeTransactionExecuted X))) (cb_events (h ! n))
           else concat (map (\<lambda>i. Events (the (hist_result h i))) (concat (cb_collections (h ! n))))) @
           filter (match_type (evm_event_type E b (EventTypeBlockExecuted X))) (cb_events (h ! n)))\<rparr> \<and>
    (\<exists>m. getEventsResponse X p E (filter P) k b = Inl (BlockNotReady m))"
proof -
  have "getBlockByHeight E k b = Inl (BlockNotFoundByHeightError k)"
    using mem.inv_queries(2)[OF assms(2,1), of k] assms(6) by (simp add: hist_block_def)
  then show ?thesis
    using mem.events_streamed[OF assms(1-5), of X P]
    by (simp add: getEventsResponse_def data_of_block_def getExecutionData_def)
qed

definition sample_stream_lib :: stream_lib where
  "sample_stream_lib =
     \<lparr>EventTypeBlockExecuted = ''EVM.BlockExecuted'', EventTypeTransactionExecuted = ''EVM.TransactionExecuted'',
      IsBlobNotFoundError = (\<lambda>_. False), rpc_ConvertError = (\<lambda>e m. StatusError Internal m), data_error_text = (\<lambda>e. '''')\<rparr>"

theorem event_stream_witness:
  "\<exists>(b :: sample_mem_chain) m. (\<exists>r. getEventsResponse sample_stream_lib sample_codec sample_mem (filter (\<lambda>_. False)) 0 b = Inr r \<and>
       er_Height r = 0 \<and> er_Events r = []) \<and>
     getEventsResponse sample_stream_lib sample_codec sample_mem (filter (\<lambda>_. False)) 1 b = Inl (BlockNotReady m)"
proof -
  obtain b :: sample_mem_chain and g snap evs
    where b: "bc_inv sample_codec (mem_rep sample_codec sample_tree) b [g]"
    "g = genesis_commit (Genesis sample_lib (GetChainID sample_lib (bc_conf b))) snap evs" using sample_started by blast
  have "Guarantees (cb_block g) = []" "cb_collections g = []" by (simp_all add: b(2) genesis_commit_def Genesis_def)
  then show ?thesis
    using event_stream[OF _ b(1), of sample_mem 0 1 sample_stream_lib "\<lambda>_. False"] by fastforce
qed

end
