(* ===== verification/Redis_Store.thy ===== *)
theory Redis_Store
  imports Default_Store "HOL-Library.Log_Nat"
begin

text \<open>
  \<^verbatim>\<open>storage/redis/store.go\<close>: the key-value database of \<^verbatim>\<open>DefaultStore\<close> on a Redis server. The
  server is the parameter record \<^verbatim>\<open>redis_client\<close>; the predicates \<open>redis_sets\<close> and \<open>redis_strings\<close> state
  what its documentation says of sorted sets and of strings.
\<close>

section \<open>The client\<close>

datatype redis_error = RedisNil | RedisError go_error

record 'r redis_client =
  rdb_Get :: "string \<Rightarrow> 'r \<Rightarrow> redis_error + string"
  rdb_Set :: "string \<Rightarrow> string \<Rightarrow> 'r \<Rightarrow> unit result \<times> 'r"
  rdb_ZAdd :: "string \<Rightarrow> nat \<Rightarrow> string \<Rightarrow> 'r \<Rightarrow> unit result \<times> 'r"
  rdb_ZRevRangeByScore :: "string \<Rightarrow> string \<Rightarrow> string \<Rightarrow> nat \<Rightarrow> nat \<Rightarrow> 'r \<Rightarrow> redis_error + string list"

text \<open>
  \<^verbatim>\<open>float64(version)\<close>: the nearest number with a significand of 53 bits, ties to the even one.
\<close>

definition float64 :: "u64 \<Rightarrow> nat" where
  "float64 v =
     (let n = unat v; e = floorlog 2 n - 53; q = n div 2 ^ e; r = n mod 2 ^ e
      in (if 2 * r > 2 ^ e \<or> 2 * r = 2 ^ e \<and> odd q then q + 1 else q) * 2 ^ e)"

section \<open>The store\<close>

definition storeKey :: "string \<Rightarrow> bytes \<Rightarrow> string" where
  "storeKey store key = store @ ''_'' @ hex_encode key"

definition decode_hex :: "string \<Rightarrow> bytes result" where
  "decode_hex val = (case hex_decode val of None \<Rightarrow> Inl (ExternalError ''encoding/hex'') | Some rawBytes \<Rightarrow> Inr rawBytes)"

definition redis_GetBytes :: "'r redis_client \<Rightarrow> string \<Rightarrow> bytes \<Rightarrow> 'r \<Rightarrow> bytes result" where
  "redis_GetBytes R store key d =
     (case rdb_Get R (storeKey store key) d of
        Inl RedisNil \<Rightarrow> Inl ErrNotFound
      | Inl (RedisError err) \<Rightarrow> Inl err
      | Inr val \<Rightarrow> decode_hex val)"

definition redis_SetBytes :: "'r redis_client \<Rightarrow> string \<Rightarrow> bytes \<Rightarrow> bytes \<Rightarrow> 'r \<Rightarrow> unit result \<times> 'r" where
  "redis_SetBytes R store key value d = rdb_Set R (storeKey store key) (hex_encode value) d"

definition redis_SetBytesWithVersion ::
  "'r redis_client \<Rightarrow> string \<Rightarrow> bytes \<Rightarrow> bytes \<Rightarrow> u64 \<Rightarrow> 'r \<Rightarrow> unit result \<times> 'r" where
  "redis_SetBytesWithVersion R store key value version d =
     rdb_ZAdd R (storeKey store key) (float64 version) (hex_encode value) d"

definition redis_GetBytesAtVersion :: "'r redis_client \<Rightarrow> string \<Rightarrow> bytes \<Rightarrow> u64 \<Rightarrow> 'r \<Rightarrow> bytes result" where
  "redis_GetBytesAtVersion R store key version d =
     (case rdb_ZRevRangeByScore R (storeKey store key) (fmt_u version) '''' 0 1 d of
        Inl RedisNil \<Rightarrow> Inl ErrNotFound
      | Inl (RedisError err) \<Rightarrow> Inl err
      | Inr val \<Rightarrow> if length val = 0 then Inl ErrNotFound else decode_hex (val ! 0))"

text \<open>The methods as the database of \<^verbatim>\<open>DefaultStore\<close>; they do not use its \<^verbatim>\<open>CurrentHeight\<close>.\<close>

definition redis_kv :: "'r redis_client \<Rightarrow> 'r kv_ops" where
  "redis_kv R =
     \<lparr>GetBytes = redis_GetBytes R, GetBytesAtVersion = redis_GetBytesAtVersion R,
      SetBytes = (\<lambda>_. redis_SetBytes R), SetBytesWithVersion = (\<lambda>_. redis_SetBytesWithVersion R)\<rparr>"

section \<open>Documented behaviour of the server\<close>

text \<open>Strings: \<^verbatim>\<open>GET\<close> returns what the last \<^verbatim>\<open>SET\<close> of the key stored.\<close>

definition redis_strings :: "'r redis_client \<Rightarrow> bool" where
  "redis_strings R \<longleftrightarrow> (\<forall>key v d. fst (rdb_Set R key v d) = Inr () \<and> rdb_Get R key (snd (rdb_Set R key v d)) = Inr v)"

text \<open>
  Sorted sets: a set has a score per member, \<^verbatim>\<open>ZADD\<close> of a member that exists replaces its score, and
  \<^verbatim>\<open>ZREVRANGEBYSCORE\<close> with the limit 1 returns a member with the highest score up to the bound, if there is one.
\<close>

definition redis_sets :: "'r redis_client \<Rightarrow> ('r \<Rightarrow> string \<Rightarrow> string \<rightharpoonup> nat) \<Rightarrow> bool" where
  "redis_sets R z \<longleftrightarrow>
     (\<forall>key s m d. fst (rdb_ZAdd R key s m d) = Inr () \<and>
        z (snd (rdb_ZAdd R key s m d)) = (z d)(key := (z d key)(m \<mapsto> s))) \<and>
     (\<forall>key n d. (\<forall>m s. z d key m = Some s \<longrightarrow> n < s) \<longrightarrow> rdb_ZRevRangeByScore R key (fmt_d n) '''' 0 1 d = Inr []) \<and>
     (\<forall>key n d m s. z d key m = Some s \<and> s \<le> n \<and> (\<forall>m' s'. z d key m' = Some s' \<and> m' \<noteq> m \<longrightarrow> s' < s \<or> n < s') \<longrightarrow>
        rdb_ZRevRangeByScore R key (fmt_d n) '''' 0 1 d = Inr [m])"

section \<open>Lemmas\<close>

lemma float64_exact: "unat v < 2 ^ 53 \<Longrightarrow> float64 v = unat v"
proof -
  assume "unat v < 2 ^ 53"
  then have "floorlog 2 (unat v) \<le> 53" by (intro floorlog_leI) simp_all
  then show ?thesis by (simp add: float64_def)
qed

lemma decode_hex_encode [simp]: "decode_hex (hex_encode v) = Inr v"
  by (simp add: decode_hex_def)

lemma redis_roundtrip:
  assumes "redis_strings R"
  shows "fst (redis_SetBytes R store key v d) = Inr ()" "redis_GetBytes R store key (snd (redis_SetBytes R store key v d)) = Inr v"
  using assms by (simp_all add: redis_strings_def redis_SetBytes_def redis_GetBytes_def)


section \<open>A server in memory\<close>

type_synonym sample_server = "string \<Rightarrow> (string \<times> nat) list"

definition sample_scores :: "sample_server \<Rightarrow> string \<Rightarrow> string \<rightharpoonup> nat" where
  "sample_scores d key = map_of (d key)"

definition in_range :: "nat \<Rightarrow> (string \<times> nat) list \<Rightarrow> (string \<times> nat) list" where
  "in_range n ms = sort_key snd (filter (\<lambda>x. snd x \<le> n) (AList.clearjunk ms))"

definition sample_redis :: "sample_server redis_client" where
  "sample_redis =
     \<lparr>rdb_Get = (\<lambda>key d. Inl RedisNil), rdb_Set = (\<lambda>key v d. (Inr (), d)),
      rdb_ZAdd = (\<lambda>key s m d. (Inr (), d(key := AList.update m s (d key)))),
      rdb_ZRevRangeByScore = (\<lambda>key mx mn off cnt d. Inr (map fst (take cnt (rev (in_range (undec mx) (d key))))))\<rparr>"

lemma in_range_set: "x \<in> set (in_range n ms) \<longleftrightarrow> map_of ms (fst x) = Some (snd x) \<and> snd x \<le> n"
proof -
  have "(fst x, snd x) \<in> set (AList.clearjunk ms) \<longleftrightarrow> map_of ms (fst x) = Some (snd x)"
    using map_of_eq_Some_iff[OF distinct_clearjunk, of ms "fst x" "snd x"] by (simp add: map_of_clearjunk)
  then show ?thesis by (simp add: in_range_def)
qed

lemma in_range_last:
  assumes "map_of ms m = Some s" "s \<le> n" "\<And>m' s'. map_of ms m' = Some s' \<Longrightarrow> m' \<noteq> m \<Longrightarrow> s' < s \<or> n < s'"
  shows "take 1 (rev (in_range n ms)) = [(m, s)]"
proof -
  have mem: "(m, s) \<in> set (in_range n ms)" using assms(1,2) by (simp add: in_range_set)
  then obtain xs x where xs: "in_range n ms = xs @ [x]" by (cases "in_range n ms" rule: rev_cases) auto
  have "sorted (map snd (in_range n ms))" by (simp add: in_range_def)
  then have "s \<le> snd x" using mem unfolding xs by (auto simp: sorted_append)
  moreover have "x \<in> set (in_range n ms)" by (simp add: xs)
  ultimately have "fst x = m" "map_of ms (fst x) = Some (snd x)"
    using assms(3)[of "fst x" "snd x"] by (auto simp: in_range_set)
  then have "fst x = m" "snd x = s" using assms(1) by simp_all
  then show ?thesis by (simp add: xs prod_eq_iff)
qed

lemma sample_redis_sets: "redis_sets sample_redis sample_scores"
proof -
  have none: "in_range n (d key) = []" if "\<forall>m s. map_of (d key) m = Some s \<longrightarrow> n < s" for n key and d :: sample_server
  proof (rule ccontr)
    assume "in_range n (d key) \<noteq> []"
    then have "hd (in_range n (d key)) \<in> set (in_range n (d key))" by simp
    then show False unfolding in_range_set using that by (meson leD)
  qed
  have one: "map fst (take 1 (rev (in_range n (d key)))) = [m]"
    if "map_of (d key) m = Some s \<and> s \<le> n \<and> (\<forall>m' s'. map_of (d key) m' = Some s' \<and> m' \<noteq> m \<longrightarrow> s' < s \<or> n < s')"
    for n key m s and d :: sample_server
  proof -
    have "take 1 (rev (in_range n (d key))) = [(m, s)]" using that by (intro in_range_last) blast+
    then show ?thesis by simp
  qed
  show ?thesis
    unfolding redis_sets_def sample_scores_def
  proof (intro conjI allI impI)
    show "(\<lambda>key. map_of (snd (rdb_ZAdd sample_redis k s m d) key)) =
        (\<lambda>key. map_of (d key))(k := (map_of (d k))(m \<mapsto> s))" for k s m d
      by (rule ext) (simp add: sample_redis_def update_conv')
  qed (use none one in \<open>simp_all add: sample_redis_def del: One_nat_def\<close>)
qed


end
