(* ===== verification/Remote_Store.thy ===== *)
theory Remote_Store
  imports Sqlite_Store Sample "HOL-Library.Multiset"
begin

text \<open>
  \<^verbatim>\<open>storage/remote/store.go\<close>: a store that forks a remote chain at a height. Local writes go to an
  SQLite overlay, registers fetched from the remote access node are kept in a second SQLite store, the fork cache, and
  blocks up to the fork height come from the remote.

  The clients of the remote node are the parameter record \<^verbatim>\<open>remote_client\<close>; the operations of the file
  system are arguments. Both SQLite stores are accessed through the method table \<open>k\<close> of
  \<^verbatim>\<open>DefaultStore\<close>. Reading a register changes the fork cache, so a read returns the store as well.
\<close>

section \<open>State and options\<close>

datatype register_response =
    RegisterValues "bytes list"
  | RegisterNotFound
  | RegisterError go_error

record remote_client =
  rc_GetNetworkParameters :: "string result"
  rc_GetLatestBlockHeader :: "u64 result"
  rc_GetBlockHeaderByHeight :: "u64 \<Rightarrow> (flow_id \<times> header_body result) result"
  rc_GetBlockHeaderByID :: "flow_id \<Rightarrow> u64 result"
  rc_GetRegisterValues :: "u64 \<Rightarrow> register_id \<Rightarrow> register_response"

record 'd remote_store =
  rs_overlay :: "'d default_store"
  rs_client :: "remote_client option"
  rs_host :: string
  rs_chainID :: string
  rs_forkHeight :: u64
  rs_forkBlockID :: flow_id
  rs_forkCacheDir :: string
  rs_cacheStore :: "'d default_store option"

type_synonym 'd remote_option = "'d remote_store \<Rightarrow> 'd remote_store"

definition blockBuffer :: u64 where "blockBuffer = 10"
definition DefaultMaxCacheCount :: nat where "DefaultMaxCacheCount = 10"

text \<open>30 days, in nanoseconds.\<close>

definition DefaultTTL :: int where "DefaultTTL = 30 * 24 * 3600 * 10 ^ 9"

definition WithForkHost :: "string \<Rightarrow> 'd remote_option" where
  "WithForkHost host s = s\<lparr>rs_host := host\<rparr>"

definition WithRPCHost :: "string \<Rightarrow> string \<Rightarrow> 'd remote_option" where
  "WithRPCHost host chainID s = s\<lparr>rs_host := host, rs_chainID := chainID\<rparr>"

definition WithForkHeight :: "u64 \<Rightarrow> 'd remote_option" where
  "WithForkHeight height s = s\<lparr>rs_forkHeight := height\<rparr>"

definition WithStartBlockHeight :: "u64 \<Rightarrow> 'd remote_option" where
  "WithStartBlockHeight height = WithForkHeight height"

definition WithForkCacheDir :: "string \<Rightarrow> 'd remote_option" where
  "WithForkCacheDir dir s = s\<lparr>rs_forkCacheDir := dir\<rparr>"

definition WithClient :: "remote_client \<Rightarrow> 'd remote_option" where
  "WithClient client s = s\<lparr>rs_client := Some client\<rparr>"

section \<open>The cache directory\<close>

record cacheInfo =
  ci_path :: string
  ci_accessTime :: int

text \<open>
  \<^verbatim>\<open>pruneCache\<close> gives the caches it removes, in order. The size of a cache and \<^verbatim>\<open>DefaultTotalMaxSize\<close> play no
  part. \<open>sort_Slice\<close> is \<^verbatim>\<open>sort.Slice\<close> by access time, which may order caches of equal times in any way.
\<close>

definition prune_age :: "int \<Rightarrow> cacheInfo list \<Rightarrow> cacheInfo list \<times> cacheInfo list" where
  "prune_age cutoff caches =
     (filter (\<lambda>c. ci_accessTime c < cutoff) caches, filter (\<lambda>c. \<not> ci_accessTime c < cutoff) caches)"

definition prune_count :: "cacheInfo list \<Rightarrow> cacheInfo list" where
  "prune_count caches =
     (if length caches > DefaultMaxCacheCount then take (length caches - DefaultMaxCacheCount) caches else [])"

definition pruneCache :: "(cacheInfo list \<Rightarrow> cacheInfo list) \<Rightarrow> int \<Rightarrow> cacheInfo list \<Rightarrow> cacheInfo list" where
  "pruneCache sort_Slice now caches =
     (if length caches = 0 then []
      else let (old, caches) = prune_age (now - DefaultTTL) (sort_Slice caches) in old @ prune_count caches)"

text \<open>
  \<^verbatim>\<open>initializeCacheStore\<close>: \<open>mkdir\<close> is \<^verbatim>\<open>os.MkdirAll\<close>, \<open>open_cache\<close> is \<^verbatim>\<open>sqlite.New\<close> on a
  path. A failure to prune or to touch the directory is only logged.
\<close>

definition cache_path :: "'d remote_store \<Rightarrow> string" where
  "cache_path s =
     filepath_Join (rs_forkCacheDir s) (rs_chainID s @ ''-'' @
       (let truncatedID = ID_String (rs_forkBlockID s)
        in if length truncatedID > 12 then take 12 truncatedID else truncatedID))"

definition initializeCacheStore ::
  "(string \<Rightarrow> unit result) \<Rightarrow> (string \<Rightarrow> 'd default_store result) \<Rightarrow> 'd remote_store \<Rightarrow> 'd default_store result" where
  "initializeCacheStore mkdir open_cache s =
     (case mkdir (rs_forkCacheDir s) of
        Inl err \<Rightarrow> Inl (Errorf_wrap ''failed to create cache directory: '' err)
      | Inr _ \<Rightarrow>
          (case mkdir (cache_path s) of
             Inl err \<Rightarrow> Inl (Errorf_wrap ''failed to create cache subdirectory: '' err)
           | Inr _ \<Rightarrow>
               (case open_cache (cache_path s) of
                  Inl err \<Rightarrow> Inl (Errorf_wrap ''failed to create cache store: '' err)
                | Inr cacheStore \<Rightarrow> Inr cacheStore)))"

section \<open>Starting\<close>

definition on_overlay ::
  "('d default_store \<Rightarrow> 'a result \<times> 'd default_store) \<Rightarrow> 'd remote_store \<Rightarrow> 'a result \<times> 'd remote_store" where
  "on_overlay f s = (let (r, d) = f (rs_overlay s) in (r, s\<lparr>rs_overlay := d\<rparr>))"

text \<open>The fork block's header is fetched for its ID.\<close>

definition fetch_fork_block :: "remote_client \<Rightarrow> 'd remote_store \<Rightarrow> unit result \<times> 'd remote_store" where
  "fetch_fork_block C s =
     (case rc_GetBlockHeaderByHeight C (rs_forkHeight s) of
        Inl err \<Rightarrow> (Inl (Errorf_wrap ''could not get fork block header: '' err), s)
      | Inr (i, _) \<Rightarrow> (Inr (), s\<lparr>rs_forkBlockID := i\<rparr>))"

definition start_height_error :: "unit result \<Rightarrow> unit result" where
  "start_height_error r =
     (case r of Inl err \<Rightarrow> Inl (Errorf_wrap ''could not set start block height: '' err) | Inr u \<Rightarrow> Inr u)"

definition store_fork_height ::
  "'x codec_scheme \<Rightarrow> 'd kv_ops \<Rightarrow> remote_client \<Rightarrow> 'd remote_store \<Rightarrow> unit result \<times> 'd remote_store" where
  "store_fork_height p k C s =
     bindE (fetch_fork_block C s) (\<lambda>_ s.
     let (r, s) = on_overlay (StoreForkedBlockHeight p k (rs_forkHeight s)) s
     in bindE (start_height_error r, s) (\<lambda>_ s.
        let (r, s) = on_overlay (SetBlockHeight p k (rs_forkHeight s)) s in (start_height_error r, s)))"

definition initializeStartBlock ::
  "'x codec_scheme \<Rightarrow> 'd kv_ops \<Rightarrow> remote_client \<Rightarrow> 'd remote_store \<Rightarrow> unit result \<times> 'd remote_store" where
  "initializeStartBlock p k C s =
     (let fresh_start =
        (if rs_forkHeight s = 0
         then case rc_GetLatestBlockHeader C of
                Inl err \<Rightarrow> (Inl (Errorf_wrap ''could not get last block height: '' err), s)
              | Inr latest \<Rightarrow> store_fork_height p k C (s\<lparr>rs_forkHeight := latest - blockBuffer\<rparr>)
         else store_fork_height p k C s)
      in case ForkedBlockHeight p k (rs_overlay s) of
           Inr forkHeight \<Rightarrow>
             if forkHeight > 0 then fetch_fork_block C (s\<lparr>rs_forkHeight := forkHeight\<rparr>) else fresh_start
         | Inl err \<Rightarrow>
             if is_ErrNotFound err then fresh_start
             else (Inl (Errorf_wrap ''could not get forked block height: '' err), s))"

definition remote_New ::
  "'x codec_scheme \<Rightarrow> 'd kv_ops \<Rightarrow> (string \<Rightarrow> remote_client result) \<Rightarrow> (string \<Rightarrow> unit result) \<Rightarrow>
   (string \<Rightarrow> 'd default_store result) \<Rightarrow> 'd default_store result \<Rightarrow> 'd remote_option list \<Rightarrow> 'd default_store \<Rightarrow>
   'd remote_store result" where
  "remote_New p k dial mkdir open_cache in_memory options provider =
     (let s = fold (\<lambda>opt s. opt s) options
        \<lparr>rs_overlay = provider, rs_client = None, rs_host = '''', rs_chainID = '''', rs_forkHeight = 0,
         rs_forkBlockID = ZeroID, rs_forkCacheDir = '''', rs_cacheStore = None\<rparr>
      in bindR (case rs_client s of
                  Some client \<Rightarrow> Inr client
                | None \<Rightarrow>
                    if rs_host s = '''' then Inl (Errorf ''rpc host must be provided'')
                    else (case dial (rs_host s) of
                            Inl err \<Rightarrow> Inl (Errorf_wrap ''could not connect to rpc host: '' err) | Inr client \<Rightarrow> Inr client))
         (\<lambda>client.
       bindR (case rc_GetNetworkParameters client of
                Inl err \<Rightarrow> Inl (Errorf_wrap ''could not get network parameters: '' err) | Inr chainId \<Rightarrow> Inr chainId)
         (\<lambda>chainId.
       if rs_chainID s \<noteq> '''' \<and> chainId \<noteq> rs_chainID s
       then Inl (Errorf (''chain ID of rpc host does not match chain ID provided in config: '' @ chainId @ '' != '' @ rs_chainID s))
       else let s = s\<lparr>rs_client := Some client, rs_chainID := (if rs_chainID s = '''' then chainId else rs_chainID s)\<rparr>
            in case initializeStartBlock p k client s of
                 (Inl err, _) \<Rightarrow> Inl err
               | (Inr _, s) \<Rightarrow>
                   (let disk = (if rs_forkCacheDir s \<noteq> '''' then initializeCacheStore mkdir open_cache s else Inl ErrNotFound)
                    in case disk of
                         Inr cacheStore \<Rightarrow> Inr (s\<lparr>rs_cacheStore := Some cacheStore\<rparr>)
                       | Inl _ \<Rightarrow>
                           (case in_memory of
                              Inl err \<Rightarrow> Inl (Errorf_wrap ''failed to initialize in-memory cache: '' err)
                            | Inr cacheStore \<Rightarrow> Inr (s\<lparr>rs_cacheStore := Some cacheStore\<rparr>))))))"

section \<open>Blocks\<close>

definition latest_error :: "go_error \<Rightarrow> go_error" where
  "latest_error err = Errorf_wrap ''could not get local latest block: '' err"

definition remote_BlockByHeight ::
  "'x codec_scheme \<Rightarrow> 'd kv_ops \<Rightarrow> remote_client \<Rightarrow> u64 \<Rightarrow> 'd remote_store \<Rightarrow> block result" where
  "remote_BlockByHeight p k C height s =
     (case BlockByHeight p k height (rs_overlay s) of
        Inr block \<Rightarrow> Inr block
      | Inl _ \<Rightarrow>
          (case LatestBlockHeight p k (rs_overlay s) of
             Inl err \<Rightarrow> Inl (latest_error err)
           | Inr latestBlockHeight \<Rightarrow>
               if height > latestBlockHeight then Inl (BlockNotFoundByHeightError height)
               else bindR (rc_GetBlockHeaderByHeight C height) (\<lambda>(_, header).
                    bindR header (\<lambda>hb.
                    Inr \<lparr>ChainID = ChainID hb, ParentID = ParentID hb, Height = Height hb, View = View hb,
                         Timestamp = Timestamp hb, Guarantees = [], Seals = []\<rparr>))))"

definition remote_BlockByID ::
  "'x codec_scheme \<Rightarrow> 'd kv_ops \<Rightarrow> remote_client \<Rightarrow> flow_id \<Rightarrow> 'd remote_store \<Rightarrow> block result" where
  "remote_BlockByID p k C blockID s =
     (case BlockByID p k blockID (rs_overlay s) of
        Inr block \<Rightarrow> remote_BlockByHeight p k C (Height block) s
      | Inl err \<Rightarrow>
          if is_ErrNotFound err
          then bindR (rc_GetBlockHeaderByID C blockID) (\<lambda>height. remote_BlockByHeight p k C height s)
          else Inl err)"

definition remote_LatestBlock :: "'x codec_scheme \<Rightarrow> 'd kv_ops \<Rightarrow> remote_client \<Rightarrow> 'd remote_store \<Rightarrow> block result" where
  "remote_LatestBlock p k C s =
     (case LatestBlockHeight p k (rs_overlay s) of
        Inl err \<Rightarrow> Inl (latest_error err)
      | Inr latestBlockHeight \<Rightarrow> remote_BlockByHeight p k C latestBlockHeight s)"

section \<open>Registers\<close>

text \<open>The value a response carries: the first one, empty if there is none or the register is unknown.\<close>

definition response_value :: "register_response \<Rightarrow> bytes result" where
  "response_value r =
     (case r of
        RegisterError err \<Rightarrow> Inl err
      | RegisterNotFound \<Rightarrow> Inr []
      | RegisterValues vs \<Rightarrow> Inr (if length vs > 0 then vs ! 0 else []))"

text \<open>Fetching from the remote, never above the fork height, and writing the value to the fork cache.\<close>

definition fetch_register ::
  "'x codec_scheme \<Rightarrow> 'd kv_ops \<Rightarrow> remote_client \<Rightarrow> u64 \<Rightarrow> register_id \<Rightarrow> 'd remote_store \<Rightarrow>
   bytes result \<times> 'd remote_store" where
  "fetch_register p k C blockHeight r s =
     (let lookupHeight = (if blockHeight > rs_forkHeight s then rs_forkHeight s else blockHeight)
      in case response_value (rc_GetRegisterValues C lookupHeight r) of
           Inl err \<Rightarrow> (Inl err, s)
         | Inr value \<Rightarrow>
             (Inr value,
              case rs_cacheStore s of
                None \<Rightarrow> s
              | Some c \<Rightarrow> s\<lparr>rs_cacheStore := Some (snd (ds_Set k LedgerStoreName (register_key p r) value c))\<rparr>))"

text \<open>The function of the snapshot that \<^verbatim>\<open>LedgerByHeight\<close> returns.\<close>

definition remote_read ::
  "'x codec_scheme \<Rightarrow> 'd kv_ops \<Rightarrow> remote_client \<Rightarrow> u64 \<Rightarrow> register_id \<Rightarrow> 'd remote_store \<Rightarrow>
   bytes result \<times> 'd remote_store" where
  "remote_read p k C blockHeight r s =
     (case GetBytesAtVersion k LedgerStoreName (register_key p r) blockHeight (Data (rs_overlay s)) of
        Inr value \<Rightarrow> (Inr value, s)
      | Inl err \<Rightarrow>
          if \<not> is_ErrNotFound err then (Inl err, s)
          else case rs_cacheStore s of
                 None \<Rightarrow> fetch_register p k C blockHeight r s
               | Some c \<Rightarrow>
                   (case ds_Get k LedgerStoreName (register_key p r) c of
                      Inr value \<Rightarrow> (Inr value, s)
                    | Inl err \<Rightarrow>
                        if \<not> is_ErrNotFound err then (Inl err, s)
                        else fetch_register p k C blockHeight r s))"

section \<open>Reads at and above the fork height\<close>

text \<open>A sequence of reads, each at a height.\<close>

primrec remote_reads ::
  "'x codec_scheme \<Rightarrow> 'd kv_ops \<Rightarrow> remote_client \<Rightarrow> (u64 \<times> register_id) list \<Rightarrow> 'd remote_store \<Rightarrow>
   bytes result list \<times> 'd remote_store" where
  "remote_reads p k C [] s = ([], s)"
| "remote_reads p k C (x # xs) s =
     (let (v, s) = remote_read p k C (fst x) (snd x) s; (vs, s) = remote_reads p k C xs s in (v # vs, s))"

text \<open>What a fork promises: the local value if there is one, else the remote value at the fork height.\<close>

definition forked_value ::
  "'x codec_scheme \<Rightarrow> 'd kv_ops \<Rightarrow> remote_client \<Rightarrow> u64 \<Rightarrow> 'd default_store \<Rightarrow> u64 \<times> register_id \<Rightarrow> bytes result" where
  "forked_value p k C fork overlay x =
     (case GetBytesAtVersion k LedgerStoreName (register_key p (snd x)) (fst x) (Data overlay) of
        Inr v \<Rightarrow> Inr v
      | Inl err \<Rightarrow> if is_ErrNotFound err then response_value (rc_GetRegisterValues C fork (snd x)) else Inl err)"

text \<open>
  The fork cache holds, for every register, nothing or the remote value at the fork height. \<open>usable\<close> and \<open>slot\<close>
  are those of the database contract.
\<close>

definition pinned ::
  "('d \<Rightarrow> bool) \<Rightarrow> ('d \<Rightarrow> string \<Rightarrow> bytes \<Rightarrow> bytes option \<Rightarrow> bool) \<Rightarrow> 'x codec_scheme \<Rightarrow> remote_client \<Rightarrow> 'd remote_store \<Rightarrow> bool" where
  "pinned usable slot p C s \<longleftrightarrow> (\<exists>c. rs_cacheStore s = Some c \<and> usable (Data c) \<and> unat (CurrentHeight c) < 2 ^ 63 \<and>
     (\<forall>r. slot (Data c) LedgerStoreName (register_key p r) None \<or>
       (\<exists>v. slot (Data c) LedgerStoreName (register_key p r) (Some v) \<and>
          response_value (rc_GetRegisterValues C (rs_forkHeight s) r) = Inr v)))"

context kv_store
begin

lemma fetch_pinned:
  assumes inj: "inj (register_String p)" and pin: "pinned usable slot p C s" and c: "rs_cacheStore s = Some c"
    and none: "slot (Data c) LedgerStoreName (register_key p r) None" and n: "rs_forkHeight s \<le> n"
    and f: "fetch_register p k C n r s = (v, s')"
  shows "v = response_value (rc_GetRegisterValues C (rs_forkHeight s) r)" "pinned usable slot p C s'"
    "rs_overlay s' = rs_overlay s" "rs_forkHeight s' = rs_forkHeight s"
proof -
  let ?key = "register_key p r" and ?rv = "response_value (rc_GetRegisterValues C (rs_forkHeight s) r)"
  have h: "(if n > rs_forkHeight s then rs_forkHeight s else n) = rs_forkHeight s" using n by auto
  show "v = ?rv" "rs_overlay s' = rs_overlay s" "rs_forkHeight s' = rs_forkHeight s"
    using f c unfolding fetch_register_def h by (auto split: sum.splits)
  show "pinned usable slot p C s'"
  proof (cases ?rv)
    case (Inr x)
    let ?c = "snd (ds_Set k LedgerStoreName ?key x c)"
    have s': "s' = s\<lparr>rs_cacheStore := Some ?c\<rparr>" using f c Inr unfolding fetch_register_def h by simp
    have u: "usable (Data c)" "unat (CurrentHeight c) < 2 ^ 63" using pin c by (simp_all add: pinned_def)
    have t: "LedgerStoreName \<in> tables" using tables_default by (auto simp: default_tables_def)
    have d: "Data ?c = snd (SetBytes k (CurrentHeight c) LedgerStoreName ?key x (Data c))" "CurrentHeight ?c = CurrentHeight c"
      by (simp_all add: ds_Set_def case_prod_unfold)
    have new: "slot (Data ?c) LedgerStoreName ?key (Some x)" using set_slot[OF u(1) t u(2)] none by (simp add: d)
    have "slot (Data ?c) LedgerStoreName (register_key p q) None \<or>
        (\<exists>v. slot (Data ?c) LedgerStoreName (register_key p q) (Some v) \<and>
           response_value (rc_GetRegisterValues C (rs_forkHeight s) q) = Inr v)" for q
    proof (cases "q = r")
      case True then show ?thesis using new Inr by blast
    next
      case False
      then have "register_key p q \<noteq> ?key" using register_key_inject[OF inj] by simp
      then show ?thesis using pin c set_frame by (simp add: pinned_def d)
    qed
    then show ?thesis using set_usable[OF u(1)] u(2) by (simp add: pinned_def s' d)
  qed (use f pin c in \<open>simp add: fetch_register_def h\<close>)
qed

lemma read_pinned:
  assumes "inj (register_String p)" "pinned usable slot p C s" "rs_forkHeight s \<le> n" "remote_read p k C n r s = (v, s')"
  shows "v = forked_value p k C (rs_forkHeight s) (rs_overlay s) (n, r)" "pinned usable slot p C s'"
    "rs_overlay s' = rs_overlay s" "rs_forkHeight s' = rs_forkHeight s"
proof -
  let ?g = "GetBytesAtVersion k LedgerStoreName (register_key p r) n (Data (rs_overlay s))"
  obtain c where c: "rs_cacheStore s = Some c" using assms(2) by (auto simp: pinned_def)
  have t: "LedgerStoreName \<in> tables" using tables_default by (auto simp: default_tables_def)
  have u: "usable (Data c)" using assms(2) c by (simp add: pinned_def)
  have dis: "slot (Data c) LedgerStoreName (register_key p r) None \<or>
      (\<exists>x. slot (Data c) LedgerStoreName (register_key p r) (Some x) \<and>
         response_value (rc_GetRegisterValues C (rs_forkHeight s) r) = Inr x)"
    using assms(2) c by (simp add: pinned_def)
  consider (local_value) x where "?g = Inr x" | (local_error) e where "?g = Inl e" "\<not> is_ErrNotFound e"
    | (cached) e x where "?g = Inl e" "is_ErrNotFound e" "slot (Data c) LedgerStoreName (register_key p r) (Some x)"
        "response_value (rc_GetRegisterValues C (rs_forkHeight s) r) = Inr x"
    | (remote) e where "?g = Inl e" "is_ErrNotFound e" "slot (Data c) LedgerStoreName (register_key p r) None"
    using dis by (cases ?g) blast+
  then have "v = forked_value p k C (rs_forkHeight s) (rs_overlay s) (n, r) \<and> pinned usable slot p C s' \<and>
    rs_overlay s' = rs_overlay s \<and> rs_forkHeight s' = rs_forkHeight s"
  proof cases
    case cached
    then show ?thesis using assms(2,4) c get_slot[OF u t cached(3)] by (simp add: remote_read_def forked_value_def ds_Get_def)
  next
    case remote
    then have "fetch_register p k C n r s = (v, s')"
      using assms(4) c get_slot[OF u t remote(3)] by (simp add: remote_read_def ds_Get_def)
    from fetch_pinned[OF assms(1,2) c remote(3) assms(3) this] show ?thesis using remote(1,2) by (simp add: forked_value_def)
  next
    case local_value
    then have "v = Inr x" "s' = s" using assms(4) by (simp_all add: remote_read_def)
    then show ?thesis using local_value assms(2) by (simp add: forked_value_def)
  next
    case local_error
    then have "v = Inl e" "s' = s" using assms(4) by (simp_all add: remote_read_def)
    then show ?thesis using local_error assms(2) by (simp add: forked_value_def)
  qed
  then show "v = forked_value p k C (rs_forkHeight s) (rs_overlay s) (n, r)" "pinned usable slot p C s'"
    "rs_overlay s' = rs_overlay s" "rs_forkHeight s' = rs_forkHeight s" by simp_all
qed

lemma reads_pinned:
  assumes "inj (register_String p)" "pinned usable slot p C s" "\<And>x. x \<in> set xs \<Longrightarrow> rs_forkHeight s \<le> fst x"
  shows "fst (remote_reads p k C xs s) = map (forked_value p k C (rs_forkHeight s) (rs_overlay s)) xs"
  using assms(2,3)
proof (induction xs arbitrary: s)
  case (Cons x xs)
  obtain v s' where x: "remote_read p k C (fst x) (snd x) s = (v, s')" by (cases "remote_read p k C (fst x) (snd x) s")
  note step = read_pinned[OF assms(1) Cons.prems(1) _ x]
  have "rs_forkHeight s \<le> fst x" using Cons.prems(2) by simp
  note step = step[OF this]
  show ?case using Cons.IH[OF step(2)] Cons.prems(2) step by (simp add: x case_prod_unfold)
qed simp

end

text \<open>C34: A fork of a remote chain is pinned to its fork height. If the fork cache starts empty (or holds remote values at the fork height),
  then in every sequence of register reads at or above the fork height each read returns the local value at its height if there is
  one, and else the value the register has on the remote chain at the fork height, whether it comes from the cache or from
  the network.\<close>

theorem fork_reads_pinned:
  assumes "inj (register_String p)" "pinned (sq_usable V) sq_slot p C s"
    "\<And>x. x \<in> set xs \<Longrightarrow> rs_forkHeight s \<le> fst x"
  shows "fst (remote_reads p (sqlite_kv V) C xs s) =
    map (forked_value p (sqlite_kv V) C (rs_forkHeight s) (rs_overlay s)) xs"
  by (rule sq.reads_pinned[OF assms])

text \<open>A node whose registers hold the height they are read at, and a fork of it at height 100.\<close>

definition sample_node :: remote_client where
  "sample_node =
     \<lparr>rc_GetNetworkParameters = Inr ''flow-testnet'', rc_GetLatestBlockHeader = Inr 110,
      rc_GetBlockHeaderByHeight = (\<lambda>n. Inl ErrNotFound), rc_GetBlockHeaderByID = (\<lambda>i. Inl ErrNotFound),
      rc_GetRegisterValues = (\<lambda>n r. RegisterValues [word_bytes n])\<rparr>"

definition sample_fork :: "sqlite remote_store" where
  "sample_fork =
     \<lparr>rs_overlay = sample_sqlite, rs_client = Some sample_node, rs_host = '''', rs_chainID = ''flow-testnet'',
      rs_forkHeight = 100, rs_forkBlockID = ZeroID, rs_forkCacheDir = '''', rs_cacheStore = Some sample_sqlite\<rparr>"

lemma sample_overlay_empty:
  "unat n < 2 ^ 63 \<Longrightarrow> sq_GetBytesAtVersion sample_env LedgerStoreName key n (Data sample_sqlite) = Inl ErrNotFound"
  "sq_slot (Data sample_sqlite) st key None"
proof -
  have rows: "rows_of (Data sample_sqlite) st = []" for st
    by (simp add: rows_of_def sample_sqlite_def open_db_def createTables_def empty_db_def)
  then show "sq_slot (Data sample_sqlite) st key None" by (simp add: sq_slot_def candidates_def)
  show "sq_GetBytesAtVersion sample_env LedgerStoreName key n (Data sample_sqlite) = Inl ErrNotFound" if "unat n < 2 ^ 63"
    using sq_Get_eq[OF sample_usable, of LedgerStoreName n key] that rows
    by (simp add: table_names_def candidates_def sample_env_def)
qed

lemma sample_node_value [simp]: "response_value (rc_GetRegisterValues sample_node n r) = Inr (word_bytes n)"
  by (simp add: sample_node_def response_value_def)

lemma sample_fork_simps [simp]:
  "rs_forkHeight sample_fork = 100" "rs_overlay sample_fork = sample_sqlite" "rs_cacheStore sample_fork = Some sample_sqlite"
  by (simp_all add: sample_fork_def)

lemma sqlite_kv_get [simp]: "GetBytesAtVersion (sqlite_kv V) = sq_GetBytesAtVersion V"
  by (simp add: sqlite_kv_def)

lemma sample_fork_pinned: "pinned (sq_usable sample_env) sq_slot sample_codec sample_node sample_fork"
  using sample_usable sample_overlay_empty(2) by (simp add: pinned_def) (simp add: sample_sqlite_def)

theorem fork_reads_pinned_witness:
  "fst (remote_reads sample_codec (sqlite_kv sample_env) sample_node [(105, sample_register), (100, sample_register)] sample_fork) =
     [Inr (word_bytes 100), Inr (word_bytes 100)]"
proof -
  have "inj (register_String sample_codec)" by (simp add: inj_sample_register_String)
  note reads = fork_reads_pinned[OF this sample_fork_pinned, of "[(105, sample_register), (100, sample_register)]"]
  show ?thesis by (subst reads) (auto simp: forked_value_def sample_overlay_empty(1))
qed

section \<open>Reads below the fork height\<close>

text \<open>C35: The fork cache is keyed by the register only. A read of a register below the fork height that is answered by the network leaves its
  value in the cache, and from then on every read of that register at any height, the fork height included, returns that
  value, whatever the register's value on the remote chain at that height is, as long as the register has no local value.\<close>

theorem fork_cache_ignores_height:
  assumes "rs_cacheStore s = Some c" "sq_usable V (Data c)" "unat (CurrentHeight c) < 2 ^ 63"
    "sq_slot (Data c) LedgerStoreName (register_key p r) None"
    "GetBytesAtVersion (sqlite_kv V) LedgerStoreName (register_key p r) m (Data (rs_overlay s)) = Inl ErrNotFound"
    "GetBytesAtVersion (sqlite_kv V) LedgerStoreName (register_key p r) n (Data (rs_overlay s)) = Inl ErrNotFound"
    "m \<le> rs_forkHeight s" "response_value (rc_GetRegisterValues C m r) = Inr v"
  shows "\<exists>s'. remote_read p (sqlite_kv V) C m r s = (Inr v, s') \<and> remote_read p (sqlite_kv V) C n r s' = (Inr v, s')"
proof -
  let ?key = "register_key p r"
  let ?c = "snd (ds_Set (sqlite_kv V) LedgerStoreName ?key v c)"
  have t: "LedgerStoreName \<in> set table_names" using sq.tables_default by (auto simp: default_tables_def)
  have u: "usable" if "usable = sq_usable V (Data ?c)" for usable
    using that sq.set_usable[OF assms(2)] by (simp add: ds_Set_def case_prod_unfold)
  have "sq_slot (Data ?c) LedgerStoreName ?key (Some v)"
    using sq.set_slot[OF assms(2) t assms(3)] assms(4) by (simp add: ds_Set_def case_prod_unfold)
  then have hit: "ds_Get (sqlite_kv V) LedgerStoreName ?key ?c = Inr v"
    using sq.get_slot[OF u[OF refl] t] by (simp add: ds_Get_def)
  have "ds_Get (sqlite_kv V) LedgerStoreName ?key c = Inl ErrNotFound"
    using sq.get_slot[OF assms(2) t assms(4)] by (simp add: ds_Get_def)
  moreover have "\<not> rs_forkHeight s < m" using assms(7) by simp
  ultimately have "remote_read p (sqlite_kv V) C m r s = (Inr v, s\<lparr>rs_cacheStore := Some ?c\<rparr>)"
    using assms by (simp add: remote_read_def fetch_register_def)
  moreover have "remote_read p (sqlite_kv V) C n r (s\<lparr>rs_cacheStore := Some ?c\<rparr>) = (Inr v, s\<lparr>rs_cacheStore := Some ?c\<rparr>)"
    using assms(6) hit by (simp add: remote_read_def)
  ultimately show ?thesis by blast
qed

theorem fork_cache_ignores_height_witness:
  "\<exists>s'. remote_read sample_codec (sqlite_kv sample_env) sample_node 90 sample_register sample_fork = (Inr (word_bytes 90), s') \<and>
     remote_read sample_codec (sqlite_kv sample_env) sample_node 100 sample_register s' = (Inr (word_bytes 90), s')"
proof -
  have "unat (CurrentHeight sample_sqlite) < 2 ^ 63" by (simp add: sample_sqlite_def)
  from fork_cache_ignores_height[OF _ sample_usable this sample_overlay_empty(2), of sample_fork sample_codec sample_register 90 100 sample_node]
  show ?thesis by (simp add: sample_overlay_empty(1))
qed

section \<open>Starting near the beginning of a chain, and pruning\<close>

text \<open>
  The default fork height is ten blocks below the tip, computed in 64 bits: on a chain shorter than that it wraps to a height far above
  the tip, and the store does not start if the node knows no block there.
\<close>

lemma fork_height_underflow:
  assumes "ForkedBlockHeight p k (rs_overlay s) = Inl ErrNotFound" "rs_forkHeight s = 0"
    "rc_GetLatestBlockHeader C = Inr latest" "latest < blockBuffer"
    "\<And>n. latest < n \<Longrightarrow> rc_GetBlockHeaderByHeight C n = Inl e"
  shows "latest < latest - blockBuffer"
    "fst (initializeStartBlock p k C s) = Inl (Errorf_wrap ''could not get fork block header: '' e)"
proof -
  show wrap: "latest < latest - blockBuffer"
    using assms(4) by (simp add: blockBuffer_def word_less_nat_alt unat_sub_if' split: if_splits)
  show "fst (initializeStartBlock p k C s) = Inl (Errorf_wrap ''could not get fork block header: '' e)"
    using assms wrap
    by (simp add: initializeStartBlock_def store_fork_height_def fetch_fork_block_def)
qed



end
