(* ===== verification/Server_Utils.thy ===== *)
theory Server_Utils
  imports Flow_Types
begin

text \<open>
  Small services around the emulator: the retrying gRPC interceptor (\<^verbatim>\<open>utils/grpc.go\<close>) and the liveness checks
  (\<^verbatim>\<open>server/utils/liveness.go\<close>, \<^verbatim>\<open>server/utils/liveness/\<close>). Times and durations are integers, in nanoseconds.
\<close>

section \<open>Retrying calls: utils/grpc.go\<close>

abbreviation second :: nat where "second \<equiv> 10 ^ 9"

definition defaultMaxAttempts :: nat where "defaultMaxAttempts = 10"
definition defaultInitialBackoff :: nat where "defaultInitialBackoff = 1 * second"
definition defaultMaxBackoff :: nat where "defaultMaxBackoff = 30 * second"

datatype grpc_code = Unavailable | ResourceExhausted | Unknown | OtherCode string

fun isRetryableCode :: "grpc_code \<Rightarrow> bool" where
  "isRetryableCode Unavailable = True"
| "isRetryableCode ResourceExhausted = True"
| "isRetryableCode Unknown = True"
| "isRetryableCode (OtherCode s) = False"

text \<open>
  The loop, with \<open>left\<close> attempts to go, of which \<open>attempt\<close> is the number of the next one. \<open>invoke n\<close> is the outcome of the call in
  attempt \<open>n\<close>, \<open>cancelled n\<close> the error of a context that ends during the wait before it. The result is the error, if any, the number
  of calls made and the waits, in order.
\<close>

fun retry_loop ::
  "(nat \<Rightarrow> (grpc_code \<times> go_error) option) \<Rightarrow> (nat \<Rightarrow> go_error option) \<Rightarrow> nat \<Rightarrow> nat \<Rightarrow> nat \<Rightarrow> go_error option \<Rightarrow>
   go_error option \<times> nat \<times> nat list" where
  "retry_loop invoke cancelled 0 attempt backoff lastErr = (lastErr, 0, [])"
| "retry_loop invoke cancelled (Suc left) attempt backoff lastErr =
     (if attempt > 0 \<and> cancelled attempt \<noteq> None then (cancelled attempt, 0, [backoff])
      else let waited = (if attempt > 0 then [backoff] else []);
               backoff = (if attempt > 0 then min (backoff * 2) defaultMaxBackoff else backoff)
           in case invoke attempt of
                None \<Rightarrow> (None, 1, waited)
              | Some (code, err) \<Rightarrow>
                  if \<not> isRetryableCode code then (Some err, 1, waited)
                  else let (r, calls, waits) = retry_loop invoke cancelled left (Suc attempt) backoff (Some err)
                       in (r, Suc calls, waited @ waits))"

definition retryInterceptor ::
  "(nat \<Rightarrow> (grpc_code \<times> go_error) option) \<Rightarrow> (nat \<Rightarrow> go_error option) \<Rightarrow> go_error option \<times> nat \<times> nat list" where
  "retryInterceptor invoke cancelled = retry_loop invoke cancelled defaultMaxAttempts 0 defaultInitialBackoff None"

section \<open>Liveness checks: server/utils/liveness\<close>

record internalCheck =
  lastCheckIn :: int
  chk_defaultTolerance :: int

record CheckCollector =
  cc_defaultTolerance :: int
  cc_checks :: "internalCheck list"

definition DefaultTolerance :: int where "DefaultTolerance = 30 * 10 ^ 9"

definition CheckIn :: "int \<Rightarrow> internalCheck \<Rightarrow> internalCheck" where
  "CheckIn now c = c\<lparr>lastCheckIn := now\<rparr>"

definition check_IsLive :: "int \<Rightarrow> int \<Rightarrow> internalCheck \<Rightarrow> bool" where
  "check_IsLive now tolerance c =
     (let tolerance = (if tolerance = 0 then chk_defaultTolerance c else tolerance) in lastCheckIn c + tolerance > now)"

definition NewCheckCollector :: "int \<Rightarrow> CheckCollector" where
  "NewCheckCollector tolerance =
     \<lparr>cc_defaultTolerance = (if tolerance = 0 then DefaultTolerance else tolerance), cc_checks = []\<rparr>"

definition NewCheck :: "int \<Rightarrow> CheckCollector \<Rightarrow> internalCheck \<times> CheckCollector" where
  "NewCheck now c =
     (let check = \<lparr>lastCheckIn = now, chk_defaultTolerance = cc_defaultTolerance c\<rparr>
      in (check, c\<lparr>cc_checks := cc_checks c @ [check]\<rparr>))"

definition Register :: "internalCheck \<Rightarrow> CheckCollector \<Rightarrow> CheckCollector" where
  "Register ck c = c\<lparr>cc_checks := cc_checks c @ [ck]\<rparr>"

primrec all_live :: "int \<Rightarrow> int \<Rightarrow> internalCheck list \<Rightarrow> bool" where
  "all_live now tolerance [] = True"
| "all_live now tolerance (c # cs) = (if \<not> check_IsLive now tolerance c then False else all_live now tolerance cs)"

definition collector_IsLive :: "int \<Rightarrow> int \<Rightarrow> CheckCollector \<Rightarrow> bool" where
  "collector_IsLive now tolerance c =
     all_live now (if tolerance = 0 then cc_defaultTolerance c else tolerance) (cc_checks c)"

text \<open>The HTTP status; the header is the empty text if it is absent, \<open>parse\<close> is \<^verbatim>\<open>time.ParseDuration\<close>.\<close>

definition liveness_ServeHTTP :: "(string \<Rightarrow> int option) \<Rightarrow> string \<Rightarrow> int \<Rightarrow> CheckCollector \<Rightarrow> nat" where
  "liveness_ServeHTTP parse header now c =
     (let answer = (\<lambda>tolerance. if \<not> collector_IsLive now tolerance c then 503 else 200)
      in if header \<noteq> ''''
         then case parse header of None \<Rightarrow> 400 | Some tolerance \<Rightarrow> answer tolerance
         else answer (cc_defaultTolerance c))"

text \<open>\<^verbatim>\<open>LivenessTicker\<close>: \<^verbatim>\<open>Start\<close> registers a check, which is the last of the collector, and checks in at every tick.\<close>

datatype liveness_event = LivenessTick int | LivenessDone

fun liveness_loop :: "liveness_event list \<Rightarrow> CheckCollector \<Rightarrow> CheckCollector" where
  "liveness_loop [] c = c"
| "liveness_loop (LivenessTick now # es) c =
     liveness_loop es (c\<lparr>cc_checks := butlast (cc_checks c) @ [CheckIn now (last (cc_checks c))]\<rparr>)"
| "liveness_loop (LivenessDone # es) c = c"

definition LivenessTicker_Start :: "int \<Rightarrow> liveness_event list \<Rightarrow> CheckCollector \<Rightarrow> CheckCollector" where
  "LivenessTicker_Start now es c = liveness_loop es (snd (NewCheck now c))"

section \<open>Lemmas\<close>

text \<open>The waits before the attempts 1, 2 and so on.\<close>

definition backoff_before :: "nat \<Rightarrow> nat" where
  "backoff_before attempt = min (defaultInitialBackoff * 2 ^ (attempt - 1)) defaultMaxBackoff"

lemma backoff_double:
  "0 < attempt \<Longrightarrow> min (backoff_before attempt * 2) defaultMaxBackoff = backoff_before (Suc attempt)"
  by (cases attempt) (auto simp: backoff_before_def min_def)

lemma retry_loop_spec:
  assumes "retry_loop invoke cancelled left attempt (backoff_before (max 1 attempt)) lastErr = (r, calls, waits)"
    "left > 0 \<or> lastErr \<noteq> None"
  shows "calls \<le> left \<and> length waits \<le> left \<and> (attempt = 0 \<longrightarrow> length waits \<le> left - 1) \<and>
    waits = map backoff_before [max 1 attempt ..< max 1 attempt + length waits] \<and>
    (\<forall>i < calls - 1. \<exists>c e. invoke (attempt + i) = Some (c, e) \<and> isRetryableCode c) \<and>
    (r = None \<longleftrightarrow> 0 < calls \<and> invoke (attempt + calls - 1) = None)"
  using assms
proof (induction left arbitrary: attempt lastErr r calls waits)
  case (Suc left)
  let ?waited = "if attempt > 0 then [backoff_before (max 1 attempt)] else []"
  have next_b: "(if attempt > 0 then min (backoff_before (max 1 attempt) * 2) defaultMaxBackoff else backoff_before (max 1 attempt)) =
      backoff_before (max 1 (Suc attempt))"
    using backoff_double[of attempt] by (auto simp: max_def)
  note unfolded = Suc.prems(1)[unfolded retry_loop.simps Let_def next_b]
  consider (cancel) "attempt > 0" "calls = 0" "waits = [backoff_before attempt]" "r \<noteq> None"
    | (last) "calls = 1" "waits = ?waited" "r = None \<longleftrightarrow> invoke attempt = None"
    | (again) code err calls' ws where "invoke attempt = Some (code, err)" "isRetryableCode code" "calls = Suc calls'"
        "waits = ?waited @ ws"
        "retry_loop invoke cancelled left (Suc attempt) (backoff_before (max 1 (Suc attempt))) (Some err) = (r, calls', ws)"
  proof (cases "attempt > 0 \<and> cancelled attempt \<noteq> None")
    case True
    then show ?thesis using unfolded cancel by (auto simp: max_def Suc_le_eq)
  next
    case False
    then show ?thesis
      using unfolded last again
      by (cases "invoke attempt"; cases "retry_loop invoke cancelled left (Suc attempt) (backoff_before (max 1 (Suc attempt))) (Some (snd (the (invoke attempt))))")
        (auto split: if_splits)
  qed
  then show ?case
  proof cases
    case again
    note IH = Suc.IH[OF again(5)]
    have "\<exists>c e. invoke (attempt + i) = Some (c, e) \<and> isRetryableCode c" if "i < calls - 1" for i
      using IH that again(1-3) by (cases i) auto
    moreover have "waits = map backoff_before [max 1 attempt ..< max 1 attempt + length waits]"
    proof -
      have ws: "ws = map backoff_before [Suc attempt ..< Suc attempt + length ws]" using IH by simp
      have upt: "[attempt ..< attempt + Suc (length ws)] = attempt # [Suc attempt ..< Suc attempt + length ws]"
        by (simp add: upt_conv_Cons del: upt_Suc)
      show ?thesis
      proof (cases "attempt > 0")
        case True
        then have "waits = backoff_before attempt # map backoff_before [Suc attempt ..< Suc attempt + length ws]"
          "length waits = Suc (length ws)" "max 1 attempt = attempt" using again(4) ws by auto
        then show ?thesis using upt by (simp only: list.map)
      next
        case False
        then show ?thesis using again(4) ws by simp
      qed
    qed
    ultimately show ?thesis using IH again(1,3,4) by auto
  qed (auto simp: max_def Suc_le_eq)
qed auto

lemma sum_waits: "n \<le> 9 \<Longrightarrow> sum_list (map (\<lambda>i. min (2 ^ i) 30 * second) [0 ..< n]) \<le> 151 * second"
proof -
  have "list_all (\<lambda>n. sum_list (map (\<lambda>i. min (2 ^ i) 30) [0 ..< n]) \<le> (151 :: nat)) [0 ..< 10]" by code_simp
  then have "sum_list (map (\<lambda>i. min (2 ^ i) 30) [0 ..< n]) \<le> (151 :: nat)" if "n \<le> 9"
    using that by (simp add: list_all_iff del: upt_Suc)
  then show "n \<le> 9 \<Longrightarrow> ?thesis" by (simp add: sum_list_mult_const del: upt_Suc power_numeral)
qed

text \<open>C40: A call to a remote node is tried at most ten times, with at most nine waits of 1, 2, 4, 8, 16 and then 30 seconds, 151 seconds
  in all. Only a call that failed with a retryable status is tried again, and the interceptor reports success exactly if the last
  call it made succeeded.\<close>

theorem retry_bounded:
  assumes "retryInterceptor invoke cancelled = (r, calls, waits)"
  shows "calls \<le> 10 \<and> length waits \<le> 9 \<and>
    waits = map (\<lambda>i. min (2 ^ i) 30 * second) [0 ..< length waits] \<and> sum_list waits \<le> 151 * second \<and>
    (\<forall>i < calls - 1. \<exists>c e. invoke i = Some (c, e) \<and> isRetryableCode c) \<and>
    (r = None \<longleftrightarrow> 0 < calls \<and> invoke (calls - 1) = None)"
proof -
  have "backoff_before (max 1 0) = defaultInitialBackoff"
    by (simp add: backoff_before_def defaultInitialBackoff_def defaultMaxBackoff_def)
  note spec = retry_loop_spec[where attempt = 0, unfolded this, OF assms[unfolded retryInterceptor_def]]
  have w: "waits = map backoff_before [1 ..< 1 + length waits]" and n: "length waits \<le> 9"
    using spec by (simp_all add: defaultMaxAttempts_def)
  have "map backoff_before [1 ..< 1 + k] = map (\<lambda>i. min (2 ^ i) 30 * second) [0 ..< k]" for k
    by (rule nth_equalityI) (simp_all add: backoff_before_def defaultInitialBackoff_def defaultMaxBackoff_def min_def del: upt_Suc)
  then have w': "waits = map (\<lambda>i. min (2 ^ i) 30 * second) [0 ..< length waits]" using w by metis
  then show ?thesis using spec n sum_waits[OF n] by (simp add: defaultMaxAttempts_def)
qed

theorem retry_bounded_witness:
  "retryInterceptor (\<lambda>n. None) (\<lambda>_. None) = (None, 1, []) \<and> (1 :: nat) \<le> 10"
proof -
  have ten: "defaultMaxAttempts = Suc 9" by (simp add: defaultMaxAttempts_def)
  have r: "retryInterceptor (\<lambda>n. None) (\<lambda>_. None) = (None, 1, [])"
    unfolding retryInterceptor_def ten retry_loop.simps by simp
  show ?thesis using retry_bounded[OF r] r by blast
qed

lemma all_live_iff: "all_live now t cs \<longleftrightarrow> (\<forall>c \<in> set cs. check_IsLive now t c)"
  by (induction cs) auto

text \<open>The probe answers 200 exactly if every check has a heartbeat younger than the tolerance.\<close>

lemma liveness_probe:
  assumes "cc_defaultTolerance c \<noteq> 0"
  shows "liveness_ServeHTTP parse '''' now c = 200 \<longleftrightarrow>
    (\<forall>k \<in> set (cc_checks c). now < lastCheckIn k + cc_defaultTolerance c)"
  using assms by (auto simp: liveness_ServeHTTP_def collector_IsLive_def all_live_iff check_IsLive_def)

end
