(* ===== verification/Emulator_HTTP.thy ===== *)
theory Emulator_HTTP
  imports Emulator_API Sqlite_Rollback
begin

text \<open>
  \<^verbatim>\<open>server/utils/emulator.go\<close>: the HTTP interface that commits blocks, rolls the chain back and manages
  snapshots. A handler takes the parts of the request it reads and gives the response and the new state of the
  emulator; writing a response does not fail. A definition \<open>http_X\<close> is the method \<^verbatim>\<open>EmulatorAPIServer.X\<close>.
\<close>

section \<open>Responses\<close>

abbreviation (input) StatusOK :: nat where "StatusOK \<equiv> 200"
abbreviation (input) StatusBadRequest :: nat where "StatusBadRequest \<equiv> 400"
abbreviation (input) StatusNotFound :: nat where "StatusNotFound \<equiv> 404"
abbreviation (input) StatusConflict :: nat where "StatusConflict \<equiv> 409"
abbreviation (input) StatusInternalServerError :: nat where "StatusInternalServerError \<equiv> 500"

record BlockResponse =
  br_Height :: int
  br_BlockId :: string
  br_Context :: string

datatype http_body =
    EmptyBody
  | ConfigInfo bytes
  | BlockBody BlockResponse
  | StringsBody "string list"
  | ZipBody "(string \<times> bytes) list"

record http_response =
  http_status :: nat
  http_body :: http_body

definition respond :: "nat \<Rightarrow> http_response" where
  "respond code = \<lparr>http_status = code, http_body = EmptyBody\<rparr>"

definition block_response :: "'h hashes_scheme \<Rightarrow> string \<Rightarrow> block \<Rightarrow> http_response" where
  "block_response p ctx block =
     \<lparr>http_status = StatusOK,
      http_body = BlockBody \<lparr>br_Height = sint (Height block), br_BlockId = ID_String (block_ID p block), br_Context = ctx\<rparr>\<rparr>"

text \<open>\<^verbatim>\<open>strconv.ParseUint(s, 10, 64)\<close>: decimal digits only, at least one, within 64 bits.\<close>

definition is_digit :: "char \<Rightarrow> bool" where
  "is_digit c \<longleftrightarrow> 48 \<le> (of_char c :: nat) \<and> (of_char c :: nat) \<le> 57"

definition ParseUint :: "string \<Rightarrow> u64 option" where
  "ParseUint s = (if s \<noteq> [] \<and> list_all is_digit s \<and> undec s < 2 ^ 64 then Some (of_nat (undec s)) else None)"

section \<open>Handlers\<close>

definition http_Config :: "'b emulator_api \<Rightarrow> 'b \<Rightarrow> http_response \<times> 'b" where
  "http_Config api b =
     (let (serviceKey, b) = ea_ServiceKey api b
      in (\<lparr>http_status = StatusOK, http_body = ConfigInfo (sk_PublicKey serviceKey)\<rparr>, b))"

definition latestBlockResponse :: "'h hashes_scheme \<Rightarrow> 'b emulator_api \<Rightarrow> string \<Rightarrow> 'b \<Rightarrow> http_response" where
  "latestBlockResponse p api name b =
     (case ea_GetLatestBlock api b of
        Inl err \<Rightarrow> respond StatusInternalServerError
      | Inr block \<Rightarrow> block_response p name block)"

definition http_CommitBlock :: "'h hashes_scheme \<Rightarrow> 'b emulator_api \<Rightarrow> world \<Rightarrow> 'b \<Rightarrow> http_response \<times> 'b" where
  "http_CommitBlock p api w b =
     (case ea_CommitBlock api w b of
        (Inl err, b) \<Rightarrow> (respond StatusInternalServerError, b)
      | (Inr _, b) \<Rightarrow>
          (case ea_GetLatestBlock api b of
             Inl err \<Rightarrow> (respond StatusInternalServerError, b)
           | Inr block \<Rightarrow> (block_response p '''' block, b)))"

definition http_Rollback :: "'b emulator_api \<Rightarrow> world \<Rightarrow> string \<Rightarrow> 'b \<Rightarrow> http_response \<times> 'b" where
  "http_Rollback api w height b =
     (if height = '''' then (respond StatusInternalServerError, b)
      else case ParseUint height of
             None \<Rightarrow> (respond StatusInternalServerError, b)
           | Some height \<Rightarrow>
               (case ea_RollbackToBlockHeight api w height b of
                  (Inl err, b) \<Rightarrow> (respond StatusInternalServerError, b)
                | (Inr _, b) \<Rightarrow> (respond StatusOK, b)))"

definition http_SnapshotList :: "'b emulator_api \<Rightarrow> 'b \<Rightarrow> http_response" where
  "http_SnapshotList api b =
     (case ea_Snapshots api b of
        Inl err \<Rightarrow> respond StatusInternalServerError
      | Inr snapshots \<Rightarrow> \<lparr>http_status = StatusOK, http_body = StringsBody snapshots\<rparr>)"

definition http_SnapshotJump ::
  "'h hashes_scheme \<Rightarrow> 'b emulator_api \<Rightarrow> world \<Rightarrow> string \<Rightarrow> 'b \<Rightarrow> http_response \<times> 'b" where
  "http_SnapshotJump p api w name b =
     (case ea_Snapshots api b of
        Inl err \<Rightarrow> (respond StatusInternalServerError, b)
      | Inr snapshots \<Rightarrow>
          if name \<notin> set snapshots then (respond StatusNotFound, b)
          else case ea_LoadSnapshot api w name b of
                 (Inl err, b) \<Rightarrow> (respond StatusInternalServerError, b)
               | (Inr _, b) \<Rightarrow> (latestBlockResponse p api name b, b))"

definition http_SnapshotCreate ::
  "'h hashes_scheme \<Rightarrow> 'b emulator_api \<Rightarrow> world \<Rightarrow> string \<Rightarrow> 'b \<Rightarrow> http_response \<times> 'b" where
  "http_SnapshotCreate p api w name b =
     (if name = '''' then (respond StatusInternalServerError, b)
      else case ea_Snapshots api b of
             Inl err \<Rightarrow> (respond StatusInternalServerError, b)
           | Inr snapshots \<Rightarrow>
               if name \<in> set snapshots then (respond StatusConflict, b)
               else case ea_CreateSnapshot api w name b of
                      (Inl err, b) \<Rightarrow> (respond StatusInternalServerError, b)
                    | (Inr _, b) \<Rightarrow> (latestBlockResponse p api name b, b))"

text \<open>\<open>HexStringToIdentifier\<close> is flow-go's parser of identifiers.\<close>

definition http_Logs :: "(string \<Rightarrow> flow_id option) \<Rightarrow> 'b emulator_api \<Rightarrow> string \<Rightarrow> 'b \<Rightarrow> http_response" where
  "http_Logs HexStringToIdentifier api i b =
     (case HexStringToIdentifier i of
        None \<Rightarrow> respond StatusBadRequest
      | Some identifier \<Rightarrow>
          (case ea_GetLogs api identifier b of
             Inl err \<Rightarrow> respond StatusNotFound
           | Inr logs \<Rightarrow> \<lparr>http_status = StatusOK, http_body = StringsBody logs\<rparr>))"

text \<open>
  The files of \<^verbatim>\<open>AllContractsZip\<close>. Go iterates over the contracts of an account in any order, which \<open>iterate\<close>
  stands for; \<open>location_ID\<close> is \<^verbatim>\<open>common.AddressLocation.ID\<close>. The loop ends at the first account that does not
  exist; \<^const>\<open>None\<close> is a loop that does not end.
\<close>

definition account_files ::
  "(location \<Rightarrow> string) \<Rightarrow> ((string \<rightharpoonup> bytes) \<Rightarrow> (string \<times> bytes) list) \<Rightarrow> account \<Rightarrow> (string \<times> bytes) list" where
  "account_files location_ID iterate account =
     map (\<lambda>(name, code). (location_ID (AddressLocation (acc_Address account) name) @ ''.cdc'', code)) (iterate (acc_Contracts account))"

partial_function (option) all_contracts ::
  "'b emulator_api \<Rightarrow> (account \<Rightarrow> (string \<times> bytes) list) \<Rightarrow> u64 \<Rightarrow> 'b \<Rightarrow> (string \<times> bytes) list option" where
  "all_contracts api files accountIndex b =
     (case ea_GetAccountByIndex api accountIndex b of
        Inl err \<Rightarrow> Some []
      | Inr account \<Rightarrow>
          Option.bind (all_contracts api files (accountIndex + 1) b) (\<lambda>rest. Some (files account @ rest)))"

definition http_AllContractsZip ::
  "(location \<Rightarrow> string) \<Rightarrow> ((string \<rightharpoonup> bytes) \<Rightarrow> (string \<times> bytes) list) \<Rightarrow> 'b emulator_api \<Rightarrow> 'b \<Rightarrow> http_response option" where
  "http_AllContractsZip location_ID iterate api b =
     map_option (\<lambda>files. \<lparr>http_status = StatusOK, http_body = ZipBody files\<rparr>)
       (all_contracts api (account_files location_ID iterate) 1 b)"

section \<open>The loop over the accounts\<close>

lemma all_contracts_eq:
  assumes "ea_GetAccountByIndex api (of_nat n) b = Inl err"
    "\<And>i. 1 \<le> i \<Longrightarrow> i < n \<Longrightarrow> ea_GetAccountByIndex api (of_nat i) b = Inr (acc i)" "1 \<le> k" "k \<le> n"
  shows "all_contracts api files (of_nat k) b = Some (concat (map (\<lambda>i. files (acc i)) [k ..< n]))"
  using assms(3,4)
proof (induction "n - k" arbitrary: k)
  case 0
  then show ?case using assms(1) by (simp add: all_contracts.simps)
next
  case (Suc m)
  then have "all_contracts api files (of_nat k + 1) b = Some (concat (map (\<lambda>i. files (acc i)) [Suc k ..< n]))"
    using Suc.hyps(1)[of "Suc k"] by (simp add: add.commute)
  moreover have "[k ..< n] = k # [Suc k ..< n]" using Suc.hyps(2) by (simp add: upt_conv_Cons)
  ultimately show ?case using Suc assms(2)[of k] by (subst all_contracts.simps) simp
qed

section \<open>Numbers in requests\<close>

lemma fmt_d_is_digits [simp]: "list_all is_digit (fmt_d n)"
proof (induction n rule: fmt_d.induct)
  case (1 n)
  have "is_digit (char_of (48 + k))" if "k < 10" for k :: nat
    using that by (simp add: is_digit_def)
  then show ?case using 1 by (subst fmt_d.simps) simp
qed

lemma fmt_d_nonempty [simp]: "fmt_d n \<noteq> []"
  by (subst fmt_d.simps) simp

lemma ParseUint_fmt_u [simp]: "ParseUint (fmt_u n) = Some n"
proof -
  have "unat n < 2 ^ 64" using unsigned_less[of n] by simp
  then show ?thesis by (simp add: ParseUint_def fmt_u_def)
qed

lemma rollback_request:
  "http_Rollback api w (fmt_u n) b =
     (case ea_RollbackToBlockHeight api w n b of
        (Inl err, b') \<Rightarrow> (respond 500, b') | (Inr _, b') \<Rightarrow> (respond 200, b'))"
  "ParseUint s = None \<Longrightarrow> http_Rollback api w s b = (respond 500, b)"
  by (simp_all add: http_Rollback_def fmt_u_def[symmetric]) (simp add: fmt_u_def)

section \<open>Snapshots over HTTP\<close>

text \<open>The SQLite store as \<^verbatim>\<open>storage.SnapshotProvider\<close>.\<close>

definition sqlite_snapshots :: "(string \<times> bool) list result \<Rightarrow> sqlite_store snapshot_provider" where
  "sqlite_snapshots readDir =
     \<lparr>sp_Supported = (\<lambda>s. SupportSnapshotsWithCurrentConfig (Data s)), sp_Snapshots = (\<lambda>s. Snapshots readDir (Data s)),
      sp_CreateSnapshot = CreateSnapshot, sp_LoadSnapshot = LoadSnapshot\<rparr>"

lemma latest_of_db:
  "open_db (Data s) = open_db (Data s') \<Longrightarrow> LatestBlock p (sqlite_kv V) s = LatestBlock p (sqlite_kv V) s'"
  by (simp add: LatestBlock_def LatestBlockHeight_def ds_Get_def sq_GetBytes_def sq_GetBytesAtVersion_def)

lemma Reload_existing:
  assumes "em_store E = default_ops p (sqlite_kv V)" "LatestBlock p (sqlite_kv V) (bc_storage b) = Inr blk"
    "is_ok (configureTransactionValidator E (bc_conf b))"
  shows "\<exists>b'. ReloadBlockchain p E w b = (Inr (), b') \<and> bc_storage b' = bc_storage b \<and> getLatestBlock E b' = Inr blk"
proof -
  obtain v where "configureTransactionValidator E (bc_conf b) = Inr v"
    using assms(3) by (cases "configureTransactionValidator E (bc_conf b)") auto
  then show ?thesis using assms(1,2)
    by (simp add: ReloadBlockchain_def on_storage_def configureLedger_def configureExistingLedger_def LedgerByHeight_def
        getLatestBlock_def Let_def)
qed

lemma Reload_storage:
  assumes "em_store E = default_ops p (sqlite_kv V)" "LatestBlock p (sqlite_kv V) (bc_storage b) = Inr blk"
  shows "bc_storage (snd (ReloadBlockchain p E w b)) = bc_storage b"
  using assms by (simp add: ReloadBlockchain_def on_storage_def configureLedger_def configureExistingLedger_def LedgerByHeight_def
      Let_def split: sum.split)

lemma create_keeps_db:
  assumes "CreateSnapshot name s = (Inr (), s1)" "sq_usable V (Data s)"
  shows "open_db (Data s1) = open_db (Data s)" "sq_url (Data s1) = sq_url (Data s)"
    "sq_snapshotNames (Data s1) = sq_snapshotNames (Data s) @ [name]"
proof -
  have "\<not> has_tables (sq_disk (Data s) (snapshot_file name (Data s)))"
    and s1: "s1 = s\<lparr>Data := (Data s)\<lparr>sq_disk := (sq_disk (Data s))(snapshot_file name (Data s) \<mapsto> open_db (Data s)),
        sq_snapshotNames := sq_snapshotNames (Data s) @ [name]\<rparr>\<rparr>"
    using assms(1) by (auto simp: CreateSnapshot_def Let_def split: if_splits option.splits)
  then have "snapshot_file name (Data s) \<noteq> sq_db (Data s)" using usable_has_tables[OF assms(2)] by auto
  then show "open_db (Data s1) = open_db (Data s)" "sq_url (Data s1) = sq_url (Data s)"
    "sq_snapshotNames (Data s1) = sq_snapshotNames (Data s) @ [name]" by (simp_all add: s1 open_db_def)
qed

lemma http_create:
  assumes "em_store E = default_ops p (sqlite_kv V)" "em_Snapshots E = Some (sqlite_snapshots dir)"
    "sqlite_rep p V (bc_storage b) h" "h \<noteq> []"
    "http_SnapshotCreate p (Blockchain_api p E) w name b = (r, b1)" "http_status r = 200"
  shows "CreateSnapshot name (bc_storage b) = (Inr (), bc_storage b1) \<and> r = block_response p name (cb_block (last h)) \<and> name \<noteq> []"
proof -
  let ?s = "bc_storage b"
  have use: "sq_usable V (Data ?s)" using assms(3) by (simp add: default_rep_def)
  have blk: "LatestBlock p (sqlite_kv V) ?s = Inr (cb_block (last h))" using sq.ds.latest[OF assms(3,4)] by simp
  have c: "bc_CreateSnapshot p E w name b = (Inr (), b1)" "name \<noteq> []" and r: "r = latestBlockResponse p (Blockchain_api p E) name b1"
    using assms(5,6) by (auto simp: http_SnapshotCreate_def Blockchain_api_def respond_def split: if_splits sum.splits prod.splits)
  obtain s1 where s1: "CreateSnapshot name ?s = (Inr (), s1)" "ReloadBlockchain p E w (b\<lparr>bc_storage := s1\<rparr>) = (Inr (), b1)"
    using c(1) assms(2) by (auto simp: bc_CreateSnapshot_def snapshotProvider_def sqlite_snapshots_def on_storage_def bindE_eq_Inr
        split: if_splits prod.splits)
  have l1: "LatestBlock p (sqlite_kv V) s1 = Inr (cb_block (last h))"
    using blk by (simp add: latest_of_db[OF create_keeps_db(1)[OF s1(1) use]])
  then have "bc_storage b1 = s1" using Reload_storage[OF assms(1), of "b\<lparr>bc_storage := s1\<rparr>" _ w] s1(2) by simp
  then show ?thesis using s1(1) l1 r c(2) assms(1)
    by (simp add: latestBlockResponse_def Blockchain_api_def getLatestBlock_def)
qed

lemma http_create_ok:
  assumes "em_store E = default_ops p (sqlite_kv V)" "em_Snapshots E = Some (sqlite_snapshots dir)"
    "sqlite_rep p V (bc_storage b) h" "h \<noteq> []" "sq_url (Data (bc_storage b)) = InMemory"
    "name \<noteq> []" "name \<notin> set (sq_snapshotNames (Data (bc_storage b)))"
    "sq_disk (Data (bc_storage b)) (snapshot_file name (Data (bc_storage b))) = None"
    "is_ok (configureTransactionValidator E (bc_conf b))"
  shows "http_status (fst (http_SnapshotCreate p (Blockchain_api p E) w name b)) = 200"
proof -
  let ?s = "bc_storage b"
  have use: "sq_usable V (Data ?s)" using assms(3) by (simp add: default_rep_def)
  have sup: "SupportSnapshotsWithCurrentConfig (Data ?s)" using assms(5) by (simp add: SupportSnapshotsWithCurrentConfig_def)
  obtain s1 where s1: "CreateSnapshot name ?s = (Inr (), s1)"
    using use sup assms(8) by (simp add: CreateSnapshot_def has_tables_def sq_usable_def Let_def)
  have "LatestBlock p (sqlite_kv V) s1 = Inr (cb_block (last h))"
    using sq.ds.latest[OF assms(3,4)] by (simp add: latest_of_db[OF create_keeps_db(1)[OF s1 use]])
  then obtain b1 where "ReloadBlockchain p E w (b\<lparr>bc_storage := s1\<rparr>) = (Inr (), b1)" "getLatestBlock E b1 = Inr (cb_block (last h))"
    using Reload_existing[OF assms(1), of "b\<lparr>bc_storage := s1\<rparr>" _ w] assms(9) by auto
  moreover have "bc_Snapshots E b = Inr (sq_snapshotNames (Data ?s))"
    using sup assms(2,5) by (simp add: bc_Snapshots_def snapshotProvider_def sqlite_snapshots_def Snapshots_def)
  ultimately show ?thesis
    using s1 sup assms(2,6,7)
    by (simp add: http_SnapshotCreate_def Blockchain_api_def bc_CreateSnapshot_def snapshotProvider_def sqlite_snapshots_def
        on_storage_def latestBlockResponse_def block_response_def)
qed

text \<open>C15: A snapshot taken over HTTP of an emulator with an in-memory SQLite database can be returned to over HTTP: if the request to
  create it is answered with status 200, then, whatever blocks are committed afterwards, the request to jump to it is
  answered with status 200 and the block that was the latest when the snapshot was taken, and that block is the latest block
  again. A second request to create a snapshot of the same name is answered with a conflict and changes nothing.\<close>

theorem snapshot_http:
  assumes "em_store E = default_ops p (sqlite_kv V)" "em_Snapshots E = Some (sqlite_snapshots dir)"
    "sqlite_rep p V (bc_storage b) h" "h \<noteq> []" "sq_url (Data (bc_storage b)) = InMemory"
    "http_SnapshotCreate p (Blockchain_api p E) w name b = (r, b1)" "http_status r = 200"
    "bc_storage b2 = run_store (default_ops p (sqlite_kv V)) as (bc_storage b1)"
    "is_ok (configureTransactionValidator E (bc_conf b2))"
  shows "r = block_response p name (cb_block (last h)) \<and>
    (\<exists>b3. http_SnapshotJump p (Blockchain_api p E) w' name b2 = (block_response p name (cb_block (last h)), b3) \<and>
          getLatestBlock E b3 = Inr (cb_block (last h))) \<and>
    http_SnapshotCreate p (Blockchain_api p E) w' name b2 = (respond 409, b2)"
proof -
  let ?s = "bc_storage b" and ?s2 = "bc_storage b2" and ?blk = "cb_block (last h)"
  have use: "sq_usable V (Data ?s)" using assms(3) by (simp add: default_rep_def)
  have c: "CreateSnapshot name ?s = (Inr (), bc_storage b1)" and r: "r = block_response p name ?blk" "name \<noteq> []"
    using http_create[OF assms(1-4,6,7)] by simp_all
  note kept = create_keeps_db[OF c use]
  have o: "other_db f (Data (bc_storage b1)) (Data ?s2)" for f unfolding assms(8) by (rule other_db_run_store)
  then have names: "bc_Snapshots E b2 = Inr (sq_snapshotNames (Data ?s) @ [name])"
    "SupportSnapshotsWithCurrentConfig (Data ?s2)"
    using kept(2,3) assms(2,5)
    by (simp_all add: bc_Snapshots_def snapshotProvider_def sqlite_snapshots_def Snapshots_def other_db_def
        SupportSnapshotsWithCurrentConfig_def)
  obtain s3 where s3: "LoadSnapshot name ?s2 = (Inr (), s3)" "open_db (Data s3) = open_db (Data ?s)"
    using snapshot_reload[OF c use] assms(8) by metis
  have "LatestBlock p (sqlite_kv V) s3 = Inr ?blk"
    using sq.ds.latest[OF assms(3,4)] by (simp add: latest_of_db[OF s3(2)])
  then obtain b3 where b3: "ReloadBlockchain p E w' (b2\<lparr>bc_storage := s3\<rparr>) = (Inr (), b3)" "getLatestBlock E b3 = Inr ?blk"
    using Reload_existing[OF assms(1), of "b2\<lparr>bc_storage := s3\<rparr>" ?blk w'] assms(9) by auto
  have "bc_LoadSnapshot p E w' name b2 = (Inr (), b3)"
    using s3(1) b3(1) names(2) assms(2) by (simp add: bc_LoadSnapshot_def snapshotProvider_def sqlite_snapshots_def on_storage_def)
  then show ?thesis
    using names(1) b3(2) r
    by (simp add: http_SnapshotJump_def http_SnapshotCreate_def Blockchain_api_def latestBlockResponse_def)
qed

abbreviation sample_snap :: "(sqlite_store, sample_state) emu" where
  "sample_snap \<equiv> sample_sq\<lparr>em_Snapshots := Some (sqlite_snapshots (Inr []))\<rparr>"

theorem snapshot_http_witness:
  "\<exists>b1 b3. http_SnapshotCreate sample_codec (Blockchain_api sample_codec sample_snap) (0, 0) ''x'' sample_chain =
       (block_response sample_codec ''x'' (sample_block 0), b1) \<and>
     http_SnapshotJump sample_codec (Blockchain_api sample_codec sample_snap) (0, 0) ''x''
       (b1\<lparr>bc_storage := run_store (default_ops sample_codec (sqlite_kv sample_env)) [sample_commit 1] (bc_storage b1)\<rparr>) =
       (block_response sample_codec ''x'' (sample_block 0), b3)"
proof -
  let ?c = "http_SnapshotCreate sample_codec (Blockchain_api sample_codec sample_snap) (0, 0) ''x'' sample_chain"
  have rep: "sqlite_rep sample_codec sample_env (bc_storage sample_chain) [sample_commit 0]"
    using sample_chain_inv by (simp add: bc_inv_def)
  have ok: "is_ok (configureTransactionValidator sample_snap c)" for c
    by (simp add: configureTransactionValidator_def Let_def)
  have o: "other_db f (Data sample_sqlite) (Data (bc_storage sample_chain))" for f
    using other_db_run_store[of f sample_sqlite sample_codec sample_env "[sample_commit 0]"] by (simp add: sample_chain_def run_store_def)
  have url: "sq_url (Data (bc_storage sample_chain)) = InMemory"
    and names: "sq_snapshotNames (Data (bc_storage sample_chain)) = []"
    and disk: "sq_disk (Data (bc_storage sample_chain)) (snapshot_file ''x'' (Data (bc_storage sample_chain))) = None"
    using o[of "snapshot_file ''x'' (Data sample_sqlite)"]
    by (simp_all add: other_db_def sample_sqlite_def snapshot_file_def)
  have st: "http_status (fst ?c) = 200"
    by (rule http_create_ok[OF _ _ rep _ url _ _ disk ok]) (simp_all add: names)
  obtain r b1 where c: "?c = (r, b1)" by (cases ?c)
  show ?thesis
    using snapshot_http[OF _ _ rep _ url c, of "Inr []"
        "b1\<lparr>bc_storage := run_store (default_ops sample_codec (sqlite_kv sample_env)) [sample_commit 1] (bc_storage b1)\<rparr>"
        "[sample_commit 1]" "(0, 0)"] st ok c
    by (simp add: sample_commit_def) blast
qed

end
