(* ===== verification/Server.thy ===== *)
theory Server
  imports Complex_Main SDK_Adapter Remote_Store Server_Utils
begin

text \<open>
  \<^verbatim>\<open>server/server.go\<close>: the configuration of a server, the choice of its storage, the start of its emulator and the
  order in which its routines run. \<^verbatim>\<open>NewEmulatorServer\<close> returns nil after logging an error; here it returns the
  error. Logging and the listeners of the gRPC, REST, admin and debugger servers are left out.
\<close>

section \<open>Configuration\<close>

record Config =
  GRPCPort :: int
  GRPCDebug :: bool
  AdminPort :: int
  DebuggerPort :: int
  RESTPort :: int
  RESTDebug :: bool
  HTTPHeaders :: "(string \<times> string) list option"
  BlockTime :: int
  ServicePublicKey :: "bytes option"
  ServicePrivateKey :: "bytes option"
  ServiceKeySigAlgo :: nat
  ServiceKeyHashAlgo :: nat
  GenesisTokenSupply :: u64
  TransactionExpiry :: u64
  StorageLimitEnabled :: bool
  MinimumStorageReservation :: u64
  StorageMBPerFLOW :: u64
  TransactionFeesEnabled :: bool
  TransactionMaxGasLimit :: u64
  ScriptGasLimit :: u64
  Persist :: bool
  Snapshot :: bool
  ContractRemovalEnabled :: bool
  DBPath :: string
  ForkCacheDir :: string
  DBGCInterval :: int
  DBGCDiscardRatio :: rat
  LivenessCheckTolerance :: int
  WithContracts :: bool
  SimpleAddressesEnabled :: bool
  SkipTransactionValidation :: bool
  Host :: string
  ConfigChainID :: string
  RedisURL :: string
  SqliteURL :: string
  CoverageReportingEnabled :: bool
  ComputationProfilingEnabled :: bool
  ForkHost :: string
  ForkHeight :: u64
  CheckpointPath :: string
  StateHash :: string
  ComputationReportingEnabled :: bool
  ScheduledTransactionsEnabled :: bool
  SetupVMBridgeEnabled :: bool
  NumAccounts :: int
  EVMTestHelpersEnabled :: bool

definition defaultGRPCPort :: int where "defaultGRPCPort = 3569"
definition defaultRESTPort :: int where "defaultRESTPort = 8888"
definition defaultAdminPort :: int where "defaultAdminPort = 8080"
definition defaultLivenessCheckTolerance :: int where "defaultLivenessCheckTolerance = second"
definition defaultDBGCInterval :: int where "defaultDBGCInterval = 60 * second * 5"
definition defaultDBGCRatio :: rat where "defaultDBGCRatio = 1 / 2"

definition defaultHTTPHeaders :: "(string \<times> string) list" where
  "defaultHTTPHeaders =
     [(''Access-Control-Allow-Origin'', ''*''),
      (''Access-Control-Allow-Methods'', ''POST, GET, OPTIONS, PUT, DELETE''),
      (''Access-Control-Allow-Headers'', ''*'')]"

definition sanitizeConfig :: "flow_lib \<Rightarrow> Config \<Rightarrow> Config" where
  "sanitizeConfig L conf =
     conf\<lparr>GRPCPort := (if GRPCPort conf = 0 then defaultGRPCPort else GRPCPort conf),
          RESTPort := (if RESTPort conf = 0 then defaultRESTPort else RESTPort conf),
          AdminPort := (if AdminPort conf = 0 then defaultAdminPort else AdminPort conf),
          HTTPHeaders := (if HTTPHeaders conf = None then Some defaultHTTPHeaders else HTTPHeaders conf),
          DBGCInterval := (if DBGCInterval conf = 0 then defaultDBGCInterval else DBGCInterval conf),
          DBGCDiscardRatio := (if DBGCDiscardRatio conf = 0 then defaultDBGCRatio else DBGCDiscardRatio conf),
          LivenessCheckTolerance :=
            (if LivenessCheckTolerance conf = 0 then defaultLivenessCheckTolerance else LivenessCheckTolerance conf),
          ConfigChainID := (if ConfigChainID conf = '''' then chain_Emulator L else ConfigChainID conf)\<rparr>"

section \<open>Storage\<close>

text \<open>
  The stores behind the interface \<^verbatim>\<open>storage.Store\<close>. The record holds what the machine offers: connections,
  checkpoints, the clock, and the file system. \<open>os_Stat\<close> tells whether a path exists and is a directory,
  \<open>Mkdir_Stat\<close> the same after an attempt to create the directory, and \<open>disk\<close> the databases there are.
\<close>

datatype ('r, 'c) provider =
    RedisProvider 'r
  | SqliteProvider sqlite_store
  | CheckpointProvider 'c
  | RemoteProvider "sqlite remote_store"

record ('r, 'c) backends =
  NewRedisStorage :: "string \<Rightarrow> 'r result"
  checkpoint_New :: "string \<Rightarrow> string \<Rightarrow> string \<Rightarrow> 'c result"
  grpc_NewClient :: "string \<Rightarrow> remote_client result"
  MkdirAll :: "string \<Rightarrow> unit result"
  time_Now :: int
  os_Stat :: "string \<Rightarrow> bool option"
  Mkdir_Stat :: "string \<Rightarrow> bool option"
  disk :: "string \<rightharpoonup> sqldb"

definition NewSqliteStorage :: "('r, 'c) backends \<Rightarrow> string \<Rightarrow> sqlite_store result" where
  "NewSqliteStorage B url = sqlite_New url (time_Now B) (os_Stat B url) (disk B)"

definition NewInDirectory :: "('r, 'c) backends \<Rightarrow> string \<Rightarrow> sqlite_store result" where
  "NewInDirectory B path = sqlite_New path (time_Now B) (Mkdir_Stat B path) (disk B)"

definition opened :: "('a \<Rightarrow> 'b) \<Rightarrow> 'a result \<Rightarrow> 'b option result" where
  "opened f r = bindR r (\<lambda>x. Inr (Some (f x)))"

definition redis_step :: "('r, 'c) backends \<Rightarrow> Config \<Rightarrow> ('r, 'c) provider option result" where
  "redis_step B conf =
     (if RedisURL conf \<noteq> '''' then opened RedisProvider (NewRedisStorage B (RedisURL conf)) else Inr None)"

definition sqlite_step ::
  "('r, 'c) backends \<Rightarrow> Config \<Rightarrow> ('r, 'c) provider option \<Rightarrow> ('r, 'c) provider option result" where
  "sqlite_step B conf sp =
     (if SqliteURL conf \<noteq> ''''
      then if sp \<noteq> None then Inl (Errorf ''you cannot define more than one storage'')
           else opened SqliteProvider (NewSqliteStorage B (SqliteURL conf))
      else Inr sp)"

definition checkpoint_step ::
  "('r, 'c) backends \<Rightarrow> Config \<Rightarrow> ('r, 'c) provider option \<Rightarrow> ('r, 'c) provider option result" where
  "checkpoint_step B conf sp =
     (if CheckpointPath conf \<noteq> '''' \<or> StateHash conf \<noteq> ''''
      then if CheckpointPath conf = '''' \<or> StateHash conf = ''''
           then Inl (Errorf ''both checkpoint path and state hash should be provided'')
           else if Persist conf then Inl (Errorf ''you cannot use persist with checkpoint'')
           else if sp \<noteq> None then Inl (Errorf ''you cannot define more than one storage'')
           else opened CheckpointProvider (checkpoint_New B (CheckpointPath conf) (StateHash conf) (ConfigChainID conf))
      else Inr sp)"

definition persist_step ::
  "('r, 'c) backends \<Rightarrow> Config \<Rightarrow> ('r, 'c) provider option \<Rightarrow> ('r, 'c) provider option result" where
  "persist_step B conf sp =
     (if Persist conf
      then if sp \<noteq> None then Inl (Errorf ''you cannot use persist with current configuration'')
           else opened SqliteProvider (NewInDirectory B (DBPath conf))
      else Inr sp)"

definition default_step ::
  "('r, 'c) backends \<Rightarrow> ('r, 'c) provider option \<Rightarrow> ('r, 'c) provider result" where
  "default_step B sp =
     (case sp of Some provider \<Rightarrow> Inr provider
      | None \<Rightarrow> bindR (NewSqliteStorage B InMemory) (\<lambda>s. Inr (SqliteProvider s)))"

definition fork_options :: "Config \<Rightarrow> sqlite remote_option list" where
  "fork_options conf =
     [WithForkHost (ForkHost conf), WithForkHeight (ForkHeight conf)] @
     (if ForkCacheDir conf \<noteq> '''' \<and> ForkHeight conf > 0 then [WithForkCacheDir (ForkCacheDir conf)] else [])"

definition fork_step ::
  "'x codec_scheme \<Rightarrow> sql_env \<Rightarrow> ('r, 'c) backends \<Rightarrow> Config \<Rightarrow> ('r, 'c) provider \<Rightarrow> ('r, 'c) provider result" where
  "fork_step p V B conf sp =
     (if ForkHost conf \<noteq> ''''
      then if CHR '':'' \<notin> set (ForkHost conf)
           then Inl (Errorf ''fork-host must include port (e.g., access.mainnet.nodes.onflow.org:9000)'')
           else case sp of
                  SqliteProvider baseProvider \<Rightarrow>
                    bindR (remote_New p (sqlite_kv V) (grpc_NewClient B) (MkdirAll B) (NewInDirectory B)
                             (NewSqliteStorage B InMemory) (fork_options conf) baseProvider)
                      (\<lambda>provider. Inr (RemoteProvider provider))
                | _ \<Rightarrow> Inl (Errorf ''only sqlite is supported with forked networks'')
      else Inr sp)"

text \<open>
  \<^verbatim>\<open>storage.SnapshotProvider\<close> is implemented by the SQLite store and by the forked store, which embeds one.
\<close>

definition provider_snapshots :: "('r, 'c) provider \<Rightarrow> bool option" where
  "provider_snapshots sp =
     (case sp of
        SqliteProvider s \<Rightarrow> Some (SupportSnapshotsWithCurrentConfig (Data s))
      | RemoteProvider s \<Rightarrow> Some (SupportSnapshotsWithCurrentConfig (Data (rs_overlay s)))
      | _ \<Rightarrow> None)"

definition snapshot_step :: "Config \<Rightarrow> ('r, 'c) provider \<Rightarrow> ('r, 'c) provider result" where
  "snapshot_step conf sp =
     (if Snapshot conf
      then case provider_snapshots sp of
             None \<Rightarrow> Inl (Errorf ''selected storage provider does not support snapshots'')
           | Some supported \<Rightarrow>
               if \<not> supported then Inl (Errorf ''selected storage provider does not support snapshots with current configuration'')
               else Inr sp
      else Inr sp)"

definition configureStorage ::
  "'x codec_scheme \<Rightarrow> sql_env \<Rightarrow> ('r, 'c) backends \<Rightarrow> Config \<Rightarrow> ('r, 'c) provider result" where
  "configureStorage p V B conf =
     bindR (redis_step B conf) (\<lambda>sp.
     bindR (sqlite_step B conf sp) (\<lambda>sp.
     bindR (checkpoint_step B conf sp) (\<lambda>sp.
     bindR (persist_step B conf sp) (\<lambda>sp.
     bindR (default_step B sp) (\<lambda>sp.
     bindR (fork_step p V B conf sp) (\<lambda>sp.
     snapshot_step conf sp))))))"

section \<open>The emulator\<close>

text \<open>
  The logger and the objects of Cadence that collect coverage and profiles are not part of the emulator's configuration
  in the model.
\<close>

definition blockchain_options :: "flow_lib \<Rightarrow> string \<Rightarrow> Config \<Rightarrow> 's \<Rightarrow> 's config_option list" where
  "blockchain_options L chainID conf store =
     [WithStore store,
      WithGenesisTokenSupply (GenesisTokenSupply conf),
      WithTransactionMaxGasLimit (TransactionMaxGasLimit conf),
      WithScriptGasLimit (ScriptGasLimit conf),
      WithTransactionExpiry (TransactionExpiry conf),
      WithStorageLimitEnabled (StorageLimitEnabled conf),
      WithMinimumStorageReservation (MinimumStorageReservation conf),
      WithStorageMBPerFLOW (StorageMBPerFLOW conf),
      WithTransactionFeesEnabled (TransactionFeesEnabled conf),
      WithChainID chainID,
      WithContractRemovalEnabled (ContractRemovalEnabled conf),
      WithSetupVMBridgeEnabled (SetupVMBridgeEnabled conf),
      WithEVMTestHelpersEnabled (EVMTestHelpersEnabled conf)] @
     (if SkipTransactionValidation conf then [WithTransactionValidationEnabled False] else []) @
     (if SimpleAddressesEnabled conf then [WithSimpleAddresses] else []) @
     (case ServicePrivateKey conf of
        Some key \<Rightarrow> [WithServicePrivateKey L key (ServiceKeySigAlgo conf) (ServiceKeyHashAlgo conf)]
      | None \<Rightarrow>
          (case ServicePublicKey conf of
             Some key \<Rightarrow> [WithServicePublicKey key (ServiceKeySigAlgo conf) (ServiceKeyHashAlgo conf)]
           | None \<Rightarrow> [])) @
     (if ComputationReportingEnabled conf then [WithComputationReporting True] else []) @
     (if ScheduledTransactionsEnabled conf then [WithScheduledTransactions True] else [])"

definition configureBlockchain ::
  "'h hashes_scheme \<Rightarrow> ('s, 'ls) emu \<Rightarrow> 's result \<Rightarrow> (nat \<Rightarrow> world) \<Rightarrow> string \<Rightarrow> Config \<Rightarrow> 's \<Rightarrow> ('s, 'ls) Blockchain result" where
  "configureBlockchain p E CreateDefaultStorage ws chainID conf store =
     New p E CreateDefaultStorage ws (blockchain_options (em_lib E) chainID conf store)"

section \<open>Accounts created at the start\<close>

record server_lib =
  sv_sdk :: sdk_lib
  sv_NewUFix64 :: "string \<Rightarrow> cadence_value result"
  sv_EncodeArgument :: "cadence_value \<Rightarrow> bytes result"
  sv_FungibleTokenAddress :: "string \<Rightarrow> string"
  sv_FlowTokenAddress :: "string \<Rightarrow> string"
  sv_CommonContracts :: "string \<Rightarrow> ContractDescription list"
  sv_DetectRemoteChainID :: "string \<Rightarrow> string result"
  sv_NewRestServer :: "Config \<Rightarrow> unit result"

definition fundAmount :: string where "fundAmount = ''1000.0''"

definition fund_script :: "string \<Rightarrow> string \<Rightarrow> string" where
  "fund_script FungibleTokenAddress FlowTokenAddress =
     concat (map (\<lambda>l. newline @ ''                '' @ l)
      [''import FungibleToken from 0x'' @ FungibleTokenAddress,
       ''import FlowToken from 0x'' @ FlowTokenAddress]) @ newline @
     concat (map (\<lambda>l. newline @ ''                '' @ l)
      [''transaction(recipient: Address, amount: UFix64) {'',
       ''    prepare(acct: auth(Storage, Capabilities, FungibleToken.Withdraw) &Account) {'',
       ''        let adminRef = acct.storage.borrow<&FlowToken.Administrator>(from: /storage/flowTokenAdmin)'',
       ''            ?? panic(\"missing FlowToken admin\")'',
       ''        let minter <- adminRef.createNewMinter(allowedAmount: amount)'',
       ''        let minted <- minter.mintTokens(amount: amount)'',
       ''        let receiver = getAccount(recipient).capabilities.get<&{FungibleToken.Receiver}>(/public/flowTokenReceiver)!'',
       ''            .borrow()'',
       ''            ?? panic(\"missing FlowToken receiver\")'',
       ''        receiver.deposit(from: <-minted)'',
       ''        destroy minter'',
       ''    }'',
       ''}'']) @ newline @ ''            ''"

definition fund_transaction ::
  "server_lib \<Rightarrow> 'h hashes_scheme \<Rightarrow> string \<Rightarrow> ServiceKey \<Rightarrow> block \<Rightarrow> sdk_address \<Rightarrow> cadence_value \<Rightarrow> sdk_transaction result" where
  "fund_transaction X p txCode serviceKey latestBlock newAddr fundVal =
     bindR (sv_EncodeArgument X (CadenceAddress newAddr)) (\<lambda>recipient.
     bindR (sv_EncodeArgument X fundVal) (\<lambda>amount.
     sl_SignEnvelope (sv_sdk X) (sk_PrivateKey serviceKey) (sk_HashAlgo serviceKey) (sk_Address serviceKey) (sk_Index serviceKey)
       \<lparr>sdk_ReferenceBlockID = FlowIdentifierToSDK (block_ID p latestBlock), sdk_Script = bytes_of_string txCode,
        sdk_Arguments = [recipient, amount], sdk_GasLimit = sl_MaxGasLimit (sv_sdk X),
        sdk_ProposalKey = \<lparr>sdk_pk_Address = sk_Address serviceKey, sdk_pk_KeyIndex = sk_Index serviceKey,
           sdk_pk_SequenceNumber = sk_SequenceNumber serviceKey\<rparr>,
        sdk_Payer = sk_Address serviceKey, sdk_Authorizers = [sk_Address serviceKey], sdk_PayloadSignatures = [],
        sdk_EnvelopeSignatures = []\<rparr>))"

text \<open>Both transactions of an account go through the same steps; a failure only ends the attempt.\<close>

definition run_transaction ::
  "'h hashes_scheme \<Rightarrow> ('s, 'ls) emu \<Rightarrow> world \<times> world \<Rightarrow> sdk_transaction \<Rightarrow> ('s, 'ls) Blockchain \<Rightarrow>
   TransactionResult option \<times> ('s, 'ls) Blockchain" where
  "run_transaction p E ws tx b =
     (case addTransaction p E (SDKTransactionToFlow tx) b of
        (Inl err, b) \<Rightarrow> (None, b)
      | (Inr _, b) \<Rightarrow>
          (case executeAndCommitBlock p E (fst ws) b of
             (Inl err, b) \<Rightarrow> (None, b)
           | (Inr (_, results), b) \<Rightarrow>
               if length results = 0 \<or> tr_Error (last results) \<noteq> None then (None, b)
               else (case commitBlock p E (snd ws) b of
                       (Inl err, b) \<Rightarrow> (None, b) | (Inr _, b) \<Rightarrow> (Some (last results), b))))"

definition new_address :: "sdk_lib \<Rightarrow> sdk_event list \<Rightarrow> sdk_address" where
  "new_address S events =
     (case List.map_filter
             (\<lambda>ev. if sdk_ev_Type ev = sl_EventAccountCreated S
                   then case SearchFieldByName S (sdk_ev_Value ev) (sl_AddressParameter S) of
                          Some (CadenceAddress a) \<Rightarrow> Some a | _ \<Rightarrow> None
                   else None) events of
        [] \<Rightarrow> 0 | a # _ \<Rightarrow> a)"

definition fund_account ::
  "server_lib \<Rightarrow> 'h hashes_scheme \<Rightarrow> ('s, 'ls) emu \<Rightarrow> world \<times> world \<Rightarrow> sdk_address \<Rightarrow> ('s, 'ls) Blockchain \<Rightarrow>
   sdk_address option \<times> ('s, 'ls) Blockchain" where
  "fund_account X p E ws newAddr b =
     (case getLatestBlock E b of
        Inl err \<Rightarrow> (None, b)
      | Inr latestBlock \<Rightarrow>
          (case sv_NewUFix64 X fundAmount of
             Inl err \<Rightarrow> (None, b)
           | Inr fundVal \<Rightarrow>
               (let (serviceKey, b) = bc_ServiceKey E b; chainID = GetChain b;
                    txCode = fund_script (sv_FungibleTokenAddress X chainID) (sv_FlowTokenAddress X chainID)
                in case fund_transaction X p txCode serviceKey latestBlock newAddr fundVal of
                     Inl err \<Rightarrow> (None, b)
                   | Inr fundTx \<Rightarrow>
                       (case run_transaction p E ws fundTx b of
                          (None, b) \<Rightarrow> (None, b) | (Some _, b) \<Rightarrow> (Some newAddr, b)))))"

definition precreate_account ::
  "server_lib \<Rightarrow> 'h hashes_scheme \<Rightarrow> ('s, 'ls) emu \<Rightarrow> (nat \<Rightarrow> world) \<Rightarrow> ('s, 'ls) Blockchain \<Rightarrow>
   sdk_address option \<times> ('s, 'ls) Blockchain" where
  "precreate_account X p E ws b =
     (case getLatestBlock E b of
        Inl err \<Rightarrow> (None, b)
      | Inr latestBlock \<Rightarrow>
          (let (serviceKey, b) = bc_ServiceKey E b
           in case account_transaction (sv_sdk X) p serviceKey latestBlock [AccountKey serviceKey] [] of
                Inl err \<Rightarrow> (None, b)
              | Inr createTx \<Rightarrow>
                  (case run_transaction p E (ws 0, ws 1) createTx b of
                     (None, b) \<Rightarrow> (None, b)
                   | (Some last_result, b) \<Rightarrow>
                       (let newAddr = new_address (sv_sdk X) (tr_Events last_result)
                        in if newAddr = 0 then (None, b) else fund_account X p E (ws 2, ws 3) newAddr b))))"

primrec precreate_accounts ::
  "server_lib \<Rightarrow> 'h hashes_scheme \<Rightarrow> ('s, 'ls) emu \<Rightarrow> (nat \<Rightarrow> nat \<Rightarrow> world) \<Rightarrow> nat \<Rightarrow> ('s, 'ls) Blockchain \<Rightarrow>
   sdk_address list \<times> ('s, 'ls) Blockchain" where
  "precreate_accounts X p E ws 0 b = ([], b)"
| "precreate_accounts X p E ws (Suc n) b =
     (let (created, b) = precreate_account X p E (ws n) b; (rest, b) = precreate_accounts X p E ws n b
      in ((case created of None \<Rightarrow> [] | Some a \<Rightarrow> [a]) @ rest, b))"

section \<open>The server\<close>

record ('s, 'ls) EmulatorServer =
  srv_config :: Config
  srv_emulator :: "('s, 'ls) Blockchain"
  srv_liveness :: int
  srv_blocks :: "int option"

definition start_fork ::
  "'h hashes_scheme \<Rightarrow> ('s, 'ls) emu \<Rightarrow> world \<Rightarrow> Config \<Rightarrow> ('s, 'ls) Blockchain \<Rightarrow> ('s, 'ls) Blockchain result" where
  "start_fork p E w conf b =
     (if ForkHost conf \<noteq> ''''
      then (case executeAndCommitBlock p E w b of (Inl err, _) \<Rightarrow> Inl err | (Inr _, b) \<Rightarrow> Inr b)
      else Inr b)"

text \<open>An error of the deployment is logged, and the server starts with what was deployed.\<close>

definition start_contracts ::
  "server_lib \<Rightarrow> 'h hashes_scheme \<Rightarrow> ('s, 'ls) emu \<Rightarrow> (nat \<Rightarrow> world) \<Rightarrow> Config \<Rightarrow> ('s, 'ls) Blockchain \<Rightarrow> ('s, 'ls) Blockchain" where
  "start_contracts X p E ws conf b =
     (if WithContracts conf then snd (DeployContracts p E ws (sv_CommonContracts X (GetChain b)) b) else b)"

text \<open>
  The private key is encoded for a log message before the first account is created; a server that was given only a
  public key has none.
\<close>

definition start_accounts ::
  "server_lib \<Rightarrow> 'h hashes_scheme \<Rightarrow> ('s, 'ls) emu \<Rightarrow> (nat \<Rightarrow> nat \<Rightarrow> world) \<Rightarrow> Config \<Rightarrow> ('s, 'ls) Blockchain \<Rightarrow>
   ('s, 'ls) Blockchain result" where
  "start_accounts X p E ws conf b =
     (if NumAccounts conf > 0
      then let (serviceKey, b) = bc_ServiceKey E b
           in case sk_PrivateKey serviceKey of
                None \<Rightarrow> Inl (Panic ''nil pointer dereference'')
              | Some privateKey \<Rightarrow>
                  (let (createdAccounts, b) = precreate_accounts X p E ws (nat (NumAccounts conf)) b
                   in if length createdAccounts = 0 then Inl (Errorf ''Failed to create any accounts'') else Inr b)
      else Inr b)"

definition start_blocks :: "Config \<Rightarrow> ('s, 'ls) Blockchain \<Rightarrow> ('s, 'ls) EmulatorServer" where
  "start_blocks conf b =
     \<lparr>srv_config = conf,
      srv_emulator = (if BlockTime conf > 0 then DisableAutoMine b else EnableAutoMine b),
      srv_liveness = LivenessCheckTolerance conf,
      srv_blocks = (if BlockTime conf > 0 then Some (BlockTime conf) else None)\<rparr>"

definition resolve_chain :: "server_lib \<Rightarrow> Config \<Rightarrow> string result" where
  "resolve_chain X conf =
     (if ForkHost conf \<noteq> '''' \<and> ConfigChainID conf = '''' then sv_DetectRemoteChainID X (ForkHost conf)
      else Inr (ConfigChainID conf))"

definition NewEmulatorServer ::
  "server_lib \<Rightarrow> 'x codec_scheme \<Rightarrow> sql_env \<Rightarrow> ('r, 'c) backends \<Rightarrow> (('r, 'c) provider, 'ls) emu \<Rightarrow>
   ('r, 'c) provider result \<Rightarrow> (nat \<Rightarrow> nat \<Rightarrow> world) \<Rightarrow> Config \<Rightarrow> (('r, 'c) provider, 'ls) EmulatorServer result" where
  "NewEmulatorServer X p V B E CreateDefaultStorage ws conf =
     (let conf = sanitizeConfig (em_lib E) conf in
      bindR (configureStorage p V B conf) (\<lambda>store.
      bindR (resolve_chain X conf) (\<lambda>resolvedChainID.
      bindR (configureBlockchain p E CreateDefaultStorage (ws 0) resolvedChainID conf store) (\<lambda>b.
      bindR (start_fork p E (ws 1 0) conf b) (\<lambda>b.
      bindR (start_accounts X p E (\<lambda>n. ws (n + 3)) conf (start_contracts X p E (ws 2) conf b)) (\<lambda>b.
      bindR (sv_NewRestServer X conf) (\<lambda>_.
      Inr (start_blocks conf b))))))))"

text \<open>The group starts its routines in this order and stops them in this order.\<close>

datatype routine = BlocksRoutine | LivenessRoutine | GrpcRoutine | RestRoutine | AdminRoutine | DebuggerRoutine | StorageRoutine

definition AddToGroup :: "('s, 'ls) EmulatorServer \<Rightarrow> routine list" where
  "AddToGroup s =
     (if srv_blocks s \<noteq> None then [BlocksRoutine] else []) @
     [LivenessRoutine, GrpcRoutine, RestRoutine, AdminRoutine, DebuggerRoutine] @
     (if srv_blocks s \<noteq> None then [BlocksRoutine] else []) @ [StorageRoutine]"

definition Listen :: "(routine \<Rightarrow> unit result) \<Rightarrow> unit result" where
  "Listen lis = bindR (mapR lis [GrpcRoutine, RestRoutine, AdminRoutine]) (\<lambda>_. Inr ())"

section \<open>What a configuration leads to\<close>

lemma sqlite_New_url: "sqlite_New url now stat d = Inr s \<Longrightarrow> sq_url (Data s) = url"
  by (auto simp: sqlite_New_def Let_def split: if_splits option.splits)

text \<open>C25: A configuration is accepted only if it names at most one of the four storages Redis, SQLite, checkpoint and persistent
  database, and the server then uses the one it names, or an in-memory database if it names none. A checkpoint needs both its
  path and its state hash. A fork needs a host with a port, runs over SQLite and is never combined with Redis or a
  checkpoint. If snapshots are requested, the storage supports them.\<close>

theorem storage_exclusive:
  assumes "configureStorage p V B conf = Inr sp"
  shows "length (filter (\<lambda>x. x) [RedisURL conf \<noteq> '''', SqliteURL conf \<noteq> '''', CheckpointPath conf \<noteq> '''', Persist conf]) \<le> 1 \<and>
    (CheckpointPath conf = '''' \<longleftrightarrow> StateHash conf = '''') \<and>
    (ForkHost conf \<noteq> '''' \<longrightarrow>
       RedisURL conf = '''' \<and> CheckpointPath conf = '''' \<and> CHR '':'' \<in> set (ForkHost conf) \<and> (\<exists>s. sp = RemoteProvider s)) \<and>
    (ForkHost conf = '''' \<longrightarrow>
       (case sp of
          RedisProvider r \<Rightarrow> NewRedisStorage B (RedisURL conf) = Inr r \<and> RedisURL conf \<noteq> ''''
        | SqliteProvider s \<Rightarrow> sq_url (Data s) =
            (if SqliteURL conf \<noteq> '''' then SqliteURL conf else if Persist conf then DBPath conf else InMemory)
        | CheckpointProvider c \<Rightarrow>
            checkpoint_New B (CheckpointPath conf) (StateHash conf) (ConfigChainID conf) = Inr c \<and> CheckpointPath conf \<noteq> ''''
        | RemoteProvider s \<Rightarrow> False)) \<and>
    (Snapshot conf \<longrightarrow> provider_snapshots sp = Some True)"
proof -
  obtain s1 s2 s3 s4 s5 s6 where s: "redis_step B conf = Inr s1" "sqlite_step B conf s1 = Inr s2" "checkpoint_step B conf s2 = Inr s3"
      "persist_step B conf s3 = Inr s4" "default_step B s4 = Inr s5" "fork_step p V B conf s5 = Inr s6" "snapshot_step conf s6 = Inr sp"
    using assms unfolding configureStorage_def bindR_eq_Inr by blast
  have 1: "if RedisURL conf = '''' then s1 = None
      else \<exists>r. s1 = Some (RedisProvider r) \<and> NewRedisStorage B (RedisURL conf) = Inr r"
    using s(1) by (auto simp: redis_step_def opened_def bindR_eq_Inr split: if_splits)
  have 2: "if SqliteURL conf = '''' then s2 = s1
      else s1 = None \<and> (\<exists>d. s2 = Some (SqliteProvider d) \<and> sq_url (Data d) = SqliteURL conf)"
    using s(2) sqlite_New_url by (auto simp: sqlite_step_def NewSqliteStorage_def opened_def bindR_eq_Inr split: if_splits)
  have 3: "if CheckpointPath conf = '''' \<and> StateHash conf = '''' then s3 = s2
      else CheckpointPath conf \<noteq> '''' \<and> StateHash conf \<noteq> '''' \<and> \<not> Persist conf \<and> s2 = None \<and>
        (\<exists>c. s3 = Some (CheckpointProvider c) \<and>
             checkpoint_New B (CheckpointPath conf) (StateHash conf) (ConfigChainID conf) = Inr c)"
    using s(3) by (auto simp: checkpoint_step_def opened_def bindR_eq_Inr split: if_splits)
  have 4: "if \<not> Persist conf then s4 = s3
      else s3 = None \<and> (\<exists>d. s4 = Some (SqliteProvider d) \<and> sq_url (Data d) = DBPath conf)"
    using s(4) sqlite_New_url by (auto simp: persist_step_def NewInDirectory_def opened_def bindR_eq_Inr split: if_splits)
  have 5: "case s4 of None \<Rightarrow> \<exists>d. s5 = SqliteProvider d \<and> sq_url (Data d) = InMemory | Some y \<Rightarrow> s5 = y"
    using s(5) sqlite_New_url by (auto simp: default_step_def NewSqliteStorage_def bindR_eq_Inr split: option.splits)
  have 6: "if ForkHost conf = '''' then s6 = s5
      else CHR '':'' \<in> set (ForkHost conf) \<and> (\<exists>d r. s5 = SqliteProvider d \<and> s6 = RemoteProvider r)"
    using s(6) by (auto simp: fork_step_def bindR_eq_Inr split: if_splits provider.splits)
  have 7: "s6 = sp \<and> (Snapshot conf \<longrightarrow> provider_snapshots sp = Some True)"
    using s(7) by (auto simp: snapshot_step_def split: if_splits option.splits)
  have "RedisURL conf \<noteq> '''' \<Longrightarrow> \<exists>r. s5 = RedisProvider r"
    "CheckpointPath conf \<noteq> '''' \<Longrightarrow> \<exists>c. s5 = CheckpointProvider c"
    using 1 2 3 4 5 by (auto split: if_splits)
  then show ?thesis using 1 2 3 4 5 6 7 by (auto split: if_splits option.splits)
qed

definition sample_config :: Config where
  "sample_config =
     \<lparr>GRPCPort = 0, GRPCDebug = False, AdminPort = 0, DebuggerPort = 0, RESTPort = 0, RESTDebug = False, HTTPHeaders = None,
      BlockTime = 0, ServicePublicKey = None, ServicePrivateKey = None, ServiceKeySigAlgo = 0, ServiceKeyHashAlgo = 0,
      GenesisTokenSupply = 0, TransactionExpiry = 10, StorageLimitEnabled = True, MinimumStorageReservation = 0,
      StorageMBPerFLOW = 0, TransactionFeesEnabled = False, TransactionMaxGasLimit = 9999, ScriptGasLimit = 9999,
      Persist = True, Snapshot = True, ContractRemovalEnabled = True, DBPath = ''flowdb'', ForkCacheDir = '''',
      DBGCInterval = 0, DBGCDiscardRatio = 0, LivenessCheckTolerance = 0, WithContracts = False, SimpleAddressesEnabled = False,
      SkipTransactionValidation = False, Host = '''', ConfigChainID = '''', RedisURL = '''', SqliteURL = '''',
      CoverageReportingEnabled = False, ComputationProfilingEnabled = False, ForkHost = '''', ForkHeight = 0, CheckpointPath = '''',
      StateHash = '''', ComputationReportingEnabled = False, ScheduledTransactionsEnabled = True, SetupVMBridgeEnabled = False,
      NumAccounts = 0, EVMTestHelpersEnabled = False\<rparr>"

definition sample_backends :: "(unit, unit) backends" where
  "sample_backends =
     \<lparr>NewRedisStorage = (\<lambda>url. Inr ()), checkpoint_New = (\<lambda>path hash chain. Inr ()),
      grpc_NewClient = (\<lambda>host. Inl (ExternalError ''offline'')), MkdirAll = (\<lambda>path. Inr ()), time_Now = 0,
      os_Stat = (\<lambda>path. None), Mkdir_Stat = (\<lambda>path. Some True), disk = Map.empty\<rparr>"

theorem storage_exclusive_witness:
  "\<exists>s. configureStorage sample_codec sample_env sample_backends sample_config = Inr (SqliteProvider s) \<and>
     sq_url (Data s) = ''flowdb'' \<and> SupportSnapshotsWithCurrentConfig (Data s)"
proof -
  obtain s where "configureStorage sample_codec sample_env sample_backends sample_config = Inr (SqliteProvider s)"
    by (simp add: configureStorage_def redis_step_def sqlite_step_def checkpoint_step_def persist_step_def default_step_def
        fork_step_def snapshot_step_def opened_def bindR_def NewInDirectory_def sqlite_New_def sample_config_def sample_backends_def
        provider_snapshots_def SupportSnapshotsWithCurrentConfig_def empty_db_def)
  then show ?thesis using storage_exclusive
    by (fastforce simp: sample_config_def provider_snapshots_def)
qed

section \<open>Lemmas about the start\<close>

text \<open>
  The chain ID is never taken from the remote chain: by the time it is resolved, an empty one has been replaced by that of
  the emulator.
\<close>

lemma fork_chain_not_detected:
  assumes "ConfigChainID conf = ''''" "chain_Emulator L \<noteq> ''''"
  shows "resolve_chain X (sanitizeConfig L conf) = Inr (chain_Emulator L)"
  using assms by (simp add: resolve_chain_def sanitizeConfig_def)

lemma sanitize_idem [simp]:
  assumes "chain_Emulator L \<noteq> ''''" shows "sanitizeConfig L (sanitizeConfig L conf) = sanitizeConfig L conf"
  using assms by (simp add: sanitizeConfig_def defaultGRPCPort_def defaultRESTPort_def defaultAdminPort_def
      defaultDBGCInterval_def defaultDBGCRatio_def defaultLivenessCheckTolerance_def)

text \<open>A server that is given only a public key fails when it is asked to create accounts.\<close>

lemma ServiceKey_private: "sk_PrivateKey (fst (bc_ServiceKey E b)) = sk_PrivateKey (bc_serviceKey b)"
  by (simp add: bc_ServiceKey_def Let_def split: sum.split)

lemma accounts_need_private_key:
  assumes "sk_PrivateKey (bc_serviceKey b) = None" "NumAccounts conf > 0"
  shows "start_accounts X p E ws conf b = Inl (Panic ''nil pointer dereference'')"
proof -
  have "sk_PrivateKey (fst (bc_ServiceKey E b)) = None" using assms(1) by (simp add: ServiceKey_private)
  then show ?thesis using assms(2) by (simp add: start_accounts_def case_prod_unfold)
qed

lemma fund_same_address: "fst (fund_account X p E ws a b) \<in> {None, Some a}"
  by (simp add: fund_account_def Let_def case_prod_unfold split: sum.split option.split)

lemma fund_nonzero: "a \<noteq> 0 \<Longrightarrow> fst (fund_account X p E ws a b) \<noteq> Some 0"
  using fund_same_address[of X p E ws a b] by auto

lemma created_address_nonzero: "fst (precreate_account X p E ws b) \<noteq> Some 0"
  by (simp add: fund_nonzero precreate_account_def Let_def case_prod_unfold split: sum.split option.split)

lemma precreate_bounds:
  "length (fst (precreate_accounts X p E ws n b)) \<le> n \<and> 0 \<notin> set (fst (precreate_accounts X p E ws n b))"
proof (induction n arbitrary: b)
  case (Suc n)
  have "length (fst (precreate_accounts X p E ws n (snd (precreate_account X p E (ws n) b)))) \<le> Suc n"
    using Suc.IH[of "snd (precreate_account X p E (ws n) b)"] by simp
  then show ?case
    using Suc.IH[of "snd (precreate_account X p E (ws n) b)"] created_address_nonzero[of X p E "ws n" b]
    by (auto simp: case_prod_unfold Let_def split: option.split)
qed simp

text \<open>Blocks are made by the ticker or by the transactions, never by both; the storage is stopped last.\<close>

lemma server_mines:
  assumes "NewEmulatorServer X p V B E dflt ws conf = Inr s"
  shows "cf_AutoMine (bc_conf (srv_emulator s)) \<longleftrightarrow> BlocksRoutine \<notin> set (AddToGroup s)"
    "last (AddToGroup s) = StorageRoutine" "count_list (AddToGroup s) BlocksRoutine = (if BlockTime conf > 0 then 2 else 0)"
proof -
  obtain c b where s: "s = start_blocks (sanitizeConfig (em_lib E) conf) b"
    using assms unfolding NewEmulatorServer_def Let_def bindR_eq_Inr by blast
  have "BlockTime (sanitizeConfig (em_lib E) conf) = BlockTime conf" by (simp add: sanitizeConfig_def)
  then show "cf_AutoMine (bc_conf (srv_emulator s)) \<longleftrightarrow> BlocksRoutine \<notin> set (AddToGroup s)"
    "last (AddToGroup s) = StorageRoutine" "count_list (AddToGroup s) BlocksRoutine = (if BlockTime conf > 0 then 2 else 0)"
    by (simp_all add: s start_blocks_def AddToGroup_def DisableAutoMine_def EnableAutoMine_def)
qed

end
