(* ===== verification/Start.thy ===== *)
theory Start
  imports Server
begin

text \<open>
  \<^verbatim>\<open>cmd/emulator/start/start.go\<close>: from the flags of the command line to the configuration of the server.
  \<^verbatim>\<open>Exit\<close> ends the process; here it is an exit code with the message. Reading the flags and the environment is done by
  sconfig, and logging is left out.
\<close>

section \<open>Flags\<close>

record flags =
  fl_Port :: int
  fl_DebuggerPort :: int
  fl_RestPort :: int
  fl_AdminPort :: int
  fl_BlockTime :: int
  fl_ServicePrivateKey :: string
  fl_ServicePublicKey :: string
  fl_ServiceKeySigAlgo :: string
  fl_ServiceKeyHashAlgo :: string
  fl_Init :: bool
  fl_GRPCDebug :: bool
  fl_RESTDebug :: bool
  fl_Persist :: bool
  fl_Snapshot :: bool
  fl_DBPath :: string
  fl_ForkCacheDir :: string
  fl_SimpleAddresses :: bool
  fl_TokenSupply :: string
  fl_TransactionExpiry :: int
  fl_StorageLimitEnabled :: bool
  fl_StorageMBPerFLOW :: string
  fl_MinimumAccountBalance :: string
  fl_TransactionFeesEnabled :: bool
  fl_TransactionMaxGasLimit :: int
  fl_ScriptGasLimit :: int
  fl_TransactionMaxComputeLimit :: int
  fl_ScriptComputeLimit :: int
  fl_Contracts :: bool
  fl_ContractRemovalEnabled :: bool
  fl_SkipTxValidation :: bool
  fl_Host :: string
  fl_ChainID :: string
  fl_RedisURL :: string
  fl_SqliteURL :: string
  fl_CoverageReportingEnabled :: bool
  fl_ComputationProfilingEnabled :: bool
  fl_LegacyContractUpgradeEnabled :: bool
  fl_ForkHost :: string
  fl_ForkHeight :: u64
  fl_CheckpointPath :: string
  fl_StateHash :: string
  fl_ComputationReportingEnabled :: bool
  fl_ScheduledTransactionsEnabled :: bool
  fl_SetupVMBridgeEnabled :: bool
  fl_NumAccounts :: int
  fl_EVMTestHelpersEnabled :: bool
  fl_StartBlockHeight :: u64
  fl_RPCHost :: string

datatype exit = Exit int string

text \<open>What the command takes from the SDK's crypto package, from flow-go and from its caller.\<close>

record start_lib =
  StringToSignatureAlgorithm :: "string \<Rightarrow> nat"
  StringToHashAlgorithm :: "string \<Rightarrow> nat"
  UnknownSignatureAlgorithm :: nat
  UnknownHashAlgorithm :: nat
  DecodePrivateKeyHex :: "nat \<Rightarrow> string \<Rightarrow> bytes result"
  chain_Testnet :: string
  chain_Mainnet :: string
  StartConfig_GetServiceKey :: "bool \<Rightarrow> nat \<Rightarrow> nat \<Rightarrow> bytes \<times> nat \<times> nat"

section \<open>Checks\<close>

definition getSDKChainID :: "start_lib \<Rightarrow> flow_lib \<Rightarrow> string \<Rightarrow> string result" where
  "getSDKChainID A L chainID =
     (if chainID = ''emulator'' then Inr (chain_Emulator L)
      else if chainID = ''testnet'' then Inr (chain_Testnet A)
      else if chainID = ''mainnet'' then Inr (chain_Mainnet A)
      else Inl (Errorf (''invalid ChainID '' @ chainID @ '', valid values are: emulator, testnet, mainnet'')))"

definition checkKeyAlgorithms :: "start_lib \<Rightarrow> nat \<Rightarrow> nat \<Rightarrow> exit + unit" where
  "checkKeyAlgorithms A sigAlgo hashAlgo =
     (if sigAlgo = UnknownSignatureAlgorithm A
      then Inl (Exit 1 ''Must specify service key signature algorithm (e.g. --service-sig-algo=ECDSA_P256)'')
      else if hashAlgo = UnknownHashAlgorithm A
      then Inl (Exit 1 ''Must specify service key hash algorithm (e.g. --service-hash-algo=SHA3_256)'')
      else Inr ())"

text \<open>The message quotes the token supply, whichever flag it is about.\<close>

definition parseCadenceUFix64 :: "flow_lib \<Rightarrow> flags \<Rightarrow> string \<Rightarrow> string \<Rightarrow> exit + u64" where
  "parseCadenceUFix64 L conf value valueName =
     (case parse_UFix64 L value of
        Inl err \<Rightarrow> Inl (Exit 1 (''Failed to parse '' @ valueName @ '' from value `'' @ fl_TokenSupply conf @
                     ''` as an unsigned 64-bit fixed-point number: '' @ Error_text err))
      | Inr v \<Rightarrow> Inr v)"

definition optional_UFix64 :: "flow_lib \<Rightarrow> flags \<Rightarrow> u64 \<Rightarrow> string \<Rightarrow> string \<Rightarrow> exit + u64" where
  "optional_UFix64 L conf default_value value valueName =
     (if value \<noteq> '''' then parseCadenceUFix64 L conf value valueName else Inr default_value)"

definition exit_error :: "'a result \<Rightarrow> exit + 'a" where
  "exit_error r = (case r of Inl err \<Rightarrow> Inl (Exit 1 (Error_text err)) | Inr x \<Rightarrow> Inr x)"

section \<open>The command\<close>

definition service_key :: "start_lib \<Rightarrow> flags \<Rightarrow> exit + bytes \<times> nat \<times> nat" where
  "service_key A conf =
     (let sigAlgo = StringToSignatureAlgorithm A (fl_ServiceKeySigAlgo conf);
          hashAlgo = StringToHashAlgorithm A (fl_ServiceKeyHashAlgo conf)
      in if fl_ServicePrivateKey conf \<noteq> ''''
         then bindR (checkKeyAlgorithms A sigAlgo hashAlgo) (\<lambda>_.
              bindR (exit_error (DecodePrivateKeyHex A sigAlgo (fl_ServicePrivateKey conf))) (\<lambda>key.
              Inr (key, sigAlgo, hashAlgo)))
         else Inr (StartConfig_GetServiceKey A (fl_Init conf) sigAlgo hashAlgo))"

text \<open>\<open>changed\<close>: the flags that were given on the command line.\<close>

definition apply_deprecated :: "string set \<Rightarrow> flags \<Rightarrow> flags" where
  "apply_deprecated changed conf =
     conf\<lparr>fl_ForkHost := (if fl_RPCHost conf \<noteq> '''' \<and> fl_ForkHost conf = '''' then fl_RPCHost conf else fl_ForkHost conf),
          fl_ForkHeight :=
            (if fl_StartBlockHeight conf > 0 \<and> fl_ForkHeight conf = 0 then fl_StartBlockHeight conf else fl_ForkHeight conf),
          fl_TransactionMaxComputeLimit :=
            (if ''transaction-max-gas-limit'' \<in> changed \<and> ''transaction-max-compute-limit'' \<notin> changed
             then fl_TransactionMaxGasLimit conf else fl_TransactionMaxComputeLimit conf),
          fl_ScriptComputeLimit :=
            (if ''script-gas-limit'' \<in> changed \<and> ''script-compute-limit'' \<notin> changed
             then fl_ScriptGasLimit conf else fl_ScriptComputeLimit conf)\<rparr>"

abbreviation exclamation_mark :: string where "exclamation_mark \<equiv> [CHR 0xE2, CHR 0x9D, CHR 0x97]"

definition remote_chain :: "server_lib \<Rightarrow> flags \<Rightarrow> string \<Rightarrow> exit + string" where
  "remote_chain X conf flowChainID =
     (if fl_ForkHost conf \<noteq> ''''
      then case sv_DetectRemoteChainID X (fl_ForkHost conf) of
             Inl err \<Rightarrow> Inl (Exit 1 (''failed to detect remote chain id from '' @ fl_ForkHost conf @ '': '' @ Error_text err))
           | Inr parsed \<Rightarrow> Inr parsed
      else Inr flowChainID)"

text \<open>The literal of \<^verbatim>\<open>server.Config\<close>; a signed number is converted to an unsigned one modulo $2^{64}$.\<close>

definition serverConf ::
  "bytes \<Rightarrow> bytes \<Rightarrow> nat \<Rightarrow> nat \<Rightarrow> u64 \<Rightarrow> u64 \<Rightarrow> string \<Rightarrow> u64 \<Rightarrow> flags \<Rightarrow> Config" where
  "serverConf servicePublicKey servicePrivateKey sigAlgo hashAlgo minimumStorageReservation storageMBPerFLOW resolvedChainID
     tokenSupply conf =
     \<lparr>GRPCPort = fl_Port conf, GRPCDebug = fl_GRPCDebug conf, AdminPort = fl_AdminPort conf,
      DebuggerPort = fl_DebuggerPort conf, RESTPort = fl_RestPort conf, RESTDebug = fl_RESTDebug conf, HTTPHeaders = None,
      BlockTime = fl_BlockTime conf, ServicePublicKey = Some servicePublicKey,
      ServicePrivateKey = Some servicePrivateKey, ServiceKeySigAlgo = sigAlgo, ServiceKeyHashAlgo = hashAlgo,
      GenesisTokenSupply = tokenSupply, TransactionExpiry = of_int (fl_TransactionExpiry conf),
      StorageLimitEnabled = fl_StorageLimitEnabled conf, MinimumStorageReservation = minimumStorageReservation,
      StorageMBPerFLOW = storageMBPerFLOW, TransactionFeesEnabled = fl_TransactionFeesEnabled conf,
      TransactionMaxGasLimit = of_int (fl_TransactionMaxComputeLimit conf),
      ScriptGasLimit = of_int (fl_ScriptComputeLimit conf), Persist = fl_Persist conf, Snapshot = fl_Snapshot conf,
      ContractRemovalEnabled = fl_ContractRemovalEnabled conf, DBPath = fl_DBPath conf,
      ForkCacheDir = fl_ForkCacheDir conf, DBGCInterval = 0, DBGCDiscardRatio = 0, LivenessCheckTolerance = 0,
      WithContracts = fl_Contracts conf, SimpleAddressesEnabled = fl_SimpleAddresses conf,
      SkipTransactionValidation = fl_SkipTxValidation conf, Host = fl_Host conf, ConfigChainID = resolvedChainID,
      RedisURL = fl_RedisURL conf, SqliteURL = fl_SqliteURL conf,
      CoverageReportingEnabled = fl_CoverageReportingEnabled conf,
      ComputationProfilingEnabled = fl_ComputationProfilingEnabled conf, ForkHost = fl_ForkHost conf,
      ForkHeight = fl_ForkHeight conf, CheckpointPath = fl_CheckpointPath conf, StateHash = fl_StateHash conf,
      ComputationReportingEnabled = fl_ComputationReportingEnabled conf,
      ScheduledTransactionsEnabled = fl_ScheduledTransactionsEnabled conf,
      SetupVMBridgeEnabled = fl_SetupVMBridgeEnabled conf, NumAccounts = fl_NumAccounts conf,
      EVMTestHelpersEnabled = fl_EVMTestHelpersEnabled conf\<rparr>"

definition server_config ::
  "start_lib \<Rightarrow> server_lib \<Rightarrow> flow_lib \<Rightarrow> string set \<Rightarrow> flags \<Rightarrow> exit + Config" where
  "server_config A X L changed conf =
     bindR (service_key A conf) (\<lambda>(servicePrivateKey, sigAlgo, hashAlgo).
     bindR (exit_error (getSDKChainID A L (fl_ChainID conf))) (\<lambda>flowChainID.
     let conf = apply_deprecated changed conf in
     if fl_ForkHost conf = '''' \<and> (fl_StartBlockHeight conf > 0 \<or> fl_ForkHeight conf > 0)
     then Inl (Exit 1 (exclamation_mark @ ''  --fork-height requires --fork-host''))
     else
       bindR (optional_UFix64 L conf (DefaultMinimumStorageReservation L) (fl_MinimumAccountBalance conf) ''min-account-balance'')
         (\<lambda>minimumStorageReservation.
       bindR (optional_UFix64 L conf (DefaultStorageMBPerFLOW L) (fl_StorageMBPerFLOW conf) ''storage-per-flow'')
         (\<lambda>storageMBPerFLOW.
       bindR (remote_chain X conf flowChainID) (\<lambda>resolvedChainID.
       bindR (parseCadenceUFix64 L conf (fl_TokenSupply conf) ''token-supply'') (\<lambda>tokenSupply.
       Inr (serverConf (PublicKey_of L servicePrivateKey) servicePrivateKey sigAlgo hashAlgo minimumStorageReservation storageMBPerFLOW
              resolvedChainID tokenSupply conf)))))))"

text \<open>The body of the command up to \<^verbatim>\<open>emu.Start\<close>; a panic ends a Go process with code 2.\<close>

definition Cmd_Run ::
  "start_lib \<Rightarrow> server_lib \<Rightarrow> 'x codec_scheme \<Rightarrow> sql_env \<Rightarrow> ('r, 'c) backends \<Rightarrow> (('r, 'c) provider, 'ls) emu \<Rightarrow>
   ('r, 'c) provider result \<Rightarrow> (nat \<Rightarrow> nat \<Rightarrow> world) \<Rightarrow> string set \<Rightarrow> flags \<Rightarrow> exit + (('r, 'c) provider, 'ls) EmulatorServer" where
  "Cmd_Run A X p V B E CreateDefaultStorage ws changed conf =
     bindR (server_config A X (em_lib E) changed conf) (\<lambda>serverConf.
     case NewEmulatorServer X p V B E CreateDefaultStorage ws serverConf of
       Inl err \<Rightarrow> Inl (case err of Panic msg \<Rightarrow> Exit 2 msg | _ \<Rightarrow> Exit (- 1) '''')
     | Inr emu \<Rightarrow> Inr emu)"

section \<open>Old flags\<close>

text \<open>Two flags have no effect at all.\<close>

abbreviation ignored :: "bool \<Rightarrow> string \<Rightarrow> flags \<Rightarrow> flags" where
  "ignored l k conf \<equiv> conf\<lparr>fl_LegacyContractUpgradeEnabled := l, fl_ServicePublicKey := k\<rparr>"

lemma ignored_parts:
  "service_key A (ignored l k conf) = service_key A conf"
  "apply_deprecated changed (ignored l k conf) = ignored l k (apply_deprecated changed conf)"
  "remote_chain X (ignored l k conf) = remote_chain X conf"
  "parseCadenceUFix64 L (ignored l k conf) = parseCadenceUFix64 L conf"
  "optional_UFix64 L (ignored l k conf) = optional_UFix64 L conf"
  "serverConf pub priv sa ha m t c n (ignored l k conf) = serverConf pub priv sa ha m t c n conf"
  by (simp_all add: serverConf_def service_key_def apply_deprecated_def remote_chain_def optional_UFix64_def parseCadenceUFix64_def fun_eq_iff
      Let_def split: sum.split)

lemma ignored_flags: "server_config A X L changed (ignored l k conf) = server_config A X L changed conf"
  by (simp add: server_config_def ignored_parts Let_def case_prod_unfold cong: if_cong)

section \<open>Settings of a fork\<close>

text \<open>
  An accepted configuration pins a fork height only together with a host, and its chain is then the one the host reports.
\<close>

lemma server_config_Inr:
  assumes "server_config A X L changed conf = Inr c"
  shows "ForkHost c = fl_ForkHost (apply_deprecated changed conf)" "ForkHeight c = fl_ForkHeight (apply_deprecated changed conf)"
    "ForkHost c = '''' \<Longrightarrow> ForkHeight c = 0" "ForkHost c \<noteq> '''' \<Longrightarrow> sv_DetectRemoteChainID X (ForkHost c) = Inr (ConfigChainID c)"
proof -
  let ?d = "apply_deprecated changed conf"
  have guard: "\<not> (fl_ForkHost ?d = '''' \<and> (fl_StartBlockHeight ?d > 0 \<or> fl_ForkHeight ?d > 0))"
  proof
    assume g: "fl_ForkHost ?d = '''' \<and> (fl_StartBlockHeight ?d > 0 \<or> fl_ForkHeight ?d > 0)"
    show False using assms unfolding server_config_def Let_def case_prod_unfold if_P[OF g] bindR_eq_Inr by blast
  qed
  obtain pub priv sa ha m t i n j where c: "c = serverConf pub priv sa ha m t i n ?d" "remote_chain X ?d j = Inr i"
    using assms unfolding server_config_def Let_def case_prod_unfold if_not_P[OF guard] bindR_eq_Inr by blast
  show f: "ForkHost c = fl_ForkHost ?d" "ForkHeight c = fl_ForkHeight ?d" by (simp_all add: c(1) serverConf_def)
  have i: "ConfigChainID c = i" by (simp add: c(1) serverConf_def)
  show "ForkHost c = '''' \<Longrightarrow> ForkHeight c = 0" using guard f by (simp add: word_gt_0)
  show "ForkHost c \<noteq> '''' \<Longrightarrow> sv_DetectRemoteChainID X (ForkHost c) = Inr (ConfigChainID c)"
    using c(2) f i by (simp add: remote_chain_def split: sum.splits)
qed

section \<open>Deprecated flags\<close>

abbreviation old_fork :: "string \<Rightarrow> u64 \<Rightarrow> flags \<Rightarrow> flags" where
  "old_fork host height conf \<equiv> conf\<lparr>fl_StartBlockHeight := height, fl_RPCHost := host\<rparr>"

lemma old_fork_parts:
  "service_key A (old_fork h n conf) = service_key A conf"
  "remote_chain X (old_fork h n conf) = remote_chain X conf"
  "parseCadenceUFix64 L (old_fork h n conf) = parseCadenceUFix64 L conf"
  "optional_UFix64 L (old_fork h n conf) = optional_UFix64 L conf"
  "serverConf pub priv sa ha m t c k (old_fork h n conf) = serverConf pub priv sa ha m t c k conf"
  by (simp_all add: serverConf_def service_key_def remote_chain_def optional_UFix64_def parseCadenceUFix64_def fun_eq_iff
      Let_def split: sum.split)

lemma service_key_fork: "service_key A (conf\<lparr>fl_ForkHost := h, fl_ForkHeight := n\<rparr>) = service_key A conf"
  by (simp add: service_key_def Let_def)

lemma apply_deprecated_fork:
  "apply_deprecated changed (old_fork h n (conf\<lparr>fl_ForkHost := '''', fl_ForkHeight := 0\<rparr>)) =
     old_fork h n ((apply_deprecated changed conf)\<lparr>fl_ForkHost := h, fl_ForkHeight := n\<rparr>)"
  "apply_deprecated changed (old_fork '''' 0 (conf\<lparr>fl_ForkHost := h, fl_ForkHeight := n\<rparr>)) =
     old_fork '''' 0 ((apply_deprecated changed conf)\<lparr>fl_ForkHost := h, fl_ForkHeight := n\<rparr>)"
  by (simp_all add: apply_deprecated_def word_gt_0)

text \<open>The deprecated flags for forking mean the same as the new ones: giving the host with \<^verbatim>\<open>--rpc-host\<close> and the height with
  \<^verbatim>\<open>--start-block-height\<close>, and no new flag, leads to the same server configuration, or to the same exit code and
  message, as giving them with \<^verbatim>\<open>--fork-host\<close> and \<^verbatim>\<open>--fork-height\<close>.\<close>

theorem deprecated_flags:
  "server_config A X L changed (conf\<lparr>fl_ForkHost := '''', fl_ForkHeight := 0, fl_StartBlockHeight := n, fl_RPCHost := h\<rparr>) =
   server_config A X L changed (conf\<lparr>fl_ForkHost := h, fl_ForkHeight := n, fl_StartBlockHeight := 0, fl_RPCHost := ''''\<rparr>)"
  by (simp add: server_config_def apply_deprecated_fork old_fork_parts service_key_fork Let_def case_prod_unfold cong: if_cong)

end
