(* ===== verification/Debugger.thy ===== *)
theory Debugger
  imports Emulator_API
begin

text \<open>
  \<^verbatim>\<open>server/debugger/debugsession.go\<close>: a session of the debug adapter protocol. The session is a record; every handler
  is a step that changes it, and the messages it puts on the send queue and the goroutines it starts are appended to two
  lists of the record. Requests are dispatched in goroutines of their own without a lock; a handler is one step here.

  Cadence's interpreter and debugger are outside the repository. The session holds a pointer to the debugger, and
  \<open>dl_Call\<close> says whether a method called through it panics.
\<close>

section \<open>Values and variables\<close>

text \<open>The kinds of \<^verbatim>\<open>cadence.Value\<close> the session tells apart.\<close>

datatype cvalue =
    CStruct "(string \<times> cvalue) list"
  | CResource "(string \<times> cvalue) list"
  | COtherComposite "(string \<times> cvalue) list"
  | CArray "cvalue list"
  | CDictionary "(cvalue \<times> cvalue) list"
  | CSimple string

record dap_variable =
  var_Name :: string
  var_Value :: string
  var_Type :: string
  var_Kind :: string
  var_Visibility :: string
  var_Reference :: int

text \<open>What the map of variables holds: its values are of type \<^verbatim>\<open>any\<close>.\<close>

datatype stored = FlowgoAccount account | SdkAccount sdk_account | InterpreterValue | CadenceStored cvalue

type_synonym position = "int \<times> int"

record 'i stop =
  stop_Interpreter :: 'i
  stop_Statement :: "position \<times> position"

datatype debugger_call =
    RequestPause | Continue | Stops | ClearBreakpointsForLocation "location option" | AddBreakpoint "location option" u64

record ('i, 'v) debug_lib =
  dl_Call :: "unit option \<Rightarrow> debugger_call \<Rightarrow> unit result"
  dl_CallStack :: "'i \<Rightarrow> (location option \<times> position \<times> position) list"
  dl_Location :: "'i \<Rightarrow> location"
  dl_ValuesInFunction :: "unit option \<Rightarrow> 'i \<Rightarrow> (string \<times> 'v) list result"
  dl_Find :: "unit option \<Rightarrow> 'i \<Rightarrow> string \<Rightarrow> 'v option result"
  dl_ExportValue :: "'v \<Rightarrow> 'i \<Rightarrow> cvalue result"
  dl_Value_String :: "'v \<Rightarrow> string"
  dl_StorageMap :: "'i \<Rightarrow> sdk_address \<Rightarrow> (string option \<times> 'v) list"
  dl_String :: "cvalue \<Rightarrow> string"
  dl_TypeID :: "cvalue \<Rightarrow> string"
  dl_script_String :: "cadence_value \<Rightarrow> string"
  dl_Location_String :: "location \<Rightarrow> string"
  dl_StringLocation :: "string \<Rightarrow> location"
  dl_DecodeTypeID :: "string \<Rightarrow> location option result"
  dl_ReadFile :: "string \<Rightarrow> string"

section \<open>Messages\<close>

record dap_header =
  dap_Seq :: int
  dap_Command :: string

record stack_frame =
  frame_Path :: string
  frame_Line :: int
  frame_Column :: int
  frame_EndLine :: int
  frame_EndColumn :: int

datatype dap_body =
    NoBody
  | VariablesBody "dap_variable list"
  | ScopesBody "(string \<times> string \<times> int) list"
  | EvaluateBody string
  | ContinueBody bool
  | SourceBody string
  | StackTraceBody "stack_frame list"
  | ThreadsBody "(int \<times> string) list"
  | BreakpointsBody "(string \<times> bool) list"
  | CapabilitiesBody bool

datatype dap_message =
    SuccessResponse int string dap_body
  | ErrorResponse int string string "(string \<times> string) list" bool
  | InitializedEvent
  | StoppedEvent string bool int
  | OutputEvent string string
  | ExitedEvent int
  | TerminatedEvent

text \<open>An argument of the launch request, as JSON.\<close>

datatype json = JString string | JBool bool | JOther

datatype dap_request =
    InitializeRequest
  | SetBreakpointsRequest string "int list"
  | DisconnectRequest
  | AttachRequest
  | LaunchRequest "json option" "json option"
  | ConfigurationDoneRequest
  | ThreadsRequest
  | PauseRequest
  | NextRequest
  | StepInRequest
  | StepOutRequest
  | StackTraceRequest
  | SourceRequest string
  | ContinueRequest
  | EvaluateRequest string
  | ScopesRequest
  | VariablesRequest int
  | OtherRequest

section \<open>The session\<close>

text \<open>
  A run starts the loop that waits for stops and, when there is a program, the goroutine that executes it. The number is
  the context of the run, which the second cancels to end the first.
\<close>

datatype goroutine = StopLoop nat | ScriptRun nat

record ('i, 'b) session =
  ds_emulator :: 'b
  ds_variables :: "(int \<rightharpoonup> stored) option"
  ds_variableHandleCounter :: int
  ds_debugger :: "unit option"
  ds_stop :: "'i stop option"
  ds_code :: string
  ds_scriptLocation :: string
  ds_scriptID :: string
  ds_stopOnEntry :: bool
  ds_configurationDone :: bool
  ds_launchRequested :: bool
  ds_launched :: bool
  ds_targetDepth :: int
  ds_sent :: "dap_message list"
  ds_started :: "goroutine list"
  ds_cancelled :: "nat list"

definition new_session :: "'b \<Rightarrow> ('i, 'b) session" where
  "new_session emulator =
     \<lparr>ds_emulator = emulator, ds_variables = None, ds_variableHandleCounter = 0, ds_debugger = None, ds_stop = None,
      ds_code = '''', ds_scriptLocation = '''', ds_scriptID = '''', ds_stopOnEntry = False, ds_configurationDone = False,
      ds_launchRequested = False, ds_launched = False, ds_targetDepth = 0, ds_sent = [], ds_started = [], ds_cancelled = []\<rparr>"

abbreviation (input) ScopeIdentifierLocal :: int where "ScopeIdentifierLocal \<equiv> 10000"
abbreviation (input) ScopeIdentifierStorage :: int where "ScopeIdentifierStorage \<equiv> 10002"

definition send :: "dap_message \<Rightarrow> ('i, 'b) session \<Rightarrow> unit result \<times> ('i, 'b) session" where
  "send m s = (Inr (), s\<lparr>ds_sent := ds_sent s @ [m]\<rparr>)"

definition newDAPSuccessResponse :: "dap_header \<Rightarrow> dap_body \<Rightarrow> dap_message" where
  "newDAPSuccessResponse r body = SuccessResponse (dap_Seq r) (dap_Command r) body"

definition newDAPErrorResponse :: "dap_header \<Rightarrow> string \<Rightarrow> (string \<times> string) list \<Rightarrow> bool \<Rightarrow> dap_message" where
  "newDAPErrorResponse r format vars showUser = ErrorResponse (dap_Seq r) (dap_Command r) format vars showUser"

abbreviation invalid_request :: "dap_header \<Rightarrow> dap_message" where
  "invalid_request r \<equiv> newDAPErrorResponse r ''invalid request'' [] False"

definition call :: "('i, 'v) debug_lib \<Rightarrow> debugger_call \<Rightarrow> ('i, 'b) session \<Rightarrow> unit result \<times> ('i, 'b) session" where
  "call D c s = (dl_Call D (ds_debugger s) c, s)"

definition step :: "('i, 'v) debug_lib \<Rightarrow> ('i, 'b) session \<Rightarrow> unit result \<times> ('i, 'b) session" where
  "step D s = bindE (call D RequestPause s) (\<lambda>_ s. call D Continue s)"

definition start_debugger :: "'b emulator_api \<Rightarrow> ('i, 'b) session \<Rightarrow> ('i, 'b) session" where
  "start_debugger api s =
     (let (d, b) = ea_StartDebugger api (ds_emulator s) in s\<lparr>ds_debugger := d, ds_emulator := b\<rparr>)"

section \<open>Variables\<close>

text \<open>Assigning to a nil map is a panic.\<close>

definition storeVariable :: "stored \<Rightarrow> ('i, 'b) session \<Rightarrow> int result \<times> ('i, 'b) session" where
  "storeVariable v s =
     (let s = s\<lparr>ds_variableHandleCounter := ds_variableHandleCounter s + 1\<rparr>
      in case ds_variables s of
           None \<Rightarrow> (Inl (Panic ''assignment to entry in nil map''), s)
         | Some m \<Rightarrow> (Inr (ds_variableHandleCounter s), s\<lparr>ds_variables := Some (m(ds_variableHandleCounter s \<mapsto> v))\<rparr>))"

fun has_members :: "cvalue \<Rightarrow> bool" where
  "has_members (CDictionary kvs) = True"
| "has_members (CArray vs) = True"
| "has_members (CStruct fs) = True"
| "has_members (CResource fs) = True"
| "has_members _ = False"

definition convertValueToDAPVariable ::
  "('i, 'v) debug_lib \<Rightarrow> string \<Rightarrow> cvalue \<Rightarrow> ('i, 'b) session \<Rightarrow> dap_variable result \<times> ('i, 'b) session" where
  "convertValueToDAPVariable D name value s =
     bindE (if has_members value then storeVariable (CadenceStored value) s else (Inr 0, s)) (\<lambda>referenceHandle s.
     (Inr \<lparr>var_Name = name, var_Value = dl_String D value, var_Type = dl_TypeID D value, var_Kind = ''property'',
           var_Visibility = ''private'', var_Reference = referenceHandle\<rparr>, s))"

primrec convert_all ::
  "('i, 'v) debug_lib \<Rightarrow> (string \<times> cvalue) list \<Rightarrow> ('i, 'b) session \<Rightarrow> dap_variable list result \<times> ('i, 'b) session" where
  "convert_all D [] s = (Inr [], s)"
| "convert_all D (nv # nvs) s =
     bindE (convertValueToDAPVariable D (fst nv) (snd nv) s) (\<lambda>variable s.
     bindE (convert_all D nvs s) (\<lambda>rest s. (Inr (variable # rest), s)))"

text \<open>
  The fields of a composite are a Go map, so their order is any; the list of the constructor is the order of the
  iteration.
\<close>

fun member_list :: "('i, 'v) debug_lib \<Rightarrow> cvalue \<Rightarrow> (string \<times> cvalue) list" where
  "member_list D (CStruct fs) = fs"
| "member_list D (CResource fs) = fs"
| "member_list D (COtherComposite fs) = fs"
| "member_list D (CArray vs) = map (\<lambda>(i, v). (''['' @ fmt_d i @ '']'', v)) (enumerate 0 vs)"
| "member_list D (CDictionary kvs) = map (\<lambda>(k, v). (dl_String D k, v)) kvs"
| "member_list D (CSimple t) = []"

definition convertCadenceValueMembersToDAPVariables ::
  "('i, 'v) debug_lib \<Rightarrow> cvalue \<Rightarrow> ('i, 'b) session \<Rightarrow> dap_variable list result \<times> ('i, 'b) session" where
  "convertCadenceValueMembersToDAPVariables D value s = convert_all D (member_list D value) s"

text \<open>The loop over a storage map; a key that is not a string is skipped after its value is exported.\<close>

primrec convertStorageMapToDAPVariables ::
  "('i, 'v) debug_lib \<Rightarrow> 'i \<Rightarrow> (string option \<times> 'v) list \<Rightarrow> ('i, 'b) session \<Rightarrow>
   dap_variable list result \<times> ('i, 'b) session" where
  "convertStorageMapToDAPVariables D intr [] s = (Inr [], s)"
| "convertStorageMapToDAPVariables D intr (kv # kvs) s =
     (case dl_ExportValue D (snd kv) intr of
        Inl err \<Rightarrow> (Inl (Panic (Error_text err)), s)
      | Inr cadenceValue \<Rightarrow>
          (case fst kv of
             None \<Rightarrow> convertStorageMapToDAPVariables D intr kvs s
           | Some name \<Rightarrow>
               bindE (convertValueToDAPVariable D name cadenceValue s) (\<lambda>variable s.
               bindE (convertStorageMapToDAPVariables D intr kvs s) (\<lambda>rest s. (Inr (variable # rest), s)))))"

text \<open>The local scope skips the built-ins and the values that cannot be exported.\<close>

definition visible_locals ::
  "('i, 'v) debug_lib \<Rightarrow> 'i \<Rightarrow> string \<Rightarrow> (string \<times> 'v) list \<Rightarrow> (string \<times> cvalue) list" where
  "visible_locals D intr scriptID functionValues =
     List.map_filter (\<lambda>(name, v).
       if dl_Location_String D (dl_Location D intr) = scriptID \<and> name = ''self'' then None
       else if name = ''BLS'' \<or> name = ''RLP'' then None
       else case dl_ExportValue D v intr of Inl err \<Rightarrow> None | Inr value \<Rightarrow> Some (name, value)) functionValues"

text \<open>The storage scope lists the accounts until one does not exist; \<^const>\<open>None\<close> is a loop that does not end.\<close>

partial_function (option) accounts_from :: "'b emulator_api \<Rightarrow> u64 \<Rightarrow> 'b \<Rightarrow> account list option" where
  "accounts_from api index b =
     (case ea_GetAccountByIndex api index b of
        Inl err \<Rightarrow> Some []
      | Inr account \<Rightarrow> Option.bind (accounts_from api (index + 1) b) (\<lambda>rest. Some (account # rest)))"

primrec account_variables ::
  "account list \<Rightarrow> ('i, 'b) session \<Rightarrow> dap_variable list result \<times> ('i, 'b) session" where
  "account_variables [] s = (Inr [], s)"
| "account_variables (account # accounts) s =
     bindE (storeVariable (FlowgoAccount account) s) (\<lambda>handle s.
     bindE (account_variables accounts s) (\<lambda>rest s.
     (Inr (\<lparr>var_Name = Address_String (acc_Address account), var_Value = ''FlowAccount'', var_Type = ''FlowAccount'',
            var_Kind = ''class'', var_Visibility = ''public'', var_Reference = handle\<rparr> # rest), s)))"

definition member_variables ::
  "('i, 'v) debug_lib \<Rightarrow> 'i \<Rightarrow> stored option \<Rightarrow> ('i, 'b) session \<Rightarrow> dap_variable list result \<times> ('i, 'b) session" where
  "member_variables D intr valueRequested s =
     (case valueRequested of
        Some (SdkAccount account) \<Rightarrow>
          convertStorageMapToDAPVariables D intr (dl_StorageMap D intr (sdk_acc_Address account)) s
      | Some (CadenceStored value) \<Rightarrow> convertCadenceValueMembersToDAPVariables D value s
      | _ \<Rightarrow> (Inr [], s))"

definition requested_variables ::
  "('i, 'v) debug_lib \<Rightarrow> 'b emulator_api \<Rightarrow> 'i \<Rightarrow> int \<Rightarrow> ('i, 'b) session \<Rightarrow>
   (dap_variable list result \<times> ('i, 'b) session) option" where
  "requested_variables D api intr variableRequested s =
     (if variableRequested = ScopeIdentifierLocal
      then let s = s\<lparr>ds_variableHandleCounter := 0, ds_variables := Some Map.empty\<rparr>
           in Some (case dl_ValuesInFunction D (ds_debugger s) intr of
                      Inl err \<Rightarrow> (Inl err, s)
                    | Inr functionValues \<Rightarrow> convert_all D (visible_locals D intr (ds_scriptID s) functionValues) s)
      else if variableRequested = ScopeIdentifierStorage
      then Option.bind (accounts_from api 1 (ds_emulator s)) (\<lambda>accounts. Some (account_variables accounts s))
      else Some (member_variables D intr (Option.bind (ds_variables s) (\<lambda>m. m variableRequested)) s))"

definition handleVariablesRequest ::
  "('i, 'v) debug_lib \<Rightarrow> 'b emulator_api \<Rightarrow> dap_header \<Rightarrow> int \<Rightarrow> ('i, 'b) session \<Rightarrow>
   (unit result \<times> ('i, 'b) session) option" where
  "handleVariablesRequest D api r variableRequested s =
     (case ds_stop s of
        None \<Rightarrow> Some (send (invalid_request r) s)
      | Some stop \<Rightarrow>
          Option.bind (requested_variables D api (stop_Interpreter stop) variableRequested s) (\<lambda>res.
          Some (bindE res (\<lambda>responseVariables s.
                 send (newDAPSuccessResponse r (VariablesBody responseVariables)) s))))"

section \<open>Inspection\<close>

definition handleScopesRequest :: "dap_header \<Rightarrow> ('i, 'b) session \<Rightarrow> unit result \<times> ('i, 'b) session" where
  "handleScopesRequest r s =
     send (newDAPSuccessResponse r (ScopesBody
       [(''Variables'', ''locals'', ScopeIdentifierLocal), (''Storage'', ''registers'', ScopeIdentifierStorage)])) s"

definition handleEvaluateRequest ::
  "('i, 'v) debug_lib \<Rightarrow> dap_header \<Rightarrow> string \<Rightarrow> ('i, 'b) session \<Rightarrow> unit result \<times> ('i, 'b) session" where
  "handleEvaluateRequest D r variableName s =
     (case ds_stop s of
        None \<Rightarrow> send (invalid_request r) s
      | Some stop \<Rightarrow>
          (case dl_Find D (ds_debugger s) (stop_Interpreter stop) variableName of
             Inl err \<Rightarrow> (Inl err, s)
           | Inr None \<Rightarrow> send (newDAPErrorResponse r ''unknown variable: {name}'' [(''name'', variableName)] False) s
           | Inr (Some value) \<Rightarrow> send (newDAPSuccessResponse r (EvaluateBody (dl_Value_String D value))) s))"

definition TrimSuffix :: "string \<Rightarrow> string \<Rightarrow> string" where
  "TrimSuffix s suffix =
     (if length suffix \<le> length s \<and> drop (length s - length suffix) s = suffix
      then take (length s - length suffix) s else s)"

definition count_dots :: "string \<Rightarrow> nat" where
  "count_dots s = length (filter (\<lambda>c. c = CHR ''.'') s)"

definition address_location :: "('i, 'v) debug_lib \<Rightarrow> string \<Rightarrow> location option result" where
  "address_location D basename =
     (let basename = (if count_dots basename < 3 then basename @ ''._'' else basename)
      in dl_DecodeTypeID D (''A.'' @ basename))"

definition pathLocation :: "('i, 'v) debug_lib \<Rightarrow> string \<Rightarrow> location option result" where
  "pathLocation D path =
     (let basename = TrimSuffix path ''.cdc''
      in if count_dots basename = 0
         then case dl_DecodeTypeID D (''s.'' @ basename) of
                Inr (Some location) \<Rightarrow> Inr (Some location)
              | _ \<Rightarrow> address_location D basename
         else address_location D basename)"

definition locationPath :: "('i, 'v) debug_lib \<Rightarrow> location \<Rightarrow> string" where
  "locationPath D loc = dl_Location_String D loc @ ''.cdc''"

definition contract_code :: "'b emulator_api \<Rightarrow> address \<Rightarrow> string \<Rightarrow> 'b \<Rightarrow> string" where
  "contract_code api addr name b =
     (case ea_GetAccountUnsafe api addr b of
        Inl err \<Rightarrow> ''''
      | Inr account \<Rightarrow> (case acc_Contracts account name of None \<Rightarrow> '''' | Some contract \<Rightarrow> string_of_bytes contract))"

text \<open>\<open>currentScript\<close> is \<^verbatim>\<open>Blockchain.CurrentScript\<close>; another implementation of the emulator is a panic.\<close>

definition pathCode ::
  "('i, 'v) debug_lib \<Rightarrow> 'b emulator_api \<Rightarrow> ('b \<Rightarrow> string \<times> string) \<Rightarrow> string \<Rightarrow> ('i, 'b) session \<Rightarrow> string result" where
  "pathCode D api currentScript path s =
     (if \<not> ea_is_Blockchain api then Inl (Panic ''interface conversion'')
      else let (runningScriptID, runningCode) = currentScript (ds_emulator s)
           in if TrimSuffix path ''.cdc'' = runningScriptID then Inr runningCode
              else case pathLocation D path of
                     Inl err \<Rightarrow> Inr ''''
                   | Inr None \<Rightarrow> Inr ''''
                   | Inr (Some loc) \<Rightarrow>
                       if loc = dl_StringLocation D (ds_scriptLocation s) then Inr (ds_code s)
                       else (case loc of
                               AddressLocation addr name \<Rightarrow> Inr (contract_code api addr name (ds_emulator s))
                             | _ \<Rightarrow> Inr ''''))"

definition handleSourceRequest ::
  "('i, 'v) debug_lib \<Rightarrow> 'b emulator_api \<Rightarrow> ('b \<Rightarrow> string \<times> string) \<Rightarrow> dap_header \<Rightarrow> string \<Rightarrow> ('i, 'b) session \<Rightarrow>
   unit result \<times> ('i, 'b) session" where
  "handleSourceRequest D api currentScript r path s =
     (case pathCode D api currentScript path s of
        Inl err \<Rightarrow> (Inl err, s)
      | Inr code \<Rightarrow>
          if code = '''' then send (newDAPErrorResponse r ''unknown source: {path}'' [(''path'', path)] False) s
          else send (newDAPSuccessResponse r (SourceBody code)) s)"

definition newStackFrame ::
  "('i, 'v) debug_lib \<Rightarrow> position \<times> position \<Rightarrow> location \<Rightarrow> ('i, 'b) session \<Rightarrow> stack_frame" where
  "newStackFrame D rg loc s =
     (case rg of ((startLine, startColumn), (endLine, endColumn)) \<Rightarrow>
        \<lparr>frame_Path = (if dl_Location_String D loc = ds_scriptID s then ds_scriptLocation s else locationPath D loc),
         frame_Line = startLine, frame_Column = startColumn + 1, frame_EndLine = endLine, frame_EndColumn = endColumn + 2\<rparr>)"

definition stackFrames :: "('i, 'v) debug_lib \<Rightarrow> 'i stop \<Rightarrow> ('i, 'b) session \<Rightarrow> stack_frame list" where
  "stackFrames D stop s =
     newStackFrame D (stop_Statement stop) (dl_Location D (stop_Interpreter stop)) s #
     List.map_filter (\<lambda>(loc, rg). map_option (\<lambda>l. newStackFrame D rg l s) loc)
       (rev (dl_CallStack D (stop_Interpreter stop)))"

definition handleStackTraceRequest ::
  "('i, 'v) debug_lib \<Rightarrow> dap_header \<Rightarrow> ('i, 'b) session \<Rightarrow> unit result \<times> ('i, 'b) session" where
  "handleStackTraceRequest D r s =
     (case ds_stop s of
        None \<Rightarrow> send (invalid_request r) s
      | Some stop \<Rightarrow> send (newDAPSuccessResponse r (StackTraceBody (stackFrames D stop s))) s)"

section \<open>Control\<close>

definition handleContinueRequest ::
  "('i, 'v) debug_lib \<Rightarrow> dap_header \<Rightarrow> ('i, 'b) session \<Rightarrow> unit result \<times> ('i, 'b) session" where
  "handleContinueRequest D r s =
     bindE (call D Continue (s\<lparr>ds_stop := None\<rparr>)) (\<lambda>_ s. send (newDAPSuccessResponse r (ContinueBody True)) s)"

text \<open>A step reads the call stack of the current stop without asking whether there is one.\<close>

definition current_depth :: "('i, 'v) debug_lib \<Rightarrow> ('i, 'b) session \<Rightarrow> int result" where
  "current_depth D s =
     (case ds_stop s of
        None \<Rightarrow> Inl (Panic ''nil pointer dereference'')
      | Some stop \<Rightarrow> Inr (int (length (dl_CallStack D (stop_Interpreter stop)))))"

definition step_to ::
  "('i, 'v) debug_lib \<Rightarrow> dap_header \<Rightarrow> int \<Rightarrow> ('i, 'b) session \<Rightarrow> unit result \<times> ('i, 'b) session" where
  "step_to D r depth s =
     bindE (step D (s\<lparr>ds_targetDepth := depth\<rparr>)) (\<lambda>_ s. send (newDAPSuccessResponse r NoBody) s)"

definition handleStepOutRequest ::
  "('i, 'v) debug_lib \<Rightarrow> dap_header \<Rightarrow> ('i, 'b) session \<Rightarrow> unit result \<times> ('i, 'b) session" where
  "handleStepOutRequest D r s =
     (case current_depth D s of Inl err \<Rightarrow> (Inl err, s) | Inr currentDepth \<Rightarrow> step_to D r (currentDepth - 1) s)"

definition handleStepInRequest ::
  "('i, 'v) debug_lib \<Rightarrow> dap_header \<Rightarrow> ('i, 'b) session \<Rightarrow> unit result \<times> ('i, 'b) session" where
  "handleStepInRequest D r s = step_to D r (- 1) s"

definition handleNextRequest ::
  "('i, 'v) debug_lib \<Rightarrow> dap_header \<Rightarrow> ('i, 'b) session \<Rightarrow> unit result \<times> ('i, 'b) session" where
  "handleNextRequest D r s =
     (case current_depth D s of Inl err \<Rightarrow> (Inl err, s) | Inr currentDepth \<Rightarrow> step_to D r currentDepth s)"

definition handlePauseRequest ::
  "('i, 'v) debug_lib \<Rightarrow> dap_header \<Rightarrow> ('i, 'b) session \<Rightarrow> unit result \<times> ('i, 'b) session" where
  "handlePauseRequest D r s =
     bindE (call D RequestPause s) (\<lambda>_ s. send (newDAPSuccessResponse r NoBody) s)"

definition handleThreadsRequest :: "dap_header \<Rightarrow> ('i, 'b) session \<Rightarrow> unit result \<times> ('i, 'b) session" where
  "handleThreadsRequest r s = send (newDAPSuccessResponse r (ThreadsBody [(1, ''Emulator'')])) s"

text \<open>The goroutines that \<^verbatim>\<open>run\<close> starts have their own steps below.\<close>

definition run :: "('i, 'v) debug_lib \<Rightarrow> 'b emulator_api \<Rightarrow> ('i, 'b) session \<Rightarrow> unit result \<times> ('i, 'b) session" where
  "run D api s =
     (let s = start_debugger api s
      in bindE (if ds_stopOnEntry s then call D RequestPause s else (Inr (), s)) (\<lambda>_ s.
         (Inr (), s\<lparr>ds_variableHandleCounter := 0, ds_variables := Some Map.empty,
            ds_started := ds_started s @ [StopLoop (length (ds_started s))] @
              (if ds_code s \<noteq> '''' then [ScriptRun (length (ds_started s))] else []),
            ds_launched := True\<rparr>)))"

definition handleConfigurationDoneRequest ::
  "('i, 'v) debug_lib \<Rightarrow> 'b emulator_api \<Rightarrow> dap_header \<Rightarrow> ('i, 'b) session \<Rightarrow> unit result \<times> ('i, 'b) session" where
  "handleConfigurationDoneRequest D api r s =
     (let s = s\<lparr>ds_configurationDone := True\<rparr>
      in bindE (if ds_launchRequested s \<and> \<not> ds_launched s then run D api s else (Inr (), s)) (\<lambda>_ s.
         send (newDAPSuccessResponse r NoBody) s))"

text \<open>
  \<open>script_id\<close> is the hex string of \<^verbatim>\<open>flowgo.MakeIDFromFingerPrint\<close>. A program that is not a string fails the type
  assertion; a file that cannot be read is an empty program.
\<close>

definition handleLaunchRequest ::
  "('i, 'v) debug_lib \<Rightarrow> 'b emulator_api \<Rightarrow> (string \<Rightarrow> string) \<Rightarrow> dap_header \<Rightarrow> json option \<Rightarrow> json option \<Rightarrow>
   ('i, 'b) session \<Rightarrow> unit result \<times> ('i, 'b) session" where
  "handleLaunchRequest D api script_id r programArg stopOnEntryArg s =
     (let s = (start_debugger api s)\<lparr>ds_targetDepth := 1\<rparr>
      in case programArg of
           None \<Rightarrow> send (newDAPErrorResponse r ''Missing program'' [] True) s
         | Some (JString program) \<Rightarrow>
             (let code = dl_ReadFile D program;
                  s = s\<lparr>ds_code := code, ds_stopOnEntry := (stopOnEntryArg = Some (JBool True)), ds_scriptID := script_id code,
                        ds_scriptLocation := program, ds_launchRequested := True\<rparr>
              in bindE (send (newDAPSuccessResponse r NoBody) s) (\<lambda>_ s.
                 if ds_configurationDone s \<and> \<not> ds_launched s then run D api s else (Inr (), s)))
         | Some _ \<Rightarrow> (Inl (Panic ''interface conversion: not a string''), s))"

definition handleAttachRequest ::
  "('i, 'v) debug_lib \<Rightarrow> 'b emulator_api \<Rightarrow> dap_header \<Rightarrow> ('i, 'b) session \<Rightarrow> unit result \<times> ('i, 'b) session" where
  "handleAttachRequest D api r s =
     bindE (run D api (start_debugger api (s\<lparr>ds_targetDepth := 1, ds_stopOnEntry := False\<rparr>))) (\<lambda>_ s.
     send (newDAPSuccessResponse r NoBody) s)"

definition handleDisconnectRequest ::
  "('i, 'v) debug_lib \<Rightarrow> 'b emulator_api \<Rightarrow> dap_header \<Rightarrow> ('i, 'b) session \<Rightarrow> unit result \<times> ('i, 'b) session" where
  "handleDisconnectRequest D api r s =
     bindE (call D Continue s) (\<lambda>_ s.
     send (newDAPSuccessResponse r NoBody)
       (s\<lparr>ds_emulator := ea_EndDebugging api (ds_emulator s), ds_configurationDone := False, ds_launchRequested := False\<rparr>))"

definition handleSetBreakpointsRequest ::
  "('i, 'v) debug_lib \<Rightarrow> dap_header \<Rightarrow> string \<Rightarrow> int list \<Rightarrow> ('i, 'b) session \<Rightarrow> unit result \<times> ('i, 'b) session" where
  "handleSetBreakpointsRequest D r sourcePath lines s =
     (let path = (if sourcePath = ds_scriptLocation s then ds_scriptID s else sourcePath)
      in case pathLocation D path of
           Inl err \<Rightarrow> send (newDAPErrorResponse r ''cannot add breakpoints for path: {path}'' [(''path'', path)] False) s
         | Inr loc \<Rightarrow>
             bindE (call D (ClearBreakpointsForLocation loc) s) (\<lambda>_ s.
             bindE (for_each (\<lambda>l. call D (AddBreakpoint loc (of_int l))) lines s) (\<lambda>_ s.
             send (newDAPSuccessResponse r (BreakpointsBody (map (\<lambda>_. (sourcePath, True)) lines))) s)))"

definition handleInitialize ::
  "'b emulator_api \<Rightarrow> dap_header \<Rightarrow> ('i, 'b) session \<Rightarrow> unit result \<times> ('i, 'b) session" where
  "handleInitialize api r s =
     bindE (send (newDAPSuccessResponse r (CapabilitiesBody True)) (start_debugger api s)) (\<lambda>_ s. send InitializedEvent s)"

record ('i, 'v, 'b) session_env =
  se_lib :: "('i, 'v) debug_lib"
  se_api :: "'b emulator_api"
  se_currentScript :: "'b \<Rightarrow> string \<times> string"
  se_script_id :: "string \<Rightarrow> string"

fun dispatchRequest ::
  "('i, 'v, 'b) session_env \<Rightarrow> dap_header \<Rightarrow> dap_request \<Rightarrow> ('i, 'b) session \<Rightarrow> (unit result \<times> ('i, 'b) session) option" where
  "dispatchRequest A r InitializeRequest s = Some (handleInitialize (se_api A) r s)"
| "dispatchRequest A r (SetBreakpointsRequest path lines) s = Some (handleSetBreakpointsRequest (se_lib A) r path lines s)"
| "dispatchRequest A r DisconnectRequest s = Some (handleDisconnectRequest (se_lib A) (se_api A) r s)"
| "dispatchRequest A r AttachRequest s = Some (handleAttachRequest (se_lib A) (se_api A) r s)"
| "dispatchRequest A r (LaunchRequest program stopOnEntry) s =
     Some (handleLaunchRequest (se_lib A) (se_api A) (se_script_id A) r program stopOnEntry s)"
| "dispatchRequest A r ConfigurationDoneRequest s = Some (handleConfigurationDoneRequest (se_lib A) (se_api A) r s)"
| "dispatchRequest A r ThreadsRequest s = Some (handleThreadsRequest r s)"
| "dispatchRequest A r PauseRequest s = Some (handlePauseRequest (se_lib A) r s)"
| "dispatchRequest A r NextRequest s = Some (handleNextRequest (se_lib A) r s)"
| "dispatchRequest A r StepInRequest s = Some (handleStepInRequest (se_lib A) r s)"
| "dispatchRequest A r StepOutRequest s = Some (handleStepOutRequest (se_lib A) r s)"
| "dispatchRequest A r StackTraceRequest s = Some (handleStackTraceRequest (se_lib A) r s)"
| "dispatchRequest A r (SourceRequest path) s = Some (handleSourceRequest (se_lib A) (se_api A) (se_currentScript A) r path s)"
| "dispatchRequest A r ContinueRequest s = Some (handleContinueRequest (se_lib A) r s)"
| "dispatchRequest A r (EvaluateRequest name) s = Some (handleEvaluateRequest (se_lib A) r name s)"
| "dispatchRequest A r ScopesRequest s = Some (handleScopesRequest r s)"
| "dispatchRequest A r (VariablesRequest ref) s = handleVariablesRequest (se_lib A) (se_api A) r ref s"
| "dispatchRequest A r OtherRequest s = Some (Inr (), s)"

section \<open>The goroutines of a run\<close>

text \<open>One turn of the loop that waits for stops.\<close>

definition handle_stop ::
  "('i, 'v) debug_lib \<Rightarrow> 'i stop \<Rightarrow> ('i, 'b) session \<Rightarrow> unit result \<times> ('i, 'b) session" where
  "handle_stop D stop s =
     bindE (call D Stops s) (\<lambda>_ s.
     let s = s\<lparr>ds_stop := Some stop\<rparr>; depth = int (length (dl_CallStack D (stop_Interpreter stop)))
     in if ds_targetDepth s = - 1 \<or> depth \<le> ds_targetDepth s then send (StoppedEvent ''pause'' True 1) s else step D s)"

text \<open>
  The goroutine that executes the program. Its output is the value's string, and a script that fails while it runs has
  no value.
\<close>

definition script_run ::
  "('i, 'v, 'b) session_env \<Rightarrow> nat \<Rightarrow> ('i, 'b) session \<Rightarrow> unit result \<times> ('i, 'b) session" where
  "script_run A ctx s =
     (let (res, b) = ea_ExecuteScript (se_api A) (bytes_of_string (ds_code s)) [] (ds_emulator s);
          s = s\<lparr>ds_emulator := b, ds_cancelled := ds_cancelled s @ [ctx]\<rparr>
      in bindE (case res of
                  Inl err \<Rightarrow> send (OutputEvent ''stderr'' (Error_text err)) s
                | Inr result \<Rightarrow>
                    (case sr_Value result of
                       None \<Rightarrow> (Inl (Panic ''nil pointer dereference''), s)
                     | Some v \<Rightarrow> send (OutputEvent ''stdout'' (dl_script_String (se_lib A) v)) s)) (\<lambda>_ s.
         bindE (send (ExitedEvent (if is_ok res then 0 else 1)) s) (\<lambda>_ s.
         bindE (send TerminatedEvent s) (\<lambda>_ s.
         (Inr (), s\<lparr>ds_emulator := ea_EndDebugging (se_api A) (ds_emulator s)\<rparr>)))))"

section \<open>Responses\<close>

fun response_of :: "dap_message \<Rightarrow> (int \<times> string) option" where
  "response_of (SuccessResponse seq cmd body) = Some (seq, cmd)"
| "response_of (ErrorResponse seq cmd format vars showUser) = Some (seq, cmd)"
| "response_of _ = None"

abbreviation responses :: "('i, 'b) session \<Rightarrow> (int \<times> string) list" where
  "responses s \<equiv> List.map_filter response_of (ds_sent s)"

text \<open>A step is silent when it sends nothing.\<close>

definition silent :: "('a result \<times> ('i, 'b) session) \<Rightarrow> ('i, 'b) session \<Rightarrow> bool" where
  "silent res s \<longleftrightarrow> ds_sent (snd res) = ds_sent s"

lemma silent_bindE:
  assumes "silent p s" and "\<And>x s'. silent (f x s') s'"
  shows "silent (bindE p f) s"
  using assms unfolding silent_def by (cases p; cases "fst p") (auto simp: bindE_def)

lemma silent_same [simp]: "silent (r, s) s"
  by (simp add: silent_def)

lemma silent_call [simp]: "silent (call D c s) s"
  by (simp add: silent_def call_def)

lemma silent_step [simp]: "silent (step D s) s"
  unfolding step_def by (intro silent_bindE) simp_all

lemma sent_start [simp]: "ds_sent (start_debugger api s) = ds_sent s"
  by (simp add: start_debugger_def case_prod_unfold Let_def)

lemma silent_store [simp]: "silent (storeVariable v s) s"
  by (simp add: silent_def storeVariable_def Let_def split: option.split)

lemma silent_convert [simp]: "silent (convertValueToDAPVariable D n v s) s"
  unfolding convertValueToDAPVariable_def by (intro silent_bindE) simp_all

lemma silent_convert_all [simp]: "silent (convert_all D nvs s) s"
  by (induction nvs arbitrary: s) (auto intro!: silent_bindE)

lemma silent_storage [simp]: "silent (convertStorageMapToDAPVariables D i kvs s) s"
  by (induction kvs arbitrary: s) (auto intro!: silent_bindE split: sum.split option.split)

lemma silent_accounts [simp]: "silent (account_variables as s) s"
  by (induction as arbitrary: s) (auto intro!: silent_bindE)

lemma silent_members [simp]: "silent (member_variables D i v s) s"
  by (auto simp: member_variables_def convertCadenceValueMembersToDAPVariables_def split: option.split stored.split)

lemma silent_update:
  assumes "silent p (f s)" and "ds_sent (f s) = ds_sent s"
  shows "silent p s"
  using assms by (simp add: silent_def)

lemma silent_requested:
  assumes "requested_variables D api i v s = Some p"
  shows "silent p s"
proof -
  have reset: "silent (convert_all D nvs (s\<lparr>ds_variableHandleCounter := 0, ds_variables := Some Map.empty\<rparr>)) s" for nvs
    using silent_convert_all [of D nvs "s\<lparr>ds_variableHandleCounter := 0, ds_variables := Some Map.empty\<rparr>"]
    by (simp add: silent_def)
  show ?thesis
    using assms reset by (auto simp: requested_variables_def Let_def silent_def [of "(Inl _, _)"] Option.bind_eq_Some_conv
        split: if_splits sum.splits)
qed

lemma silent_run [simp]: "silent (run D api s) s"
  unfolding run_def Let_def
  by (rule silent_update [where f = "start_debugger api"], rule silent_bindE) (auto simp: silent_def call_def)

lemma silent_calls [simp]: "silent (for_each (\<lambda>x. call D (c x)) xs s) s"
  by (induction xs arbitrary: s) (auto intro!: silent_bindE)

text \<open>The step ends with the one response to the request, unless it panics.\<close>

definition answers :: "dap_header \<Rightarrow> (unit result \<times> ('i, 'b) session) \<Rightarrow> ('i, 'b) session \<Rightarrow> bool" where
  "answers r p s \<longleftrightarrow> (fst p = Inr () \<longrightarrow> responses (snd p) = responses s @ [(dap_Seq r, dap_Command r)])"

lemma answers_bindE:
  assumes "silent p s" and "\<And>x s'. answers r (f x s') s'"
  shows "answers r (bindE p f) s"
  using assms unfolding silent_def answers_def by (cases p; cases "fst p") (auto simp: bindE_def)

lemma answers_then_silent:
  assumes "answers r p s" and "\<And>x s'. silent (f x s') s'"
  shows "answers r (bindE p f) s"
  using assms unfolding silent_def answers_def by (cases p; cases "fst p") (auto simp: bindE_def)

lemma answers_success [simp]: "answers r (send (newDAPSuccessResponse r body) s) s"
  by (simp add: answers_def send_def newDAPSuccessResponse_def map_filter_def)

lemma answers_error [simp]: "answers r (send (newDAPErrorResponse r f vs u) s) s"
  by (simp add: answers_def send_def newDAPErrorResponse_def map_filter_def)

lemma answers_fail [simp]: "answers r (Inl e, s') s"
  by (simp add: answers_def)

lemma answers_update:
  assumes "answers r p s'" and "ds_sent s' = ds_sent s"
  shows "answers r p s"
  using assms by (simp add: answers_def)

lemma handlers_answer [simp]:
  "answers r (handleContinueRequest D r s) s"
  "answers r (handleStepOutRequest D r s) s"
  "answers r (handleStepInRequest D r s) s"
  "answers r (handleNextRequest D r s) s"
  "answers r (handlePauseRequest D r s) s"
  "answers r (handleThreadsRequest r s) s"
  "answers r (handleScopesRequest r s) s"
  "answers r (handleEvaluateRequest D r name s) s"
  "answers r (handleStackTraceRequest D r s) s"
  "answers r (handleSourceRequest D api cur r path s) s"
proof -
  have step: "answers r (step_to D r d s) s" for d
    unfolding step_to_def
    by (rule answers_update [where s' = "s\<lparr>ds_targetDepth := d\<rparr>"], rule answers_bindE) simp_all
  show "answers r (handleContinueRequest D r s) s"
    unfolding handleContinueRequest_def
    by (rule answers_update [where s' = "s\<lparr>ds_stop := None\<rparr>"], rule answers_bindE) simp_all
  show "answers r (handleStepOutRequest D r s) s" "answers r (handleStepInRequest D r s) s"
    "answers r (handleNextRequest D r s) s"
    by (auto simp: step handleStepOutRequest_def handleStepInRequest_def handleNextRequest_def split: sum.split)
  show "answers r (handlePauseRequest D r s) s"
    unfolding handlePauseRequest_def by (rule answers_bindE) simp_all
qed (auto simp: handleThreadsRequest_def handleScopesRequest_def handleEvaluateRequest_def handleStackTraceRequest_def
    handleSourceRequest_def Let_def split: sum.split option.split)

lemma launch_answers [simp]: "answers r (handleLaunchRequest D api sid r p e s) s"
proof -
  have "answers r (handleLaunchRequest D api sid r p e s) (start_debugger api s)"
    unfolding handleLaunchRequest_def Let_def
    by (rule answers_update [where s' = "start_debugger api s\<lparr>ds_targetDepth := 1\<rparr>"])
      (auto split: option.split json.split intro!: answers_then_silent
        intro: answers_update [OF answers_success])
  then show ?thesis by (rule answers_update) simp
qed

lemma lifecycle_answers [simp]:
  "answers r (handleConfigurationDoneRequest D api r s) s"
  "answers r (handleAttachRequest D api r s) s"
  "answers r (handleDisconnectRequest D api r s) s"
  "answers r (handleSetBreakpointsRequest D r path lines s) s"
  "answers r (handleInitialize api r s) s"
proof -
  show "answers r (handleConfigurationDoneRequest D api r s) s"
    unfolding handleConfigurationDoneRequest_def Let_def
    by (rule answers_update [where s' = "s\<lparr>ds_configurationDone := True\<rparr>"], rule answers_bindE) auto
  show "answers r (handleAttachRequest D api r s) s"
    unfolding handleAttachRequest_def
    by (rule answers_update [where s' = "start_debugger api (s\<lparr>ds_targetDepth := 1, ds_stopOnEntry := False\<rparr>)"],
        rule answers_bindE) auto
  show "answers r (handleDisconnectRequest D api r s) s"
    unfolding handleDisconnectRequest_def
    by (rule answers_bindE) (auto intro: answers_update [OF answers_success])
  show "answers r (handleSetBreakpointsRequest D r path lines s) s"
    unfolding handleSetBreakpointsRequest_def Let_def
    by (auto split: sum.split intro!: answers_bindE)
  show "answers r (handleInitialize api r s) s"
    by (simp add: handleInitialize_def send_def bindE_def answers_def newDAPSuccessResponse_def map_filter_def)
qed

lemma variables_answer:
  assumes "handleVariablesRequest D api r v s = Some p"
  shows "answers r p s"
  using assms
  by (auto simp: handleVariablesRequest_def Option.bind_eq_Some_conv split: option.splits
      intro!: answers_bindE dest: silent_requested)

lemma dispatch_answers:
  assumes "dispatchRequest A r q s = Some p" and "q \<noteq> OtherRequest"
  shows "answers r p s"
  using assms by (cases q) (auto dest: variables_answer)

text \<open>C32: Every request the session handles gets exactly one response: when a handler of \<^verbatim>\<open>dispatchRequest\<close> returns, the
  responses among the messages sent are those sent before followed by one that carries the request's sequence number
  and command.
\<close>

theorem one_response:
  assumes "dispatchRequest A r q s = Some (Inr (), s')" and "q \<noteq> OtherRequest"
  shows "responses s' = responses s @ [(dap_Seq r, dap_Command r)]"
  using dispatch_answers [OF assms] by (simp add: answers_def)

section \<open>Stepping\<close>

abbreviation depth_of :: "('i, 'v) debug_lib \<Rightarrow> 'i stop \<Rightarrow> int" where
  "depth_of D stop \<equiv> int (length (dl_CallStack D (stop_Interpreter stop)))"

text \<open>A session whose debugger takes every call.\<close>

definition debugger_ready :: "('i, 'v) debug_lib \<Rightarrow> ('i, 'b) session \<Rightarrow> bool" where
  "debugger_ready D s \<longleftrightarrow>
     dl_Call D (ds_debugger s) RequestPause = Inr () \<and> dl_Call D (ds_debugger s) Continue = Inr () \<and>
     dl_Call D (ds_debugger s) Stops = Inr ()"

lemma ready_step: "debugger_ready D s \<Longrightarrow> step D s = (Inr (), s)"
  by (simp add: debugger_ready_def step_def call_def bindE_def)

lemma handle_stop_ready:
  assumes "debugger_ready D s"
  shows "handle_stop D stop s =
    (Inr (), s\<lparr>ds_stop := Some stop, ds_sent := ds_sent s @
       (if ds_targetDepth s = - 1 \<or> depth_of D stop \<le> ds_targetDepth s then [StoppedEvent ''pause'' True 1] else [])\<rparr>)"
  using assms ready_step [of D "s\<lparr>ds_stop := Some stop\<rparr>"]
  by (simp add: handle_stop_def debugger_ready_def call_def bindE_def send_def Let_def)

lemma deeper_stops:
  assumes "debugger_ready D s" and "ds_targetDepth s \<noteq> - 1" and "\<forall>stop \<in> set stops. ds_targetDepth s < depth_of D stop"
  shows "for_each (handle_stop D) stops s = (Inr (), s\<lparr>ds_stop := (if stops = [] then ds_stop s else Some (last stops))\<rparr>)"
  using assms
proof (induction stops arbitrary: s)
  case (Cons stop stops)
  then have "handle_stop D stop s = (Inr (), s\<lparr>ds_stop := Some stop\<rparr>)"
    by (simp add: handle_stop_ready)
  moreover have "debugger_ready D (s\<lparr>ds_stop := Some stop\<rparr>)"
    using Cons.prems by (simp add: debugger_ready_def)
  ultimately show ?case
    using Cons.prems by (simp add: Cons.IH bindE_def)
qed simp


text \<open>A debugger whose interpreter is its call depth, and a session stopped at depth one.\<close>

definition sample_debug_lib :: "(nat, cvalue) debug_lib" where
  "sample_debug_lib =
     \<lparr>dl_Call = (\<lambda>d c. case d of None \<Rightarrow> Inl (Panic ''nil debugger'') | Some _ \<Rightarrow> Inr ()),
      dl_CallStack = (\<lambda>n. replicate n (None, (1, 0), (1, 0))),
      dl_Location = (\<lambda>n. OtherLocation ''program''),
      dl_ValuesInFunction = (\<lambda>d n. Inr [(''xs'', CArray [CSimple ''1''])]),
      dl_Find = (\<lambda>d n name. Inr None),
      dl_ExportValue = (\<lambda>v n. Inr v),
      dl_Value_String = (\<lambda>v. ''v''),
      dl_StorageMap = (\<lambda>n a. []),
      dl_String = (\<lambda>v. ''v''),
      dl_TypeID = (\<lambda>v. ''T''),
      dl_script_String = (\<lambda>v. ''v''),
      dl_Location_String = (\<lambda>l. ''program''),
      dl_StringLocation = OtherLocation,
      dl_DecodeTypeID = (\<lambda>t. Inr (Some (OtherLocation t))),
      dl_ReadFile = (\<lambda>f. ''code'')\<rparr>"

definition sample_session :: "(nat, (sqlite_store, sample_state) Blockchain) session" where
  "sample_session = (new_session sample_chain)\<lparr>ds_debugger := Some (),
     ds_stop := Some \<lparr>stop_Interpreter = 1, stop_Statement = ((1, 0), (1, 5))\<rparr>, ds_variables := Some Map.empty\<rparr>"

definition sample_session_env :: "(nat, cvalue, (sqlite_store, sample_state) Blockchain) session_env" where
  "sample_session_env = \<lparr>se_lib = sample_debug_lib, se_api = Blockchain_api sample_codec sample_sq,
     se_currentScript = (\<lambda>b. (bc_currentScriptID b, bc_currentCode b)), se_script_id = (\<lambda>code. ''program'')\<rparr>"

theorem one_response_witness:
  "\<exists>s'. dispatchRequest sample_session_env \<lparr>dap_Seq = 7, dap_Command = ''variables''\<rparr> (VariablesRequest 10000) sample_session
     = Some (Inr (), s') \<and> responses s' = [(7, ''variables'')]"
proof -
  obtain s' where s': "dispatchRequest sample_session_env \<lparr>dap_Seq = 7, dap_Command = ''variables''\<rparr> (VariablesRequest 10000)
      sample_session = Some (Inr (), s')"
    by (simp add: sample_session_env_def sample_session_def sample_debug_lib_def new_session_def handleVariablesRequest_def
        requested_variables_def visible_locals_def map_filter_def convertValueToDAPVariable_def storeVariable_def
        bindE_def send_def)
  from one_response [OF this] have "responses s' = responses sample_session @ [(7, ''variables'')]" by simp
  with s' show ?thesis by (simp add: sample_session_def new_session_def map_filter_def)
qed


section \<open>Handles\<close>

text \<open>The handles in use are the numbers up to the counter.\<close>

definition handles_wf :: "('i, 'b) session \<Rightarrow> bool" where
  "handles_wf s \<longleftrightarrow> (case ds_variables s of None \<Rightarrow> True | Some m \<Rightarrow> 0 \<le> ds_variableHandleCounter s \<and> dom m = {1..ds_variableHandleCounter s})"

lemma handles_bindE:
  assumes "handles_wf (snd p)" and "\<And>x s'. handles_wf s' \<Longrightarrow> handles_wf (snd (f x s'))"
  shows "handles_wf (snd (bindE p f))"
  using assms by (cases p; cases "fst p") (auto simp: bindE_def)

text \<open>A stored value gets a handle of its own, and nothing stored before is lost.\<close>

lemma store_fresh:
  assumes "handles_wf s" and "ds_variables s = Some m"
  shows "\<exists>h. storeVariable v s = (Inr h, s\<lparr>ds_variableHandleCounter := h, ds_variables := Some (m(h \<mapsto> v))\<rparr>) \<and> m h = None"
proof -
  have "ds_variableHandleCounter s + 1 \<notin> dom m" using assms by (simp add: handles_wf_def)
  then show ?thesis using assms by (auto simp: storeVariable_def Let_def)
qed

lemma handles_store: "handles_wf s \<Longrightarrow> handles_wf (snd (storeVariable v s))"
  by (auto simp: storeVariable_def handles_wf_def Let_def split: option.splits)

lemma handles_convert: "handles_wf s \<Longrightarrow> handles_wf (snd (convertValueToDAPVariable D n v s))"
  unfolding convertValueToDAPVariable_def by (rule handles_bindE) (simp_all add: handles_store)

lemma handles_convert_all: "handles_wf s \<Longrightarrow> handles_wf (snd (convert_all D nvs s))"
proof (induction nvs arbitrary: s)
  case (Cons nv nvs)
  show ?case unfolding convert_all.simps
    by (intro handles_bindE) (simp_all add: handles_convert Cons)
qed simp

lemma handles_storage: "handles_wf s \<Longrightarrow> handles_wf (snd (convertStorageMapToDAPVariables D i kvs s))"
proof (induction kvs arbitrary: s)
  case (Cons kv kvs)
  have "handles_wf (snd (bindE (convertValueToDAPVariable D n v s) (\<lambda>variable s.
      bindE (convertStorageMapToDAPVariables D i kvs s) (\<lambda>rest s. (Inr (variable # rest), s)))))" for n v
    by (intro handles_bindE) (simp_all add: handles_convert Cons)
  then show ?case by (simp add: Cons split: sum.split option.split)
qed simp

lemma handles_accounts: "handles_wf s \<Longrightarrow> handles_wf (snd (account_variables as s))"
proof (induction as arbitrary: s)
  case (Cons a as)
  show ?case unfolding account_variables.simps
    by (intro handles_bindE) (simp_all add: handles_store Cons)
qed simp

lemma variables_keep_handles:
  assumes "requested_variables D api i v s = Some p" and "handles_wf s"
  shows "handles_wf (snd p)"
proof -
  have "handles_wf (s\<lparr>ds_variableHandleCounter := 0, ds_variables := Some Map.empty\<rparr>)"
    by (simp add: handles_wf_def)
  then show ?thesis using assms
    by (auto simp: requested_variables_def member_variables_def convertCadenceValueMembersToDAPVariables_def Let_def
        Option.bind_eq_Some_conv handles_convert_all handles_accounts handles_storage
        split: if_splits sum.splits option.splits stored.splits)
qed

section \<open>The loop over the accounts\<close>

lemma accounts_from_eq:
  assumes "ea_GetAccountByIndex api (of_nat n) b = Inl err"
    "\<And>i. 1 \<le> i \<Longrightarrow> i < n \<Longrightarrow> ea_GetAccountByIndex api (of_nat i) b = Inr (acc i)" "1 \<le> k" "k \<le> n"
  shows "accounts_from api (of_nat k) b = Some (map acc [k ..< n])"
  using assms(3,4)
proof (induction "n - k" arbitrary: k)
  case 0
  then show ?case using assms(1) by (simp add: accounts_from.simps)
next
  case (Suc m)
  then have "accounts_from api (of_nat k + 1) b = Some (map acc [Suc k ..< n])"
    using Suc.hyps(1) [of "Suc k"] by (simp add: add.commute)
  moreover have "[k ..< n] = k # [Suc k ..< n]" using Suc.hyps(2) by (simp add: upt_conv_Cons)
  ultimately show ?case using Suc assms(2) [of k] by (subst accounts_from.simps) simp
qed

section \<open>Panics and dead ends\<close>

text \<open>A step before the first stop, or after a continue, is a nil dereference.\<close>

lemma step_needs_stop:
  assumes "ds_stop s = None"
  shows "handleNextRequest D r s = (Inl (Panic ''nil pointer dereference''), s)"
    and "handleStepOutRequest D r s = (Inl (Panic ''nil pointer dereference''), s)"
  using assms by (simp_all add: handleNextRequest_def handleStepOutRequest_def current_depth_def)

text \<open>A program that fails while it runs has no value, and its goroutine panics.\<close>

lemma failed_program_panics:
  assumes "ea_ExecuteScript (se_api A) (bytes_of_string (ds_code s)) [] (ds_emulator s) = (Inr result, b)" and "sr_Value result = None"
  shows "fst (script_run A ctx s) = Inl (Panic ''nil pointer dereference'')"
  using assms by (simp add: script_run_def bindE_def Let_def)

text \<open>A disconnect leaves the session launched, so a later launch starts no program.\<close>

lemma relaunch_starts_nothing:
  assumes "ds_launched s" and "debugger_ready D s"
  shows "\<exists>s'. bindE (handleDisconnectRequest D api r1 s) (\<lambda>_ s. bindE (handleLaunchRequest D api sid r2 (Some (JString f)) e s)
      (\<lambda>_. handleConfigurationDoneRequest D api r3)) = (Inr (), s') \<and> ds_started s' = ds_started s"
  using assms
  by (simp add: debugger_ready_def handleDisconnectRequest_def handleLaunchRequest_def handleConfigurationDoneRequest_def
      call_def send_def bindE_def start_debugger_def case_prod_unfold Let_def)

text \<open>The account a storage scope lists has no members when its handle is requested.\<close>

lemma account_handle_empty: "member_variables D i (Some (FlowgoAccount a)) s = (Inr [], s)"
  by (simp add: member_variables_def)

text \<open>The handle after 9999 values is the identifier of the local scope, so its value cannot be requested.\<close>

lemma handle_is_scope:
  assumes "ds_variableHandleCounter s = 9999" and "ds_variables s = Some m"
  shows "fst (storeVariable v s) = Inr ScopeIdentifierLocal"
  using assms by (simp add: storeVariable_def Let_def)

text \<open>On the emulator's own chain the debugger is the nil it is created with, so a session never has one.\<close>

lemma chain_has_no_debugger:
  assumes "bc_debugger (ds_emulator s) = None"
  shows "ds_debugger (start_debugger (Blockchain_api p E) s) = None"
    and "bc_debugger (ds_emulator (start_debugger (Blockchain_api p E) s)) = None"
  using assms by (simp_all add: start_debugger_def Blockchain_api_def StartDebugger_def)

end
