(* ===== verification/Spec2Isabelle.thy ===== *)
theory Spec2Isabelle
  imports Sqlite_Rollback SDK_Adapter State_Stream Redis_Store Remote_Store Server_Utils Emulator_HTTP Start Debugger
begin

text \<open>
  A verification development of the Flow emulator, the repository under \<^verbatim>\<open>src/\<close>.

  \<^bold>\<open>The program.\<close> The emulator runs a Flow blockchain in one process. \<^verbatim>\<open>emulator.Blockchain\<close> collects transactions in a
  pending block, executes them with flow-go's virtual machine, adds the system transactions, and commits the block to a
  \<^verbatim>\<open>storage.Store\<close>. Stores are an in-memory store, a generic store over a key-value back end (SQLite or Redis), and a store
  that forks a remote network. Two adapters offer the Access API and the SDK API on top of \<^verbatim>\<open>Blockchain\<close>; a state
  stream backend, an HTTP API and a debug session use it as well. The server builds all of this from a configuration, and
  the start command builds the configuration from flags.

  \<^bold>\<open>How code becomes definitions.\<close> A struct is a record, an interface a record of functions, an error type a constructor of
  \<open>go_error\<close>. A method that may fail returns \<open>'a result\<close>, a sum; one that also changes its receiver returns the result
  with the new state, on every path. Nil dereferences, out-of-range indices and failed type assertions are the error
  \<open>Panic\<close>. \<^verbatim>\<open>uint64\<close> is a 64-bit word, so heights and indices wrap. A Go map that is counted or iterated is an
  association list in the order of the iteration; one that is only looked up is a HOL map. Locks are not modelled: each
  exported method is one step. The instant of a call and its random numbers are the argument \<open>world\<close>.

  \<^bold>\<open>Code outside the repository\<close> is a parameter: hashes and codecs (\<open>hashes\<close>, \<open>codec\<close>), the virtual machine, the transaction
  validator and the execution state (\<open>emu\<close>, \<open>exec_ops\<close>), the snapshot tree, the SQL engine's choice among equal rows
  (\<open>sql_env\<close>), the gRPC, Redis and Cadence libraries. What a theorem needs of one is a named predicate among its
  hypotheses (injective hashes, codecs that decode what they encoded, a virtual machine that returns), and \<open>Sample\<close> and the
  definitions called \<open>sample_\<close> are instances at which the witnesses apply the theorems.

  \<^bold>\<open>The theories.\<close>
  \<^item> \<open>Prelude\<close>: results, loops with early return, bytes, hex and decimal strings, association lists.
  \<^item> \<open>Flow_Types\<close> (\<^verbatim>\<open>types/\<close>): blocks, transactions, results, errors. \<open>Store_Spec\<close>: the interface \<^verbatim>\<open>storage.Store\<close>, the history of
    commits as its abstract state, and the locale \<open>chain_store\<close>, the contract of a store.
  \<^item> \<open>Mem_Store\<close> (\<^verbatim>\<open>storage/memstore\<close>): all operations, and the interpretation \<open>mem\<close> of the contract.
  \<^item> \<open>Default_Store\<close>, \<open>Default_Refinement\<close> (\<^verbatim>\<open>storage/store.go\<close>): \<^verbatim>\<open>DefaultStore\<close> over a key-value back end; the locale \<open>kv_store\<close>
    is what it relies on, and a sublocale shows that this gives the contract of a store.
  \<^item> \<open>Sqlite_Store\<close>, \<open>Sqlite_Rollback\<close> (\<^verbatim>\<open>storage/sqlite\<close>): tables of rows, the interpretation \<open>sq\<close>, rollback and snapshots.
    \<open>Redis_Store\<close>, \<open>Remote_Store\<close> (\<^verbatim>\<open>storage/redis\<close>, \<^verbatim>\<open>storage/remote\<close>): reads and writes of values, and the fork with its cache.
  \<^item> \<open>Convert\<close> (\<^verbatim>\<open>convert/\<close>), \<open>Pragma\<close>, \<open>Computation_Report\<close>, \<open>Emulator_Env\<close>, \<open>Pending_Block\<close>, \<open>Emulator\<close>, \<open>Emulator_Commit\<close>,
    \<open>Emulator_Queries\<close> (\<^verbatim>\<open>emulator/\<close>): configuration and bootstrap, the pending block, adding, executing and committing,
    scripts, queries, reset, reload, rollback, automine and the block ticker.
  \<^item> \<open>Emulator_Inv\<close>, \<open>Emulator_Chain\<close>, \<open>Emulator_Exec\<close>: the invariant of a \<^verbatim>\<open>Blockchain\<close>, the step relation of its
    operations with reachability, and the behaviour of each operation.
  \<^item> \<open>Emulator_API\<close> (\<^verbatim>\<open>emulator/emulator.go\<close>): the interface \<^verbatim>\<open>Emulator\<close> and the locale \<open>block_reader\<close>, interpreted for both
    stores. Its clients: \<open>Access_Adapter\<close>, \<open>Access_Subscriptions\<close>, \<open>SDK_Adapter\<close> (\<^verbatim>\<open>adapters/\<close>), \<open>State_Stream\<close>
    (\<^verbatim>\<open>server/access/streamBackend.go\<close>), \<open>Emulator_HTTP\<close> (\<^verbatim>\<open>server/utils/emulator.go\<close>), \<open>Debugger\<close>
    (\<^verbatim>\<open>server/debugger/debugsession.go\<close>).
  \<^item> \<open>Server_Utils\<close> (\<^verbatim>\<open>utils/grpc.go\<close>, liveness), \<open>Server\<close> (\<^verbatim>\<open>server/server.go\<close>), \<open>Start\<close> (\<^verbatim>\<open>cmd/emulator/start\<close>).
  \<^item> This theory: the refinement of the SQLite store to its history, the agreement of the stores, the type invariant of the
    pending block, and rollback of the whole emulator.

  \<^bold>\<open>What the theorems show.\<close> A chain that grows from genesis by any sequence of operations stays a chain: consecutive
  heights, linked parents, every block readable under its height and identifier. A commit stores exactly the pending
  block. Blocks execute their transactions in order and completely. Stores that hold the same commits answer every query
  alike. Rollback and snapshots restore earlier answers; where they do not, for the tables a rollback leaves out and for a
  snapshot that is loaded twice, that is a theorem too. Conversions are inverse to each other where they can be. The
  subscriptions report every block and every final status once. Every debug request gets one response. Two configured
  storages are refused. Other theorems state faults of the code: versions lost in Redis, a fork cache that ignores
  heights, an unknown transaction reported as sealed, account creation under automine.

  \<^bold>\<open>Loops and bounds.\<close> Loops over lists are structural recursion. \<open>executeBlock_loop\<close> has a termination proof by the number of
  transactions left. \<open>GetEventsForHeightRange\<close>, \<open>all_contracts\<close> and \<open>accounts_from\<close> run until a lookup fails and their counters wrap,
  so they are partial functions whose value \<^const>\<open>None\<close> is a loop that does not end; the theorems
  about them give the list they return, once there is a block or an account that does not exist. There is no fuel. Chains are assumed shorter than $2^{63}$ blocks, so that heights do not wrap.

  \<^bold>\<open>Not modelled.\<close> The gRPC, REST and admin listeners (\<^verbatim>\<open>server/access/grpc.go\<close>, \<^verbatim>\<open>rest.go\<close>, \<^verbatim>\<open>server/utils/admin.go\<close>) and the
  debugger's listener (\<^verbatim>\<open>server/debugger/debugger.go\<close>) wire libraries to sockets. The checkpoint store
  (\<^verbatim>\<open>storage/checkpoint\<close>) reads flow-go's trie and protocol state. Coverage reports and computation profiles are objects of
  Cadence. Logging, \<^verbatim>\<open>main\<close>, mocks and fixtures have no behaviour of their own. Concurrency is modelled only as sequences of
  steps: data races between debug requests, which take no lock, are outside the model.
\<close>

section \<open>Stores as histories\<close>

text \<open>
  The abstract state of a store is the list of its commits. Every query of the storage interface is answered
  from it.
\<close>

definition answers_from :: "'h hashes_scheme \<Rightarrow> 's store_ops \<Rightarrow> 's \<Rightarrow> history \<Rightarrow> bool" where
  "answers_from p ops s h \<longleftrightarrow>
     st_LatestBlockHeight ops s = Inr (Height (cb_block (last h))) \<and> st_LatestBlock ops s = Inr (cb_block (last h)) \<and>
     (\<forall>n. st_BlockByHeight ops n s = the_or ErrNotFound (hist_block h n)) \<and>
     (\<forall>i. st_BlockByID ops i s = the_or ErrNotFound (Option.bind (hist_height p h i) (hist_block h))) \<and>
     (\<forall>i. st_CollectionByID ops i s = the_or ErrNotFound (hist_collection p h i)) \<and>
     (\<forall>i. st_FullCollectionByID ops i s =
        bindR (the_or ErrNotFound (hist_collection p h i)) (mapR (\<lambda>t. the_or ErrNotFound (hist_transaction h t)))) \<and>
     (\<forall>i. st_TransactionByID ops i s = the_or ErrNotFound (hist_transaction h i)) \<and>
     (\<forall>i. st_TransactionResultByID ops i s = the_or ErrNotFound (hist_result h i)) \<and>
     (\<forall>b i. st_SystemTransactionResultByID ops b i s = the_or ErrNotFound (hist_system_result p h (b, i))) \<and>
     (\<forall>i. st_SystemTransactionsForBlockID ops i s = the_or ErrNotFound (hist_system p h i)) \<and>
     (\<forall>n ty. st_EventsByHeight ops n ty s = Inr (filter (match_type ty) (hist_events h n))) \<and>
     (\<forall>n. unat n < length h \<longrightarrow>
        (\<exists>f. st_LedgerByHeight ops n s = Inr f \<and> (\<forall>r. f r = Inr (value_of (hist_register h n r)))))"

lemma contract_answers:
  assumes c: "chain_store p ops admits rep" "rep s h" and h: "h \<noteq> []"
  shows "answers_from p ops s h"
  unfolding answers_from_def
  using chain_store.latest[OF c h] chain_store.latest_height[OF c h] chain_store.by_height[OF c] chain_store.by_id[OF c]
    chain_store.collection[OF c] chain_store.full_collection[OF c] chain_store.transaction[OF c] chain_store.tx_result[OF c]
    chain_store.system_result[OF c] chain_store.system[OF c] chain_store.events[OF c] chain_store.ledger[OF c]
  by (intro conjI allI impI) assumption+



section \<open>The two stores agree\<close>

text \<open>Every query of the storage interface gives the same answer.\<close>

definition same_answers :: "'s store_ops \<Rightarrow> 's \<Rightarrow> 't store_ops \<Rightarrow> 't \<Rightarrow> bool" where
  "same_answers o1 s1 o2 s2 \<longleftrightarrow>
     st_LatestBlockHeight o1 s1 = st_LatestBlockHeight o2 s2 \<and> st_LatestBlock o1 s1 = st_LatestBlock o2 s2 \<and>
     (\<forall>n. st_BlockByHeight o1 n s1 = st_BlockByHeight o2 n s2) \<and>
     (\<forall>i. st_BlockByID o1 i s1 = st_BlockByID o2 i s2) \<and>
     (\<forall>i. st_CollectionByID o1 i s1 = st_CollectionByID o2 i s2) \<and>
     (\<forall>i. st_FullCollectionByID o1 i s1 = st_FullCollectionByID o2 i s2) \<and>
     (\<forall>i. st_TransactionByID o1 i s1 = st_TransactionByID o2 i s2) \<and>
     (\<forall>i. st_TransactionResultByID o1 i s1 = st_TransactionResultByID o2 i s2) \<and>
     (\<forall>b i. st_SystemTransactionResultByID o1 b i s1 = st_SystemTransactionResultByID o2 b i s2) \<and>
     (\<forall>i. st_SystemTransactionsForBlockID o1 i s1 = st_SystemTransactionsForBlockID o2 i s2) \<and>
     (\<forall>n ty. st_EventsByHeight o1 n ty s1 = st_EventsByHeight o2 n ty s2) \<and>
     (\<forall>n. is_ok (st_BlockByHeight o1 n s1) \<longrightarrow>
        (\<exists>f g. st_LedgerByHeight o1 n s1 = Inr f \<and> st_LedgerByHeight o2 n s2 = Inr g \<and> (\<forall>r. f r = g r)))"

lemma same_history:
  assumes "answers_from p o1 s1 h" "answers_from p o2 s2 h" shows "same_answers o1 s1 o2 s2"
proof -
  have "\<exists>f g. st_LedgerByHeight o1 n s1 = Inr f \<and> st_LedgerByHeight o2 n s2 = Inr g \<and> (\<forall>r. f r = g r)"
    if "is_ok (st_BlockByHeight o1 n s1)" for n
  proof -
    have n: "unat n < length h"
      using that assms(1) by (simp add: answers_from_def the_or_def hist_block_def split: if_splits)
    obtain f where "st_LedgerByHeight o1 n s1 = Inr f" "\<forall>r. f r = Inr (value_of (hist_register h n r))"
      using assms(1) n unfolding answers_from_def by blast
    moreover obtain g where "st_LedgerByHeight o2 n s2 = Inr g" "\<forall>r. g r = Inr (value_of (hist_register h n r))"
      using assms(2) n unfolding answers_from_def by blast
    ultimately show ?thesis by simp
  qed
  then show ?thesis using assms unfolding same_answers_def by (simp add: answers_from_def)
qed

text \<open>C5: The in-memory store and the SQLite store are interchangeable: after the same sequence of commits, every query of the
  storage interface (latest block, blocks by height and ID, collections with and without their transactions,
  transactions, results, system transactions, events by height and type, and registers at any stored height) gives the
  same answer on both.\<close>

theorem stores_agree:
  assumes "valid_chain p as" "as \<noteq> []" "\<And>a. a \<in> set as \<Longrightarrow> default_admits p a" "tree_law T" "sqlite_rep p V s []"
  shows "same_answers (memstore_ops p T) (run_store (memstore_ops p T) as ms_New)
    (default_ops p (sqlite_kv V)) (run_store (default_ops p (sqlite_kv V)) as s)"
proof -
  have "mem_rep p T (run_store (memstore_ops p T) as ms_New) as"
    by (rule mem.run_rep[OF mem_rep_New[OF assms(4)] assms(1)]) simp
  moreover have "sqlite_rep p V (run_store (default_ops p (sqlite_kv V)) as s) as"
    by (rule sq.ds.run_rep[OF assms(5,1,3)])
  ultimately show ?thesis
    using same_history[OF contract_answers[OF mem.chain_store_axioms _ assms(2)] contract_answers[OF sq.ds.chain_store_axioms _ assms(2)]]
    by blast
qed

theorem stores_agree_witness:
  "same_answers (memstore_ops sample_codec sample_tree)
     (run_store (memstore_ops sample_codec sample_tree) [sample_commit 0, sample_commit 1] ms_New)
     (default_ops sample_codec (sqlite_kv sample_env))
     (run_store (default_ops sample_codec (sqlite_kv sample_env)) [sample_commit 0, sample_commit 1] sample_sqlite)"
proof (rule stores_agree[OF _ _ _ tree_law_sample sample_rep_empty])
  show "valid_chain sample_codec [sample_commit 0, sample_commit 1]"
    using sample_follow by (auto simp: valid_chain_def less_Suc_eq numeral_2_eq_2)
qed (use sample_admits in auto)

section \<open>The pending block\<close>

text \<open>C10: In every state the emulator reaches over the SQLite store, the pending block is well formed: its list of IDs and its
  map of transactions hold the same transactions, each once and under its own ID, results belong to transactions already
  executed, and none of its transactions is stored. Therefore, as long as execution is not complete, the next transaction
  exists: reading it is never out of range and never nil, and it has no result yet.\<close>

theorem pending_block_wf:
  assumes "reaches p E (default_admits p) (b, h) (b', h')" "em_store E = default_ops p (sqlite_kv V)"
    "exec_law (em_exec E)" "bc_inv p (sqlite_rep p V) b h" "pb = bc_pendingBlock b'"
  shows "pb_inv p pb \<and>
    (\<forall>i \<in> set (pb_transactionIDs pb). TransactionByID p (sqlite_kv V) i (bc_storage b') = Inl ErrNotFound) \<and>
    (\<not> pb_ExecutionComplete pb \<longrightarrow>
       (\<exists>tx. pb_NextTransaction pb = Some tx \<and> tx_ID p tx = pb_transactionIDs pb ! unat (pb_index pb) \<and>
             map_of (pb_transactionResults pb) (tx_ID p tx) = None))"
proof -
  have i: "bc_inv p (sqlite_rep p V) b' h'" using sq.ds.reaches_inv[OF assms(1-3)] assms(4) by simp
  then have inv: "pb_inv p pb" and new: "\<forall>i \<in> set (pb_transactionIDs pb). hist_transaction h' i = None"
    and rep: "sqlite_rep p V (bc_storage b') h'"
    by (simp_all add: bc_inv_def extends_tip_def assms(5))
  have "map_of (pb_transactionResults pb) (pb_transactionIDs pb ! unat (pb_index pb)) = None"
    if more: "\<not> pb_ExecutionComplete pb"
  proof -
    have "pb_transactionIDs pb ! unat (pb_index pb) \<notin> set (take (unat (pb_index pb)) (pb_transactionIDs pb))"
      using inv pb_NextTransaction_eq(3)[OF inv more] by (intro next_not_passed) (simp_all add: pb_inv_def)
    then show ?thesis using inv by (auto simp: pb_inv_def map_of_eq_None_iff)
  qed
  then show ?thesis
    using inv new sq.ds.transaction[OF rep] pb_NextTransaction_eq[OF inv] by (simp add: the_or_def)
qed

theorem pending_block_wf_witness:
  "pb_inv sample_codec (bc_pendingBlock (perform sample_codec sample_sq (Commit (0, 0)) sample_chain))"
  using pending_block_wf[OF sample_chain_step _ exec_law_sample sample_chain_inv refl] by simp

section \<open>Rolling the emulator back\<close>

text \<open>C12: Rolling back the whole emulator over the SQLite store undoes the blocks above the target: for a store that held a chain
  ending at height \<open>n\<close> and to which any later blocks were committed, \<^verbatim>\<open>RollbackToBlockHeight\<close> succeeds, the latest
  block is again the one at height \<open>n\<close>, and the pending block is the one the emulator
  had right after committing that block: same parent and height, no transactions, and the registers as of height
  \<open>n\<close>.\<close>

theorem emulator_rollback:
  assumes "em_store E = default_ops p (sqlite_kv V)" "em_Rollback E = Some (RollbackToBlockHeight p V)"
    "sqlite_rep p V s h" "h \<noteq> []" "n = Height (cb_block (last h))" "below V n s"
    "\<forall>a \<in> set as. n < Height (cb_block a)" "bc_storage b = run_store (default_ops p (sqlite_kv V)) as s"
    "n < CurrentHeight (bc_storage b)" "unat n < 2 ^ 63" "rt (encodeUint64 p) (decodeUint64 p) n"
    "configureTransactionValidator E (bc_conf b) = Inr v"
  shows "\<exists>b'. bc_RollbackToBlockHeight p E w n b = (Inr (), b') \<and> getLatestBlock E b' = Inr (cb_block (last h)) \<and>
    bc_pendingBlock b' = newPendingBlock p (em_exec E) w (cb_block (last h)) (snapshot_Get p (sqlite_kv V) n s) (bc_clock b)"
proof -
  obtain s' where roll: "RollbackToBlockHeight p V n (bc_storage b) = (Inr (), s')" "LatestBlockHeight p (sqlite_kv V) s' = Inr n"
      "\<And>m. BlockByHeight p (sqlite_kv V) m s' = BlockByHeight p (sqlite_kv V) m s"
      "\<And>m r. snapshot_Get p (sqlite_kv V) m s' r = snapshot_Get p (sqlite_kv V) m s r"
    using rollback_undoes[OF assms(6,7) _ assms(10,11)] assms(8,9) by metis
  have "LatestBlock p (sqlite_kv V) s' = BlockByHeight p (sqlite_kv V) n s"
    using roll(2,3) by (simp add: LatestBlock_def BlockByHeight_def)
  also have "\<dots> = LatestBlock p (sqlite_kv V) s"
    using sq.ds.latest_height[OF assms(3,4)] assms(5) by (simp add: LatestBlock_def BlockByHeight_def)
  also have "\<dots> = Inr (cb_block (last h))" using sq.ds.latest[OF assms(3,4)] by simp
  finally have latest: "LatestBlock p (sqlite_kv V) s' = Inr (cb_block (last h))" .
  have "snapshot_Get p (sqlite_kv V) n s' = snapshot_Get p (sqlite_kv V) n s" using roll(4) by (simp add: fun_eq_iff)
  then show ?thesis using roll(1) latest assms(1,2,5,12)
    by (simp add: bc_RollbackToBlockHeight_def on_storage_def ReloadBlockchain_def configureLedger_def
        configureExistingLedger_def LedgerByHeight_def getLatestBlock_def Let_def)
qed

theorem emulator_rollback_witness:
  "\<exists>b'. bc_RollbackToBlockHeight sample_codec (sample_sq\<lparr>em_Rollback := Some (RollbackToBlockHeight sample_codec sample_env)\<rparr>) (0, 0) 0
       (sample_chain\<lparr>bc_storage := sample_run [sample_commit 0, sample_commit 1]\<rparr>) = (Inr (), b') \<and>
     getLatestBlock sample_sq b' = Inr (sample_block 0) \<and> pb_height (bc_pendingBlock b') = 1"
proof -
  let ?E = "sample_sq\<lparr>em_Rollback := Some (RollbackToBlockHeight sample_codec sample_env)\<rparr>" and ?s = "sample_run [sample_commit 0]"
    and ?b = "sample_chain\<lparr>bc_storage := sample_run [sample_commit 0, sample_commit 1]\<rparr>"
  have "\<exists>v. configureTransactionValidator ?E (bc_conf ?b) = Inr v" by (simp add: configureTransactionValidator_def Let_def)
  then obtain v where v: "configureTransactionValidator ?E (bc_conf ?b) = Inr v" by blast
  have ht: "Height (cb_block (sample_commit n)) = n" for n by (simp add: sample_commit_def sample_block_def)
  have "below sample_env 0 ?s" by (rule below_run_store[OF below_sample]) (simp add: ht)
  then have "\<exists>b'. bc_RollbackToBlockHeight sample_codec ?E (0, 0) 0 ?b = (Inr (), b') \<and>
      getLatestBlock ?E b' = Inr (cb_block (last [sample_commit 0])) \<and>
      bc_pendingBlock b' = newPendingBlock sample_codec (em_exec ?E) (0, 0) (cb_block (last [sample_commit 0]))
        (snapshot_Get sample_codec (sqlite_kv sample_env) 0 ?s) (bc_clock ?b)"
    using sample_rep_run(1) v sample_height
    by (intro emulator_rollback[of _ _ _ _ _ _ "[sample_commit 1]"]) (auto simp: ht run_store_def)
  then show ?thesis by (auto simp: getLatestBlock_def newPendingBlock_def sample_commit_def) (auto simp: sample_block_def)
qed

end
